(* ===== verification/JsPrelude.thy ===== *)
theory JsPrelude
  imports Complex_Main "HOL-Library.Word" "HOL-Library.Sublist"
begin

text \<open>
  The fragment of JavaScript the development rests on: strings as sequences of UTF-16 code
  units, the string operations the sources call, insertion-ordered maps, and the fact
  collections that the component theories extend.
\<close>

unbundle bit_operations_syntax

named_theorems js_defs "definitions of the small string helpers, unfolded for evaluation"
named_theorems inr_iff "when a computation that may throw returns normally"

section \<open>Strings\<close>

text \<open>
  A JavaScript string is a sequence of 16-bit code units; \<open>length\<close> and every index count code
  units. \<open>u\<close> reads an ASCII literal.
\<close>

type_synonym jschar = "16 word"
type_synonym jsstring = "16 word list"

definition u :: "string \<Rightarrow> jsstring" where
  [js_defs]: "u s = map of_char s"

lemma length_u [simp]: "length (u s) = length s"
  by (simp add: u_def)

lemma u_append: "u (s @ t) = u s @ u t"
  by (simp add: u_def)

lemma u_Nil [simp]: "u [] = []"
  by (simp add: u_def)

lemma u_eq_Nil_iff [simp]: "u s = [] \<longleftrightarrow> s = []"
  by (simp add: u_def)

lemma of_char_word_inject: "of_char c = (of_char d :: jschar) \<Longrightarrow> c = d"
proof -
  assume a: "of_char c = (of_char d :: jschar)"
  have lt: "of_char x < (2 ^ 16 :: nat)" for x :: char
    by (rule less_le_trans [OF nat_of_char_less_256]) simp
  have "unat (of_char x :: jschar) = of_char x" for x :: char
  proof -
    have "unat (of_nat (of_char x) :: jschar) = of_char x"
      using lt [of x] by (simp add: unsigned_of_nat take_bit_nat_eq_self)
    then show ?thesis by (simp add: of_nat_of_char)
  qed
  with a have "(of_char c :: nat) = of_char d"
    by metis
  then show "c = d"
    by simp
qed

lemma u_inject [simp]: "u s = u t \<longleftrightarrow> s = t"
proof
  assume "u s = u t"
  then show "s = t"
    unfolding u_def by (rule map_injective) (auto intro: injI of_char_word_inject)
qed simp

section \<open>String operations\<close>

text \<open>
  \<open>String.prototype.includes\<close>, \<open>startsWith\<close> and \<open>endsWith\<close> are \<open>sublist\<close>, \<open>prefix\<close> and
  \<open>suffix\<close> with the receiver first.
\<close>

definition startsWith :: "jsstring \<Rightarrow> jsstring \<Rightarrow> bool" where
  [js_defs]: "startsWith s t = prefix t s"

definition endsWith :: "jsstring \<Rightarrow> jsstring \<Rightarrow> bool" where
  [js_defs]: "endsWith s t = suffix t s"

fun str_includes :: "jsstring \<Rightarrow> jsstring \<Rightarrow> bool" where
  "str_includes [] t = (t = [])"
| "str_includes (c # s) t = (prefix t (c # s) \<or> str_includes s t)"

lemma str_includes_sublist: "str_includes s t \<longleftrightarrow> sublist t s"
  by (induction s) (auto simp: sublist_Cons_right)

lemma str_includes_Nil [simp]: "str_includes s []"
  by (cases s) auto

lemma str_includes_refl [simp]: "str_includes s s"
  by (simp add: str_includes_sublist)

lemma str_includes_trans: "str_includes s t \<Longrightarrow> str_includes t r \<Longrightarrow> str_includes s r"
  by (auto simp: str_includes_sublist intro: sublist_order.order_trans)

text \<open>The two halves of a surrogate pair.\<close>

definition high_surrogate :: "jschar \<Rightarrow> bool" where
  "high_surrogate c \<longleftrightarrow> 0xD800 \<le> c \<and> c \<le> 0xDBFF"

definition low_surrogate :: "jschar \<Rightarrow> bool" where
  "low_surrogate c \<longleftrightarrow> 0xDC00 \<le> c \<and> c \<le> 0xDFFF"

text \<open>White space and line terminators, as \<open>trim\<close> and \<open>\\s\<close> read them.\<close>

definition is_space :: "jschar \<Rightarrow> bool" where
  [js_defs]: "is_space c \<longleftrightarrow>
     (9 \<le> c \<and> c \<le> 13) \<or> c = 32 \<or> c = 0xA0 \<or> c = 0x1680 \<or> (0x2000 \<le> c \<and> c \<le> 0x200A)
     \<or> c = 0x2028 \<or> c = 0x2029 \<or> c = 0x202F \<or> c = 0x205F \<or> c = 0x3000 \<or> c = 0xFEFF"

definition trimStart :: "jsstring \<Rightarrow> jsstring" where
  [js_defs]: "trimStart s = dropWhile is_space s"

definition trimEnd :: "jsstring \<Rightarrow> jsstring" where
  [js_defs]: "trimEnd s = rev (dropWhile is_space (rev s))"

definition trim :: "jsstring \<Rightarrow> jsstring" where
  [js_defs]: "trim s = trimEnd (trimStart s)"

lemma trim_Nil [simp]: "trim [] = []"
  by (simp add: trim_def trimEnd_def trimStart_def)

lemma trimEnd_prefix: "prefix (trimEnd s) s"
  unfolding trimEnd_def by (metis rev_rev_ident suffix_dropWhile suffix_to_prefix)

lemma trim_sublist: "sublist (trim s) s"
proof -
  have "sublist (trim s) (trimStart s)"
    by (simp add: trim_def trimEnd_prefix)
  moreover have "sublist (trimStart s) s"
    by (simp add: trimStart_def suffix_dropWhile)
  ultimately show ?thesis
    by (rule sublist_order.order_trans)
qed

lemma trim_no_space_ends:
  assumes "trim s \<noteq> []"
  shows "\<not> is_space (hd (trim s))" and "\<not> is_space (last (trim s))"
proof -
  let ?t = "trimStart s"
  have ne: "trimEnd ?t \<noteq> []"
    using assms by (simp add: trim_def)
  then have "dropWhile is_space (rev ?t) \<noteq> []"
    by (simp add: trimEnd_def)
  then have "\<not> is_space (hd (dropWhile is_space (rev ?t)))"
    by (rule hd_dropWhile)
  with ne show "\<not> is_space (last (trim s))"
    by (simp add: trim_def trimEnd_def last_rev)
  obtain r where r: "?t = trimEnd ?t @ r"
    using trimEnd_prefix [of ?t] by (auto simp: prefix_def)
  with ne have "hd (trimEnd ?t) = hd ?t"
    by (metis hd_append2)
  moreover from ne r have "?t \<noteq> []"
    by (metis append_is_Nil_conv)
  then have "\<not> is_space (hd ?t)"
    unfolding trimStart_def by (rule hd_dropWhile)
  ultimately show "\<not> is_space (hd (trim s))"
    by (simp add: trim_def)
qed

lemma trim_trim [simp]: "trim (trim s) = trim s"
proof (cases "trim s = []")
  case False
  let ?t = "trim s"
  have "trimStart ?t = ?t"
    using trim_no_space_ends(1) [OF False] by (simp add: trimStart_def dropWhile_eq_self_iff)
  moreover have "dropWhile is_space (rev ?t) = rev ?t"
    using False trim_no_space_ends(2) [OF False] by (simp add: dropWhile_eq_self_iff hd_rev)
  then have "trimEnd ?t = ?t"
    by (simp add: trimEnd_def)
  ultimately show ?thesis
    by (simp add: trim_def [of "trim s"])
qed simp

text \<open>
  Lower case of the letters of ASCII and Latin-1; other code units are left alone (the
  sources lower-case identifiers, Markdown headings and issue text).
\<close>

definition lower_char :: "jschar \<Rightarrow> jschar" where
  [js_defs]: "lower_char c =
     (if 65 \<le> c \<and> c \<le> 90 \<or> 0xC0 \<le> c \<and> c \<le> 0xDE \<and> c \<noteq> 0xD7 then c + 32 else c)"

definition toLowerCase :: "jsstring \<Rightarrow> jsstring" where
  [js_defs]: "toLowerCase s = map lower_char s"

lemma toLowerCase_append [simp]: "toLowerCase (s @ t) = toLowerCase s @ toLowerCase t"
  by (simp add: toLowerCase_def)

lemma toLowerCase_Nil [simp]: "toLowerCase [] = []"
  by (simp add: toLowerCase_def)

lemma length_toLowerCase [simp]: "length (toLowerCase s) = length s"
  by (simp add: toLowerCase_def)

lemma str_includes_toLowerCase: "str_includes s t \<Longrightarrow> str_includes (toLowerCase s) (toLowerCase t)"
  by (auto simp: str_includes_sublist sublist_def) blast

text \<open>\<open>split\<close> on one code unit and \<open>join\<close> with a separator.\<close>

fun split_on :: "jschar \<Rightarrow> jsstring \<Rightarrow> jsstring list" where
  "split_on c [] = [[]]"
| "split_on c (x # xs) =
     (if x = c then [] # split_on c xs
      else (case split_on c xs of [] \<Rightarrow> [[x]] | w # ws \<Rightarrow> (x # w) # ws))"

fun join :: "jsstring \<Rightarrow> jsstring list \<Rightarrow> jsstring" where
  "join sep [] = []"
| "join sep [w] = w"
| "join sep (w # ws) = w @ sep @ join sep ws"

lemma split_on_not_Nil [simp]: "split_on c s \<noteq> []"
  by (induction s) (auto split: list.splits)

lemma join_Cons: "ws \<noteq> [] \<Longrightarrow> join sep (w # ws) = w @ sep @ join sep ws"
  by (cases ws) auto

lemma join_append:
  "xs \<noteq> [] \<Longrightarrow> ys \<noteq> [] \<Longrightarrow> join sep (xs @ ys) = join sep xs @ sep @ join sep ys"
proof (induction xs)
  case (Cons x xs)
  then show ?case by (cases "xs = []") (auto simp: join_Cons)
qed simp

lemma join_split_on [simp]: "join [c] (split_on c s) = s"
proof (induction s)
  case (Cons x s)
  obtain w ws where w: "split_on c s = w # ws"
    by (metis neq_Nil_conv split_on_not_Nil)
  with Cons show ?case
    by (cases ws) (auto simp: join_Cons)
qed simp

lemma split_on_pieces: "w \<in> set (split_on c s) \<Longrightarrow> c \<notin> set w"
proof (induction s arbitrary: w)
  case (Cons x s)
  obtain v vs where "split_on c s = v # vs"
    by (metis neq_Nil_conv split_on_not_Nil)
  with Cons show ?case
    by (fastforce split: if_splits)
qed simp

lemma split_on_no_sep: "c \<notin> set s \<Longrightarrow> split_on c s = [s]"
  by (induction s) auto

lemma split_on_append: "c \<notin> set w \<Longrightarrow> split_on c (w @ c # s) = w # split_on c s"
  by (induction w) auto

lemma split_on_join:
  "ws \<noteq> [] \<Longrightarrow> \<forall>w \<in> set ws. c \<notin> set w \<Longrightarrow> split_on c (join [c] ws) = ws"
proof (induction ws)
  case (Cons w ws)
  then show ?case
    by (cases "ws = []") (auto simp: split_on_no_sep join_Cons split_on_append)
qed simp

section \<open>Numbers as text\<close>

text \<open>Decimal digits of a non-negative integer, as a template literal prints them.\<close>

function digits :: "int \<Rightarrow> jsstring" where
  "digits n = (if n < 10 then [of_int (48 + n)] else digits (n div 10) @ [of_int (48 + n mod 10)])"
  by pat_completeness auto
termination
  by (relation "measure nat") (auto simp: nat_less_eq_zless)

declare digits.simps [simp del]

definition show_int :: "int \<Rightarrow> jsstring" where
  [js_defs]: "show_int i = (if i < 0 then 45 # digits (- i) else digits i)"

lemma digits_not_Nil [simp]: "digits n \<noteq> []"
  by (subst digits.simps) simp

end
