(* ===== verification/JsValue.thy ===== *)
theory JsValue
  imports JsPrelude
begin

text \<open>
  Run-time JavaScript values as a parsed JSON body gives them, property reads that may throw,
  exceptions as values of a sum, and the number formatting the views use.  A \<open>number\<close> is an exact
  rational.
\<close>

datatype jsval =
    JUndef
  | JNull
  | JBool bool
  | JNum rat
  | JStr jsstring
  | JArr "jsval list"
  | JObj "(jsstring \<times> jsval) list"

text \<open>What a \<open>catch\<close> may receive: the client's own error, another \<open>Error\<close>, or any other value.\<close>

datatype js_exn =
    ApiError int jsstring "jsstring option"
  | JsError jsstring
  | NotAnError

text \<open>\<open>error.message\<close> of a caught value.\<close>

fun exn_text :: "js_exn \<Rightarrow> jsstring" where
  "exn_text (ApiError _ msg _) = msg"
| "exn_text (JsError msg) = msg"
| "exn_text NotAnError = u ''undefined''"

definition bindE :: "js_exn + 'a \<Rightarrow> ('a \<Rightarrow> js_exn + 'b) \<Rightarrow> js_exn + 'b" where
  "bindE m f = (case m of Inl e \<Rightarrow> Inl e | Inr x \<Rightarrow> f x)"

fun mapE :: "('a \<Rightarrow> js_exn + 'b) \<Rightarrow> 'a list \<Rightarrow> js_exn + 'b list" where
  "mapE f [] = Inr []"
| "mapE f (x # xs) = bindE (f x) (\<lambda>y. bindE (mapE f xs) (\<lambda>ys. Inr (y # ys)))"

lemma bindE_simps [simp]: "bindE (Inl e) f = Inl e" "bindE (Inr x) f = f x"
  by (simp_all add: bindE_def)

lemma bindE_Inr_iff [inr_iff]: "bindE m f = Inr y \<longleftrightarrow> (\<exists>x. m = Inr x \<and> f x = Inr y)"
  by (cases m) auto

lemma bindE_cong [fundef_cong]:
  "m = m' \<Longrightarrow> (\<And>x. m' = Inr x \<Longrightarrow> f x = f' x) \<Longrightarrow> bindE m f = bindE m' f'"
  by (cases m') auto

lemma mapE_Inr_iff [inr_iff]: "mapE f xs = Inr ys \<longleftrightarrow> list_all2 (\<lambda>x y. f x = Inr y) xs ys"
  by (induction xs arbitrary: ys) (auto simp: inr_iff list_all2_Cons1)

lemma mapE_cong [fundef_cong]:
  "xs = ys \<Longrightarrow> (\<And>x. x \<in> set ys \<Longrightarrow> f x = g x) \<Longrightarrow> mapE f xs = mapE g ys"
proof (induction ys arbitrary: xs)
  case (Cons y ys)
  then show ?case by (auto intro!: bindE_cong)
qed simp

lemma mapE_total: "(\<And>x. x \<in> set xs \<Longrightarrow> f x = Inr (g x)) \<Longrightarrow> mapE f xs = Inr (map g xs)"
  by (induction xs) auto

lemma mapE_Inl: "x \<in> set xs \<Longrightarrow> f x = Inl e \<Longrightarrow> \<exists>e'. mapE f xs = Inl e'"
proof (induction xs)
  case (Cons y ys)
  then show ?case by (cases "f y") auto
qed simp

section \<open>Operators\<close>

fun truthy :: "jsval \<Rightarrow> bool" where
  "truthy JUndef = False"
| "truthy JNull = False"
| "truthy (JBool b) = b"
| "truthy (JNum n) = (n \<noteq> 0)"
| "truthy (JStr s) = (s \<noteq> [])"
| "truthy (JArr _) = True"
| "truthy (JObj _) = True"

definition nullish :: "jsval \<Rightarrow> bool" where
  "nullish v \<longleftrightarrow> v = JUndef \<or> v = JNull"

definition coalesce :: "jsval \<Rightarrow> jsval \<Rightarrow> jsval" where
  "coalesce a b = (if nullish a then b else a)"

definition lookup_prop :: "(jsstring \<times> jsval) list \<Rightarrow> jsstring \<Rightarrow> jsval" where
  "lookup_prop fs k = (case map_of fs k of None \<Rightarrow> JUndef | Some v \<Rightarrow> v)"

text \<open>\<open>v.k\<close>: reading a property of \<open>undefined\<close> or \<open>null\<close> throws a \<open>TypeError\<close>.\<close>

fun get_prop :: "jsval \<Rightarrow> string \<Rightarrow> js_exn + jsval" where
  "get_prop JUndef k =
     Inl (JsError (u ''Cannot read properties of undefined (reading '' @ [39] @ u k @ [39] @ u '')''))"
| "get_prop JNull k =
     Inl (JsError (u ''Cannot read properties of null (reading '' @ [39] @ u k @ [39] @ u '')''))"
| "get_prop (JObj fs) k = Inr (lookup_prop fs (u k))"
| "get_prop (JArr vs) k = Inr (if k = ''length'' then JNum (of_nat (length vs)) else JUndef)"
| "get_prop (JStr s) k = Inr (if k = ''length'' then JNum (of_nat (length s)) else JUndef)"
| "get_prop _ k = Inr JUndef"

text \<open>Calling an array method on a value that is not an array throws.\<close>

fun as_array :: "jsval \<Rightarrow> js_exn + jsval list" where
  "as_array (JArr vs) = Inr vs"
| "as_array _ = Inl (JsError (u ''not a function''))"

fun as_number :: "jsval \<Rightarrow> js_exn + rat" where
  "as_number (JNum q) = Inr q"
| "as_number _ = Inl (JsError (u ''not a function''))"

section \<open>Numbers as text\<close>

text \<open>
  \<open>String(q)\<close> for a number with at most twenty decimals: the integer part, then the exact decimals.
\<close>

fun frac_digits :: "nat \<Rightarrow> rat \<Rightarrow> jsstring" where
  "frac_digits 0 f = []"
| "frac_digits (Suc n) f =
     (if f = 0 then []
      else of_int (48 + \<lfloor>10 * f\<rfloor>) # frac_digits n (10 * f - of_int \<lfloor>10 * f\<rfloor>))"

definition num_text :: "rat \<Rightarrow> jsstring" where
  "num_text q =
     (let a = \<bar>q\<bar>; f = a - of_int \<lfloor>a\<rfloor> in
      (if q < 0 then [45] else []) @ show_int \<lfloor>a\<rfloor>
      @ (if f = 0 then [] else 46 # frac_digits 20 f))"

fun pad_left :: "nat \<Rightarrow> jschar \<Rightarrow> jsstring \<Rightarrow> jsstring" where
  "pad_left n c s = replicate (n - length s) c @ s"

text \<open>\<open>toFixed(d)\<close>: the nearest multiple of \<open>10^-d\<close>, the larger one on a tie, with \<open>d\<close> decimals.\<close>

definition toFixed :: "nat \<Rightarrow> rat \<Rightarrow> jsstring" where
  "toFixed d q =
     (let n = \<lfloor>\<bar>q\<bar> * 10 ^ d + 1 / 2\<rfloor>; s = pad_left (Suc d) 48 (digits n); k = length s - d in
      (if q < 0 then [45] else [])
      @ take k s @ (if d = 0 then [] else 46 # drop k s))"

lemma num_text_examples:
  "num_text (5 / 4) = u ''1.25''" "num_text (- 40) = u ''-40''" "num_text (1 / 100) = u ''0.01''"
  by code_simp+

lemma toFixed_examples:
  "toFixed 2 5 = u ''5.00''" "toFixed 2 (1 / 40) = u ''0.03''" "toFixed 1 (- 48 / 10) = u ''-4.8''"
  "toFixed 0 (5 / 2) = u ''3''"
  by code_simp+

text \<open>Groups of three digits, as \<open>en-US\<close> writes thousands.\<close>

fun group3 :: "jsstring \<Rightarrow> jsstring" where
  "group3 (a # b # c # d # r) = a # b # c # 44 # group3 (d # r)"
| "group3 s = s"

definition grouped :: "int \<Rightarrow> jsstring" where
  "grouped n = rev (group3 (rev (digits n)))"

text \<open>
  \<open>Intl.NumberFormat('en-US', currency USD)\<close> with \<open>d\<close> fraction digits: rounded half away from zero.
\<close>

definition format_usd :: "nat \<Rightarrow> rat \<Rightarrow> jsstring" where
  "format_usd d q =
     (let n = \<lfloor>\<bar>q\<bar> * 10 ^ d + 1 / 2\<rfloor>; frac = pad_left d 48 (digits (n mod 10 ^ d)) in
      (if q < 0 then [45] else []) @ [36] @ grouped (n div 10 ^ d)
      @ (if d = 0 then [] else 46 # frac))"

lemma format_usd_examples:
  "format_usd 0 6003 = u ''$6,003''" "format_usd 2 (1 / 4) = u ''$0.25''"
  "format_usd 2 1234567 = u ''$1,234,567.00''"
  by code_simp+

text \<open>\<open>String(v)\<close>, as \<open>Error\<close> converts its message.\<close>

fun val_text :: "jsval \<Rightarrow> jsstring" where
  "val_text JUndef = u ''undefined''"
| "val_text JNull = u ''null''"
| "val_text (JBool b) = (if b then u ''true'' else u ''false'')"
| "val_text (JNum q) = num_text q"
| "val_text (JStr s) = s"
| "val_text (JArr vs) = join [44] (map (\<lambda>v. if nullish v then [] else val_text v) vs)"
| "val_text (JObj _) = u ''[object Object]''"

end
