(* ===== verification/JsDate.thy ===== *)
theory JsDate
  imports JsPrelude
begin

text \<open>
  ECMAScript time values: milliseconds since the epoch, \<open>None\<close> for the NaN of an invalid date.
  \<open>date_parse\<close> reads the date-time string format of the language (date-only forms, and
  date-times with \<open>Z\<close> or a numeric offset, the form every timestamp of the wire contract has);
  a string outside that format is invalid.  \<open>toISOString\<close> is its inverse on years 0 to 9999.
\<close>

type_synonym time_value = "int option"

section \<open>Calendar arithmetic\<close>

definition day_from_year :: "int \<Rightarrow> int" where
  "day_from_year y =
     365 * (y - 1970) + (y - 1969) div 4 - (y - 1901) div 100 + (y - 1601) div 400"

definition leap :: "int \<Rightarrow> bool" where
  "leap y \<longleftrightarrow> y mod 4 = 0 \<and> (y mod 100 \<noteq> 0 \<or> y mod 400 = 0)"

definition month_length :: "int \<Rightarrow> int \<Rightarrow> int" where
  "month_length y m =
     (if m = 2 then (if leap y then 29 else 28)
      else if m = 4 \<or> m = 6 \<or> m = 9 \<or> m = 11 then 30 else 31)"

definition day_of_month_start :: "int \<Rightarrow> int \<Rightarrow> int" where
  "day_of_month_start y m =
     (let l = (if leap y then 1 else 0) in
      if m = 1 then 0 else if m = 2 then 31 else if m = 3 then 59 + l else if m = 4 then 90 + l
      else if m = 5 then 120 + l else if m = 6 then 151 + l else if m = 7 then 181 + l
      else if m = 8 then 212 + l else if m = 9 then 243 + l else if m = 10 then 273 + l
      else if m = 11 then 304 + l else 334 + l)"

definition make_time :: "int \<Rightarrow> int \<Rightarrow> int \<Rightarrow> int \<Rightarrow> int \<Rightarrow> int \<Rightarrow> int \<Rightarrow> int" where
  "make_time y mo d h mi s ms =
     (day_from_year y + day_of_month_start y mo + (d - 1)) * 86400000
     + h * 3600000 + mi * 60000 + s * 1000 + ms"

section \<open>Parsing\<close>

definition digit_val :: "jschar \<Rightarrow> int option" where
  "digit_val c = (if 48 \<le> c \<and> c \<le> 57 then Some (uint c - 48) else None)"

text \<open>Exactly \<open>n\<close> digits, most significant first.\<close>

fun take_digits :: "nat \<Rightarrow> int \<Rightarrow> jsstring \<Rightarrow> (int \<times> jsstring) option" where
  "take_digits 0 acc s = Some (acc, s)"
| "take_digits (Suc n) acc s =
     (case s of [] \<Rightarrow> None
      | c # s' \<Rightarrow> (case digit_val c of None \<Rightarrow> None
                 | Some d \<Rightarrow> take_digits n (10 * acc + d) s'))"

definition expect :: "jschar \<Rightarrow> jsstring \<Rightarrow> jsstring option" where
  "expect c s = (case s of [] \<Rightarrow> None | d # s' \<Rightarrow> if c = d then Some s' else None)"

text \<open>A fraction of a second: digits past the third are dropped.\<close>

fun take_fraction :: "nat \<Rightarrow> int \<Rightarrow> jsstring \<Rightarrow> int \<times> jsstring" where
  "take_fraction k acc [] = (acc * 10 ^ k, [])"
| "take_fraction k acc (c # s) =
     (case digit_val c of None \<Rightarrow> (acc * 10 ^ k, c # s)
      | Some d \<Rightarrow> (case k of 0 \<Rightarrow> take_fraction 0 acc s
                 | Suc k' \<Rightarrow> take_fraction k' (10 * acc + d) s))"

definition parse_offset :: "jsstring \<Rightarrow> int option" where
  "parse_offset s =
     (case s of [] \<Rightarrow> None
      | c # r \<Rightarrow>
        if c = 90 then (if r = [] then Some 0 else None)
        else if c = 43 \<or> c = 45 then
          Option.bind (take_digits 2 0 r) (\<lambda>(h, r). Option.bind (expect 58 r) (\<lambda>r.
          Option.bind (take_digits 2 0 r) (\<lambda>(m, r).
            if r = [] \<and> h \<le> 23 \<and> m \<le> 59
            then Some ((if c = 43 then 1 else - 1) * (h * 60 + m)) else None)))
        else None)"

definition parse_seconds :: "jsstring \<Rightarrow> (int \<times> int \<times> jsstring) option" where
  "parse_seconds s =
     (case expect 58 s of None \<Rightarrow> Some (0, 0, s)
      | Some s \<Rightarrow> Option.bind (take_digits 2 0 s) (\<lambda>(sec, s).
          case expect 46 s of None \<Rightarrow> Some (sec, 0, s)
          | Some s \<Rightarrow>
              (case s of [] \<Rightarrow> None
               | c # _ \<Rightarrow> if digit_val c = None then None
                        else (let (ms, r) = take_fraction 3 0 s in Some (sec, ms, r)))))"

definition parse_time_of_day :: "jsstring \<Rightarrow> (int \<times> int \<times> int \<times> int \<times> int) option" where
  "parse_time_of_day s =
     Option.bind (take_digits 2 0 s) (\<lambda>(h, s). Option.bind (expect 58 s) (\<lambda>s.
     Option.bind (take_digits 2 0 s) (\<lambda>(mi, s). Option.bind (parse_seconds s) (\<lambda>(sec, ms, s).
     Option.bind (parse_offset s) (\<lambda>off.
       if (h \<le> 23 \<and> mi \<le> 59 \<and> sec \<le> 59) \<or> (h = 24 \<and> mi = 0 \<and> sec = 0 \<and> ms = 0)
       then Some (h, mi, sec, ms, off) else None)))))"

definition date_parse :: "jsstring \<Rightarrow> time_value" where
  "date_parse s =
     Option.bind (take_digits 4 0 s) (\<lambda>(y, s). Option.bind (expect 45 s) (\<lambda>s.
     Option.bind (take_digits 2 0 s) (\<lambda>(mo, s). Option.bind (expect 45 s) (\<lambda>s.
     Option.bind (take_digits 2 0 s) (\<lambda>(d, s).
       if 1 \<le> mo \<and> mo \<le> 12 \<and> 1 \<le> d \<and> d \<le> month_length y mo then
         (if s = [] then Some (make_time y mo d 0 0 0 0)
          else Option.bind (expect 84 s) (\<lambda>s. Option.bind (parse_time_of_day s)
            (\<lambda>(h, mi, sec, ms, off). Some (make_time y mo d h mi sec ms - off * 60000))))
       else None)))))"

lemma date_parse_epoch: "date_parse (u ''1970-01-01T00:00:00.000Z'') = Some 0"
  by code_simp

lemma date_parse_offset: "date_parse (u ''2026-07-01T12:00:00.5+02:00'') = Some 1782900000500"
  by code_simp

lemma date_parse_invalid: "date_parse (u ''soon'') = None"
  by code_simp

section \<open>Printing\<close>

definition year_from_day :: "int \<Rightarrow> int" where
  "year_from_day d =
     (let y = 1970 + (400 * d) div 146097 in
      if day_from_year (y + 1) \<le> d then y + 1 else if day_from_year y \<le> d then y else y - 1)"

fun find_month :: "int \<Rightarrow> int \<Rightarrow> int list \<Rightarrow> int" where
  "find_month y doy [] = 1"
| "find_month y doy (m # ms) = (if day_of_month_start y m \<le> doy then m else find_month y doy ms)"

definition month_from_day :: "int \<Rightarrow> int \<Rightarrow> int" where
  "month_from_day y doy = find_month y doy [12, 11, 10, 9, 8, 7, 6, 5, 4, 3, 2, 1]"

fun fixed_digits :: "nat \<Rightarrow> int \<Rightarrow> jsstring" where
  "fixed_digits 0 n = []"
| "fixed_digits (Suc k) n = of_int (48 + n div 10 ^ k) # fixed_digits k (n mod 10 ^ k)"

definition toISOString :: "int \<Rightarrow> jsstring" where
  "toISOString t =
     (let d = t div 86400000; r = t mod 86400000; y = year_from_day d; doy = d - day_from_year y;
          mo = month_from_day y doy; dom = doy - day_of_month_start y mo + 1 in
      (if 0 \<le> y \<and> y \<le> 9999 then fixed_digits 4 y
       else (if y < 0 then [45] else [43]) @ fixed_digits 6 \<bar>y\<bar>)
      @ [45] @ fixed_digits 2 mo @ [45] @ fixed_digits 2 dom @ [84]
      @ fixed_digits 2 (r div 3600000) @ [58] @ fixed_digits 2 (r div 60000 mod 60) @ [58]
      @ fixed_digits 2 (r div 1000 mod 60) @ [46] @ fixed_digits 3 (r mod 1000) @ [90])"

lemma toISOString_example: "toISOString 1782900000500 = u ''2026-07-01T10:00:00.500Z''"
  by code_simp

subsection \<open>Printing then parsing\<close>

lemma div_bounds: "0 < (n::int) \<Longrightarrow> n * (a div n) \<le> a \<and> a < n * (a div n) + n"
  by (metis add_strict_left_mono mult_div_mod_eq pos_mod_bound pos_mod_sign
      le_add_same_cancel1)

lemma day_from_year_bounds:
  "146097 * (y - 1970) - 510 \<le> 400 * day_from_year y" "400 * day_from_year y \<le> 146097 * (y - 1970) + 590"
  using div_bounds [of 4 "y - 1969"] div_bounds [of 100 "y - 1901"] div_bounds [of 400 "y - 1601"]
  unfolding day_from_year_def by simp_all

lemma year_from_day_correct:
  "day_from_year (year_from_day d) \<le> d" "d < day_from_year (year_from_day d + 1)"
proof -
  let ?y = "1970 + (400 * d) div 146097"
  note b = div_bounds [of 146097 "400 * d"] day_from_year_bounds [of "?y - 1"] day_from_year_bounds [of "?y + 2"]
  have "day_from_year (?y - 1) \<le> d" "d < day_from_year (?y + 2)"
    using b by simp_all
  then show "day_from_year (year_from_day d) \<le> d" "d < day_from_year (year_from_day d + 1)"
    by (auto simp: year_from_day_def Let_def add.assoc)
qed

lemma div_step:
  fixes x n :: int
  assumes "0 < n"
  shows "(x + 1) div n - x div n = (if n dvd x + 1 then 1 else 0)"
proof (cases "x mod n + 1 = n")
  case True
  then have x: "x + 1 = n * (x div n + 1)"
    by (metis distrib_left group_cancel.add1 mult.right_neutral mult_div_mod_eq)
  then have "n dvd x + 1" by (metis dvd_triv_left)
  moreover have "(x + 1) div n = x div n + 1"
    using x assms by (metis less_irrefl nonzero_mult_div_cancel_left)
  ultimately show ?thesis by simp
next
  case False
  then have r: "0 \<le> x mod n + 1" "x mod n + 1 < n"
    using pos_mod_bound [OF assms, of x] pos_mod_sign [OF assms, of x] by linarith+
  have x: "x + 1 = n * (x div n) + (x mod n + 1)" by simp
  have "(x + 1) div n = x div n" by (rule int_div_pos_eq [OF x r])
  moreover have m: "(x + 1) mod n = x mod n + 1" by (rule int_mod_pos_eq [OF x r])
  moreover have "(x + 1) mod n \<noteq> 0"
    unfolding m using pos_mod_sign [OF assms, of x] by linarith
  then have "\<not> n dvd x + 1"
    unfolding dvd_eq_mod_eq_0 .
  ultimately show ?thesis by simp
qed

lemma year_length: "day_from_year (y + 1) - day_from_year y = (if leap y then 366 else 365)"
proof -
  have d: "4 dvd y - 1968 \<longleftrightarrow> 4 dvd y" "100 dvd y - 1900 \<longleftrightarrow> 100 dvd y" "400 dvd y - 1600 \<longleftrightarrow> 400 dvd y"
    by (rule dvd_diff_left_iff, simp)+
  have step: "(y - (c - 1)) div n - (y - c) div n = (if n dvd y - (c - 1) then 1 else 0)"
    if "0 < n" for n c :: int
    using div_step [OF that, of "y - c"] by (simp add: algebra_simps)
  have m: "400 dvd y \<Longrightarrow> 100 dvd y" "100 dvd y \<Longrightarrow> 4 dvd y"
    by (erule dvd_trans [rotated], simp)+
  have "day_from_year (y + 1) - day_from_year y =
      365 + ((y - 1968) div 4 - (y - 1969) div 4) - ((y - 1900) div 100 - (y - 1901) div 100)
      + ((y - 1600) div 400 - (y - 1601) div 400)"
    by (simp add: day_from_year_def)
  also have "\<dots> = 365 + (if 4 dvd y then 1 else 0) - (if 100 dvd y then 1 else 0)
      + (if 400 dvd y then 1 else 0)"
    unfolding step [of 4 1969, simplified] step [of 100 1901, simplified]
      step [of 400 1601, simplified] d ..
  finally show ?thesis
    unfolding leap_def dvd_eq_mod_eq_0 [symmetric] using m
    by (cases "4 dvd y"; cases "100 dvd y"; cases "400 dvd y") simp_all
qed

lemma month_from_day_correct:
  assumes "0 \<le> doy" and "doy < (if leap y then 366 else 365)"
  shows "1 \<le> month_from_day y doy \<and> month_from_day y doy \<le> 12
    \<and> day_of_month_start y (month_from_day y doy) \<le> doy
    \<and> doy - day_of_month_start y (month_from_day y doy) < month_length y (month_from_day y doy)"
  using assms
  by (cases "leap y") (simp_all add: month_from_day_def day_of_month_start_def month_length_def)

lemma digit_val_of_int:
  assumes "0 \<le> d" and "d < 10" shows "digit_val (of_int (48 + d)) = Some d"
proof -
  have "d \<in> {0, 1, 2, 3, 4, 5, 6, 7, 8, 9}"
    using assms unfolding insert_iff empty_iff by presburger
  then show ?thesis by (auto simp: digit_val_def)
qed

lemma digit_val_digit [simp]: "0 \<le> d \<Longrightarrow> d < 10 \<Longrightarrow> digit_val (48 + of_int d) = Some d"
  using digit_val_of_int [of d] by simp

lemma take_digits_fixed:
  "0 \<le> n \<Longrightarrow> n < 10 ^ k \<Longrightarrow> take_digits k acc (fixed_digits k n @ s) = Some (acc * 10 ^ k + n, s)"
proof (induction k arbitrary: n acc)
  case (Suc k)
  let ?q = "n div 10 ^ k"
  have q0: "0 \<le> ?q"
    using Suc.prems by (simp add: pos_imp_zdiv_nonneg_iff)
  have "10 ^ k * ?q \<le> n"
    using div_bounds [of "10 ^ k" n] by simp
  also have "n < 10 ^ k * 10"
    using Suc.prems by (simp add: mult.commute)
  finally have "10 ^ k * ?q < 10 ^ k * 10" .
  then have q10: "?q < 10" by (rule mult_left_less_imp_less) simp
  have "n = ?q * 10 ^ k + n mod 10 ^ k" by (rule div_mult_mod_eq [symmetric])
  then have "(10 * acc + ?q) * 10 ^ k + n mod 10 ^ k = acc * 10 ^ Suc k + n"
    by (simp add: algebra_simps)
  with Suc.IH [of "n mod 10 ^ k" "10 * acc + ?q"] q0 q10 show ?case by simp
qed simp

lemma take_digits_fixed0:
  "0 \<le> n \<Longrightarrow> n < 10 ^ k \<Longrightarrow> take_digits k 0 (fixed_digits k n @ s) = Some (n, s)"
  using take_digits_fixed [of n k 0 s] by simp

lemma expect_append [simp]: "expect c (c # s) = Some s"
  by (simp add: expect_def)

lemma take_fraction_fixed:
  assumes "0 \<le> n" and "n < 1000"
  shows "take_fraction 3 0 (fixed_digits 3 n @ [90]) = (n, [90])"
    and "\<exists>c s. fixed_digits 3 n @ [90] = c # s \<and> digit_val c \<noteq> None"
proof -
  have d: "0 \<le> n div 100" "n div 100 < 10" "0 \<le> n mod 100 div 10" "n mod 100 div 10 < 10"
    "0 \<le> n mod 100 mod 10" "n mod 100 mod 10 < 10"
    using assms by simp_all
  have z: "digit_val 90 = None" by code_simp
  have n: "10 * (10 * (n div 100) + n mod 100 div 10) + n mod 100 mod 10 = n" by simp
  have f: "fixed_digits 3 n = [48 + of_int (n div 100), 48 + of_int (n mod 100 div 10), 48 + of_int (n mod 100 mod 10)]"
    by (simp add: numeral_3_eq_3)
  show "take_fraction 3 0 (fixed_digits 3 n @ [90]) = (n, [90])"
    unfolding f using d n z by (simp add: numeral_3_eq_3)
  show "\<exists>c s. fixed_digits 3 n @ [90] = c # s \<and> digit_val c \<noteq> None"
    unfolding f using d by simp
qed

lemma parse_time_of_day_fixed:
  assumes "0 \<le> h" "h < 24" "0 \<le> mi" "mi < 60" "0 \<le> sec" "sec < 60" "0 \<le> ms" "ms < 1000"
  shows "parse_time_of_day (fixed_digits 2 h @ [58] @ fixed_digits 2 mi @ [58] @ fixed_digits 2 sec
           @ [46] @ fixed_digits 3 ms @ [90]) = Some (h, mi, sec, ms, 0)"
proof -
  note td = take_digits_fixed0 [where k = 2]
  obtain c s where c: "fixed_digits 3 ms @ [90] = c # s" "digit_val c \<noteq> None"
    using take_fraction_fixed(2) [OF assms(7,8)] by blast
  have sec: "parse_seconds ([58] @ fixed_digits 2 sec @ [46] @ fixed_digits 3 ms @ [90]) = Some (sec, ms, [90])"
    using assms take_fraction_fixed(1) [OF assms(7,8)] c
    by (simp add: parse_seconds_def td)
  have off: "parse_offset [90] = Some 0" by code_simp
  show ?thesis
    unfolding parse_time_of_day_def using assms sec off by (simp add: td)
qed

lemma day_from_year_mono: "y \<le> y' \<Longrightarrow> day_from_year y \<le> day_from_year y'"
proof (induction y' rule: int_ge_induct)
  case (step i)
  then show ?case using year_length [of i] by (simp split: if_splits)
qed simp

lemma year_in_range:
  assumes "- 719528 \<le> d" and "d < 2932897"
  shows "0 \<le> year_from_day d \<and> year_from_day d \<le> 9999"
proof (rule ccontr)
  let ?y = "year_from_day d"
  have e: "day_from_year 0 = - 719528" "day_from_year 10000 = 2932897"
    by (simp_all add: day_from_year_def)
  assume "\<not> (0 \<le> ?y \<and> ?y \<le> 9999)"
  then consider "?y + 1 \<le> 0" | "10000 \<le> ?y" by linarith
  then show False
    using day_from_year_mono [of "?y + 1" 0] day_from_year_mono [of 10000 ?y] year_from_day_correct [of d] e assms
    by cases linarith+
qed

lemma month_length_le: "month_length y m \<le> 31"
  by (simp add: month_length_def)

lemma date_parse_fixed:
  assumes "0 \<le> y" "y \<le> 9999" "1 \<le> mo" "mo \<le> 12" "1 \<le> d" "d \<le> month_length y mo"
    and "0 \<le> h" "h < 24" "0 \<le> mi" "mi < 60" "0 \<le> sec" "sec < 60" "0 \<le> ms" "ms < 1000"
  shows "date_parse (fixed_digits 4 y @ 45 # fixed_digits 2 mo @ 45 # fixed_digits 2 d @ 84
      # (fixed_digits 2 h @ [58] @ fixed_digits 2 mi @ [58] @ fixed_digits 2 sec
         @ [46] @ fixed_digits 3 ms @ [90])) = Some (make_time y mo d h mi sec ms)"
  unfolding date_parse_def parse_time_of_day_fixed [OF assms(7-14)] expect_append
  using assms(1-6) month_length_le [of y mo]
  by (simp add: take_digits_fixed0 parse_time_of_day_fixed [OF assms(7-14), simplified])

lemma time_parts:
  fixes r :: int
  assumes "r = 1000 * a + z" "a = 60 * b + y" "b = 60 * c + x"
  shows "c * 3600000 + x * 60000 + y * 1000 + z = r"
  using assms by simp

lemma time_split:
  fixes r :: int
  shows "r div 3600000 * 3600000 + r div 60000 mod 60 * 60000 + r div 1000 mod 60 * 1000 + r mod 1000 = r"
proof (rule time_parts)
  have d1: "r div 60000 = r div 1000 div 60" and d2: "r div 3600000 = r div 60000 div 60"
    by (simp_all add: zdiv_zmult2_eq [symmetric])
  show "r = 1000 * (r div 1000) + r mod 1000"
    by (rule mult_div_mod_eq [symmetric])
  show "r div 1000 = 60 * (r div 60000) + r div 1000 mod 60"
    unfolding d1 by (rule mult_div_mod_eq [symmetric])
  show "r div 60000 = 60 * (r div 3600000) + r div 60000 mod 60"
    unfolding d2 by (rule mult_div_mod_eq [symmetric])
qed

text \<open>A time value of the years 0 to 9999, printed and parsed, is itself.\<close>

lemma date_parse_toISOString:
  assumes "- 62167219200000 \<le> t" and "t < 253402300800000"
  shows "date_parse (toISOString t) = Some t"
proof -
  define d where "d = t div 86400000"
  define r where "r = t mod 86400000"
  define y where "y = year_from_day d"
  define doy where "doy = d - day_from_year y"
  define mo where "mo = month_from_day y doy"
  define dom where "dom = doy - day_of_month_start y mo + 1"
  have "- 719528 \<le> d" "d < 2932897" and r: "0 \<le> r" "r < 86400000" and t: "t = d * 86400000 + r"
    using assms by (simp_all add: d_def r_def)
  then have y: "0 \<le> y" "y \<le> 9999"
    using year_in_range by (auto simp: y_def)
  have "0 \<le> doy" "doy < (if leap y then 366 else 365)"
    using year_from_day_correct [of d] year_length [of y] by (auto simp: doy_def y_def split: if_splits)
  from month_from_day_correct [OF this]
  have mo: "1 \<le> mo" "mo \<le> 12" and dom: "1 \<le> dom" "dom \<le> month_length y mo"
    by (simp_all add: mo_def dom_def)
  have tod: "0 \<le> r div 3600000" "r div 3600000 < 24" "0 \<le> r div 60000 mod 60" "r div 60000 mod 60 < 60"
    "0 \<le> r div 1000 mod 60" "r div 1000 mod 60 < 60" "0 \<le> r mod 1000" "r mod 1000 < 1000"
    using r by simp_all
  have iso: "toISOString t = fixed_digits 4 y @ 45 # fixed_digits 2 mo @ 45 # fixed_digits 2 dom @ 84
      # (fixed_digits 2 (r div 3600000) @ [58] @ fixed_digits 2 (r div 60000 mod 60) @ [58]
      @ fixed_digits 2 (r div 1000 mod 60) @ [46] @ fixed_digits 3 (r mod 1000) @ [90])"
    using y by (simp add: toISOString_def Let_def d_def r_def y_def doy_def mo_def dom_def)
  have "make_time y mo dom (r div 3600000) (r div 60000 mod 60) (r div 1000 mod 60) (r mod 1000)
      = d * 86400000 + (r div 3600000 * 3600000 + r div 60000 mod 60 * 60000 + r div 1000 mod 60 * 1000 + r mod 1000)"
    by (simp only: make_time_def dom_def doy_def) simp
  also have "\<dots> = t"
    unfolding time_split t ..
  finally show ?thesis
    unfolding iso date_parse_fixed [OF y mo dom tod] by (rule arg_cong)
qed

end
