(* ===== verification/WebTypes.thy ===== *)
theory WebTypes
  imports JsDate
begin

text \<open>
  The wire types of the web UI, \<open>src/src/webui/src/api/types.generated.ts\<close>: every string-literal
  union as a datatype with its \<open>...Values\<close> array, every interface as a record whose fields carry a
  short prefix.  A property that may be missing or \<open>null\<close> is an \<open>option\<close> (the UI reads both through
  \<open>??\<close>, \<open>&&\<close> and \<open>!\<close> only, which do not tell them apart); a \<open>number\<close> is an exact rational; a partial
  record is the list of its entries in \<open>Object.entries\<close> order.  \<open>..._text\<close> is the literal on the wire.
\<close>

section \<open>Enumerations\<close>

datatype ModelTier = Economy | Standard | Premium

definition ModelTierValues :: "ModelTier list" where
  "ModelTierValues = [ModelTier.Economy, ModelTier.Standard, ModelTier.Premium]"

fun ModelTier_text :: "ModelTier \<Rightarrow> jsstring" where
  "ModelTier_text ModelTier.Economy = u ''Economy''"
| "ModelTier_text ModelTier.Standard = u ''Standard''"
| "ModelTier_text ModelTier.Premium = u ''Premium''"

datatype RoutingOutcome = Routed | Downgraded | Denied | RefusedByPolicy

definition RoutingOutcomeValues :: "RoutingOutcome list" where
  "RoutingOutcomeValues = [RoutingOutcome.Routed, RoutingOutcome.Downgraded,
    RoutingOutcome.Denied, RoutingOutcome.RefusedByPolicy]"

fun RoutingOutcome_text :: "RoutingOutcome \<Rightarrow> jsstring" where
  "RoutingOutcome_text RoutingOutcome.Routed = u ''Routed''"
| "RoutingOutcome_text RoutingOutcome.Downgraded = u ''Downgraded''"
| "RoutingOutcome_text RoutingOutcome.Denied = u ''Denied''"
| "RoutingOutcome_text RoutingOutcome.RefusedByPolicy = u ''RefusedByPolicy''"

datatype ModelVendor = AzureOpenAI | Anthropic | XAI | OpenWeight

definition ModelVendorValues :: "ModelVendor list" where
  "ModelVendorValues = [ModelVendor.AzureOpenAI, ModelVendor.Anthropic, ModelVendor.XAI,
    ModelVendor.OpenWeight]"

fun ModelVendor_text :: "ModelVendor \<Rightarrow> jsstring" where
  "ModelVendor_text ModelVendor.AzureOpenAI = u ''AzureOpenAI''"
| "ModelVendor_text ModelVendor.Anthropic = u ''Anthropic''"
| "ModelVendor_text ModelVendor.XAI = u ''XAI''"
| "ModelVendor_text ModelVendor.OpenWeight = u ''OpenWeight''"

datatype ServingMode = Serverless | ManagedCompute

definition ServingModeValues :: "ServingMode list" where
  "ServingModeValues = [ServingMode.Serverless, ServingMode.ManagedCompute]"

fun ServingMode_text :: "ServingMode \<Rightarrow> jsstring" where
  "ServingMode_text ServingMode.Serverless = u ''Serverless''"
| "ServingMode_text ServingMode.ManagedCompute = u ''ManagedCompute''"

datatype DataClassification = Public | Internal | Confidential | Restricted

definition DataClassificationValues :: "DataClassification list" where
  "DataClassificationValues = [DataClassification.Public, DataClassification.Internal,
    DataClassification.Confidential, DataClassification.Restricted]"

fun DataClassification_text :: "DataClassification \<Rightarrow> jsstring" where
  "DataClassification_text DataClassification.Public = u ''Public''"
| "DataClassification_text DataClassification.Internal = u ''Internal''"
| "DataClassification_text DataClassification.Confidential = u ''Confidential''"
| "DataClassification_text DataClassification.Restricted = u ''Restricted''"

datatype PolicyExclusionKind = VendorNotApproved  | ClassificationExceeded | RegionNotPermitted
     | PolicyCostCeiling

definition PolicyExclusionKindValues :: "PolicyExclusionKind list" where
  "PolicyExclusionKindValues = [PolicyExclusionKind.VendorNotApproved,
    PolicyExclusionKind.ClassificationExceeded, PolicyExclusionKind.RegionNotPermitted,
    PolicyExclusionKind.PolicyCostCeiling]"

fun PolicyExclusionKind_text :: "PolicyExclusionKind \<Rightarrow> jsstring" where
  "PolicyExclusionKind_text PolicyExclusionKind.VendorNotApproved = u ''VendorNotApproved''"

    | "PolicyExclusionKind_text PolicyExclusionKind.ClassificationExceeded = u ''ClassificationExceeded''"
| "PolicyExclusionKind_text PolicyExclusionKind.RegionNotPermitted = u ''RegionNotPermitted''"
| "PolicyExclusionKind_text PolicyExclusionKind.PolicyCostCeiling = u ''PolicyCostCeiling''"

datatype ApprovalState = PendingApproval | Approved | Rejected | Expired

definition ApprovalStateValues :: "ApprovalState list" where
  "ApprovalStateValues = [ApprovalState.PendingApproval, ApprovalState.Approved,
    ApprovalState.Rejected, ApprovalState.Expired]"

fun ApprovalState_text :: "ApprovalState \<Rightarrow> jsstring" where
  "ApprovalState_text ApprovalState.PendingApproval = u ''PendingApproval''"
| "ApprovalState_text ApprovalState.Approved = u ''Approved''"
| "ApprovalState_text ApprovalState.Rejected = u ''Rejected''"
| "ApprovalState_text ApprovalState.Expired = u ''Expired''"

datatype ApprovalRefusalKind = SegregationOfDuties  | InvalidTransition | Expired
     | NotYetExpired | ReasonRequired | ApproverIdentityRequired | ProposerIdentityRequired
     | CorrelationIdRequired | ExpiryNotInFuture | EvidencePacketMismatch | NotApproved
     | InconsistentRecord

definition ApprovalRefusalKindValues :: "ApprovalRefusalKind list" where
  "ApprovalRefusalKindValues = [ApprovalRefusalKind.SegregationOfDuties,
    ApprovalRefusalKind.InvalidTransition, ApprovalRefusalKind.Expired,
    ApprovalRefusalKind.NotYetExpired, ApprovalRefusalKind.ReasonRequired,
    ApprovalRefusalKind.ApproverIdentityRequired, ApprovalRefusalKind.ProposerIdentityRequired,
    ApprovalRefusalKind.CorrelationIdRequired, ApprovalRefusalKind.ExpiryNotInFuture,
    ApprovalRefusalKind.EvidencePacketMismatch, ApprovalRefusalKind.NotApproved,
    ApprovalRefusalKind.InconsistentRecord]"

fun ApprovalRefusalKind_text :: "ApprovalRefusalKind \<Rightarrow> jsstring" where
  "ApprovalRefusalKind_text ApprovalRefusalKind.SegregationOfDuties = u ''SegregationOfDuties''"
| "ApprovalRefusalKind_text ApprovalRefusalKind.InvalidTransition = u ''InvalidTransition''"
| "ApprovalRefusalKind_text ApprovalRefusalKind.Expired = u ''Expired''"
| "ApprovalRefusalKind_text ApprovalRefusalKind.NotYetExpired = u ''NotYetExpired''"
| "ApprovalRefusalKind_text ApprovalRefusalKind.ReasonRequired = u ''ReasonRequired''"

    | "ApprovalRefusalKind_text ApprovalRefusalKind.ApproverIdentityRequired = u ''ApproverIdentityRequired''"

    | "ApprovalRefusalKind_text ApprovalRefusalKind.ProposerIdentityRequired = u ''ProposerIdentityRequired''"
| "ApprovalRefusalKind_text ApprovalRefusalKind.CorrelationIdRequired = u ''CorrelationIdRequired''"
| "ApprovalRefusalKind_text ApprovalRefusalKind.ExpiryNotInFuture = u ''ExpiryNotInFuture''"

    | "ApprovalRefusalKind_text ApprovalRefusalKind.EvidencePacketMismatch = u ''EvidencePacketMismatch''"
| "ApprovalRefusalKind_text ApprovalRefusalKind.NotApproved = u ''NotApproved''"
| "ApprovalRefusalKind_text ApprovalRefusalKind.InconsistentRecord = u ''InconsistentRecord''"

datatype Lane = Research | Surveillance | OrderRouting

definition LaneValues :: "Lane list" where
  "LaneValues = [Lane.Research, Lane.Surveillance, Lane.OrderRouting]"

fun Lane_text :: "Lane \<Rightarrow> jsstring" where
  "Lane_text Lane.Research = u ''Research''"
| "Lane_text Lane.Surveillance = u ''Surveillance''"
| "Lane_text Lane.OrderRouting = u ''OrderRouting''"

datatype OrderSide = Buy | Sell

definition OrderSideValues :: "OrderSide list" where
  "OrderSideValues = [OrderSide.Buy, OrderSide.Sell]"

fun OrderSide_text :: "OrderSide \<Rightarrow> jsstring" where
  "OrderSide_text OrderSide.Buy = u ''Buy''"
| "OrderSide_text OrderSide.Sell = u ''Sell''"

datatype VenueType = Lit | Dark

definition VenueTypeValues :: "VenueType list" where
  "VenueTypeValues = [VenueType.Lit, VenueType.Dark]"

fun VenueType_text :: "VenueType \<Rightarrow> jsstring" where
  "VenueType_text VenueType.Lit = u ''Lit''"
| "VenueType_text VenueType.Dark = u ''Dark''"

datatype PolicyBoundary = VenueNotApproved  | DarkPoolMinimumSize | ParticipationRateExceeded
     | SpreadToleranceExceeded | LimitPriceBreached | NotionalCeilingExceeded

definition PolicyBoundaryValues :: "PolicyBoundary list" where
  "PolicyBoundaryValues = [PolicyBoundary.VenueNotApproved, PolicyBoundary.DarkPoolMinimumSize,
    PolicyBoundary.ParticipationRateExceeded, PolicyBoundary.SpreadToleranceExceeded,
    PolicyBoundary.LimitPriceBreached, PolicyBoundary.NotionalCeilingExceeded]"

fun PolicyBoundary_text :: "PolicyBoundary \<Rightarrow> jsstring" where
  "PolicyBoundary_text PolicyBoundary.VenueNotApproved = u ''VenueNotApproved''"
| "PolicyBoundary_text PolicyBoundary.DarkPoolMinimumSize = u ''DarkPoolMinimumSize''"
| "PolicyBoundary_text PolicyBoundary.ParticipationRateExceeded = u ''ParticipationRateExceeded''"
| "PolicyBoundary_text PolicyBoundary.SpreadToleranceExceeded = u ''SpreadToleranceExceeded''"
| "PolicyBoundary_text PolicyBoundary.LimitPriceBreached = u ''LimitPriceBreached''"
| "PolicyBoundary_text PolicyBoundary.NotionalCeilingExceeded = u ''NotionalCeilingExceeded''"

datatype ExecutionRefusalReason = NoAuthorization  | AuthorizationExpired
     | AuthorizationForDifferentProposal | SegregationOfDuties | CorrelationMismatch

definition ExecutionRefusalReasonValues :: "ExecutionRefusalReason list" where
  "ExecutionRefusalReasonValues = [ExecutionRefusalReason.NoAuthorization,
    ExecutionRefusalReason.AuthorizationExpired,
    ExecutionRefusalReason.AuthorizationForDifferentProposal,
    ExecutionRefusalReason.SegregationOfDuties, ExecutionRefusalReason.CorrelationMismatch]"

fun ExecutionRefusalReason_text :: "ExecutionRefusalReason \<Rightarrow> jsstring" where
  "ExecutionRefusalReason_text ExecutionRefusalReason.NoAuthorization = u ''NoAuthorization''"

    | "ExecutionRefusalReason_text ExecutionRefusalReason.AuthorizationExpired = u ''AuthorizationExpired''"

    | "ExecutionRefusalReason_text ExecutionRefusalReason.AuthorizationForDifferentProposal = u ''AuthorizationForDifferentProposal''"

    | "ExecutionRefusalReason_text ExecutionRefusalReason.SegregationOfDuties = u ''SegregationOfDuties''"

    | "ExecutionRefusalReason_text ExecutionRefusalReason.CorrelationMismatch = u ''CorrelationMismatch''"

section \<open>Records\<close>

record TierCandidate =
  tc_tier :: ModelTier
  tc_deployment :: jsstring
  tc_projectedCostUsd :: rat
  tc_vendor :: "ModelVendor option"
  tc_selected :: "bool option"
  tc_rejectedReason :: "jsstring option"

record PolicyExclusion =
  pe_deployment :: jsstring
  pe_vendor :: ModelVendor
  pe_kind :: PolicyExclusionKind
  pe_reason :: jsstring

record RoutingDecision =
  rd_complexityScore :: rat
  rd_costCeilingUsd :: rat
  rd_outcome :: RoutingOutcome
  rd_selectedTier :: "ModelTier option"
  rd_selectedDeployment :: "jsstring option"
  rd_candidateTiers :: "TierCandidate list"
  rd_rationale :: jsstring
  rd_policySetId :: "jsstring option"
  rd_policySetVersion :: "rat option"
  rd_dataClassification :: "DataClassification option"
  rd_selectedVendor :: "ModelVendor option"
  rd_policyExclusions :: "(PolicyExclusion list) option"

record PolicySet =
  ps_id :: jsstring
  ps_businessUnit :: jsstring
  ps_displayName :: "jsstring option"
  ps_approvedVendors :: "ModelVendor list"
  ps_maxClassification :: "(ModelVendor \<times> DataClassification) list"
  ps_allowedRegions :: "(jsstring list) option"
  ps_maxCostPerRequestUsd :: "rat option"
  ps_permitsRestrictedData :: "bool option"
  ps_version :: "rat option"
  ps_updatedBy :: "jsstring option"
  ps_updatedAt :: "jsstring option"

record PolicySetFieldChange =
  pfc_field :: jsstring
  pfc_from :: jsstring
  pfc_to :: jsstring

record EvidenceSource =
  es_documentId :: jsstring
  es_chunkId :: jsstring
  es_excerpt :: jsstring
  es_score :: rat

record RoutingDecisionSummary =
  rs_outcome :: jsstring
  rs_complexityScore :: rat
  rs_costCeilingUsd :: rat
  rs_selectedTier :: "jsstring option"
  rs_selectedDeployment :: "jsstring option"
  rs_selectedVendor :: "jsstring option"
  rs_policySetId :: "jsstring option"
  rs_policySetVersion :: "rat option"
  rs_rationale :: jsstring

record ProposedAction =
  pa_kind :: jsstring
  pa_summary :: jsstring
  pa_fields :: "((jsstring \<times> jsstring) list) option"

record EvidencePacket =
  ep_correlationId :: jsstring
  ep_lane :: Lane
  ep_inputs :: "((jsstring \<times> jsstring) list) option"
  ep_retrievedSources :: "(EvidenceSource list) option"
  ep_routingDecision :: RoutingDecisionSummary
  ep_proposedAction :: ProposedAction
  ep_unattributableClaims :: "(jsstring list) option"

record ApprovalResponse =
  ap_id :: jsstring
  ap_correlationId :: jsstring
  ap_lane :: Lane
  ap_state :: ApprovalState
  ap_evidencePacketHash :: jsstring
  ap_proposedByObjectId :: jsstring
  ap_decidedByObjectId :: "jsstring option"
  ap_decisionReason :: "jsstring option"
  ap_expiresAt :: jsstring
  ap_createdAt :: jsstring
  ap_decidedAt :: "jsstring option"
  ap_evidencePacket :: "EvidencePacket option"
  ap_proposedAction :: ProposedAction
  ap_evidenceIntegrityVerified :: "bool option"

record ApprovalRefusal =
  afl_kind :: ApprovalRefusalKind
  afl_reason :: jsstring
  afl_correlationId :: jsstring
  afl_approvalId :: "jsstring option"
  afl_currentState :: "ApprovalState option"
  afl_statusCode :: rat

record CostBreakdown =
  cb_participationRate :: rat
  cb_spreadCostBps :: rat
  cb_impactBps :: rat
  cb_feeBps :: rat
  cb_projectedPrice :: rat
  cb_projectedCostUsd :: rat
  cb_totalCostBps :: rat

record VenueQuote =
  vq_venueCode :: jsstring
  vq_type :: VenueType
  vq_midPrice :: rat
  vq_spread :: rat
  vq_displayedLiquidity :: rat
  vq_feeBps :: "rat option"
  vq_isDark :: bool

record PolicyBreach =
  pb_boundary :: PolicyBoundary
  pb_venueCode :: "jsstring option"
  pb_permitted :: jsstring
  pb_observed :: jsstring
  pb_explanation :: jsstring

record VenueEvaluation =
  ve_quote :: VenueQuote
  ve_cost :: CostBreakdown
  ve_breaches :: "PolicyBreach list"
  ve_isEligible :: bool
  ve_liquidityRationale :: jsstring

record RouteProposal =
  rp_proposalId :: jsstring
  rp_correlationId :: jsstring
  rp_orderId :: jsstring
  rp_quantity :: rat
  rp_venueCode :: jsstring
  rp_cost :: CostBreakdown
  rp_liquidityRationale :: jsstring
  rp_bestExecutionJustification :: jsstring
  rp_proposedBy :: jsstring
  rp_considered :: "VenueEvaluation list"

record SimulatedExecution =
  se_executionId :: jsstring
  se_proposalId :: jsstring
  se_orderId :: jsstring
  se_correlationId :: jsstring
  se_venueCode :: jsstring
  se_quantity :: rat
  se_price :: rat
  se_executedAt :: jsstring
  se_approvalId :: jsstring
  se_executionMode :: jsstring

end
