(* ===== verification/ApiClient.thy ===== *)
theory ApiClient
  imports JsValue WebTypes
begin

text \<open>
  The HTTP client of the web UI (\<open>src/src/webui/src/api/client.ts\<close>).  \<open>fetch\<close> and
  \<open>getAccessToken\<close> are the environment: fields of the options that answer a request.  A call
  yields the requests it sent, in order, and the parsed body or the exception it throws.  The
  casts \<open>as TOk\<close> check nothing, so a body is the run-time value that arrived.
\<close>

record request =
  rq_method :: jsstring
  rq_url :: jsstring
  rq_headers :: "(jsstring \<times> jsstring) list"
  rq_body :: "jsval option"

record response =
  rsp_status :: int
  rsp_statusText :: jsstring
  rsp_correlation :: "jsstring option"
  rsp_json :: "js_exn + jsval"

record ApiClientOptions =
  opt_baseUrl :: jsstring
  opt_getAccessToken :: "js_exn + jsstring option"
  opt_fetch :: "request \<Rightarrow> js_exn + response"

type_synonym outcome = "request list \<times> (js_exn + jsval)"

definition rsp_ok :: "response \<Rightarrow> bool" where
  "rsp_ok r \<longleftrightarrow> 200 \<le> rsp_status r \<and> rsp_status r \<le> 299"

section \<open>Sending\<close>

text \<open>\<open>payload.detail ?? payload.title ?? detail\<close> inside the \<open>try\<close>: any throw keeps the status text.\<close>

definition error_detail :: "response \<Rightarrow> jsstring" where
  "error_detail r =
     (case bindE (rsp_json r) (\<lambda>payload. bindE (get_prop payload ''detail'') (\<lambda>d.
           if \<not> nullish d then Inr d
           else bindE (get_prop payload ''title'') (\<lambda>t. Inr (coalesce t (JStr (rsp_statusText r)))))) of
        Inl _ \<Rightarrow> rsp_statusText r
      | Inr v \<Rightarrow> val_text v)"

definition read_response :: "int list \<Rightarrow> response \<Rightarrow> js_exn + jsval" where
  "read_response refusalStatuses r =
     (if \<not> rsp_ok r \<and> rsp_status r \<notin> set refusalStatuses
      then Inl (ApiError (rsp_status r) (error_detail r) (rsp_correlation r))
      else rsp_json r)"

definition build_request ::
  "ApiClientOptions \<Rightarrow> jsstring option \<Rightarrow> string \<Rightarrow> jsstring \<Rightarrow> jsval option \<Rightarrow> request" where
  "build_request opts token meth path body =
     \<lparr>rq_method = u meth, rq_url = opt_baseUrl opts @ path,
      rq_headers = [(u ''content-type'', u ''application/json'')]
        @ (case token of None \<Rightarrow> []
           | Some t \<Rightarrow> if t = [] then [] else [(u ''authorization'', u ''Bearer '' @ t)]),
      rq_body = body\<rparr>"

definition sendAllowing ::
  "ApiClientOptions \<Rightarrow> string \<Rightarrow> jsstring \<Rightarrow> jsval option \<Rightarrow> int list \<Rightarrow> outcome" where
  "sendAllowing opts meth path body refusalStatuses =
     (case opt_getAccessToken opts of
        Inl e \<Rightarrow> ([], Inl e)
      | Inr token \<Rightarrow>
          (let rq = build_request opts token meth path body in
           ([rq], bindE (opt_fetch opts rq) (read_response refusalStatuses))))"

definition send :: "ApiClientOptions \<Rightarrow> string \<Rightarrow> jsstring \<Rightarrow> jsval option \<Rightarrow> outcome" where
  "send opts meth path body = sendAllowing opts meth path body []"

section \<open>Path encoding\<close>

text \<open>
  \<open>encodeURIComponent\<close>: unreserved characters stand for themselves, every other code point is its
  UTF-8 bytes as \<open>%XX\<close>, a lone surrogate throws \<open>URIError\<close>.
\<close>

definition unreserved :: "jschar \<Rightarrow> bool" where
  "unreserved c \<longleftrightarrow> (65 \<le> c \<and> c \<le> 90) \<or> (97 \<le> c \<and> c \<le> 122) \<or> (48 \<le> c \<and> c \<le> 57)
     \<or> c \<in> set (u ''-_.!~*()'') \<or> c = 39"

definition hex_digit :: "int \<Rightarrow> jschar" where
  "hex_digit n = of_int (if n < 10 then 48 + n else 55 + n)"

definition percent :: "int \<Rightarrow> jsstring" where
  "percent b = [37, hex_digit (b div 16), hex_digit (b mod 16)]"

definition utf8 :: "int \<Rightarrow> int list" where
  "utf8 p =
     (if p < 0x80 then [p]
      else if p < 0x800 then [0xC0 + p div 64, 0x80 + p mod 64]
      else if p < 0x10000 then [0xE0 + p div 4096, 0x80 + p div 64 mod 64, 0x80 + p mod 64]
      else [0xF0 + p div 262144, 0x80 + p div 4096 mod 64, 0x80 + p div 64 mod 64, 0x80 + p mod 64])"

definition percent_utf8 :: "int \<Rightarrow> jsstring" where
  "percent_utf8 p = concat (map percent (utf8 p))"

fun encodeURIComponent :: "jsstring \<Rightarrow> js_exn + jsstring" where
  "encodeURIComponent [] = Inr []"
| "encodeURIComponent (c # s) =
     (if unreserved c then bindE (encodeURIComponent s) (\<lambda>r. Inr (c # r))
      else if low_surrogate c then Inl (JsError (u ''URI malformed''))
      else if high_surrogate c then
        (case s of
           [] \<Rightarrow> Inl (JsError (u ''URI malformed''))
         | d # s' \<Rightarrow>
             if low_surrogate d then
               bindE (encodeURIComponent s') (\<lambda>r.
                 Inr (percent_utf8 (0x10000 + (uint c - 0xD800) * 1024 + (uint d - 0xDC00)) @ r))
             else Inl (JsError (u ''URI malformed'')))
      else bindE (encodeURIComponent s) (\<lambda>r. Inr (percent_utf8 (uint c) @ r)))"

section \<open>Requests\<close>

record RouteRequest =
  rr_prompt :: jsstring
  rr_dataClassification :: DataClassification
  rr_costCeilingUsd :: "rat option"
  rr_policySetId :: "jsstring option"
  rr_correlationId :: "jsstring option"

text \<open>\<open>JSON.stringify\<close> leaves out a property whose value is \<open>undefined\<close>.\<close>

definition opt_field :: "string \<Rightarrow> ('a \<Rightarrow> jsval) \<Rightarrow> 'a option \<Rightarrow> (jsstring \<times> jsval) list" where
  "opt_field k f x = (case x of None \<Rightarrow> [] | Some v \<Rightarrow> [(u k, f v)])"

definition RouteRequest_json :: "RouteRequest \<Rightarrow> jsval" where
  "RouteRequest_json r = JObj
     ([(u ''prompt'', JStr (rr_prompt r)),
       (u ''dataClassification'', JStr (DataClassification_text (rr_dataClassification r)))]
      @ opt_field ''costCeilingUsd'' JNum (rr_costCeilingUsd r)
      @ opt_field ''policySetId'' JStr (rr_policySetId r)
      @ opt_field ''correlationId'' JStr (rr_correlationId r))"

datatype Decision = Approved | Rejected

fun Decision_text :: "Decision \<Rightarrow> jsstring" where
  "Decision_text Decision.Approved = u ''Approved''"
| "Decision_text Decision.Rejected = u ''Rejected''"

record ApprovalDecision =
  ad_decision :: Decision
  ad_reason :: "jsstring option"

definition ApprovalDecision_json :: "ApprovalDecision \<Rightarrow> jsval" where
  "ApprovalDecision_json d = JObj
     ((u ''decision'', JStr (Decision_text (ad_decision d))) # opt_field ''reason'' JStr (ad_reason d))"

record VenueQuoteInput =
  vqi_venueCode :: jsstring
  vqi_type :: VenueType
  vqi_midPrice :: rat
  vqi_spread :: rat
  vqi_displayedLiquidity :: rat
  vqi_feeBps :: "rat option"

definition VenueQuoteInput_json :: "VenueQuoteInput \<Rightarrow> jsval" where
  "VenueQuoteInput_json q = JObj
     ([(u ''venueCode'', JStr (vqi_venueCode q)), (u ''type'', JStr (VenueType_text (vqi_type q))),
       (u ''midPrice'', JNum (vqi_midPrice q)), (u ''spread'', JNum (vqi_spread q)),
       (u ''displayedLiquidity'', JNum (vqi_displayedLiquidity q))]
      @ opt_field ''feeBps'' JNum (vqi_feeBps q))"

record RouteProposalRequest =
  rpr_orderId :: jsstring
  rpr_symbol :: jsstring
  rpr_side :: OrderSide
  rpr_quantity :: rat
  rpr_limitPrice :: "rat option"
  rpr_arrivalMidPrice :: rat
  rpr_quotes :: "VenueQuoteInput list"
  rpr_correlationId :: "jsstring option"

definition RouteProposalRequest_json :: "RouteProposalRequest \<Rightarrow> jsval" where
  "RouteProposalRequest_json r = JObj
     ([(u ''orderId'', JStr (rpr_orderId r)), (u ''symbol'', JStr (rpr_symbol r)),
       (u ''side'', JStr (OrderSide_text (rpr_side r))), (u ''quantity'', JNum (rpr_quantity r))]
      @ opt_field ''limitPrice'' JNum (rpr_limitPrice r)
      @ [(u ''arrivalMidPrice'', JNum (rpr_arrivalMidPrice r)),
         (u ''quotes'', JArr (map VenueQuoteInput_json (rpr_quotes r)))]
      @ opt_field ''correlationId'' JStr (rpr_correlationId r))"

text \<open>
  The ids of an execution request are copied from replies that were cast, so they are run-time values;
  \<open>fields\<close> leaves out those that are \<open>undefined\<close>.
\<close>

record ExecutionApproval =
  ea_approvalId :: jsval
  ea_approvedBy :: jsval
  ea_approvedAt :: jsval
  ea_expiresAt :: jsval

record ExecuteRouteRequest =
  er_proposalId :: jsval
  er_correlationId :: jsval
  er_approval :: "ExecutionApproval option"

definition fields :: "(string \<times> jsval) list \<Rightarrow> jsval" where
  "fields kvs = JObj (map (\<lambda>(k, v). (u k, v)) (filter (\<lambda>(k, v). v \<noteq> JUndef) kvs))"

definition ExecutionApproval_json :: "ExecutionApproval \<Rightarrow> jsval" where
  "ExecutionApproval_json a = fields
     [(''approvalId'', ea_approvalId a), (''approvedBy'', ea_approvedBy a),
      (''approvedAt'', ea_approvedAt a), (''expiresAt'', ea_expiresAt a)]"

definition ExecuteRouteRequest_json :: "ExecuteRouteRequest \<Rightarrow> jsval" where
  "ExecuteRouteRequest_json r = fields
     [(''proposalId'', er_proposalId r), (''correlationId'', er_correlationId r),
      (''approval'', case er_approval r of None \<Rightarrow> JUndef | Some a \<Rightarrow> ExecutionApproval_json a)]"

section \<open>Endpoints\<close>

definition route :: "ApiClientOptions \<Rightarrow> RouteRequest \<Rightarrow> outcome" where
  "route opts r = send opts ''POST'' (u ''/v1/route'') (Some (RouteRequest_json r))"

definition listPolicySets :: "ApiClientOptions \<Rightarrow> outcome" where
  "listPolicySets opts = send opts ''GET'' (u ''/v1/policy-sets'') None"

definition listApprovals :: "ApiClientOptions \<Rightarrow> ApprovalState \<Rightarrow> outcome" where
  "listApprovals opts st =
     send opts ''GET'' (u ''/v1/approvals?state='' @ ApprovalState_text st) None"

definition getApproval :: "ApiClientOptions \<Rightarrow> jsstring \<Rightarrow> outcome" where
  "getApproval opts i =
     (case encodeURIComponent i of Inl e \<Rightarrow> ([], Inl e)
      | Inr p \<Rightarrow> send opts ''GET'' (u ''/v1/approvals/'' @ p) None)"

definition decideApproval :: "ApiClientOptions \<Rightarrow> jsstring \<Rightarrow> ApprovalDecision \<Rightarrow> outcome" where
  "decideApproval opts i d =
     (case encodeURIComponent i of Inl e \<Rightarrow> ([], Inl e)
      | Inr p \<Rightarrow> send opts ''POST'' (u ''/v1/approvals/'' @ p @ u ''/decision'')
                  (Some (ApprovalDecision_json d)))"

definition proposeRoute :: "ApiClientOptions \<Rightarrow> RouteProposalRequest \<Rightarrow> outcome" where
  "proposeRoute opts r =
     sendAllowing opts ''POST'' (u ''/v1/route-proposals'') (Some (RouteProposalRequest_json r)) [422]"

definition executeRoute :: "ApiClientOptions \<Rightarrow> ExecuteRouteRequest \<Rightarrow> outcome" where
  "executeRoute opts r =
     sendAllowing opts ''POST'' (u ''/v1/executions'') (Some (ExecuteRouteRequest_json r)) [403, 409]"

section \<open>Reading a reply\<close>

text \<open>\<open>response.decision.outcome === 'RefusedByPolicy'\<close>.\<close>

definition isRefusal :: "jsval \<Rightarrow> js_exn + bool" where
  "isRefusal v = bindE (get_prop v ''decision'') (\<lambda>d. bindE (get_prop d ''outcome'')
     (\<lambda>x. Inr (x = JStr (u ''RefusedByPolicy''))))"

definition isHalt :: "jsval \<Rightarrow> js_exn + bool" where
  "isHalt v = bindE (get_prop v ''status'') (\<lambda>x. Inr (x = JStr (u ''Halted'')))"

definition isExecutionRefusal :: "jsval \<Rightarrow> js_exn + bool" where
  "isExecutionRefusal v = bindE (get_prop v ''executed'') (\<lambda>x. Inr (x = JBool False))"

section \<open>Lemmas\<close>

lemma sixteen: "0 \<le> (n::int) \<Longrightarrow> n < 16 \<Longrightarrow> n \<in> {0, 1, 2, 3, 4, 5, 6, 7, 8, 9, 10, 11, 12, 13, 14, 15}"
  unfolding insert_iff empty_iff by presburger

lemma unreserved_hex_digit: "0 \<le> n \<Longrightarrow> n < 16 \<Longrightarrow> unreserved (hex_digit n)"
  using sixteen [of n] by (auto simp: unreserved_def hex_digit_def)

lemma percent_chars: "0 \<le> b \<Longrightarrow> b < 256 \<Longrightarrow> c \<in> set (percent b) \<Longrightarrow> c = 37 \<or> unreserved c"
  by (auto simp: percent_def intro!: unreserved_hex_digit)

lemma utf8_bytes: "0 \<le> p \<Longrightarrow> p < 0x110000 \<Longrightarrow> b \<in> set (utf8 p) \<Longrightarrow> 0 \<le> b \<and> b < 256"
  by (auto simp: utf8_def split: if_splits)

lemma percent_utf8_chars:
  assumes "0 \<le> p" "p < 0x110000" "c \<in> set (percent_utf8 p)"
  shows "c = 37 \<or> unreserved c"
proof -
  obtain b where b: "b \<in> set (utf8 p)" and c: "c \<in> set (percent b)"
    using assms(3) by (auto simp: percent_utf8_def)
  from utf8_bytes [OF assms(1,2) b] c show ?thesis
    using percent_chars by blast
qed

lemma surrogate_point_bounds:
  assumes "high_surrogate c" and "low_surrogate d"
  shows "0 \<le> 0x10000 + (uint c - 0xD800) * 1024 + (uint d - 0xDC00)"
    and "0x10000 + (uint c - 0xD800) * 1024 + (uint d - 0xDC00) < 0x110000"
  using assms by (auto simp: high_surrogate_def low_surrogate_def word_le_def)

lemma encodeURIComponent_chars:
  "encodeURIComponent s = Inr r \<Longrightarrow> c \<in> set r \<Longrightarrow> c = 37 \<or> unreserved c"
proof (induction s arbitrary: r rule: encodeURIComponent.induct)
  case 1
  then show ?case by simp
next
  case (2 x s)
  have ux: "0 \<le> uint x" "uint x < 0x110000"
    using uint_bounded [of x] by simp_all
  consider (plain) r' where "unreserved x" "encodeURIComponent s = Inr r'" "r = x # r'"
    | (unit) r' where "\<not> unreserved x" "\<not> low_surrogate x" "\<not> high_surrogate x"
        "encodeURIComponent s = Inr r'" "r = percent_utf8 (uint x) @ r'"
    | (pair) d s' r' where "\<not> unreserved x" "\<not> low_surrogate x" "high_surrogate x" "s = d # s'"
        "low_surrogate d" "encodeURIComponent s' = Inr r'"
        "r = percent_utf8 (0x10000 + (uint x - 0xD800) * 1024 + (uint d - 0xDC00)) @ r'"
    using "2.prems"(1) by (auto simp: inr_iff split: if_splits list.splits)
  then show ?case
  proof cases
    case plain
    with "2.prems"(2) "2.IH"(1) show ?thesis by auto
  next
    case unit
    with "2.prems"(2) "2.IH"(3) percent_utf8_chars [OF ux] show ?thesis by auto
  next
    case pair
    let ?p = "0x10000 + (uint x - 0xD800) * 1024 + (uint d - 0xDC00)"
    from pair(7) "2.prems"(2) have "c \<in> set (percent_utf8 ?p) \<or> c \<in> set r'"
      by simp
    moreover have "c = 37 \<or> unreserved c" if "c \<in> set (percent_utf8 ?p)"
      using pair(3,5) that by (intro percent_utf8_chars [OF surrogate_point_bounds])
    moreover have "c = 37 \<or> unreserved c" if "c \<in> set r'"
      using "2.IH"(2) [OF pair(1,2,3,4,5,6) that] .
    ultimately show ?thesis by blast
  qed
qed

lemma unreserved_not_delimiter:
  "unreserved c \<Longrightarrow> c \<notin> {35, 37, 47, 63, 92}"
  by (auto simp: unreserved_def u_def)

lemma encodeURIComponent_no_delimiter:
  "encodeURIComponent s = Inr r \<Longrightarrow> set r \<inter> {35, 47, 63, 92} = {}"
  using encodeURIComponent_chars [of s r] unreserved_not_delimiter by fastforce

lemma encodeURIComponent_plain: "\<forall>c \<in> set s. unreserved c \<Longrightarrow> encodeURIComponent s = Inr s"
  by (induction s) auto

lemma sendAllowing_Inr_iff [inr_iff]:
  "snd (sendAllowing opts m p b rs) = Inr v \<longleftrightarrow>
     (\<exists>tok r. opt_getAccessToken opts = Inr tok \<and> opt_fetch opts (build_request opts tok m p b) = Inr r
        \<and> (rsp_ok r \<or> rsp_status r \<in> set rs) \<and> rsp_json r = Inr v)"
  by (auto simp: sendAllowing_def Let_def inr_iff read_response_def split: sum.splits if_splits)

lemma sendAllowing_requests:
  "fst (sendAllowing opts m p b rs) =
     (case opt_getAccessToken opts of Inl e \<Rightarrow> [] | Inr tok \<Rightarrow> [build_request opts tok m p b])"
  by (simp add: sendAllowing_def Let_def split: sum.splits)

lemma send_requests_single: "length (fst (send opts m p b)) \<le> Suc 0"
  by (simp add: send_def sendAllowing_requests split: sum.splits)

lemma sendAllowing_single: "length (fst (sendAllowing opts m p b rs)) \<le> Suc 0"
  by (simp add: sendAllowing_requests split: sum.splits)

lemmas endpoint_defs =
  route_def listPolicySets_def listApprovals_def getApproval_def decideApproval_def
  proposeRoute_def executeRoute_def

fun body_keys :: "jsval option \<Rightarrow> jsstring set" where
  "body_keys (Some (JObj fs)) = fst ` set fs"
| "body_keys _ = {}"

definition sample_options :: ApiClientOptions where
  "sample_options =
     \<lparr>opt_baseUrl = u ''/api'', opt_getAccessToken = Inr None,
      opt_fetch = (\<lambda>rq. Inr \<lparr>rsp_status = 403, rsp_statusText = u ''Forbidden'', rsp_correlation = None,
         rsp_json = Inr (JObj [(u ''error'', JStr (u ''Forbidden'')),
           (u ''detail'', JStr (u ''The caller does not hold the OrderRouting.Execute app role.''))])\<rparr>)\<rparr>"

section \<open>Properties\<close>

text \<open>Every call of the client sends at most one HTTP request: nothing is ever retried.\<close>

theorem endpoints_send_at_most_once:
  "length (fst (route opts a)) \<le> 1 \<and> length (fst (listPolicySets opts)) \<le> 1
   \<and> length (fst (listApprovals opts st)) \<le> 1 \<and> length (fst (getApproval opts i)) \<le> 1
   \<and> length (fst (decideApproval opts i d)) \<le> 1 \<and> length (fst (proposeRoute opts b)) \<le> 1
   \<and> length (fst (executeRoute opts c)) \<le> 1"
  unfolding endpoint_defs
  by (auto simp: send_requests_single sendAllowing_single split: sum.splits)

text \<open>C18. A call returns a value only when the server answered with a 2xx status or with one of the
  statuses the call reads as a structured refusal (422 for a proposal, 403 and 409 for an
  execution), and then the value is the body of that answer.\<close>

theorem values_only_from_accepted_statuses:
  "(snd (proposeRoute opts b) = Inr v \<longrightarrow>
      (\<exists>rq r. fst (proposeRoute opts b) = [rq] \<and> opt_fetch opts rq = Inr r \<and> rsp_json r = Inr v
         \<and> (rsp_ok r \<or> rsp_status r = 422)))
   \<and> (snd (executeRoute opts c) = Inr v \<longrightarrow>
      (\<exists>rq r. fst (executeRoute opts c) = [rq] \<and> opt_fetch opts rq = Inr r \<and> rsp_json r = Inr v
         \<and> (rsp_ok r \<or> rsp_status r = 403 \<or> rsp_status r = 409)))
   \<and> (snd (decideApproval opts i d) = Inr v \<longrightarrow>
      (\<exists>rq r. fst (decideApproval opts i d) = [rq] \<and> opt_fetch opts rq = Inr r \<and> rsp_json r = Inr v
         \<and> rsp_ok r))"
  unfolding endpoint_defs send_def
  by (auto simp: inr_iff sendAllowing_requests split: sum.splits)

theorem values_only_from_accepted_statuses_witness:
  "\<exists>v. snd (executeRoute sample_options \<lparr>er_proposalId = JUndef, er_correlationId = JUndef, er_approval = None\<rparr>) = Inr v
     \<and> (\<exists>rq r. opt_fetch sample_options rq = Inr r \<and> (rsp_ok r \<or> rsp_status r = 403 \<or> rsp_status r = 409))"
proof -
  let ?c = "\<lparr>er_proposalId = JUndef, er_correlationId = JUndef, er_approval = None\<rparr>"
  obtain v where v: "snd (executeRoute sample_options ?c) = Inr v"
    by (simp add: executeRoute_def sendAllowing_def sample_options_def read_response_def)
  with values_only_from_accepted_statuses [of sample_options undefined v ?c undefined undefined]
  show ?thesis by blast
qed

text \<open>A status that is neither 2xx nor a listed refusal is thrown as an \<open>ApiError\<close> that carries that
  status and the server's correlation id, whatever the body holds.\<close>

theorem unlisted_status_throws:
  assumes "opt_getAccessToken opts = Inr tok"
    and "opt_fetch opts (build_request opts tok m p b) = Inr r"
    and "\<not> (200 \<le> rsp_status r \<and> rsp_status r \<le> 299)" and "rsp_status r \<notin> set rs"
  shows "\<exists>msg. snd (sendAllowing opts m p b rs) = Inl (ApiError (rsp_status r) msg (rsp_correlation r))
    \<and> (\<forall>d. rsp_json r = Inr (JObj [(u ''detail'', JStr d)]) \<longrightarrow> msg = d)
    \<and> (\<forall>e. rsp_json r = Inl e \<longrightarrow> msg = rsp_statusText r)"
  using assms
  by (auto simp: sendAllowing_def read_response_def rsp_ok_def error_detail_def lookup_prop_def nullish_def)

theorem unlisted_status_throws_witness:
  "\<exists>msg. snd (sendAllowing sample_options ''POST'' (u ''/v1/route'') None []) = Inl (ApiError 403 msg None)"
  using unlisted_status_throws
    [of sample_options None "''POST''" "u ''/v1/route''" None
      "\<lparr>rsp_status = 403, rsp_statusText = u ''Forbidden'', rsp_correlation = None,
         rsp_json = Inr (JObj [(u ''error'', JStr (u ''Forbidden'')),
           (u ''detail'', JStr (u ''The caller does not hold the OrderRouting.Execute app role.''))])\<rparr>" "[]"]
  by (auto simp: sample_options_def)





end
