(* ===== verification/JsHtml.thy ===== *)
theory JsHtml
  imports JsPrelude
begin

text \<open>
  Rendered React trees.  An element has a tag, attributes and children; an event attribute
  carries the action of type \<open>'e\<close> that the component's handler performs.  A component is a
  function to a list of trees (a fragment); \<open>cond && node\<close> is \<open>if cond then [node] else []\<close>.
\<close>

datatype 'e attr =
    Attr string jsstring
  | Flag string bool
  | On string 'e
  | OnText string "jsstring \<Rightarrow> 'e"

datatype 'e html =
    El string "'e attr list" "'e html list"
  | Txt jsstring

definition cls :: "string \<Rightarrow> 'e attr" where
  [js_defs]: "cls c = Attr ''className'' (u c)"

section \<open>Reading a tree\<close>

fun html_text :: "'e html \<Rightarrow> jsstring" where
  "html_text (Txt t) = t"
| "html_text (El _ _ cs) = concat (map html_text cs)"

definition frag_text :: "'e html list \<Rightarrow> jsstring" where
  [js_defs]: "frag_text hs = concat (map html_text hs)"

text \<open>All elements with a tag, in document order.\<close>

fun els :: "string \<Rightarrow> 'e html \<Rightarrow> 'e html list" where
  "els t (Txt _) = []"
| "els t (El s as cs) = (if s = t then [El s as cs] else []) @ concat (map (els t) cs)"

definition frag_els :: "string \<Rightarrow> 'e html list \<Rightarrow> 'e html list" where
  [js_defs]: "frag_els t hs = concat (map (els t) hs)"

text \<open>The first value of an attribute, a boolean attribute (absent means false), a click action.\<close>

fun attr_of :: "string \<Rightarrow> 'e attr list \<Rightarrow> jsstring option" where
  "attr_of n [] = None"
| "attr_of n (Attr m v # as) = (if m = n then Some v else attr_of n as)"
| "attr_of n (_ # as) = attr_of n as"

fun flag_of :: "string \<Rightarrow> 'e attr list \<Rightarrow> bool" where
  "flag_of n [] = False"
| "flag_of n (Flag m b # as) = (if m = n then b else flag_of n as)"
| "flag_of n (_ # as) = flag_of n as"

fun action_of :: "string \<Rightarrow> 'e attr list \<Rightarrow> 'e option" where
  "action_of n [] = None"
| "action_of n (On m e # as) = (if m = n then Some e else action_of n as)"
| "action_of n (_ # as) = action_of n as"

text \<open>
  A button as the user meets it: its label, whether it is disabled, and what clicking it does.
  A disabled button has no effect, so \<open>clickable\<close> lists the actions a click can cause.
\<close>

record 'e button =
  bt_label :: jsstring
  bt_disabled :: bool
  bt_action :: "'e option"

fun as_button :: "'e html \<Rightarrow> 'e button" where
  "as_button (El t as cs) =
     \<lparr>bt_label = frag_text cs, bt_disabled = flag_of ''disabled'' as, bt_action = action_of ''onClick'' as\<rparr>"
| "as_button (Txt s) = \<lparr>bt_label = s, bt_disabled = True, bt_action = None\<rparr>"

definition buttons :: "'e html list \<Rightarrow> 'e button list" where
  [js_defs]: "buttons hs = map as_button (frag_els ''button'' hs)"

definition clickable :: "'e html list \<Rightarrow> 'e set" where
  "clickable hs = {e. \<exists>b \<in> set (buttons hs). \<not> bt_disabled b \<and> bt_action b = Some e}"

lemma frag_els_Nil [simp]: "frag_els t [] = []"
  by (simp add: frag_els_def)

lemma frag_els_Cons [simp]: "frag_els t (h # hs) = els t h @ frag_els t hs"
  by (simp add: frag_els_def)

lemma frag_els_append [simp]: "frag_els t (hs @ ks) = frag_els t hs @ frag_els t ks"
  by (simp add: frag_els_def)

lemma frag_els_concat: "frag_els t (concat hss) = concat (map (frag_els t) hss)"
  by (induction hss) auto

lemma els_El [simp]: "els t (El s as cs) = (if s = t then [El s as cs] else []) @ frag_els t cs"
  by (simp add: frag_els_def)

declare els.simps(2) [simp del]

lemma frag_els_map_Txt [simp]: "frag_els t (map (\<lambda>x. Txt (f x)) xs) = []"
  by (induction xs) auto

lemma buttons_Nil [simp]: "buttons [] = []"
  by (simp add: buttons_def)

lemma buttons_append [simp]: "buttons (hs @ ks) = buttons hs @ buttons ks"
  by (simp add: buttons_def)

lemma buttons_Cons: "buttons (h # hs) = buttons [h] @ buttons hs"
  by (simp add: buttons_def)

lemma clickable_append [simp]: "clickable (hs @ ks) = clickable hs \<union> clickable ks"
  by (auto simp: clickable_def)

lemma clickable_Nil [simp]: "clickable [] = {}"
  by (simp add: clickable_def)

end
