(* ===== verification/AsyncState.thy ===== *)
theory AsyncState
  imports JsHtml JsDate
begin

text \<open>
  The six-state union every screen renders (\<open>src/src/webui/src/state/asyncState.ts\<close>) and the
  boundary component that renders it (\<open>AsyncBoundary.tsx\<close>).  The clock the code reads with
  \<open>new Date()\<close> is the argument \<open>now\<close>; \<open>retry\<close> is the action of the retry handler, when there is one.
\<close>

record Freshness =
  fr_asOf :: jsstring
  fr_source :: "jsstring option"

datatype ('a, 'e) AsyncState =
    Loading
  | EmptyResult jsstring
  | Failed jsstring "'e option"
  | Ready 'a Freshness
  | Partial 'a "jsstring list" Freshness
  | Degraded 'a jsstring Freshness

datatype AsyncStatus = SLoading | SEmpty | SError | SReady | SPartial | SDegraded

definition ALL_STATUSES :: "AsyncStatus list" where
  "ALL_STATUSES = [SLoading, SEmpty, SError, SReady, SPartial, SDegraded]"

fun status :: "('a, 'e) AsyncState \<Rightarrow> AsyncStatus" where
  "status Loading = SLoading"
| "status (EmptyResult _) = SEmpty"
| "status (Failed _ _) = SError"
| "status (Ready _ _) = SReady"
| "status (Partial _ _ _) = SPartial"
| "status (Degraded _ _ _) = SDegraded"

fun state_data :: "('a, 'e) AsyncState \<Rightarrow> 'a option" where
  "state_data (Ready d _) = Some d"
| "state_data (Partial d _ _) = Some d"
| "state_data (Degraded d _ _) = Some d"
| "state_data _ = None"

fun state_freshness :: "('a, 'e) AsyncState \<Rightarrow> Freshness option" where
  "state_freshness (Ready _ f) = Some f"
| "state_freshness (Partial _ _ f) = Some f"
| "state_freshness (Degraded _ _ f) = Some f"
| "state_freshness _ = None"

definition hasData :: "('a, 'e) AsyncState \<Rightarrow> bool" where
  "hasData s \<longleftrightarrow> status s = SReady \<or> status s = SPartial \<or> status s = SDegraded"

definition dataOr :: "('a, 'e) AsyncState \<Rightarrow> 'a \<Rightarrow> 'a" where
  "dataOr s fallback = (if hasData s then the (state_data s) else fallback)"

definition needsQualification :: "('a, 'e) AsyncState \<Rightarrow> bool" where
  "needsQualification s \<longleftrightarrow> status s = SPartial \<or> status s = SDegraded"

text \<open>
  The age of the data.  An unreadable timestamp is NaN in every later comparison: the age is
  never below a minute, so the text is \<open>NaNm ago\<close>.
\<close>

definition formatFreshness :: "Freshness \<Rightarrow> int \<Rightarrow> jsstring" where
  "formatFreshness f now =
     (let age = (case date_parse (fr_asOf f) of
            None \<Rightarrow> u ''NaNm ago''
          | Some t \<Rightarrow>
              (let seconds = max 0 ((now - t + 500) div 1000) in
               if seconds < 60 then show_int seconds @ u ''s ago''
               else show_int (seconds div 60) @ u ''m ago''))
      in case fr_source f of
           None \<Rightarrow> age
         | Some src \<Rightarrow> if src = [] then age else age @ u '' '' @ [0xB7] @ u '' '' @ src)"

definition FRESHNESS_BUDGET_SECONDS :: int where
  "FRESHNESS_BUDGET_SECONDS = 5"

definition isStale :: "Freshness \<Rightarrow> int \<Rightarrow> bool" where
  "isStale f now =
     (case date_parse (fr_asOf f) of None \<Rightarrow> False
      | Some t \<Rightarrow> now - t > FRESHNESS_BUDGET_SECONDS * 1000)"

section \<open>The boundary component\<close>

definition Banner :: "string \<Rightarrow> jsstring \<Rightarrow> jsstring option \<Rightarrow> 'e html" where
  "Banner tone title detail =
     El ''div'' [Attr ''className'' (u ''banner banner--'' @ u tone), Attr ''role'' (u ''status'')]
       ([El ''strong'' [] [Txt title]]
        @ (case detail of None \<Rightarrow> [] | Some d \<Rightarrow>
             if d = [] then [] else [El ''span'' [cls ''banner__detail''] [Txt d]]))"

definition FreshnessLine :: "Freshness \<Rightarrow> int \<Rightarrow> 'e html" where
  "FreshnessLine f now =
     (let stale = isStale f now in
      El ''p'' [Attr ''className'' (u ''freshness'' @ (if stale then u '' freshness--stale'' else []))]
        ([Txt (u ''Data as of ''), Txt (formatFreshness f now)]
         @ (if stale then [Txt (u '' '' @ [0x2014] @ u '' outside the 5s freshness budget'')] else [])))"

fun AsyncBoundary ::
  "('a, 'e) AsyncState \<Rightarrow> ('a \<Rightarrow> 'e html list) \<Rightarrow> jsstring \<Rightarrow> int \<Rightarrow> 'e html list" where
  "AsyncBoundary Loading children label now =
     [El ''div'' [cls ''state state--loading'', Attr ''role'' (u ''status''), Attr ''aria-live'' (u ''polite'')]
       [El ''span'' [cls ''state__title''] [Txt (u ''Loading '' @ label @ [0x2026])]]]"
| "AsyncBoundary (EmptyResult msg) children label now =
     [El ''div'' [cls ''state state--empty'']
       [El ''span'' [cls ''state__title''] [Txt (u ''No '' @ label @ u '' yet'')],
        El ''p'' [cls ''state__detail''] [Txt msg]]]"
| "AsyncBoundary (Failed msg retry) children label now =
     [El ''div'' [cls ''state state--error'', Attr ''role'' (u ''alert'')]
       ([El ''span'' [cls ''state__title''] [Txt (u ''Could not load '' @ label)],
         El ''p'' [cls ''state__detail''] [Txt msg]]
        @ (case retry of None \<Rightarrow> []
           | Some e \<Rightarrow> [El ''button'' [Attr ''type'' (u ''button''), cls ''button'', On ''onClick'' e]
                         [Txt (u ''Retry'')]]))]"
| "AsyncBoundary (Partial d missing f) children label now =
     [Banner ''warning'' (u ''Showing '' @ label @ u '' with '' @ show_int (int (length missing))
        @ u '' item(s) missing'') (Some (join (u '', '') missing)),
      FreshnessLine f now] @ children d"
| "AsyncBoundary (Degraded d reason f) children label now =
     [Banner ''warning'' (u ''Degraded data source'') (Some reason), FreshnessLine f now] @ children d"
| "AsyncBoundary (Ready d f) children label now = [FreshnessLine f now] @ children d"

section \<open>Lemmas\<close>

lemma hasData_iff_data: "hasData s \<longleftrightarrow> (\<exists>d. state_data s = Some d)"
  by (cases s) (auto simp: hasData_def)

lemma status_exhaustive: "status s \<in> set ALL_STATUSES"
  by (cases s) (auto simp: ALL_STATUSES_def)

lemma isStale_iff_age:
  "date_parse (fr_asOf f) = Some t \<Longrightarrow> isStale f now \<longleftrightarrow> now - t > 5000"
  by (simp add: isStale_def FRESHNESS_BUDGET_SECONDS_def)

lemma Banner_no_buttons [simp]: "els ''button'' (Banner tone t d) = []"
  by (auto simp: Banner_def split: option.splits)

lemma FreshnessLine_no_buttons [simp]: "els ''button'' (FreshnessLine f now) = []"
  by (auto simp: FreshnessLine_def Let_def)

lemma els_status_banner:
  "frag_els ''strong'' (AsyncBoundary s (\<lambda>_. []) label now) \<noteq> [] \<longleftrightarrow> needsQualification s"
  by (cases s) (auto simp: needsQualification_def Banner_def FreshnessLine_def Let_def split: option.splits)

lemma AsyncBoundary_with_data:
  "state_data s = Some d \<Longrightarrow>
   AsyncBoundary s children label now = AsyncBoundary s (\<lambda>_. []) label now @ children d"
  by (cases s) auto

lemma AsyncBoundary_without_data:
  "state_data s = None \<Longrightarrow> AsyncBoundary s children label now = AsyncBoundary s children' label now"
  by (cases s) auto

lemma AsyncBoundary_buttons:
  "buttons (AsyncBoundary s (\<lambda>_. []) label now) =
     (case s of Failed _ (Some e) \<Rightarrow>
        [\<lparr>bt_label = u ''Retry'', bt_disabled = False, bt_action = Some e\<rparr>] | _ \<Rightarrow> [])"
  by (cases s) (auto simp: buttons_def frag_text_def cls_def split: option.splits)

lemma AsyncBoundary_clickable:
  "clickable (AsyncBoundary s children label now) =
     (case state_data s of Some d \<Rightarrow> clickable (children d) | None \<Rightarrow> {})
     \<union> (case s of Failed _ (Some e) \<Rightarrow> {e} | _ \<Rightarrow> {})"
proof -
  have base: "clickable (AsyncBoundary s (\<lambda>_. []) label now) = (case s of Failed _ (Some e) \<Rightarrow> {e} | _ \<Rightarrow> {})"
    unfolding clickable_def AsyncBoundary_buttons by (auto split: AsyncState.splits option.splits)
  show ?thesis
  proof (cases "state_data s")
    case None
    with base AsyncBoundary_without_data [OF None, of children label now "\<lambda>_. []"] show ?thesis
      by simp
  next
    case (Some d)
    with base AsyncBoundary_with_data [OF Some, of children label now] show ?thesis
      by (simp add: Un_commute)
  qed
qed

lemma fresh_age_text:
  assumes "date_parse (fr_asOf f) = Some t" and "\<not> isStale f now"
  shows "\<exists>k. 0 \<le> k \<and> k \<le> 5 \<and> prefix (show_int k @ u ''s ago'') (formatFreshness f now)"
proof -
  let ?k = "max 0 ((now - t + 500) div 1000)"
  have "?k \<le> 5"
    using assms by (simp add: isStale_iff_age)
  then have "prefix (show_int ?k @ u ''s ago'') (formatFreshness f now)"
    using assms(1) by (auto simp: formatFreshness_def Let_def split: option.splits)
  with \<open>?k \<le> 5\<close> show ?thesis
    by (intro exI [of _ ?k]) auto
qed

section \<open>Properties\<close>

text \<open>C30. The boundary renders the screen's children exactly for the states that carry data, with the
  state's own data, last, and unchanged; a qualifying banner stands above them exactly for partial
  and degraded results; and a state without data shows nothing of the children.\<close>

theorem async_boundary_honest:
  "case state_data s of
     None \<Rightarrow> \<not> hasData s
       \<and> AsyncBoundary s children label now = AsyncBoundary s (\<lambda>_. []) label now
       \<and> frag_els ''strong'' (AsyncBoundary s children label now) = []
   | Some d \<Rightarrow> hasData s \<and> dataOr s fallback = d
       \<and> (\<exists>pre. AsyncBoundary s children label now = pre @ children d \<and> buttons pre = []
              \<and> (frag_els ''strong'' pre \<noteq> [] \<longleftrightarrow> needsQualification s))"
proof (cases "state_data s")
  case None
  then have "AsyncBoundary s children label now = AsyncBoundary s (\<lambda>_. []) label now"
    by (rule AsyncBoundary_without_data)
  moreover have "\<not> needsQualification s"
    using None by (cases s) (auto simp: needsQualification_def)
  ultimately show ?thesis
    using None els_status_banner [of s label now] by (simp add: hasData_iff_data)
next
  case (Some d)
  let ?pre = "AsyncBoundary s (\<lambda>_. []) label now"
  have "buttons ?pre = []"
    unfolding AsyncBoundary_buttons using Some by (cases s) auto
  moreover have "AsyncBoundary s children label now = ?pre @ children d"
    using Some by (rule AsyncBoundary_with_data)
  moreover have "hasData s" and "dataOr s fallback = d"
    using Some by (auto simp: hasData_iff_data dataOr_def)
  ultimately show ?thesis
    unfolding Some option.case using els_status_banner [of s label now] by blast
qed

text \<open>Data shown without the stale mark is at most five seconds old by the text beside it: an age
  of the form \<open>ks ago\<close> with k between 0 and 5.\<close>

theorem unmarked_data_is_fresh:
  assumes "date_parse (fr_asOf f) = Some t" and "\<not> isStale f now"
  shows "\<exists>k. 0 \<le> k \<and> k \<le> 5 \<and> prefix (show_int k @ u ''s ago'') (formatFreshness f now)"
  using assms by (rule fresh_age_text)

theorem unmarked_data_is_fresh_witness:
  "\<exists>k. 0 \<le> k \<and> k \<le> 5 \<and> prefix (show_int k @ u ''s ago'')
     (formatFreshness \<lparr>fr_asOf = u ''1970-01-01T00:00:01Z'', fr_source = None\<rparr> 5200)"
proof (rule unmarked_data_is_fresh)
  show "date_parse (fr_asOf \<lparr>fr_asOf = u ''1970-01-01T00:00:01Z'', fr_source = None\<rparr>) = Some 1000"
    by code_simp
  show "\<not> isStale \<lparr>fr_asOf = u ''1970-01-01T00:00:01Z'', fr_source = None\<rparr> 5200"
    by code_simp
qed

text \<open>An unreadable timestamp is never marked stale, whatever the clock says, and is printed
  as \<open>NaNm ago\<close>.\<close>

theorem unreadable_timestamp_never_stale:
  assumes "date_parse (fr_asOf f) = None"
  shows "\<not> isStale f now \<and> prefix (u ''NaNm ago'') (formatFreshness f now)"
  using assms by (auto simp: isStale_def formatFreshness_def Let_def split: option.splits)

theorem unreadable_timestamp_never_stale_witness:
  "\<not> isStale \<lparr>fr_asOf = u ''soon'', fr_source = None\<rparr> 99999999
   \<and> prefix (u ''NaNm ago'') (formatFreshness \<lparr>fr_asOf = u ''soon'', fr_source = None\<rparr> 99999999)"
  by (rule unreadable_timestamp_never_stale) code_simp

end
