(* ===== verification/UseApprovals.thy ===== *)
theory UseApprovals
  imports ApiClient AsyncState
begin

text \<open>
  The approval hooks (\<open>src/src/webui/src/features/approvals/useApprovals.ts\<close>).  TanStack Query is
  outside the repository: what it reports of a query is the record \<open>query\<close>, what it is asked to do
  is the record of options.
\<close>

record 'a query =
  q_isPending :: bool
  q_isError :: bool
  q_error :: js_exn
  q_data :: "'a option"
  q_dataUpdatedAt :: int

section \<open>Mapping a query onto the six states\<close>

definition error_message :: "js_exn \<Rightarrow> jsstring" where
  "error_message e =
     (case e of
        ApiError st msg cid \<Rightarrow>
          msg @ u '' (HTTP '' @ show_int st
          @ (case cid of None \<Rightarrow> [] | Some c \<Rightarrow> if c = [] then [] else u '', correlation '' @ c)
          @ u '')''
      | JsError msg \<Rightarrow> msg
      | NotAnError \<Rightarrow> u ''The request failed and returned no detail.'')"

definition toAsyncState ::
  "'a query \<Rightarrow> ('a \<Rightarrow> bool) \<Rightarrow> jsstring \<Rightarrow> 'e \<Rightarrow> ('a, 'e) AsyncState" where
  "toAsyncState q isEmpty emptyMessage retry =
     (if q_isPending q then Loading
      else if q_isError q then Failed (error_message (q_error q)) (Some retry)
      else (let d = the (q_data q) in
        if isEmpty d then EmptyResult emptyMessage
        else Ready d \<lparr>fr_asOf = toISOString (q_dataUpdatedAt q), fr_source = Some (u ''approvals-service'')\<rparr>))"

text \<open>What the hooks ask of TanStack Query: the key, the polling interval, refetch on focus.\<close>

record query_options =
  qo_key :: "jsstring list"
  qo_refetchInterval :: "int option"
  qo_refetchOnWindowFocus :: bool

definition pending_options :: query_options where
  "pending_options =
     \<lparr>qo_key = [u ''approvals'', u ''PendingApproval''], qo_refetchInterval = Some 5000,
      qo_refetchOnWindowFocus = False\<rparr>"

definition usePendingApprovals ::
  "ApprovalResponse list query \<Rightarrow> 'e \<Rightarrow> (ApprovalResponse list, 'e) AsyncState" where
  "usePendingApprovals q refetch =
     toAsyncState q (\<lambda>as. length as = 0)
       (u ''No proposals are awaiting a decision. A lane creates one when it proposes a consequential action.'')
       refetch"

definition approval_options :: "jsstring \<Rightarrow> query_options" where
  "approval_options i =
     \<lparr>qo_key = [u ''approvals'', i], qo_refetchInterval = None, qo_refetchOnWindowFocus = False\<rparr>"

definition useApproval :: "ApprovalResponse query \<Rightarrow> 'e \<Rightarrow> (ApprovalResponse, 'e) AsyncState" where
  "useApproval q refetch = toAsyncState q (\<lambda>_. False) [] refetch"

text \<open>The prefix of the query keys a stored decision invalidates.\<close>

definition decide_invalidates :: "jsstring list" where
  "decide_invalidates = [u ''approvals'']"

definition describeDecisionFailure :: "js_exn option \<Rightarrow> jsstring option" where
  "describeDecisionFailure err =
     (case err of
        None \<Rightarrow> None
      | Some NotAnError \<Rightarrow> Some (u ''The decision could not be recorded.'')
      | Some (JsError msg) \<Rightarrow> Some msg
      | Some (ApiError st msg cid) \<Rightarrow>
          Some (if st = 409 then msg @ u '' The service refused the decision; nothing was recorded.''
            else if st = 410 then msg @ u '' The proposal expired before a decision reached the service, so it will never execute.''
            else if st = 403 then u ''Your token does not carry the Approver app role, so the service refused the decision.''
            else msg @ u '' (HTTP '' @ show_int st @ u '')''))"

section \<open>Lemmas\<close>

text \<open>
  What TanStack Query documents of a settled query: one that is neither pending nor in error has data.
\<close>

definition query_ok :: "'a query \<Rightarrow> bool" where
  "query_ok q \<longleftrightarrow> (\<not> q_isPending q \<and> \<not> q_isError q \<longrightarrow> q_data q \<noteq> None)"

lemma toAsyncState_cases:
  assumes "query_ok q"
  obtains (loading) "q_isPending q" "toAsyncState q em msg r = Loading"
  | (failed) "\<not> q_isPending q" "q_isError q"
      "toAsyncState q em msg r = Failed (error_message (q_error q)) (Some r)"
  | (empty) d where "\<not> q_isPending q" "\<not> q_isError q" "q_data q = Some d" "em d"
      "toAsyncState q em msg r = EmptyResult msg"
  | (ready) d where "\<not> q_isPending q" "\<not> q_isError q" "q_data q = Some d" "\<not> em d"
      "toAsyncState q em msg r =
         Ready d \<lparr>fr_asOf = toISOString (q_dataUpdatedAt q), fr_source = Some (u ''approvals-service'')\<rparr>"
  using assms by (cases "q_data q") (auto simp: query_ok_def toAsyncState_def Let_def split: if_splits)

lemma usePendingApprovals_cases:
  assumes "query_ok q"
  obtains (loading) "q_isPending q" "usePendingApprovals q r = Loading"
  | (failed) "\<not> q_isPending q" "q_isError q" "usePendingApprovals q r = Failed (error_message (q_error q)) (Some r)"
  | (empty) msg where "\<not> q_isPending q" "\<not> q_isError q" "q_data q = Some []" "usePendingApprovals q r = EmptyResult msg"
  | (ready) d f where "\<not> q_isPending q" "\<not> q_isError q" "q_data q = Some d" "d \<noteq> []" "usePendingApprovals q r = Ready d f"
  using assms by (cases "q_data q") (auto simp: query_ok_def usePendingApprovals_def toAsyncState_def Let_def split: if_splits)

lemma toAsyncState_data:
  assumes "query_ok q"
  shows "state_data (toAsyncState q em msg r) =
    (if q_isPending q \<or> q_isError q \<or> em (the (q_data q)) then None else q_data q)"
  using assms by (cases rule: toAsyncState_cases [of q em msg r]) auto

lemma toAsyncState_stale:
  assumes "state_freshness (toAsyncState q em msg r) = Some f"
    and "- 62167219200000 \<le> q_dataUpdatedAt q" and "q_dataUpdatedAt q < 253402300800000"
  shows "isStale f now \<longleftrightarrow> now - q_dataUpdatedAt q > 5000"
proof -
  have "fr_asOf f = toISOString (q_dataUpdatedAt q)"
    using assms(1) by (auto simp: toAsyncState_def Let_def split: if_splits)
  then have "date_parse (fr_asOf f) = Some (q_dataUpdatedAt q)"
    using assms(2,3) by (simp add: date_parse_toISOString)
  then show ?thesis by (rule isStale_iff_age)
qed

lemma describeDecisionFailure_Some: "describeDecisionFailure (Some e) \<noteq> None"
  by (cases e) (auto simp: describeDecisionFailure_def)

section \<open>Properties\<close>

text \<open>Loaded-but-empty, loaded, failed and loading never render alike: the queue hook shows rows
  exactly when the query settled with at least one, its empty message exactly when it settled with
  none, and a retry exactly when it failed.\<close>

theorem pending_approvals_states:
  assumes "query_ok q"
  shows "state_data (usePendingApprovals q r) =
      (if q_isPending q \<or> q_isError q \<or> q_data q = Some [] then None else q_data q)
    \<and> (status (usePendingApprovals q r) = SEmpty \<longleftrightarrow> \<not> q_isPending q \<and> \<not> q_isError q \<and> q_data q = Some [])
    \<and> (status (usePendingApprovals q r) = SError \<longleftrightarrow> \<not> q_isPending q \<and> q_isError q)
    \<and> clickable (AsyncBoundary (usePendingApprovals q r) (\<lambda>_. []) label now) =
        (if \<not> q_isPending q \<and> q_isError q then {r} else {})"
  using assms unfolding AsyncBoundary_clickable
  by (cases rule: usePendingApprovals_cases [of q r]) auto

definition sample_query :: "ApprovalResponse list query" where
  "sample_query = \<lparr>q_isPending = False, q_isError = True, q_error = ApiError 503 (u ''down'') None,
     q_data = None, q_dataUpdatedAt = 0\<rparr>"

theorem pending_approvals_states_witness:
  "clickable (AsyncBoundary (usePendingApprovals sample_query True) (\<lambda>_. []) (u ''x'') 0) = {True}
   \<and> state_data (usePendingApprovals sample_query True) = None"
proof -
  have "query_ok sample_query" by (simp add: query_ok_def sample_query_def)
  from pending_approvals_states [OF this, of True "u ''x''" 0] show ?thesis
    by (simp add: sample_query_def)
qed

text \<open>The freshness shown for a loaded query is that of its last update: it is marked stale exactly
  when more than five seconds have passed since, for every update time a date can print.\<close>

theorem query_freshness_is_update_time:
  assumes "state_freshness (toAsyncState q em msg r) = Some f"
    and "- 62167219200000 \<le> q_dataUpdatedAt q" and "q_dataUpdatedAt q < 253402300800000"
  shows "(isStale f now \<longleftrightarrow> now - q_dataUpdatedAt q > 5000) \<and> date_parse (fr_asOf f) = Some (q_dataUpdatedAt q)"
proof -
  have "fr_asOf f = toISOString (q_dataUpdatedAt q)"
    using assms(1) by (auto simp: toAsyncState_def Let_def split: if_splits)
  with assms toAsyncState_stale [OF assms] show ?thesis
    by (simp add: date_parse_toISOString)
qed

theorem query_freshness_is_update_time_witness:
  "\<exists>f. state_freshness (toAsyncState \<lparr>q_isPending = False, q_isError = False, q_error = NotAnError,
      q_data = Some (1::nat), q_dataUpdatedAt = 1000\<rparr> (\<lambda>_. False) [] ()) = Some f \<and> isStale f 7000"
proof -
  let ?q = "\<lparr>q_isPending = False, q_isError = False, q_error = NotAnError,
      q_data = Some (1::nat), q_dataUpdatedAt = 1000\<rparr>"
  obtain f where f: "state_freshness (toAsyncState ?q (\<lambda>_. False) [] ()) = Some f"
    by (simp add: toAsyncState_def)
  from query_freshness_is_update_time [OF this] have "isStale f 7000" by simp
  with f show ?thesis by blast
qed

end
