(* ===== verification/Navigation.thy ===== *)
theory Navigation
  imports WebTypes
begin

text \<open>
  The screen inventory and the role checks of the shell
  (\<open>src/src/webui/src/shell/navigation.ts\<close>): which screens a set of app roles may open, and the
  stated reason an action is unavailable.
\<close>

datatype AppRole = RouterInvoke | RouterRead | Approver

fun AppRole_text :: "AppRole \<Rightarrow> jsstring" where
  "AppRole_text RouterInvoke = u ''Router.Invoke''"
| "AppRole_text RouterRead = u ''Router.Read''"
| "AppRole_text Approver = u ''Approver''"

record ScreenDefinition =
  sd_path :: jsstring
  sd_title :: jsstring
  sd_requiredRoles :: "AppRole list"
  sd_beat :: "nat option"

definition screen :: "string \<Rightarrow> string \<Rightarrow> AppRole list \<Rightarrow> nat \<Rightarrow> ScreenDefinition" where
  "screen p t rs b =
     \<lparr>sd_path = u p, sd_title = u t, sd_requiredRoles = rs, sd_beat = Some b\<rparr>"

definition SCREENS :: "ScreenDefinition list" where
  "SCREENS =
    [screen ''/request'' ''Request console'' [RouterInvoke] 2,
     screen ''/scoreboard'' ''Scoreboard'' [RouterRead] 3,
     screen ''/comparison'' ''Cost comparison'' [RouterRead] 3,
     screen ''/decisions'' ''Decisions'' [RouterRead] 3,
     screen ''/research'' ''Research'' [RouterInvoke] 7,
     screen ''/surveillance'' ''Surveillance triage'' [RouterRead] 4,
     screen ''/order-routing'' ''Order routing'' [RouterRead] 6,
     screen ''/approvals'' ''Approvals'' [Approver] 6,
     screen ''/policy'' ''Policy sets'' [RouterRead] 5,
     screen ''/audit'' ''Audit reconstruction'' [RouterRead] 8]"

definition visibleScreens :: "AppRole list \<Rightarrow> ScreenDefinition list" where
  "visibleScreens roles =
     filter (\<lambda>s. length (sd_requiredRoles s) = 0
                 \<or> list_ex (\<lambda>r. r \<in> set roles) (sd_requiredRoles s)) SCREENS"

definition canAccess :: "ScreenDefinition \<Rightarrow> AppRole list \<Rightarrow> bool" where
  "canAccess s roles \<longleftrightarrow> length (sd_requiredRoles s) = 0
     \<or> list_ex (\<lambda>r. r \<in> set roles) (sd_requiredRoles s)"

record DisabledAction =
  da_disabled :: bool
  da_reason :: "jsstring option"

definition requireRole :: "AppRole list \<Rightarrow> AppRole \<Rightarrow> jsstring \<Rightarrow> DisabledAction" where
  "requireRole roles required action =
     (if required \<in> set roles then \<lparr>da_disabled = False, da_reason = None\<rparr>
      else \<lparr>da_disabled = True,
            da_reason = Some (action @ u '' requires the '' @ AppRole_text required
              @ u '' role. Your account does not hold it.'')\<rparr>)"

section \<open>Lemmas\<close>

lemma visibleScreens_canAccess: "visibleScreens roles = filter (\<lambda>s. canAccess s roles) SCREENS"
  by (simp add: visibleScreens_def canAccess_def)

lemma canAccess_mono: "canAccess s roles \<Longrightarrow> set roles \<subseteq> set roles' \<Longrightarrow> canAccess s roles'"
  by (auto simp: canAccess_def list_ex_iff)

lemma SCREENS_paths_distinct: "distinct (map sd_path SCREENS)"
  by (simp add: SCREENS_def screen_def)

lemma SCREENS_need_a_role: "s \<in> set SCREENS \<Longrightarrow> sd_requiredRoles s \<noteq> []"
  by (auto simp: SCREENS_def screen_def)

lemma requireRole_disabled_iff: "da_disabled (requireRole roles r a) \<longleftrightarrow> r \<notin> set roles"
  by (simp add: requireRole_def)

text \<open>The navigation never offers a screen the caller may not open, never hides one it may,
  keeps the inventory's order, and adding a role never takes a screen away.\<close>

theorem visible_screens_exact:
  "set (visibleScreens roles) = {s \<in> set SCREENS. canAccess s roles}
   \<and> subseq (visibleScreens roles) SCREENS
   \<and> subseq (visibleScreens roles) (visibleScreens (roles @ extra))"
proof (intro conjI)
  show "set (visibleScreens roles) = {s \<in> set SCREENS. canAccess s roles}"
    by (auto simp: visibleScreens_canAccess)
  show "subseq (visibleScreens roles) SCREENS"
    by (simp add: visibleScreens_canAccess)
  have "filter (\<lambda>s. canAccess s roles) SCREENS =
        filter (\<lambda>s. canAccess s roles) (filter (\<lambda>s. canAccess s (roles @ extra)) SCREENS)"
    by (auto simp: filter_filter intro!: filter_cong intro: canAccess_mono)
  then show "subseq (visibleScreens roles) (visibleScreens (roles @ extra))"
    unfolding visibleScreens_canAccess by (metis subseq_filter_left)
qed

end
