(* ===== verification/ApprovalRules.thy ===== *)
theory ApprovalRules
  imports WebTypes Navigation
begin

text \<open>
  The client-side approval courtesy check and the expiry text
  (\<open>src/src/webui/src/features/approvals/approvalRules.ts\<close>).  \<open>clock\<close> stands for \<open>new Date()\<close>, the
  default of every \<open>now\<close> parameter.
\<close>

datatype ApprovalBlockCode =
  MissingRole | UnknownIdentity | SegregationOfDuties | Expired | AlreadyDecided

fun ApprovalBlockCode_text :: "ApprovalBlockCode \<Rightarrow> jsstring" where
  "ApprovalBlockCode_text ApprovalBlockCode.MissingRole = u ''MissingRole''"
| "ApprovalBlockCode_text ApprovalBlockCode.UnknownIdentity = u ''UnknownIdentity''"
| "ApprovalBlockCode_text ApprovalBlockCode.SegregationOfDuties = u ''SegregationOfDuties''"
| "ApprovalBlockCode_text ApprovalBlockCode.Expired = u ''Expired''"
| "ApprovalBlockCode_text ApprovalBlockCode.AlreadyDecided = u ''AlreadyDecided''"

datatype ApprovalBlock = NotBlocked | Blocked ApprovalBlockCode jsstring

record ApprovalContext =
  ctx_roles :: "AppRole list"
  ctx_currentUserObjectId :: "jsstring option"
  ctx_now :: "int option"

definition context_now :: "ApprovalContext \<Rightarrow> int \<Rightarrow> int" where
  "context_now ctx clock = (case ctx_now ctx of Some t \<Rightarrow> t | None \<Rightarrow> clock)"

text \<open>\<open>new Date(expiresAt).getTime() <= now\<close>: false when the timestamp is unreadable.\<close>

definition has_expired :: "ApprovalResponse \<Rightarrow> int \<Rightarrow> bool" where
  "has_expired ap now = (case date_parse (ap_expiresAt ap) of None \<Rightarrow> False | Some t \<Rightarrow> t \<le> now)"

definition evaluateApproval :: "ApprovalResponse \<Rightarrow> ApprovalContext \<Rightarrow> int \<Rightarrow> ApprovalBlock" where
  "evaluateApproval ap ctx clock =
     (let now = context_now ctx clock in
      if Approver \<notin> set (ctx_roles ctx) then
        Blocked ApprovalBlockCode.MissingRole
          (u ''Approving requires the Approver app role. Your account does not hold it, so this '' @
           u ''proposal can be read but not decided.'')
      else if ctx_currentUserObjectId ctx \<in> {None, Some []} then
        Blocked ApprovalBlockCode.UnknownIdentity
          (u ''Your identity could not be established from the signed-in token, so this proposal '' @
           u ''cannot be checked against its proposer. ApprovalResponse is refused rather than assumed.'')
      else if ap_state ap \<noteq> ApprovalState.PendingApproval then
        Blocked ApprovalBlockCode.AlreadyDecided
          (u ''This proposal is already '' @ toLowerCase (ApprovalState_text (ap_state ap)) @
           u ''. A decision is made once.'')
      else if Some (ap_proposedByObjectId ap) = ctx_currentUserObjectId ctx then
        Blocked ApprovalBlockCode.SegregationOfDuties
          (u ''You proposed this action. The identity that proposes cannot be the identity that '' @
           u ''approves, so this decision has to be made by someone else.'')
      else if has_expired ap now then
        Blocked ApprovalBlockCode.Expired
          (u ''This proposal expired before a decision was recorded. An elapsed window is the absence '' @
           u ''of a decision, not a quiet approval, so it will never execute.'')
      else NotBlocked)"

fun block_code :: "ApprovalBlock \<Rightarrow> ApprovalBlockCode option" where
  "block_code NotBlocked = None"
| "block_code (Blocked c _) = Some c"

fun is_blocked :: "ApprovalBlock \<Rightarrow> bool" where
  "is_blocked NotBlocked = False"
| "is_blocked (Blocked _ _) = True"

definition timeToExpiry :: "ApprovalResponse \<Rightarrow> int \<Rightarrow> time_value" where
  "timeToExpiry ap now = map_option (\<lambda>t. t - now) (date_parse (ap_expiresAt ap))"

definition formatExpiry :: "ApprovalResponse \<Rightarrow> int \<Rightarrow> jsstring" where
  "formatExpiry ap now =
     (case timeToExpiry ap now of
        None \<Rightarrow> u ''Expires in NaNh NaNm''
      | Some ms \<Rightarrow>
          if ms \<le> 0 then u ''Expired''
          else (let minutes = ms div 60000 in
            if minutes < 1 then u ''Expires in '' @ show_int (ms div 1000) @ u ''s''
            else if minutes < 60 then u ''Expires in '' @ show_int minutes @ u ''m''
            else u ''Expires in '' @ show_int (minutes div 60) @ u ''h ''
                 @ show_int (minutes mod 60) @ u ''m''))"

section \<open>Lemmas\<close>

lemma is_blocked_iff_code: "is_blocked b \<longleftrightarrow> block_code b \<noteq> None"
  by (cases b) auto

text \<open>The five checks, in the order in which they are reported.\<close>

definition failing_checks :: "ApprovalResponse \<Rightarrow> ApprovalContext \<Rightarrow> int \<Rightarrow> ApprovalBlockCode list" where
  "failing_checks ap ctx clock =
     (if Approver \<notin> set (ctx_roles ctx) then [ApprovalBlockCode.MissingRole] else [])
   @ (if ctx_currentUserObjectId ctx \<in> {None, Some []} then [ApprovalBlockCode.UnknownIdentity] else [])
   @ (if ap_state ap \<noteq> ApprovalState.PendingApproval then [ApprovalBlockCode.AlreadyDecided] else [])
   @ (if Some (ap_proposedByObjectId ap) = ctx_currentUserObjectId ctx
      then [ApprovalBlockCode.SegregationOfDuties] else [])
   @ (if has_expired ap (context_now ctx clock) then [ApprovalBlockCode.Expired] else [])"

lemma evaluateApproval_code:
  "block_code (evaluateApproval ap ctx clock) =
     (case failing_checks ap ctx clock of [] \<Rightarrow> None | c # _ \<Rightarrow> Some c)"
  by (simp add: evaluateApproval_def failing_checks_def Let_def)

lemma evaluateApproval_NotBlocked_iff:
  "evaluateApproval ap ctx clock = NotBlocked \<longleftrightarrow> failing_checks ap ctx clock = []"
  by (simp add: evaluateApproval_def failing_checks_def Let_def)

lemma formatExpiry_Expired_iff: "formatExpiry ap now = u ''Expired'' \<longleftrightarrow> has_expired ap now"
proof -
  have "u ''Expires in '' @ r \<noteq> u ''Expired''" for r
  proof
    assume "u ''Expires in '' @ r = u ''Expired''"
    then have "length (u ''Expires in '' @ r) = length (u ''Expired'')" by (rule arg_cong)
    then show False by simp
  qed
  moreover have "u ''Expires in NaNh NaNm'' \<noteq> u ''Expired''" by simp
  ultimately show ?thesis
    by (auto simp: formatExpiry_def timeToExpiry_def has_expired_def Let_def split: option.splits)
qed

section \<open>Properties\<close>

text \<open>C5. The courtesy check reports the first of the five refusal conditions that holds (role,
  identity, state, proposer, expiry, in that order) and lets the approval through only when none
  of them holds.\<close>

theorem evaluate_approval_first_failure:
  "block_code (evaluateApproval ap ctx clock) =
     (case failing_checks ap ctx clock of [] \<Rightarrow> None | c # _ \<Rightarrow> Some c)
   \<and> (evaluateApproval ap ctx clock = NotBlocked \<longleftrightarrow>
        Approver \<in> set (ctx_roles ctx)
        \<and> (\<exists>me. ctx_currentUserObjectId ctx = Some me \<and> me \<noteq> [] \<and> ap_proposedByObjectId ap \<noteq> me)
        \<and> ap_state ap = ApprovalState.PendingApproval
        \<and> \<not> has_expired ap (context_now ctx clock))"
  unfolding evaluateApproval_code evaluateApproval_NotBlocked_iff
  by (auto simp: failing_checks_def)

text \<open>Segregation of duties: the identity that proposed is never let through, and a pending
  proposal is refused to its proposer with that reason even when it has also expired.\<close>

theorem proposer_never_unblocked:
  assumes "ctx_currentUserObjectId ctx = Some (ap_proposedByObjectId ap)"
  shows "is_blocked (evaluateApproval ap ctx clock)
    \<and> (Approver \<in> set (ctx_roles ctx) \<and> ap_proposedByObjectId ap \<noteq> []
         \<and> ap_state ap = ApprovalState.PendingApproval
       \<longrightarrow> block_code (evaluateApproval ap ctx clock) = Some ApprovalBlockCode.SegregationOfDuties)"
  using assms by (simp add: evaluateApproval_def Let_def)

definition sample_approval :: ApprovalResponse where
  "sample_approval =
     \<lparr>ap_id = u ''APR-1'', ap_correlationId = u ''c'', ap_lane = Lane.OrderRouting,
      ap_state = ApprovalState.PendingApproval, ap_evidencePacketHash = u ''h'',
      ap_proposedByObjectId = u ''p'', ap_decidedByObjectId = None, ap_decisionReason = None,
      ap_expiresAt = u ''1970-01-01T00:00:01Z'', ap_createdAt = u ''1970-01-01T00:00:00Z'',
      ap_decidedAt = None, ap_evidencePacket = None,
      ap_proposedAction = \<lparr>pa_kind = u ''k'', pa_summary = u ''s'', pa_fields = None\<rparr>,
      ap_evidenceIntegrityVerified = None\<rparr>"

theorem proposer_never_unblocked_witness:
  "block_code (evaluateApproval sample_approval
     \<lparr>ctx_roles = [Approver], ctx_currentUserObjectId = Some (u ''p''), ctx_now = None\<rparr> 5000)
   = Some ApprovalBlockCode.SegregationOfDuties"
  using proposer_never_unblocked
    [of "\<lparr>ctx_roles = [Approver], ctx_currentUserObjectId = Some (u ''p''), ctx_now = None\<rparr>"
      sample_approval 5000]
  by (simp add: sample_approval_def)

text \<open>The expiry text and the expiry refusal agree: for an otherwise eligible approver the row
  reads \<open>Expired\<close> exactly when the decision is refused, and then with the expiry code.\<close>

theorem expiry_text_agrees_with_block:
  assumes "failing_checks (ap\<lparr>ap_expiresAt := e\<rparr>) ctx clock = []" and "context_now ctx clock = now"
  shows "formatExpiry ap now = u ''Expired''
    \<longleftrightarrow> block_code (evaluateApproval ap ctx clock) = Some ApprovalBlockCode.Expired"
  using assms unfolding formatExpiry_Expired_iff evaluateApproval_code
  by (auto simp: failing_checks_def split: if_splits)

theorem expiry_text_agrees_with_block_witness:
  "formatExpiry sample_approval 5000 = u ''Expired''
   \<longleftrightarrow> block_code (evaluateApproval sample_approval
     \<lparr>ctx_roles = [Approver], ctx_currentUserObjectId = Some (u ''q''), ctx_now = None\<rparr> 5000)
       = Some ApprovalBlockCode.Expired"
proof (rule expiry_text_agrees_with_block)
  show "failing_checks (sample_approval\<lparr>ap_expiresAt := u ''1970-01-01T00:00:09Z''\<rparr>)
     \<lparr>ctx_roles = [Approver], ctx_currentUserObjectId = Some (u ''q''), ctx_now = None\<rparr> 5000 = []"
    by code_simp
qed (simp add: context_now_def)

text \<open>A proposal whose expiry timestamp cannot be read is never treated as expired by the
  courtesy check: an approver other than the proposer is let through at every time.\<close>

theorem unreadable_expiry_not_blocked:
  assumes "date_parse (ap_expiresAt ap) = None" and "ap_state ap = ApprovalState.PendingApproval"
    and "Approver \<in> set (ctx_roles ctx)" and "ctx_currentUserObjectId ctx = Some me"
    and "me \<noteq> []" and "me \<noteq> ap_proposedByObjectId ap"
  shows "evaluateApproval ap ctx clock = NotBlocked
    \<and> formatExpiry ap clock = u ''Expires in NaNh NaNm''"
  using assms by (auto simp: evaluateApproval_def has_expired_def formatExpiry_def timeToExpiry_def Let_def)

theorem unreadable_expiry_not_blocked_witness:
  "evaluateApproval (sample_approval\<lparr>ap_expiresAt := u ''soon''\<rparr>)
     \<lparr>ctx_roles = [Approver], ctx_currentUserObjectId = Some (u ''q''), ctx_now = None\<rparr> 5000 = NotBlocked
   \<and> formatExpiry (sample_approval\<lparr>ap_expiresAt := u ''soon''\<rparr>) 5000 = u ''Expires in NaNh NaNm''"
proof (rule unreadable_expiry_not_blocked)
  show "date_parse (ap_expiresAt (sample_approval\<lparr>ap_expiresAt := u ''soon''\<rparr>)) = None"
    by code_simp
  show "ctx_currentUserObjectId
     \<lparr>ctx_roles = [Approver], ctx_currentUserObjectId = Some (u ''q''), ctx_now = None\<rparr> = Some (u ''q'')"
    by simp
qed (simp_all add: sample_approval_def)

end
