(* ===== verification/SingleFlight.thy ===== *)
theory SingleFlight
  imports JsPrelude
begin

text \<open>
  The contract of an asynchronous handler guarded by a flag: the control that starts it is disabled
  while the flag is set, starting it sets the flag and sends one request, and the reply clears it.
  A component's step relation interprets the contract on its own flag and its own requests.
\<close>

locale single_flight =
  fixes init :: "'s \<Rightarrow> bool"
    and step :: "'s \<Rightarrow> 's \<Rightarrow> bool"
    and busy :: "'s \<Rightarrow> bool"
    and inflight :: "'s \<Rightarrow> int"
  assumes init_idle: "init s \<Longrightarrow> \<not> busy s \<and> inflight s = 0"
    and step_cases: "step s s' \<Longrightarrow>
        busy s' = busy s \<and> inflight s' = inflight s
      \<or> \<not> busy s \<and> busy s' \<and> inflight s' = inflight s + 1
      \<or> (busy s \<or> 0 < inflight s) \<and> \<not> busy s' \<and> inflight s' = inflight s - 1"
begin

lemma inflight_iff_busy: "step\<^sup>*\<^sup>* s s' \<Longrightarrow> init s \<Longrightarrow> inflight s' = of_bool (busy s')"
proof (induction rule: rtranclp_induct)
  case base
  then show ?case using init_idle by simp
next
  case (step s' s'')
  from step_cases [OF step.hyps(2)] step.IH step.prems show ?case
    by (cases "busy s'"; cases "busy s''") auto
qed

lemma at_most_one: "step\<^sup>*\<^sup>* s s' \<Longrightarrow> init s \<Longrightarrow> 0 \<le> inflight s' \<and> inflight s' \<le> 1"
  using inflight_iff_busy [of s s'] by (cases "busy s'") simp_all

end

end
