(* ===== verification/ApprovalViews.thy ===== *)
theory ApprovalViews
  imports UseApprovals ApprovalRules JsValue SingleFlight
begin

text \<open>
  The approval screens as functions from their props to a tree: the queue and the decision panel
  (\<open>ApprovalsQueue.tsx\<close>), the detail screen (\<open>ApprovalDetail.tsx\<close>), the evidence packet
  (\<open>components/EvidencePacketView.tsx\<close>), and the state of the detail route with its asynchronous
  decision handler (\<open>routes.tsx\<close>).  The reason text of the panel is its one piece of local state.
\<close>

datatype approval_action =
    Decide Decision jsstring
  | SetReason jsstring
  | Retry

section \<open>The queue\<close>

definition th :: "string \<Rightarrow> 'e html" where
  "th t = El ''th'' [Attr ''scope'' (u ''col'')] [Txt (u t)]"

definition queue_row :: "ApprovalContext \<Rightarrow> int \<Rightarrow> ApprovalResponse \<Rightarrow> 'e html" where
  "queue_row ctx clock ap =
     El ''tr'' [Attr ''key'' (ap_id ap)]
       [El ''td'' [] [Txt (Lane_text (ap_lane ap))],
        El ''td'' [] [Txt (pa_summary (ap_proposedAction ap))],
        El ''td'' [cls ''mono''] [Txt (ap_proposedByObjectId ap)],
        El ''td'' [] [Txt (formatExpiry ap (context_now ctx clock))],
        El ''td'' []
          [case evaluateApproval ap ctx clock of
             Blocked code reason \<Rightarrow>
               El ''span'' [cls ''tag tag--blocked'', Attr ''title'' reason]
                 [Txt (if code = ApprovalBlockCode.SegregationOfDuties then u ''You proposed this''
                       else ApprovalBlockCode_text code)]
           | NotBlocked \<Rightarrow> El ''span'' [cls ''tag tag--eligible''] [Txt (u ''Can decide'')]],
        El ''td'' []
          [El ''a'' [cls ''link'', Attr ''to'' (u ''/approvals/'' @ ap_id ap)] [Txt (u ''Open evidence'')]]]"

definition QueueTable :: "ApprovalResponse list \<Rightarrow> ApprovalContext \<Rightarrow> int \<Rightarrow> 'e html list" where
  "QueueTable approvals ctx clock =
     [El ''table'' [cls ''table'']
       [El ''caption'' [cls ''table__caption'']
          [Txt (show_int (int (length approvals))), Txt (u '' proposal''),
           Txt (if length approvals = 1 then [] else u ''s''), Txt (u '' awaiting a decision'')],
        El ''thead'' []
          [El ''tr'' []
            [th ''Lane'', th ''Proposed action'', th ''Proposed by'', th ''Expires'', th ''Your standing'',
             El ''th'' [Attr ''scope'' (u ''col'')]
               [El ''span'' [cls ''visually-hidden''] [Txt (u ''Open'')]]]],
        El ''tbody'' [] (map (queue_row ctx clock) approvals)]]"

definition ApprovalsQueue ::
  "(ApprovalResponse list, 'e) AsyncState \<Rightarrow> ApprovalContext \<Rightarrow> int \<Rightarrow> 'e html list" where
  "ApprovalsQueue state ctx clock =
     [El ''section'' [cls ''screen'']
       ([El ''header'' [cls ''screen__header'']
          [El ''h2'' [cls ''screen__title''] [Txt (u ''Approvals'')],
           El ''p'' [cls ''screen__subtitle'']
             [Txt (u ''Nothing consequential executes without a decision recorded here.'')]]]
        @ AsyncBoundary state (\<lambda>approvals. QueueTable approvals ctx clock) (u ''pending approvals'') clock)]"

text \<open>\<open>ApprovalsQueueRoute\<close> (\<open>routes.tsx\<close>): the hook and the queue, with what the query reports and its \<open>refetch\<close>.\<close>

definition queue_view :: "AppRole list \<Rightarrow> jsstring option \<Rightarrow> ApprovalResponse list query \<Rightarrow> 'e \<Rightarrow> int \<Rightarrow> 'e html list" where
  "queue_view roles currentUserObjectId q refetch clock =
     ApprovalsQueue (usePendingApprovals q refetch)
       \<lparr>ctx_roles = roles, ctx_currentUserObjectId = currentUserObjectId, ctx_now = None\<rparr> clock"

section \<open>The decision panel\<close>

fun blockTitle :: "ApprovalBlockCode \<Rightarrow> jsstring" where
  "blockTitle ApprovalBlockCode.SegregationOfDuties = u ''You cannot approve your own proposal''"
| "blockTitle ApprovalBlockCode.MissingRole = u ''You do not hold the Approver role''"
| "blockTitle ApprovalBlockCode.Expired = u ''This proposal has expired''"
| "blockTitle ApprovalBlockCode.AlreadyDecided = u ''A decision has already been recorded''"
| "blockTitle ApprovalBlockCode.UnknownIdentity = u ''Your identity could not be established''"

definition DecisionPanel ::
  "ApprovalResponse \<Rightarrow> ApprovalContext \<Rightarrow> jsstring option \<Rightarrow> bool \<Rightarrow> jsstring \<Rightarrow> int
   \<Rightarrow> approval_action html list" where
  "DecisionPanel ap ctx serverRefusal submitting reason clock =
     (let block = evaluateApproval ap ctx clock; blocked = is_blocked block;
          rejectionNeedsReason = (length (trim reason) = 0) in
      [El ''section'' [cls ''decision'']
        ([El ''h3'' [cls ''decision__heading''] [Txt (u ''Decision'')]]
         @ (case block of NotBlocked \<Rightarrow> []
            | Blocked code why \<Rightarrow>
                [Banner (if code = ApprovalBlockCode.SegregationOfDuties then ''danger'' else ''warning'')
                   (blockTitle code) (Some why)])
         @ (case serverRefusal of None \<Rightarrow> []
            | Some r \<Rightarrow> if r = [] then []
                else [Banner ''danger'' (u ''The service refused this decision'') (Some r)])
         @ [El ''label'' [cls ''field'']
              [El ''span'' [cls ''field__label'']
                 [Txt (u ''Reason ''), El ''span'' [cls ''field__hint''] [Txt (u ''(required to reject)'')]],
               El ''textarea'' [cls ''field__input'', Attr ''value'' reason, Flag ''disabled'' (blocked \<or> submitting),
                  OnText ''onChange'' SetReason] []],
            El ''div'' [cls ''decision__actions'']
              [El ''button'' [Attr ''type'' (u ''button''), cls ''button button--primary'',
                  Flag ''disabled'' (blocked \<or> submitting), On ''onClick'' (Decide Decision.Approved reason)]
                 [Txt (u ''Approve'')],
               El ''button'' [Attr ''type'' (u ''button''), cls ''button button--danger'',
                  Flag ''disabled'' (blocked \<or> submitting \<or> rejectionNeedsReason),
                  On ''onClick'' (Decide Decision.Rejected reason)]
                 [Txt (u ''Reject'')]]]
         @ (if \<not> blocked \<and> rejectionNeedsReason
            then [El ''p'' [cls ''decision__hint'']
              [Txt (u ''Rejecting requires a reason. The record has to say why, not only that.'')]]
            else []))])"

section \<open>The evidence packet\<close>

definition kv_entries :: "(jsstring \<times> jsstring) list \<Rightarrow> 'e html list" where
  "kv_entries es = concat (map (\<lambda>(k, v). [El ''dt'' [] [Txt k], El ''dd'' [] [Txt v]]) es)"

definition mono_entries :: "(jsstring \<times> jsstring) list \<Rightarrow> 'e html list" where
  "mono_entries es = concat (map (\<lambda>(k, v). [El ''dt'' [] [Txt k], El ''dd'' [cls ''mono''] [Txt v]]) es)"

definition or_else :: "'a option \<Rightarrow> 'a \<Rightarrow> 'a" where
  [js_defs]: "or_else x d = (case x of None \<Rightarrow> d | Some v \<Rightarrow> v)"

definition no_model :: jsstring where
  "no_model = u ''None '' @ [0x2014] @ u '' no model was selected''"

definition EvidencePacketView :: "EvidencePacket \<Rightarrow> 'e html list" where
  "EvidencePacketView p =
     (let sources = or_else (ep_retrievedSources p) []; unattributable = or_else (ep_unattributableClaims p) [];
          inputs = or_else (ep_inputs p) []; rd = ep_routingDecision p; pa = ep_proposedAction p in
      [El ''div'' [cls ''packet'']
        ([El ''section'' [cls ''packet__section'']
            [El ''h3'' [cls ''packet__heading''] [Txt (u ''Proposed action'')],
             El ''p'' [cls ''packet__summary''] [Txt (pa_summary pa)],
             El ''dl'' [cls ''kv''] ([El ''dt'' [] [Txt (u ''Kind'')], El ''dd'' [] [Txt (pa_kind pa)]]
               @ kv_entries (or_else (pa_fields pa) []))],
          El ''section'' [cls ''packet__section'']
            [El ''h3'' [cls ''packet__heading''] [Txt (u ''Routing decision'')],
             El ''p'' [cls ''packet__summary''] [Txt (rs_rationale rd)],
             El ''dl'' [cls ''kv''] (kv_entries
               [(u ''Outcome'', rs_outcome rd),
                (u ''Tier'', or_else (rs_selectedTier rd) no_model),
                (u ''Vendor'', or_else (rs_selectedVendor rd) no_model),
                (u ''Complexity score'', num_text (rs_complexityScore rd)),
                (u ''Cost ceiling'', format_usd 2 (rs_costCeilingUsd rd)),
                (u ''Policy set'',
                  case rs_policySetId rd of
                    None \<Rightarrow> u ''None recorded''
                  | Some i \<Rightarrow> if i = [] then u ''None recorded''
                      else i @ u '' v'' @ (case rs_policySetVersion rd of None \<Rightarrow> u ''?'' | Some v \<Rightarrow> num_text v))])]]
         @ (if length inputs > 0
            then [El ''section'' [cls ''packet__section'']
              [El ''h3'' [cls ''packet__heading''] [Txt (u ''Inputs'')],
               El ''dl'' [cls ''kv''] (kv_entries inputs)]]
            else [])
         @ [El ''section'' [cls ''packet__section'']
              [El ''h3'' [cls ''packet__heading'']
                 [Txt (u ''Retrieved sources ('' @ show_int (int (length sources)) @ u '')'')],
               if length sources = 0
               then El ''p'' [cls ''packet__empty'']
                 [Txt (u ''No sources were retrieved for this proposal. Nothing here rests on retrieved evidence.'')]
               else El ''ul'' [cls ''sources'']
                 (map (\<lambda>s. El ''li'' [Attr ''key'' (es_chunkId s), cls ''sources__item'']
                    [El ''span'' [cls ''sources__id'']
                       [Txt (es_documentId s @ u '' '' @ [0xB7] @ u '' '' @ es_chunkId s)],
                     El ''span'' [cls ''sources__score''] [Txt (u ''score '' @ toFixed 2 (es_score s))],
                     El ''blockquote'' [cls ''sources__excerpt''] [Txt (es_excerpt s)]]) sources)],
            El ''section'' [cls ''packet__section packet__section--claims'']
              [El ''h3'' [cls ''packet__heading'']
                 [Txt (u ''Unattributable claims ('' @ show_int (int (length unattributable)) @ u '')'')],
               if length unattributable = 0
               then El ''p'' [cls ''packet__empty'']
                 [Txt (u ''No unattributable claims. Every claim in this packet traces to retrieved evidence.'')]
               else El ''ul'' [cls ''claims'']
                 (map (\<lambda>c. El ''li'' [Attr ''key'' c, cls ''claims__item''] [Txt c]) unattributable)]])])"

section \<open>The detail screen\<close>

definition detail_children ::
  "ApprovalResponse \<Rightarrow> ApprovalContext \<Rightarrow> jsstring option \<Rightarrow> bool \<Rightarrow> jsstring \<Rightarrow> int
   \<Rightarrow> approval_action html list" where
  "detail_children ap ctx serverRefusal submitting reason clock =
     [El ''header'' [cls ''screen__header'']
       [El ''h2'' [cls ''screen__title''] [Txt (pa_summary (ap_proposedAction ap))],
        El ''p'' [cls ''screen__subtitle'']
          [Txt (Lane_text (ap_lane ap)), Txt (u '' '' @ [0xB7] @ u '' ''), Txt (ApprovalState_text (ap_state ap)),
           Txt (u '' '' @ [0xB7] @ u '' ''), Txt (formatExpiry ap (context_now ctx clock))],
        El ''dl'' [cls ''kv kv--inline'']
          (mono_entries
             [(u ''Correlation id'', ap_correlationId ap), (u ''Proposed by'', ap_proposedByObjectId ap),
              (u ''Evidence packet hash'', ap_evidencePacketHash ap)]
           @ (case ap_decidedByObjectId ap of None \<Rightarrow> []
              | Some d \<Rightarrow> if d = [] then []
                  else mono_entries [(u ''Decided by'', d)]
                    @ kv_entries [(u ''Reason'', or_else (ap_decisionReason ap) (u ''No reason recorded''))]))]]
     @ (case ap_evidencePacket ap of
          Some p \<Rightarrow> EvidencePacketView p
        | None \<Rightarrow> [Banner ''danger'' (u ''Evidence packet missing'')
            (Some (u ''This proposal returned without its evidence packet. Nothing can be approved on evidence that was not shown.''))])
     @ DecisionPanel ap ctx serverRefusal submitting reason clock"

definition ApprovalDetail ::
  "(ApprovalResponse, approval_action) AsyncState \<Rightarrow> ApprovalContext \<Rightarrow> jsstring option \<Rightarrow> bool
   \<Rightarrow> jsstring \<Rightarrow> int \<Rightarrow> approval_action html list" where
  "ApprovalDetail state ctx serverRefusal submitting reason clock =
     [El ''section'' [cls ''screen'']
       (AsyncBoundary state (\<lambda>ap. detail_children ap ctx serverRefusal submitting reason clock)
          (u ''this proposal'') clock)]"

section \<open>The detail route\<close>

text \<open>
  \<open>onDecide\<close> clears the refusal, sends the decision and, when the mutation rejects, stores the
  sentence for the approver.  \<open>dr_submitting\<close> is the mutation's \<open>isPending\<close>.
\<close>

record detail_route =
  dr_refusal :: "jsstring option"
  dr_submitting :: bool
  dr_reason :: jsstring

definition decision_body :: "Decision \<Rightarrow> jsstring \<Rightarrow> ApprovalDecision" where
  "decision_body d reason =
     \<lparr>ad_decision = d, ad_reason = (if length (trim reason) > 0 then Some (trim reason) else None)\<rparr>"

definition onDecide_start :: "detail_route \<Rightarrow> detail_route" where
  "onDecide_start s = s\<lparr>dr_refusal := None, dr_submitting := True\<rparr>"

definition onDecide_end :: "js_exn option \<Rightarrow> detail_route \<Rightarrow> detail_route" where
  "onDecide_end err s =
     (case err of None \<Rightarrow> s\<lparr>dr_submitting := False\<rparr>
      | Some e \<Rightarrow> s\<lparr>dr_submitting := False, dr_refusal := describeDecisionFailure (Some e)\<rparr>)"

definition detail_view ::
  "ApprovalContext \<Rightarrow> (ApprovalResponse, approval_action) AsyncState \<Rightarrow> detail_route \<Rightarrow> int
   \<Rightarrow> approval_action html list" where
  "detail_view ctx state s clock =
     ApprovalDetail state ctx (dr_refusal s) (dr_submitting s) (dr_reason s) clock"

text \<open>
  A run of the route: the query's state changes under it at any time, the user edits the reason or
  clicks what the rendered view offers, and a decision in flight settles.  The log records each
  decision sent with the state it was rendered from.
\<close>

record detail_sys =
  sy_state :: "(ApprovalResponse, approval_action) AsyncState"
  sy_route :: detail_route
  sy_log :: "(ApprovalResponse \<times> int \<times> ApprovalDecision) list"
  sy_settled :: nat

inductive detail_step :: "ApprovalContext \<Rightarrow> detail_sys \<Rightarrow> detail_sys \<Rightarrow> bool" for ctx where
  query: "detail_step ctx s (s\<lparr>sy_state := st\<rparr>)"
| edit: "detail_step ctx s (s\<lparr>sy_route := (sy_route s)\<lparr>dr_reason := t\<rparr>\<rparr>)"
| click: "Decide d r \<in> clickable (detail_view ctx (sy_state s) (sy_route s) clock) \<Longrightarrow>
     state_data (sy_state s) = Some ap \<Longrightarrow>
     detail_step ctx s (s\<lparr>sy_route := onDecide_start (sy_route s),
       sy_log := sy_log s @ [(ap, clock, decision_body d r)]\<rparr>)"
| settle: "dr_submitting (sy_route s) \<Longrightarrow>
     detail_step ctx s (s\<lparr>sy_route := onDecide_end err (sy_route s), sy_settled := Suc (sy_settled s)\<rparr>)"

definition detail_start :: detail_sys where
  "detail_start = \<lparr>sy_state = Loading,
     sy_route = \<lparr>dr_refusal = None, dr_submitting = False, dr_reason = []\<rparr>, sy_log = [], sy_settled = 0\<rparr>"

definition detail_run :: "ApprovalContext \<Rightarrow> detail_sys \<Rightarrow> bool" where
  "detail_run ctx s \<longleftrightarrow> (detail_step ctx)\<^sup>*\<^sup>* detail_start s"

section \<open>Lemmas\<close>

lemma els_button_kv [simp]:
  "frag_els ''button'' (kv_entries es) = []" "frag_els ''button'' (mono_entries es) = []"
  by (induction es) (auto simp: kv_entries_def mono_entries_def)

lemma els_button_packet [simp]: "frag_els ''button'' (EvidencePacketView p) = []"
proof -
  have l: "frag_els ''button'' (map (\<lambda>x. El ''li'' (f x) (map Txt (g x))) xs) = []"
    for f :: "'b \<Rightarrow> 'e attr list" and g xs
    by (induction xs) auto
  have s: "frag_els ''button'' (map (\<lambda>s. El ''li'' (f s)
      [El ''span'' (a s) [Txt (b s)], El ''span'' (c s) [Txt (d s)], El ''blockquote'' (e s) [Txt (h s)]]) xs) = []"
    for f :: "'b \<Rightarrow> 'e attr list" and a b c d e h xs
    by (induction xs) auto
  have c: "frag_els ''button'' (map (\<lambda>c. El ''li'' (f c) [Txt (g c)]) xs) = []"
    for f :: "'b \<Rightarrow> 'e attr list" and g xs
    by (induction xs) auto
  show ?thesis
    by (simp add: EvidencePacketView_def Let_def s c)
qed

lemma DecisionPanel_buttons:
  "buttons (DecisionPanel ap ctx sr sub reason clock) =
     (let blocked = is_blocked (evaluateApproval ap ctx clock) in
      [\<lparr>bt_label = u ''Approve'', bt_disabled = blocked \<or> sub, bt_action = Some (Decide Decision.Approved reason)\<rparr>,
       \<lparr>bt_label = u ''Reject'', bt_disabled = blocked \<or> sub \<or> trim reason = [],
        bt_action = Some (Decide Decision.Rejected reason)\<rparr>])"
  by (auto simp: DecisionPanel_def Let_def buttons_def frag_text_def cls_def
      split: ApprovalBlock.splits option.splits)

lemma DecisionPanel_clickable:
  "clickable (DecisionPanel ap ctx sr sub reason clock) =
     (if is_blocked (evaluateApproval ap ctx clock) \<or> sub then {}
      else insert (Decide Decision.Approved reason)
        (if trim reason = [] then {} else {Decide Decision.Rejected reason}))"
  unfolding clickable_def DecisionPanel_buttons by (auto simp: Let_def)

lemma detail_children_clickable:
  "clickable (detail_children ap ctx sr sub reason clock) = clickable (DecisionPanel ap ctx sr sub reason clock)"
proof -
  have "buttons [El ''header'' as cs] = buttons cs" for as and cs :: "approval_action html list"
    by (simp add: buttons_def)
  then show ?thesis
    unfolding detail_children_def clickable_def
    by (simp add: buttons_def split: option.splits)
qed

lemma section_clickable [simp]: "clickable [El ''section'' as cs] = clickable cs"
  by (simp add: clickable_def buttons_def)

lemma ApprovalDetail_clickable:
  "clickable (ApprovalDetail state ctx sr sub reason clock) =
     (case state_data state of Some ap \<Rightarrow> clickable (DecisionPanel ap ctx sr sub reason clock) | None \<Rightarrow> {})
     \<union> (case state of Failed _ (Some e) \<Rightarrow> {e} | _ \<Rightarrow> {})"
  by (simp add: ApprovalDetail_def AsyncBoundary_clickable detail_children_clickable split: option.split)

lemma Decide_clickable_detail:
  assumes "Decide d r \<in> clickable (detail_view ctx st rt clock)" and "state_data st = Some ap"
  shows "evaluateApproval ap ctx clock = NotBlocked" and "\<not> dr_submitting rt" and "r = dr_reason rt"
    and "d = Decision.Rejected \<Longrightarrow> trim r \<noteq> []"
proof -
  have "Decide d r \<in> clickable (DecisionPanel ap ctx (dr_refusal rt) (dr_submitting rt) (dr_reason rt) clock)"
    using assms by (cases st) (auto simp: detail_view_def ApprovalDetail_clickable)
  then show "evaluateApproval ap ctx clock = NotBlocked" and "\<not> dr_submitting rt" and "r = dr_reason rt"
    and "d = Decision.Rejected \<Longrightarrow> trim r \<noteq> []"
    by (cases "evaluateApproval ap ctx clock"; auto simp: DecisionPanel_clickable split: if_splits)+
qed

lemma els_FreshnessLine: "t \<noteq> ''p'' \<Longrightarrow> els t (FreshnessLine f now) = []"
  by (auto simp: FreshnessLine_def Let_def)

lemma queue_rows: "frag_els ''tr'' (map (queue_row ctx clock) aps) = map (queue_row ctx clock) aps"
  by (induction aps) (auto simp: queue_row_def split: ApprovalBlock.splits)

lemma queue_row_no_buttons: "els ''button'' (queue_row ctx clock ap) = []"
  by (auto simp: queue_row_def split: ApprovalBlock.splits)

lemma queue_buttons:
  "buttons (ApprovalsQueue state ctx clock) = (case state of Failed _ (Some e) \<Rightarrow>
     [\<lparr>bt_label = u ''Retry'', bt_disabled = False, bt_action = Some e\<rparr>] | _ \<Rightarrow> [])"
proof -
  let ?table = "\<lambda>aps. QueueTable aps ctx clock"
  have rows: "frag_els ''button'' (map (queue_row ctx clock) aps) = []" for aps
    by (induction aps) (simp_all add: queue_row_no_buttons)
  have table: "buttons (?table aps) = []" for aps
    by (simp add: buttons_def QueueTable_def th_def rows)
  have "buttons (ApprovalsQueue state ctx clock) = buttons (AsyncBoundary state ?table (u ''pending approvals'') clock)"
    by (simp add: buttons_def ApprovalsQueue_def)
  also have "\<dots> = buttons (AsyncBoundary state (\<lambda>_. []) (u ''pending approvals'') clock)"
    using AsyncBoundary_with_data [where s = state and children = ?table] AsyncBoundary_without_data [where s = state and children = ?table and children' = "\<lambda>_. []"]
    by (cases "state_data state") (simp_all add: table)
  finally show ?thesis unfolding AsyncBoundary_buttons .
qed

lemma queue_row_standing:
  "map html_text (els ''span'' (queue_row ctx clock ap)) =
     [case evaluateApproval ap ctx clock of NotBlocked \<Rightarrow> u ''Can decide''
      | Blocked c _ \<Rightarrow> if c = ApprovalBlockCode.SegregationOfDuties then u ''You proposed this''
          else ApprovalBlockCode_text c]"
  by (auto simp: queue_row_def split: ApprovalBlock.splits)

text \<open>What a logged decision was rendered from, and what it carries.\<close>

definition decision_ok :: "ApprovalContext \<Rightarrow> ApprovalResponse \<times> int \<times> ApprovalDecision \<Rightarrow> bool" where
  "decision_ok ctx e =
     (case e of (ap, clock, d) \<Rightarrow>
        evaluateApproval ap ctx clock = NotBlocked
        \<and> (ad_decision d = Decision.Rejected \<longrightarrow> ad_reason d \<noteq> None)
        \<and> (case ad_reason d of None \<Rightarrow> True | Some r \<Rightarrow> r \<noteq> [] \<and> trim r = r))"

lemma decision_ok_body:
  assumes "evaluateApproval ap ctx clock = NotBlocked" and "d = Decision.Rejected \<Longrightarrow> trim r \<noteq> []"
  shows "decision_ok ctx (ap, clock, decision_body d r)"
  using assms by (auto simp: decision_ok_def decision_body_def)

text \<open>The route's decisions meet the guarded-handler contract: \<open>submitting\<close> is the flag, the decisions
  sent and not yet settled are the requests in flight.\<close>

interpretation detail_flight: single_flight
  "\<lambda>s. s = detail_start" "detail_step ctx" "\<lambda>s. dr_submitting (sy_route s)"
  "\<lambda>s. int (length (sy_log s)) - int (sy_settled s)"
proof
  fix s s' assume "detail_step ctx s s'"
  then show "dr_submitting (sy_route s') = dr_submitting (sy_route s)
        \<and> int (length (sy_log s')) - int (sy_settled s') = int (length (sy_log s)) - int (sy_settled s)
    \<or> \<not> dr_submitting (sy_route s) \<and> dr_submitting (sy_route s')
        \<and> int (length (sy_log s')) - int (sy_settled s') = int (length (sy_log s)) - int (sy_settled s) + 1
    \<or> (dr_submitting (sy_route s) \<or> 0 < int (length (sy_log s)) - int (sy_settled s)) \<and> \<not> dr_submitting (sy_route s')
        \<and> int (length (sy_log s')) - int (sy_settled s') = int (length (sy_log s)) - int (sy_settled s) - 1"
  proof (induction rule: detail_step.induct)
    case (click d r s clock ap)
    from Decide_clickable_detail [OF click.hyps] show ?case
      by (simp add: onDecide_start_def)
  next
    case (settle s err)
    then show ?case by (simp add: onDecide_end_def split: option.splits)
  qed auto
qed (simp add: detail_start_def)

lemma detail_step_log:
  "detail_step ctx s s' \<Longrightarrow> list_all (decision_ok ctx) (sy_log s) \<Longrightarrow> list_all (decision_ok ctx) (sy_log s')"
proof (induction rule: detail_step.induct)
  case (click d r s clock ap)
  from Decide_clickable_detail [OF click.hyps] click.prems show ?case
    by (auto intro: decision_ok_body)
qed auto

lemma detail_run_log: "detail_run ctx s \<Longrightarrow> list_all (decision_ok ctx) (sy_log s)"
  unfolding detail_run_def
proof (induction rule: rtranclp_induct)
  case base
  show ?case by (simp add: detail_start_def)
next
  case (step s s')
  then show ?case by (blast intro: detail_step_log)
qed

section \<open>Properties\<close>

text \<open>The queue hides nothing: whatever the approver's standing, there is exactly one row per
  pending proposal, in the order received, and its standing reads \<open>Can decide\<close> exactly when the
  courtesy check lets the approver through.\<close>

theorem queue_shows_every_proposal:
  "\<exists>header. frag_els ''tr'' (ApprovalsQueue (Ready aps f) ctx clock) = header # map (queue_row ctx clock) aps
   \<and> (\<forall>ap. map html_text (els ''span'' (queue_row ctx clock ap)) =
        [case evaluateApproval ap ctx clock of NotBlocked \<Rightarrow> u ''Can decide''
         | Blocked c _ \<Rightarrow> if c = ApprovalBlockCode.SegregationOfDuties then u ''You proposed this''
             else ApprovalBlockCode_text c])"
  by (simp add: ApprovalsQueue_def QueueTable_def th_def queue_rows queue_row_standing els_FreshnessLine)

text \<open>C40. The queue route shows what its query holds: while the query has settled with proposals there is one
  row for each, in order, and no control; an empty result has no table; and once a refetch fails the rows
  it still holds are gone, with Retry the only control.\<close>

theorem queue_route_follows_query:
  assumes "query_ok q"
  shows "\<exists>header. frag_els ''tr'' (queue_view roles uid q refetch clock) =
      (if q_isPending q \<or> q_isError q \<or> q_data q = Some [] then []
       else header # map (queue_row \<lparr>ctx_roles = roles, ctx_currentUserObjectId = uid, ctx_now = None\<rparr> clock) (the (q_data q)))
    \<and> map bt_label (buttons (queue_view roles uid q refetch clock)) =
        (if \<not> q_isPending q \<and> q_isError q then [u ''Retry''] else [])
    \<and> clickable (queue_view roles uid q refetch clock) = (if \<not> q_isPending q \<and> q_isError q then {refetch} else {})"
  using assms unfolding queue_view_def
  by (cases rule: usePendingApprovals_cases [of q refetch])
    (auto simp: clickable_def queue_buttons, auto simp: ApprovalsQueue_def QueueTable_def th_def queue_rows els_FreshnessLine)

theorem queue_route_follows_query_witness:
  "frag_els ''tr'' (queue_view [Approver] None (sample_query\<lparr>q_data := Some [sample_approval]\<rparr>) True 0) = []
   \<and> clickable (queue_view [Approver] None (sample_query\<lparr>q_data := Some [sample_approval]\<rparr>) True 0) = {True}"
proof -
  have "query_ok (sample_query\<lparr>q_data := Some [sample_approval]\<rparr>)" by (simp add: query_ok_def)
  from queue_route_follows_query [OF this, of "[Approver]" None True 0] show ?thesis
    by (simp add: sample_query_def)
qed

text \<open>C31. The approve and reject controls are always on the panel, never hidden, and a click acts only
  when the approver is let through and nothing is in flight; rejecting also needs a reason that is
  not blank.\<close>

theorem decision_controls:
  "map bt_label (buttons (DecisionPanel ap ctx sr sub reason clock)) = [u ''Approve'', u ''Reject'']
   \<and> clickable (DecisionPanel ap ctx sr sub reason clock) =
       {a. evaluateApproval ap ctx clock = NotBlocked \<and> \<not> sub
           \<and> (a = Decide Decision.Approved reason \<or> a = Decide Decision.Rejected reason \<and> trim reason \<noteq> [])}"
  unfolding DecisionPanel_buttons DecisionPanel_clickable
  by (cases "evaluateApproval ap ctx clock") (auto simp: Let_def)


definition sample_context :: ApprovalContext where
  "sample_context = \<lparr>ctx_roles = [Approver], ctx_currentUserObjectId = Some (u ''q''), ctx_now = None\<rparr>"

text \<open>A proposal that arrives without its evidence packet is flagged, but its decision panel is
  not blocked: whoever may decide it with the packet may approve it without.\<close>

theorem missing_packet_still_decidable:
  assumes "ap_evidencePacket ap = None" and "evaluateApproval ap ctx clock = NotBlocked"
  shows "u ''Evidence packet missing'' \<in> set (map html_text (frag_els ''strong'' (detail_children ap ctx None False reason clock)))
    \<and> Decide Decision.Approved reason \<in> clickable (detail_children ap ctx None False reason clock)"
proof
  show "Decide Decision.Approved reason \<in> clickable (detail_children ap ctx None False reason clock)"
    using assms by (simp add: detail_children_clickable DecisionPanel_clickable)
  show "u ''Evidence packet missing'' \<in> set (map html_text (frag_els ''strong'' (detail_children ap ctx None False reason clock)))"
    using assms by (simp add: detail_children_def Banner_def)
qed

theorem missing_packet_still_decidable_witness:
  "Decide Decision.Approved [] \<in> clickable (detail_children sample_approval sample_context None False [] 500)"
  using missing_packet_still_decidable [of sample_approval sample_context 500 "[]"]
proof -
  have "evaluateApproval sample_approval sample_context 500 = NotBlocked" by code_simp
  moreover have "ap_evidencePacket sample_approval = None" by (simp add: sample_approval_def)
  ultimately show ?thesis
    using missing_packet_still_decidable [of sample_approval sample_context 500 "[]"] by blast
qed


end
