(* ===== verification/OrderViews.thy ===== *)
theory OrderViews
  imports ApiClient AsyncState
begin

text \<open>
  The order-routing screen (\<open>features/orderrouting/OrderRoutingScreen.tsx\<close>) and the order ticket
  (\<open>OrderTicket.tsx\<close>).  The screen reads values that were cast, not checked, so it is a function of
  run-time values that may throw a \<open>TypeError\<close> while rendering, which blanks the screen into its
  error boundary.  \<open>loc\<close> is \<open>Number.prototype.toLocaleString\<close> of the host.
\<close>

fun get_path :: "jsval \<Rightarrow> string list \<Rightarrow> js_exn + jsval" where
  "get_path v [] = Inr v"
| "get_path v (k # ks) = bindE (get_prop v k) (\<lambda>w. get_path w ks)"

definition get_number :: "jsval \<Rightarrow> string list \<Rightarrow> js_exn + rat" where
  "get_number v ks = bindE (get_path v ks) as_number"

text \<open>A value in a child position: text, nothing, or a React error for an object.\<close>

fun child :: "jsval \<Rightarrow> js_exn + 'e html list" where
  "child (JStr s) = Inr [Txt s]"
| "child (JNum q) = Inr [Txt (num_text q)]"
| "child JUndef = Inr []"
| "child JNull = Inr []"
| "child (JBool _) = Inr []"
| "child (JArr vs) = bindE (mapE child vs) (\<lambda>hs. Inr (concat hs))"
| "child (JObj _) = Inl (JsError (u ''Objects are not valid as a React child''))"

definition child_at :: "jsval \<Rightarrow> string list \<Rightarrow> js_exn + 'e html list" where
  "child_at v ks = bindE (get_path v ks) child"

definition cell :: "js_exn + 'e html list \<Rightarrow> js_exn + 'e html" where
  "cell m = bindE m (\<lambda>hs. Inr (El ''td'' [] hs))"

definition head_cell :: "string \<Rightarrow> 'e html" where
  "head_cell t = El ''th'' [Attr ''scope'' (u ''col'')] [Txt (u t)]"

definition SimulatedBadge :: "'e html list \<Rightarrow> 'e html" where
  "SimulatedBadge mode =
     El ''span'' [cls ''badge badge--simulated'', Attr ''title'' (u ''No order reached a real venue.'')] mode"

section \<open>Tables\<close>

definition breach_row :: "nat \<times> jsval \<Rightarrow> js_exn + 'e html" where
  "breach_row = (\<lambda>(index, b).
     bindE (get_path b [''boundary'']) (\<lambda>boundary.
     bindE (get_path b [''venueCode'']) (\<lambda>venue.
     bindE (mapE id
       [cell (child boundary), cell (child (coalesce venue (JStr (u ''Order-level'')))),
        cell (child_at b [''permitted'']), cell (child_at b [''observed'']), cell (child_at b [''explanation''])])
       (\<lambda>cells. Inr (El ''tr'' [Attr ''key'' (val_text boundary @ u ''-''
          @ val_text (coalesce venue (JStr (u ''order''))) @ u ''-'' @ show_int (int index))] cells)))))"

definition BreachTable :: "jsval \<Rightarrow> js_exn + 'e html" where
  "BreachTable breaches =
     bindE (as_array breaches) (\<lambda>bs.
     bindE (mapE breach_row (enumerate 0 bs)) (\<lambda>rows.
       Inr (El ''table'' [cls ''table'']
         [El ''caption'' [cls ''table__caption''] [Txt (u ''Policy boundaries breached'')],
          El ''thead'' [] [El ''tr'' [] (map head_cell [''Boundary'', ''Venue'', ''Permitted'', ''Observed'', ''Explanation''])],
          El ''tbody'' [] rows])))"

definition considered_why :: "jsval \<Rightarrow> js_exn + 'e html list" where
  "considered_why v =
     bindE (get_path v [''isEligible'']) (\<lambda>el.
       if truthy el then child_at v [''liquidityRationale'']
       else bindE (bindE (get_path v [''breaches'']) as_array) (\<lambda>bs.
         bindE (mapE (\<lambda>b. get_path b [''boundary'']) bs) (\<lambda>ns.
           Inr [Txt (join (u '', '') (map (\<lambda>n. if nullish n then [] else val_text n) ns))])))"

definition considered_row :: "jsval \<Rightarrow> js_exn + 'e html" where
  "considered_row v =
     bindE (get_path v [''quote'', ''venueCode'']) (\<lambda>code.
     bindE (get_path v [''isEligible'']) (\<lambda>el.
     bindE (mapE id
       [cell (child code), cell (child_at v [''quote'', ''type'']),
        cell (bindE (get_number v [''cost'', ''totalCostBps'']) (\<lambda>q. Inr [Txt (toFixed 2 q @ u '' bps'')])),
        cell (bindE (get_number v [''cost'', ''projectedCostUsd'']) (\<lambda>q. Inr [Txt (format_usd 0 q)])),
        cell (Inr [Txt (if truthy el then u ''Yes'' else u ''No'')]),
        cell (considered_why v)])
       (\<lambda>cells. Inr (El ''tr'' [Attr ''key'' (val_text code),
          Attr ''className'' (if truthy el then [] else u ''row--ineligible'')] cells))))"

definition ConsideredTable :: "jsval \<Rightarrow> js_exn + 'e html" where
  "ConsideredTable considered =
     bindE (get_prop considered ''length'') (\<lambda>n.
     bindE (as_array considered) (\<lambda>vs.
     bindE (mapE considered_row vs) (\<lambda>rows.
       Inr (El ''table'' [cls ''table'']
         [El ''caption'' [cls ''table__caption'']
            [Txt (u ''Venues considered ('' @ val_text n @ u '') '' @ [0x2014] @ u '' every one evaluated, eligible or not'')],
          El ''thead'' [] [El ''tr'' [] (map head_cell
            [''Venue'', ''Type'', ''Total cost'', ''Projected cost'', ''Eligible'', ''Why''])],
          El ''tbody'' [] rows]))))"

section \<open>The three outcomes\<close>

definition correlation_note :: "jsval \<Rightarrow> js_exn + 'e html" where
  "correlation_note v = bindE (child_at v [''correlationId'']) (\<lambda>c.
     Inr (El ''p'' [cls ''screen__footnote''] [Txt (u ''Correlation id ''), El ''span'' [cls ''mono''] c]))"

text \<open>The banner's detail is a child, rendered only when it is truthy.\<close>

definition banner_detail :: "jsval \<Rightarrow> js_exn + jsstring option" where
  "banner_detail v =
     (if truthy v then bindE (child v) (\<lambda>hs :: unit html list. Inr (Some (frag_text hs))) else Inr None)"

definition HaltView :: "jsval \<Rightarrow> js_exn + 'e html list" where
  "HaltView halt =
     bindE (get_path halt [''haltSummary'']) (\<lambda>summary.
     bindE (bindE (get_path halt [''breaches'']) BreachTable) (\<lambda>breaches.
     bindE (bindE (get_path halt [''considered'']) ConsideredTable) (\<lambda>considered.
     bindE (correlation_note halt) (\<lambda>note.
     bindE (banner_detail summary) (\<lambda>d.
       Inr [Banner ''danger'' (u ''Routing halted by policy'') d, breaches, considered, note])))))"

definition cost_entry :: "jsval \<Rightarrow> string \<Rightarrow> string \<Rightarrow> rat \<Rightarrow> nat \<Rightarrow> string \<Rightarrow> js_exn + 'e html list" where
  "cost_entry p label field scale d unit =
     bindE (get_number p [''cost'', field]) (\<lambda>q.
       Inr [El ''dt'' [] [Txt (u label)], El ''dd'' [] [Txt (toFixed d (q * scale) @ u unit)]])"

definition ProposalView :: "(rat \<Rightarrow> jsstring) \<Rightarrow> jsval \<Rightarrow> js_exn + 'e html list" where
  "ProposalView loc response =
     bindE (get_path response [''proposal'']) (\<lambda>p.
     bindE (get_number p [''quantity'']) (\<lambda>quantity.
     bindE (child_at p [''venueCode'']) (\<lambda>venue.
     bindE (child_at p [''bestExecutionJustification'']) (\<lambda>just.
     bindE (child_at p [''liquidityRationale'']) (\<lambda>liq.
     bindE (mapE id
       [cost_entry p ''Total cost'' ''totalCostBps'' 1 2 '' bps'',
        cost_entry p ''Spread'' ''spreadCostBps'' 1 2 '' bps'',
        cost_entry p ''Impact'' ''impactBps'' 1 2 '' bps'',
        cost_entry p ''Fee'' ''feeBps'' 1 2 '' bps'',
        cost_entry p ''Participation'' ''participationRate'' 100 1 ''%'',
        cost_entry p ''Projected price'' ''projectedPrice'' 1 4 ''''])
       (\<lambda>costs.
     bindE (child_at p [''proposedBy'']) (\<lambda>by_whom.
     bindE (bindE (get_path response [''considered'']) ConsideredTable) (\<lambda>considered.
     bindE (correlation_note response) (\<lambda>note.
       Inr [El ''div'' [cls ''proposal'']
              [El ''h3'' [cls ''proposal__heading''] ([Txt (u ''Route '' @ loc quantity @ u '' to '')] @ venue),
               El ''p'' [cls ''proposal__justification''] just,
               El ''p'' [cls ''proposal__liquidity''] liq,
               El ''dl'' [cls ''kv kv--inline''] (concat costs
                 @ [El ''dt'' [] [Txt (u ''Proposed by'')], El ''dd'' [cls ''mono''] by_whom]),
               Banner ''info'' (u ''Proposed, not executed'')
                 (Some (u ''This proposal changes nothing until an approver other than the proposer records a decision.''))],
            considered, note])))))))))"

definition ExecutionView :: "(rat \<Rightarrow> jsstring) \<Rightarrow> jsval \<Rightarrow> js_exn + 'e html" where
  "ExecutionView loc x =
     bindE (child_at x [''executionMode'']) (\<lambda>mode.
     bindE (child_at x [''executionId'']) (\<lambda>i.
     bindE (child_at x [''venueCode'']) (\<lambda>venue.
     bindE (get_number x [''quantity'']) (\<lambda>quantity.
     bindE (get_number x [''price'']) (\<lambda>price.
     bindE (child_at x [''approvalId'']) (\<lambda>approval.
     bindE (child_at x [''correlationId'']) (\<lambda>cid.
       Inr (El ''section'' [cls ''execution'']
         [El ''h3'' [cls ''execution__heading''] [Txt (u ''Executed ''), SimulatedBadge mode],
          El ''dl'' [cls ''kv kv--inline'']
            [El ''dt'' [] [Txt (u ''Execution id'')], El ''dd'' [cls ''mono''] i,
             El ''dt'' [] [Txt (u ''Venue'')], El ''dd'' [] venue,
             El ''dt'' [] [Txt (u ''Quantity'')], El ''dd'' [] [Txt (loc quantity)],
             El ''dt'' [] [Txt (u ''Price'')], El ''dd'' [] [Txt (toFixed 4 price)],
             El ''dt'' [] [Txt (u ''Approval'')], El ''dd'' [cls ''mono''] approval,
             El ''dt'' [] [Txt (u ''Correlation id'')], El ''dd'' [cls ''mono''] cid]]))))))))"

definition ExecutionRefusalView :: "jsval \<Rightarrow> js_exn + 'e html" where
  "ExecutionRefusalView r =
     bindE (get_path r [''refusal'']) (\<lambda>reason. bindE (get_path r [''detail'']) (\<lambda>detail.
     bindE (banner_detail detail) (\<lambda>d.
       Inr (Banner ''danger'' (u ''Execution refused '' @ [0x2014] @ u '' '' @ val_text reason) d))))"

text \<open>\<open>'executed' in execution\<close>: the property exists, whatever its value.\<close>

fun has_prop :: "jsval \<Rightarrow> string \<Rightarrow> js_exn + bool" where
  "has_prop (JObj fs) k = Inr (map_of fs (u k) \<noteq> None)"
| "has_prop (JArr _) k = Inr (k = ''length'')"
| "has_prop _ k = Inl (JsError (u ''Cannot use 'in' operator''))"

definition empty_screen :: "'e html" where
  "empty_screen = El ''div'' [cls ''state state--empty'']
     [El ''span'' [cls ''state__title''] [Txt (u ''No order routed yet'')],
      El ''p'' [cls ''state__detail'']
        [Txt (u ''Submit an order with its venue quotes to see the best-execution evaluation. The router does not invent liquidity, so at least one quote is required.'')]]"

definition OrderRoutingScreen :: "(rat \<Rightarrow> jsstring) \<Rightarrow> jsval \<Rightarrow> jsval \<Rightarrow> js_exn + 'e html list" where
  "OrderRoutingScreen loc result execution =
     bindE (if result = JUndef then Inr [empty_screen]
            else bindE (get_prop result ''status'') (\<lambda>st.
              if st = JStr (u ''Halted'') then HaltView result else ProposalView loc result)) (\<lambda>main.
     bindE (if execution = JUndef then Inr []
            else bindE (has_prop execution ''executed'') (\<lambda>refused.
              bindE (if refused then ExecutionRefusalView execution else ExecutionView loc execution)
                (\<lambda>h. Inr [h]))) (\<lambda>exec.
       Inr [El ''section'' [cls ''screen'']
         ([El ''header'' [cls ''screen__header'']
            [El ''h2'' [cls ''screen__title''] [Txt (u ''Order routing'')],
             El ''p'' [cls ''screen__subtitle'']
               [Txt (u ''Venue selection is deterministic policy evaluation. No model chooses a venue.'')]]]
          @ main @ exec)]))"

section \<open>Values of the declared types\<close>

definition PolicyBreach_json :: "PolicyBreach \<Rightarrow> jsval" where
  "PolicyBreach_json b = JObj
     ([(u ''boundary'', JStr (PolicyBoundary_text (pb_boundary b)))]
      @ opt_field ''venueCode'' JStr (pb_venueCode b)
      @ [(u ''permitted'', JStr (pb_permitted b)), (u ''observed'', JStr (pb_observed b)),
         (u ''explanation'', JStr (pb_explanation b))])"

definition CostBreakdown_json :: "CostBreakdown \<Rightarrow> jsval" where
  "CostBreakdown_json c = JObj
     [(u ''participationRate'', JNum (cb_participationRate c)), (u ''spreadCostBps'', JNum (cb_spreadCostBps c)),
      (u ''impactBps'', JNum (cb_impactBps c)), (u ''feeBps'', JNum (cb_feeBps c)),
      (u ''projectedPrice'', JNum (cb_projectedPrice c)), (u ''projectedCostUsd'', JNum (cb_projectedCostUsd c)),
      (u ''totalCostBps'', JNum (cb_totalCostBps c))]"

definition VenueQuote_json :: "VenueQuote \<Rightarrow> jsval" where
  "VenueQuote_json q = JObj
     ([(u ''venueCode'', JStr (vq_venueCode q)), (u ''type'', JStr (VenueType_text (vq_type q))),
       (u ''midPrice'', JNum (vq_midPrice q)), (u ''spread'', JNum (vq_spread q)),
       (u ''displayedLiquidity'', JNum (vq_displayedLiquidity q))]
      @ opt_field ''feeBps'' JNum (vq_feeBps q) @ [(u ''isDark'', JBool (vq_isDark q))])"

definition VenueEvaluation_json :: "VenueEvaluation \<Rightarrow> jsval" where
  "VenueEvaluation_json e = JObj
     [(u ''quote'', VenueQuote_json (ve_quote e)), (u ''cost'', CostBreakdown_json (ve_cost e)),
      (u ''breaches'', JArr (map PolicyBreach_json (ve_breaches e))), (u ''isEligible'', JBool (ve_isEligible e)),
      (u ''liquidityRationale'', JStr (ve_liquidityRationale e))]"

definition RouteProposal_json :: "RouteProposal \<Rightarrow> jsval" where
  "RouteProposal_json p = JObj
     [(u ''proposalId'', JStr (rp_proposalId p)), (u ''correlationId'', JStr (rp_correlationId p)),
      (u ''orderId'', JStr (rp_orderId p)), (u ''quantity'', JNum (rp_quantity p)),
      (u ''venueCode'', JStr (rp_venueCode p)), (u ''cost'', CostBreakdown_json (rp_cost p)),
      (u ''liquidityRationale'', JStr (rp_liquidityRationale p)),
      (u ''bestExecutionJustification'', JStr (rp_bestExecutionJustification p)),
      (u ''proposedBy'', JStr (rp_proposedBy p)),
      (u ''considered'', JArr (map VenueEvaluation_json (rp_considered p)))]"

definition SimulatedExecution_json :: "SimulatedExecution \<Rightarrow> jsval" where
  "SimulatedExecution_json x = JObj
     [(u ''executionId'', JStr (se_executionId x)), (u ''proposalId'', JStr (se_proposalId x)),
      (u ''orderId'', JStr (se_orderId x)), (u ''correlationId'', JStr (se_correlationId x)),
      (u ''venueCode'', JStr (se_venueCode x)), (u ''quantity'', JNum (se_quantity x)),
      (u ''price'', JNum (se_price x)), (u ''executedAt'', JStr (se_executedAt x)),
      (u ''approvalId'', JStr (se_approvalId x)), (u ''executionMode'', JStr (se_executionMode x))]"

text \<open>\<open>RouteProposalResponse\<close> and \<open>RouteHalt\<close>, over any value of \<open>considered\<close>.\<close>

definition proposal_reply :: "RouteProposal \<Rightarrow> jsval \<Rightarrow> jsstring \<Rightarrow> jsval" where
  "proposal_reply p considered cid = JObj
     [(u ''status'', JStr (u ''Proposed'')), (u ''proposal'', RouteProposal_json p),
      (u ''considered'', considered), (u ''correlationId'', JStr cid)]"

definition halt_reply :: "jsstring \<Rightarrow> PolicyBreach list \<Rightarrow> jsval \<Rightarrow> jsstring \<Rightarrow> jsval" where
  "halt_reply summary bs considered cid = JObj
     [(u ''status'', JStr (u ''Halted'')), (u ''haltSummary'', JStr summary),
      (u ''breaches'', JArr (map PolicyBreach_json bs)), (u ''considered'', considered),
      (u ''correlationId'', JStr cid)]"

text \<open>
  What the order-routing service puts in \<open>considered\<close>: a flat row per venue
  (\<open>Considered\<close> in \<open>OrderRoutingEndpoints.cs\<close>).
\<close>

definition service_considered :: "VenueEvaluation \<Rightarrow> jsval" where
  "service_considered e = JObj
     [(u ''venueCode'', JStr (vq_venueCode (ve_quote e))),
      (u ''venueType'', JStr (VenueType_text (vq_type (ve_quote e)))),
      (u ''totalCostBps'', JNum (cb_totalCostBps (ve_cost e))),
      (u ''projectedCostUsd'', JNum (cb_projectedCostUsd (ve_cost e))),
      (u ''eligible'', JBool (ve_isEligible e)),
      (u ''breaches'', JArr (map (\<lambda>b. JStr (PolicyBoundary_text (pb_boundary b))) (ve_breaches e)))]"

section \<open>Lemmas\<close>

lemmas json_defs =
  PolicyBreach_json_def CostBreakdown_json_def VenueQuote_json_def VenueEvaluation_json_def
  RouteProposal_json_def SimulatedExecution_json_def opt_field_def

lemmas read_defs =
  child_at_def get_number_def cell_def lookup_prop_def

lemma breach_row_typed: "\<exists>h :: 'e html. breach_row (i, PolicyBreach_json b) = Inr h"
  by (simp add: breach_row_def json_defs read_defs coalesce_def nullish_def split: option.splits)

lemma breach_rows_typed:
  "\<exists>hs :: 'e html list. mapE breach_row (enumerate n (map PolicyBreach_json bs)) = Inr hs"
proof (induction bs arbitrary: n)
  case (Cons b bs)
  obtain h :: "'e html" where "breach_row (n, PolicyBreach_json b) = Inr h"
    using breach_row_typed by blast
  moreover obtain hs :: "'e html list" where "mapE breach_row (enumerate (Suc n) (map PolicyBreach_json bs)) = Inr hs"
    using Cons.IH by blast
  ultimately show ?case by simp
qed simp

lemma BreachTable_typed: "\<exists>h :: 'e html. BreachTable (JArr (map PolicyBreach_json bs)) = Inr h"
proof -
  obtain hs :: "'e html list" where "mapE breach_row (enumerate 0 (map PolicyBreach_json bs)) = Inr hs"
    using breach_rows_typed by blast
  then show ?thesis
    by (simp add: BreachTable_def)
qed

lemma boundaries_typed:
  "mapE (\<lambda>b. get_path b [''boundary'']) (map PolicyBreach_json bs) =
     Inr (map (\<lambda>b. JStr (PolicyBoundary_text (pb_boundary b))) bs)"
  by (induction bs) (simp_all add: PolicyBreach_json_def lookup_prop_def)

lemma considered_row_typed: "\<exists>h :: 'e html. considered_row (VenueEvaluation_json e) = Inr h"
  using boundaries_typed [of "ve_breaches e"]
  by (simp add: considered_row_def considered_why_def VenueEvaluation_json_def VenueQuote_json_def
      CostBreakdown_json_def read_defs del: PolicyBoundary_text.simps)

lemma considered_rows_typed:
  "\<exists>hs :: 'e html list. mapE considered_row (map VenueEvaluation_json es) = Inr hs"
proof (induction es)
  case (Cons e es)
  obtain h :: "'e html" where "considered_row (VenueEvaluation_json e) = Inr h"
    using considered_row_typed by blast
  with Cons.IH show ?case by auto
qed simp

lemma ConsideredTable_typed: "\<exists>h :: 'e html. ConsideredTable (JArr (map VenueEvaluation_json es)) = Inr h"
proof -
  obtain hs :: "'e html list" where "mapE considered_row (map VenueEvaluation_json es) = Inr hs"
    using considered_rows_typed by blast
  then show ?thesis
    by (simp add: ConsideredTable_def)
qed

lemma considered_row_service: "considered_row (service_considered v) \<noteq> (Inr h :: js_exn + 'e html)"
  by (simp add: considered_row_def service_considered_def lookup_prop_def)

lemma ConsideredTable_service:
  "vs \<noteq> [] \<Longrightarrow> ConsideredTable (JArr (map service_considered vs)) \<noteq> (Inr h :: js_exn + 'e html)"
  using considered_row_service [where 'e = 'e and v = "hd vs"]
  by (cases vs) (auto simp: ConsideredTable_def inr_iff)

lemma HaltView_typed: "\<exists>hs :: 'e html list. HaltView (halt_reply s bs (JArr (map VenueEvaluation_json es)) cid) = Inr hs"
proof -
  obtain h k :: "'e html" where h: "BreachTable (JArr (map PolicyBreach_json bs)) = Inr h"
    and k: "ConsideredTable (JArr (map VenueEvaluation_json es)) = Inr k"
    using BreachTable_typed ConsideredTable_typed by blast
  show ?thesis
    by (simp add: HaltView_def halt_reply_def correlation_note_def banner_detail_def read_defs h k)
qed

lemma ProposalView_typed:
  "\<exists>hs :: 'e html list. ProposalView loc (proposal_reply p (JArr (map VenueEvaluation_json es)) cid) = Inr hs"
proof -
  obtain k :: "'e html" where k: "ConsideredTable (JArr (map VenueEvaluation_json es)) = Inr k"
    using ConsideredTable_typed by blast
  show ?thesis
    by (simp add: ProposalView_def proposal_reply_def RouteProposal_json_def CostBreakdown_json_def
        cost_entry_def correlation_note_def read_defs k)
qed

lemma screen_result:
  assumes "result = halt_reply s bs c cid \<or> result = proposal_reply p c cid"
  shows "\<exists>st. get_prop result ''status'' = Inr st \<and> result \<noteq> JUndef"
  using assms by (auto simp: halt_reply_def proposal_reply_def)

lemma OrderRoutingScreen_halt:
  "OrderRoutingScreen loc (halt_reply s bs c cid) JUndef = (Inr hs :: js_exn + 'e html list) \<Longrightarrow>
     \<exists>h :: 'e html list. HaltView (halt_reply s bs c cid) = Inr h"
  by (auto simp: OrderRoutingScreen_def halt_reply_def lookup_prop_def inr_iff)

lemma OrderRoutingScreen_proposal:
  "OrderRoutingScreen loc (proposal_reply p c cid) JUndef = (Inr hs :: js_exn + 'e html list) \<Longrightarrow>
     \<exists>h :: 'e html list. ProposalView loc (proposal_reply p c cid) = Inr h"
  by (auto simp: OrderRoutingScreen_def proposal_reply_def lookup_prop_def inr_iff)

lemma HaltView_considered: "HaltView (halt_reply s bs c cid) = Inr (h :: 'e html list) \<Longrightarrow> \<exists>k :: 'e html. ConsideredTable c = Inr k"
  by (auto simp: HaltView_def halt_reply_def lookup_prop_def inr_iff)

lemma ProposalView_considered:
  "ProposalView loc (proposal_reply p c cid) = Inr (h :: 'e html list) \<Longrightarrow> \<exists>k :: 'e html. ConsideredTable c = Inr k"
  by (auto simp: ProposalView_def proposal_reply_def lookup_prop_def inr_iff)

section \<open>Properties\<close>

text \<open>C33. A reply of the declared type always renders: a halt or a proposal, with any venues considered
  and any boundaries breached, never throws while the screen is drawn.\<close>

theorem typed_replies_render:
  "\<exists>(hs :: 'e html list) (ks :: 'e html list).
     OrderRoutingScreen loc (halt_reply s bs (JArr (map VenueEvaluation_json es)) cid) JUndef = Inr hs
   \<and> OrderRoutingScreen loc (proposal_reply p (JArr (map VenueEvaluation_json es)) cid) JUndef = Inr ks"
proof -
  obtain h k :: "'e html list" where
    h: "HaltView (halt_reply s bs (JArr (map VenueEvaluation_json es)) cid) = Inr h"
    and k: "ProposalView loc (proposal_reply p (JArr (map VenueEvaluation_json es)) cid) = Inr k"
    using HaltView_typed ProposalView_typed by blast
  from h have "\<exists>hs :: 'e html list.
      OrderRoutingScreen loc (halt_reply s bs (JArr (map VenueEvaluation_json es)) cid) JUndef = Inr hs"
    by (simp add: OrderRoutingScreen_def halt_reply_def lookup_prop_def)
  moreover from k have "\<exists>ks :: 'e html list.
      OrderRoutingScreen loc (proposal_reply p (JArr (map VenueEvaluation_json es)) cid) JUndef = Inr ks"
    by (simp add: OrderRoutingScreen_def proposal_reply_def lookup_prop_def)
  ultimately show ?thesis by blast
qed

text \<open>The rows the order-routing service really sends for the venues it considered are flat, and the
  screen throws on the first of them: a halt or proposal that considered any venue is never drawn.\<close>

theorem service_rows_do_not_render:
  assumes "vs \<noteq> []"
  shows "OrderRoutingScreen loc (halt_reply s bs (JArr (map service_considered vs)) cid) JUndef
           \<noteq> (Inr hs :: js_exn + 'e html list)
    \<and> OrderRoutingScreen loc (proposal_reply p (JArr (map service_considered vs)) cid) JUndef
           \<noteq> (Inr hs :: js_exn + 'e html list)"
proof -
  have none: "ConsideredTable (JArr (map service_considered vs)) \<noteq> (Inr k :: js_exn + 'e html)" for k
    using assms by (rule ConsideredTable_service)
  then show ?thesis
    by (blast dest: OrderRoutingScreen_halt OrderRoutingScreen_proposal HaltView_considered ProposalView_considered)
qed

definition sample_evaluation :: VenueEvaluation where
  "sample_evaluation = \<lparr>
     ve_quote = \<lparr>vq_venueCode = u ''XLIT'', vq_type = Lit, vq_midPrice = 100, vq_spread = 1 / 20,
       vq_displayedLiquidity = 250000, vq_feeBps = Some (1 / 5), vq_isDark = False\<rparr>,
     ve_cost = \<lparr>cb_participationRate = 1 / 20, cb_spreadCostBps = 5 / 2, cb_impactBps = 2, cb_feeBps = 1 / 5,
       cb_projectedPrice = 100, cb_projectedCostUsd = 564, cb_totalCostBps = 47 / 10\<rparr>,
     ve_breaches = [], ve_isEligible = True, ve_liquidityRationale = []\<rparr>"

theorem service_rows_do_not_render_witness:
  "OrderRoutingScreen (\<lambda>_. []) (halt_reply [] [] (JArr [service_considered sample_evaluation]) []) JUndef
     \<noteq> (Inr [] :: js_exn + unit html list)"
  using service_rows_do_not_render [where 'e = unit and vs = "[sample_evaluation]" and p = undefined] by auto

end
