(* ===== verification/OrderTicket.thy ===== *)
theory OrderTicket
  imports OrderViews
begin

text \<open>
  The order ticket (\<open>OrderTicket.tsx\<close>) and the execution panel (\<open>ExecutionPanel.tsx\<close>) of the
  order-routing page: their presets, what each input does to the request, and the rendered controls.
\<close>

section \<open>Numbers typed into an input\<close>

text \<open>
  \<open>Number(e.target.value)\<close> of a number input.  The browser reports the text when it is a valid
  floating-point number and the empty string otherwise, and \<open>Number('')\<close> is 0.
\<close>

definition is_digit :: "jschar \<Rightarrow> bool" where
  "is_digit c \<longleftrightarrow> 48 \<le> c \<and> c \<le> 57"

definition digits_value :: "jsstring \<Rightarrow> int" where
  "digits_value s = foldl (\<lambda>a c. 10 * a + (uint c - 48)) 0 s"

definition split_sign :: "jsstring \<Rightarrow> bool \<times> jsstring" where
  "split_sign s = (case s of [] \<Rightarrow> (False, []) | c # r \<Rightarrow> if c = 45 then (True, r) else (False, s))"

text \<open>\<open>[eE][+-]?digits\<close>, or nothing: the decimal exponent.\<close>

definition parse_exponent :: "jsstring \<Rightarrow> int option" where
  "parse_exponent s =
     (case s of
        [] \<Rightarrow> Some 0
      | c # r \<Rightarrow>
          if c \<noteq> 101 \<and> c \<noteq> 69 then None
          else (let (neg, ds) = (case r of [] \<Rightarrow> (False, []) | d # r' \<Rightarrow>
                   if d = 45 then (True, r') else if d = 43 then (False, r') else (False, r)) in
                if ds = [] \<or> \<not> list_all is_digit ds then None
                else Some (if neg then - digits_value ds else digits_value ds)))"

definition pow10 :: "int \<Rightarrow> rat" where
  "pow10 k = (if 0 \<le> k then 10 ^ nat k else 1 / 10 ^ nat (- k))"

definition parse_float :: "jsstring \<Rightarrow> rat option" where
  "parse_float s =
     (let (neg, r) = split_sign s; whole = takeWhile is_digit r; r1 = dropWhile is_digit r;
          frac = (case r1 of [] \<Rightarrow> [] | c # r2 \<Rightarrow> if c = 46 then takeWhile is_digit r2 else []);
          r3 = (case r1 of [] \<Rightarrow> [] | c # r2 \<Rightarrow> if c = 46 \<and> frac \<noteq> [] then dropWhile is_digit r2 else r1) in
      if whole = [] \<and> frac = [] then None
      else (case parse_exponent r3 of None \<Rightarrow> None
        | Some k \<Rightarrow>
            (let q = of_int (digits_value (whole @ frac)) * pow10 (k - int (length frac)) in
             Some (if neg then - q else q))))"

definition input_number :: "jsstring \<Rightarrow> rat" where
  "input_number s = (case parse_float s of None \<Rightarrow> 0 | Some q \<Rightarrow> q)"

lemma input_number_examples:
  "input_number (u ''12000'') = 12000" "input_number (u ''-1.25'') = - 5 / 4"
  "input_number (u ''2e-2'') = 1 / 50" "input_number [] = 0" "input_number (u ''.5'') = 1 / 2"
  by code_simp+

section \<open>The ticket\<close>

definition litVenues :: "VenueQuoteInput list" where
  "litVenues =
     [\<lparr>vqi_venueCode = u ''XLIT'', vqi_type = Lit, vqi_midPrice = 100, vqi_spread = 5 / 100,
        vqi_displayedLiquidity = 250000, vqi_feeBps = Some (2 / 10)\<rparr>,
      \<lparr>vqi_venueCode = u ''XMER'', vqi_type = Lit, vqi_midPrice = 10001 / 100, vqi_spread = 8 / 100,
        vqi_displayedLiquidity = 90000, vqi_feeBps = Some (15 / 100)\<rparr>,
      \<lparr>vqi_venueCode = u ''XNOR'', vqi_type = Lit, vqi_midPrice = 9999 / 100, vqi_spread = 12 / 100,
        vqi_displayedLiquidity = 40000, vqi_feeBps = Some (1 / 10)\<rparr>]"

definition routablePreset :: RouteProposalRequest where
  "routablePreset = \<lparr>rpr_orderId = u ''ORD-1041'', rpr_symbol = u ''CONT'', rpr_side = Buy, rpr_quantity = 12000,
     rpr_limitPrice = Some 101, rpr_arrivalMidPrice = 100, rpr_quotes = litVenues, rpr_correlationId = None\<rparr>"

definition haltPreset :: RouteProposalRequest where
  "haltPreset = \<lparr>rpr_orderId = u ''ORD-1042'', rpr_symbol = u ''CONT'', rpr_side = Buy, rpr_quantity = 400,
     rpr_limitPrice = Some 101, rpr_arrivalMidPrice = 100,
     rpr_quotes = [\<lparr>vqi_venueCode = u ''DARK-1'', vqi_type = Dark, vqi_midPrice = 100, vqi_spread = 2 / 100,
       vqi_displayedLiquidity = 0, vqi_feeBps = Some (1 / 10)\<rparr>],
     rpr_correlationId = None\<rparr>"

text \<open>What the user can do on the page; \<open>Execute\<close> carries the looked-up record or \<open>undefined\<close>.\<close>

datatype page_action =
    SetOrderId jsstring
  | SetSymbol jsstring
  | SetSide jsstring
  | SetQuantity jsstring
  | SetLimitPrice jsstring
  | SetArrivalMid jsstring
  | PresetRoutable
  | PresetHalt
  | SubmitTicket
  | SetApprovalId jsstring
  | LookUp
  | Execute jsval

fun ticket_edit :: "page_action \<Rightarrow> RouteProposalRequest \<Rightarrow> RouteProposalRequest" where
  "ticket_edit (SetOrderId v) r = r\<lparr>rpr_orderId := v\<rparr>"
| "ticket_edit (SetSymbol v) r = r\<lparr>rpr_symbol := v\<rparr>"
| "ticket_edit (SetSide v) r = r\<lparr>rpr_side := (if v = u ''Buy'' then Buy else Sell)\<rparr>"
| "ticket_edit (SetQuantity v) r = r\<lparr>rpr_quantity := input_number v\<rparr>"
| "ticket_edit (SetLimitPrice v) r = r\<lparr>rpr_limitPrice := Some (input_number v)\<rparr>"
| "ticket_edit (SetArrivalMid v) r = r\<lparr>rpr_arrivalMidPrice := input_number v\<rparr>"
| "ticket_edit PresetRoutable r = routablePreset"
| "ticket_edit PresetHalt r = haltPreset"
| "ticket_edit _ r = r"

definition ticket_field :: "string \<Rightarrow> jsstring \<Rightarrow> page_action attr list \<Rightarrow> (jsstring \<Rightarrow> page_action) \<Rightarrow> page_action html" where
  "ticket_field label v as f =
     El ''label'' [cls ''field'']
       [El ''span'' [cls ''field__label''] [Txt (u label)],
        El ''input'' ([cls ''field__input''] @ as @ [Attr ''value'' v, OnText ''onChange'' f]) []]"

definition or_text :: "jsstring \<Rightarrow> jsstring \<Rightarrow> jsstring" where
  "or_text a b = (if a = [] then b else a)"

definition OrderTicket :: "RouteProposalRequest \<Rightarrow> bool \<Rightarrow> jsstring option \<Rightarrow> page_action html list" where
  "OrderTicket request submitting failure =
     [El ''form'' [cls ''ticket'', On ''onSubmit'' SubmitTicket]
       ([El ''h3'' [cls ''ticket__heading''] [Txt (u ''Order ticket'')]]
        @ (case failure of None \<Rightarrow> [] | Some f \<Rightarrow>
             if f = [] then [] else [Banner ''danger'' (u ''The request failed'') (Some f)])
        @ [El ''div'' [cls ''ticket__grid'']
            [ticket_field ''Order id'' (rpr_orderId request) [] SetOrderId,
             ticket_field ''Symbol'' (rpr_symbol request) [] SetSymbol,
             El ''label'' [cls ''field'']
               [El ''span'' [cls ''field__label''] [Txt (u ''Side'')],
                El ''select'' [cls ''field__input'', Attr ''value'' (OrderSide_text (rpr_side request)), OnText ''onChange'' SetSide]
                  [El ''option'' [Attr ''value'' (u ''Buy'')] [Txt (u ''Buy'')],
                   El ''option'' [Attr ''value'' (u ''Sell'')] [Txt (u ''Sell'')]]],
             ticket_field ''Quantity'' (num_text (rpr_quantity request))
               [Attr ''type'' (u ''number''), Attr ''min'' (u ''1'')] SetQuantity,
             ticket_field ''Limit price'' (num_text (case rpr_limitPrice request of None \<Rightarrow> 0 | Some q \<Rightarrow> q))
               [Attr ''type'' (u ''number''), Attr ''step'' (u ''0.01'')] SetLimitPrice,
             ticket_field ''Arrival mid'' (num_text (rpr_arrivalMidPrice request))
               [Attr ''type'' (u ''number''), Attr ''step'' (u ''0.01'')] SetArrivalMid],
           El ''p'' [cls ''ticket__quotes'']
             [Txt (show_int (int (length (rpr_quotes request)))), Txt (u '' venue quote''),
              Txt (if length (rpr_quotes request) = 1 then [] else u ''s''), Txt (u '': ''),
              Txt (or_text (join (u '', '') (map vqi_venueCode (rpr_quotes request)))
                (u ''none '' @ [0x2014] @ u '' the router will refuse''))],
           El ''div'' [cls ''ticket__actions'']
             [El ''button'' [Attr ''type'' (u ''submit''), cls ''button button--primary'', Flag ''disabled'' submitting]
                [Txt (if submitting then u ''Routing'' @ [0x2026] else u ''Propose route'')],
              El ''button'' [Attr ''type'' (u ''button''), cls ''button'', Flag ''disabled'' submitting, On ''onClick'' PresetRoutable]
                [Txt (u ''Preset: routable'')],
              El ''button'' [Attr ''type'' (u ''button''), cls ''button'', Flag ''disabled'' submitting, On ''onClick'' PresetHalt]
                [Txt (u ''Preset: policy halt'')]]])]"

text \<open>
  A form submits through its enabled submit button, clicked or by the Enter key in a field: a
  disabled default button blocks both.
\<close>

fun enabled_submit :: "'e html \<Rightarrow> bool" where
  "enabled_submit (El t as cs) \<longleftrightarrow>
     t = ''button'' \<and> attr_of ''type'' as = Some (u ''submit'') \<and> \<not> flag_of ''disabled'' as"
| "enabled_submit (Txt _) = False"

definition can_submit :: "'e html list \<Rightarrow> bool" where
  "can_submit hs \<longleftrightarrow> (\<exists>b \<in> set (frag_els ''button'' hs). enabled_submit b)"

section \<open>The execution panel\<close>

record panel =
  pn_id :: nat
  pn_approvalId :: jsstring
  pn_lookup :: jsval
  pn_lookupFailure :: "jsstring option"
  pn_busy :: bool

definition fresh_panel :: "nat \<Rightarrow> panel" where
  "fresh_panel n = \<lparr>pn_id = n, pn_approvalId = [], pn_lookup = JUndef, pn_lookupFailure = None, pn_busy = False\<rparr>"

text \<open>\<open>base\<close>, evaluated while the panel renders.\<close>

definition panel_base :: "jsval \<Rightarrow> js_exn + ExecuteRouteRequest" where
  "panel_base result =
     bindE (get_path result [''proposal'', ''proposalId'']) (\<lambda>p.
     bindE (get_prop result ''correlationId'') (\<lambda>c.
       Inr \<lparr>er_proposalId = p, er_correlationId = c, er_approval = None\<rparr>))"

text \<open>The approval fields copied from the looked-up record.\<close>

definition copied_approval :: "jsval \<Rightarrow> js_exn + ExecutionApproval" where
  "copied_approval a =
     bindE (get_prop a ''id'') (\<lambda>i.
     bindE (get_prop a ''decidedByObjectId'') (\<lambda>by_whom.
     bindE (get_prop a ''decidedAt'') (\<lambda>decided_at.
     bindE (if nullish decided_at then get_prop a ''createdAt'' else Inr decided_at) (\<lambda>approved_at.
     bindE (get_prop a ''expiresAt'') (\<lambda>expires.
       Inr \<lparr>ea_approvalId = i, ea_approvedBy = coalesce by_whom (JStr []), ea_approvedAt = approved_at,
            ea_expiresAt = expires\<rparr>)))))"

definition execute_request :: "jsval \<Rightarrow> jsval \<Rightarrow> js_exn + ExecuteRouteRequest" where
  "execute_request result approval =
     bindE (panel_base result) (\<lambda>base.
       if truthy approval then bindE (copied_approval approval) (\<lambda>a. Inr (base\<lparr>er_approval := Some a\<rparr>))
       else Inr base)"

definition lookup_view :: "jsval \<Rightarrow> js_exn + page_action html list" where
  "lookup_view lookup =
     (if \<not> truthy lookup then bindE (child lookup) (\<lambda>h. Inr (h @ h))
      else bindE (child_at lookup [''state'']) (\<lambda>st.
        bindE (child_at lookup [''proposedByObjectId'']) (\<lambda>by_whom.
        bindE (bindE (get_prop lookup ''decidedByObjectId'')
          (\<lambda>d. child (coalesce d (JStr (u ''Not yet decided''))))) (\<lambda>decided.
        bindE (child_at lookup [''expiresAt'']) (\<lambda>expires.
        bindE (get_prop lookup ''state'') (\<lambda>state.
          Inr ([El ''dl'' [cls ''kv kv--inline'']
                 [El ''dt'' [] [Txt (u ''State'')], El ''dd'' [] st,
                  El ''dt'' [] [Txt (u ''Proposed by'')], El ''dd'' [cls ''mono''] by_whom,
                  El ''dt'' [] [Txt (u ''Decided by'')], El ''dd'' [cls ''mono''] decided,
                  El ''dt'' [] [Txt (u ''Expires'')], El ''dd'' [] expires]]
            @ (if state = JStr (u ''Approved'') then []
               else [Banner ''warning'' (u ''This approval is '' @ val_text state)
                 (Some (u ''Sending it will be refused. The request is still forwarded unchanged so the refusal comes from the service, not from this screen.''))]))))))))"

definition panel_button :: "string \<Rightarrow> string \<Rightarrow> page_action \<Rightarrow> bool \<Rightarrow> page_action html" where
  "panel_button label c a disabled =
     El ''button'' [Attr ''type'' (u ''button''), cls c, On ''onClick'' a, Flag ''disabled'' disabled] [Txt (u label)]"

definition ExecutionPanel :: "jsval \<Rightarrow> panel \<Rightarrow> js_exn + page_action html list" where
  "ExecutionPanel result p =
     bindE (panel_base result) (\<lambda>base.
     bindE (lookup_view (pn_lookup p)) (\<lambda>found.
       Inr [El ''section'' [cls ''execution execution--panel'']
         ([El ''h3'' [cls ''execution__heading''] [Txt (u ''Execute this proposal'')],
           El ''p'' [cls ''screen__subtitle'']
             [Txt (u ''Execution requires an approval granted by someone other than the proposer. This panel forwards the approval record as the approvals service returned it; it does not build one.'')],
           El ''label'' [cls ''field'']
             [El ''span'' [cls ''field__label'']
                [Txt (u ''Approval id''),
                 El ''span'' [cls ''field__hint''] [Txt (u '' '' @ [0x2014] @ u '' the proposal must already have been approved'')]],
              El ''input'' [cls ''field__input'', Attr ''value'' (pn_approvalId p), OnText ''onChange'' SetApprovalId,
                Attr ''placeholder'' (u ''APR-'' @ [0x2026])] []],
           El ''div'' [cls ''ticket__actions'']
             [panel_button ''Look up approval'' ''button'' LookUp (pn_busy p \<or> length (trim (pn_approvalId p)) = 0),
              panel_button ''Execute with this approval'' ''button button--primary'' (Execute (pn_lookup p))
                (pn_busy p \<or> \<not> truthy (pn_lookup p)),
              panel_button ''Attempt without approval'' ''button button--danger'' (Execute JUndef) (pn_busy p)]]
          @ (case pn_lookupFailure p of None \<Rightarrow> [] | Some f \<Rightarrow>
               if f = [] then [] else [Banner ''danger'' (u ''Approval not retrieved'') (Some f)])
          @ found)]))"

section \<open>The controls of the page\<close>

lemma mapE_els:
  "mapE f xs = Inr hs \<Longrightarrow> (\<And>x h. x \<in> set xs \<Longrightarrow> f x = Inr h \<Longrightarrow> els t h = []) \<Longrightarrow> frag_els t hs = []"
proof (induction xs arbitrary: hs)
  case (Cons x xs)
  then obtain h hs' where "f x = Inr h" "mapE f xs = Inr hs'" "hs = h # hs'"
    by (auto simp: bindE_Inr_iff)
  moreover have "els t h = []"
    using Cons.prems(2) [OF _ \<open>f x = Inr h\<close>] by simp
  moreover have "frag_els t hs' = []"
    by (rule Cons.IH [OF \<open>mapE f xs = Inr hs'\<close>]) (rule Cons.prems(2), simp_all)
  ultimately show ?case by simp
qed simp

lemma mapE_image: "mapE f xs = Inr ys \<Longrightarrow> y \<in> set ys \<Longrightarrow> \<exists>x \<in> set xs. f x = Inr y"
  unfolding mapE_Inr_iff list_all2_conv_all_nth by (metis in_set_conv_nth)

lemma child_els: "child v = Inr hs \<Longrightarrow> frag_els t hs = []"
proof (induction v arbitrary: hs rule: child.induct)
  case (6 vs)
  then obtain hss where hss: "mapE child vs = Inr hss" and hs: "hs = concat hss"
    by (auto simp: bindE_Inr_iff)
  have "frag_els t h = []" if "h \<in> set hss" for h
    using mapE_image [OF hss that] "6.IH" by blast
  then show ?case by (simp add: hs frag_els_concat)
qed auto

lemma child_at_els: "child_at v ks = Inr hs \<Longrightarrow> frag_els t hs = []"
  by (auto simp: child_at_def inr_iff dest: child_els)

lemma cell_els: "cell m = Inr h \<Longrightarrow> (\<And>hs. m = Inr hs \<Longrightarrow> frag_els ''button'' hs = []) \<Longrightarrow> els ''button'' h = []"
  by (auto simp: cell_def inr_iff)

lemma breach_row_els: "breach_row x = Inr h \<Longrightarrow> els ''button'' h = []"
  unfolding breach_row_def
  by (cases x) (auto simp: inr_iff list_all2_Cons1 elim!: cell_els dest!: child_els child_at_els)

lemma BreachTable_els: "BreachTable v = Inr h \<Longrightarrow> els ''button'' h = []"
  by (auto simp: BreachTable_def bindE_Inr_iff head_cell_def elim!: mapE_els breach_row_els)

lemma considered_why_els: "considered_why v = Inr hs \<Longrightarrow> frag_els ''button'' hs = []"
  by (auto simp: considered_why_def bindE_Inr_iff dest: child_at_els split: if_splits)

lemma considered_row_els: "considered_row v = Inr h \<Longrightarrow> els ''button'' h = []"
  unfolding considered_row_def
  by (auto simp: inr_iff list_all2_Cons1
      elim!: cell_els dest!: child_els child_at_els considered_why_els)

lemma ConsideredTable_els: "ConsideredTable v = Inr h \<Longrightarrow> els ''button'' h = []"
  by (auto simp: ConsideredTable_def bindE_Inr_iff head_cell_def elim!: mapE_els considered_row_els)

lemma correlation_note_els: "correlation_note v = Inr h \<Longrightarrow> els ''button'' h = []"
  by (auto simp: correlation_note_def bindE_Inr_iff dest: child_at_els)

lemma HaltView_els: "HaltView v = Inr hs \<Longrightarrow> frag_els ''button'' hs = []"
  by (auto simp: HaltView_def bindE_Inr_iff dest: BreachTable_els ConsideredTable_els correlation_note_els)

lemma cost_entry_els: "cost_entry p l f q d x = Inr hs \<Longrightarrow> frag_els ''button'' hs = []"
  by (auto simp: cost_entry_def bindE_Inr_iff)

lemma ProposalView_els: "ProposalView loc v = Inr hs \<Longrightarrow> frag_els ''button'' hs = []"
  unfolding ProposalView_def
  by (auto simp: inr_iff list_all2_Cons1 dest!: ConsideredTable_els correlation_note_els child_at_els cost_entry_els)

lemma ExecutionView_els: "ExecutionView loc v = Inr h \<Longrightarrow> els ''button'' h = []"
  by (auto simp: ExecutionView_def bindE_Inr_iff SimulatedBadge_def dest!: child_at_els)

lemma ExecutionRefusalView_els: "ExecutionRefusalView v = Inr h \<Longrightarrow> els ''button'' h = []"
  by (auto simp: ExecutionRefusalView_def bindE_Inr_iff)

lemma OrderRoutingScreen_els: "OrderRoutingScreen loc r x = Inr hs \<Longrightarrow> frag_els ''button'' hs = []"
  unfolding OrderRoutingScreen_def
  by (auto simp: bindE_Inr_iff empty_screen_def split: if_splits
      dest: HaltView_els ProposalView_els ExecutionView_els ExecutionRefusalView_els)

lemma lookup_view_els: "lookup_view v = Inr hs \<Longrightarrow> frag_els ''button'' hs = []"
  by (auto simp: lookup_view_def bindE_Inr_iff split: if_splits dest: child_els child_at_els)

lemma clickable_frag_els: "clickable hs = {e. \<exists>b \<in> set (frag_els ''button'' hs).
    \<not> bt_disabled (as_button b) \<and> bt_action (as_button b) = Some e}"
  by (auto simp: clickable_def buttons_def)

lemma OrderTicket_buttons: "frag_els ''button'' (OrderTicket rq sub f) =
   [El ''button'' [Attr ''type'' (u ''submit''), cls ''button button--primary'', Flag ''disabled'' sub]
      [Txt (if sub then u ''Routing'' @ [0x2026] else u ''Propose route'')],
    El ''button'' [Attr ''type'' (u ''button''), cls ''button'', Flag ''disabled'' sub, On ''onClick'' PresetRoutable]
      [Txt (u ''Preset: routable'')],
    El ''button'' [Attr ''type'' (u ''button''), cls ''button'', Flag ''disabled'' sub, On ''onClick'' PresetHalt]
      [Txt (u ''Preset: policy halt'')]]"
  by (auto simp: OrderTicket_def ticket_field_def split: option.splits)

lemma ExecutionPanel_buttons: "ExecutionPanel r p = Inr hs \<Longrightarrow> frag_els ''button'' hs =
   [panel_button ''Look up approval'' ''button'' LookUp (pn_busy p \<or> length (trim (pn_approvalId p)) = 0),
    panel_button ''Execute with this approval'' ''button button--primary'' (Execute (pn_lookup p))
      (pn_busy p \<or> \<not> truthy (pn_lookup p)),
    panel_button ''Attempt without approval'' ''button button--danger'' (Execute JUndef) (pn_busy p)]"
  by (auto simp: ExecutionPanel_def bindE_Inr_iff panel_button_def dest: lookup_view_els split: option.splits)

lemma ExecutionPanel_clickable: "ExecutionPanel r p = Inr hs \<Longrightarrow> clickable hs =
   (if pn_busy p then {}
    else {Execute JUndef} \<union> (if truthy (pn_lookup p) then {Execute (pn_lookup p)} else {})
      \<union> (if trim (pn_approvalId p) = [] then {} else {LookUp}))"
  by (auto simp: clickable_frag_els ExecutionPanel_buttons panel_button_def cls_def)

lemma OrderTicket_clickable: "clickable (OrderTicket rq sub f) = (if sub then {} else {PresetRoutable, PresetHalt})"
  by (auto simp: clickable_frag_els OrderTicket_buttons cls_def)

lemma OrderTicket_can_submit: "can_submit (OrderTicket rq sub f @ hs) \<longleftrightarrow> \<not> sub \<or> can_submit hs"
  by (auto simp: can_submit_def OrderTicket_buttons cls_def)

end
