(* ===== verification/OrderRouting.thy ===== *)
theory OrderRouting
  imports OrderTicket SingleFlight ApprovalRules
begin

text \<open>
  The order-routing page (\<open>features/orderrouting/routes.tsx\<close>) as a state machine.  A handler runs in
  two segments: up to its \<open>await\<close>, and from the reply on.  Replies arrive in any order; the page
  re-renders after every segment, which mounts and unmounts the execution panel.
\<close>

section \<open>The route's state and handlers\<close>

record route_state =
  ro_result :: jsval
  ro_execution :: jsval
  ro_failure :: "jsstring option"
  ro_submitting :: bool

definition route_start :: route_state where
  "route_start = \<lparr>ro_result = JUndef, ro_execution = JUndef, ro_failure = None, ro_submitting = False\<rparr>"

fun exn_message :: "string \<Rightarrow> js_exn \<Rightarrow> jsstring" where
  "exn_message fallback (ApiError _ msg _) = msg"
| "exn_message fallback (JsError msg) = msg"
| "exn_message fallback NotAnError = u fallback"

definition propose_start :: "route_state \<Rightarrow> route_state" where
  "propose_start s = s\<lparr>ro_submitting := True, ro_failure := None, ro_execution := JUndef\<rparr>"

definition propose_end :: "js_exn + jsval \<Rightarrow> route_state \<Rightarrow> route_state" where
  "propose_end reply s =
     (case reply of
        Inr v \<Rightarrow> s\<lparr>ro_result := v, ro_submitting := False\<rparr>
      | Inl e \<Rightarrow> s\<lparr>ro_result := JUndef, ro_failure := Some (exn_message ''The proposal request failed.'' e),
                   ro_submitting := False\<rparr>)"

definition run_start :: "route_state \<Rightarrow> route_state" where
  "run_start s = s\<lparr>ro_failure := None\<rparr>"

definition run_end :: "js_exn + jsval \<Rightarrow> route_state \<Rightarrow> route_state" where
  "run_end reply s =
     (case bindE reply (\<lambda>response. bindE (isExecutionRefusal response)
             (\<lambda>refused. if refused then Inr response else get_prop response ''execution'')) of
        Inr v \<Rightarrow> s\<lparr>ro_execution := v\<rparr>
      | Inl e \<Rightarrow> s\<lparr>ro_execution := JUndef, ro_failure := Some (exn_message ''The execution request failed.'' e)\<rparr>)"

text \<open>\<open>executable\<close>: the result while it is not a halt.\<close>

definition executable :: "jsval \<Rightarrow> js_exn + jsval" where
  "executable result =
     (if truthy result then bindE (isHalt result) (\<lambda>h. Inr (if h then JUndef else result)) else Inr JUndef)"

section \<open>The panel's handlers\<close>

definition look_start :: "panel \<Rightarrow> panel" where
  "look_start p = p\<lparr>pn_busy := True, pn_lookupFailure := None, pn_lookup := JUndef\<rparr>"

definition look_end :: "js_exn + jsval \<Rightarrow> panel \<Rightarrow> panel" where
  "look_end reply p =
     (case reply of
        Inr v \<Rightarrow> p\<lparr>pn_lookup := v, pn_busy := False\<rparr>
      | Inl e \<Rightarrow> p\<lparr>pn_lookupFailure := Some (exn_message ''That approval could not be retrieved.'' e), pn_busy := False\<rparr>)"

definition execute_start :: "panel \<Rightarrow> panel" where
  "execute_start p = p\<lparr>pn_busy := True\<rparr>"

definition execute_end :: "panel \<Rightarrow> panel" where
  "execute_end p = p\<lparr>pn_busy := False\<rparr>"

section \<open>The page\<close>

text \<open>
  What is in flight: the proposal, a look-up or a run, the last two tagged with the panel instance
  that waits for them.  A state update for an unmounted panel is ignored.
\<close>

datatype flight =
    Proposing RouteProposalRequest
  | Looking nat jsstring
  | Running nat ExecuteRouteRequest

record page =
  pg_ticket :: RouteProposalRequest
  pg_route :: route_state
  pg_panel :: "panel option"
  pg_next :: nat
  pg_flights :: "flight list"
  pg_seen :: "jsval set"
  pg_proposals :: "jsval set"
  pg_sent :: "(ExecuteRouteRequest \<times> jsval \<times> jsval) list"

text \<open>\<open>pg_seen\<close>, \<open>pg_proposals\<close> and \<open>pg_sent\<close> are history: the records look-ups returned, the replies to
  proposals, and each execute request sent with the result and the record it was clicked on.\<close>

definition page_start :: page where
  "page_start = \<lparr>pg_ticket = routablePreset, pg_route = route_start, pg_panel = None, pg_next = 0,
     pg_flights = [], pg_seen = {}, pg_proposals = {}, pg_sent = []\<rparr>"

definition page_view :: "(rat \<Rightarrow> jsstring) \<Rightarrow> page \<Rightarrow> js_exn + page_action html list" where
  "page_view loc s =
     (let r = pg_route s in
      bindE (executable (ro_result r)) (\<lambda>x.
      bindE (OrderRoutingScreen loc (ro_result r) (ro_execution r)) (\<lambda>screen.
      bindE (case pg_panel s of None \<Rightarrow> Inr [] | Some p \<Rightarrow> ExecutionPanel x p) (\<lambda>panel.
        Inr (OrderTicket (pg_ticket s) (ro_submitting r) (ro_failure r) @ screen @ panel)))))"

text \<open>The panel is mounted while there is something to execute, and keeps its state as long as it is.\<close>

definition remount :: "page \<Rightarrow> page" where
  "remount s =
     (if \<exists>x. executable (ro_result (pg_route s)) = Inr x \<and> x \<noteq> JUndef
      then (case pg_panel s of
              Some p \<Rightarrow> s
            | None \<Rightarrow> s\<lparr>pg_panel := Some (fresh_panel (pg_next s)), pg_next := Suc (pg_next s)\<rparr>)
      else s\<lparr>pg_panel := None\<rparr>)"

definition in_panel :: "nat \<Rightarrow> (panel \<Rightarrow> panel) \<Rightarrow> page \<Rightarrow> page" where
  "in_panel i f s = s\<lparr>pg_panel := map_option (\<lambda>p. if pn_id p = i then f p else p) (pg_panel s)\<rparr>"

definition offers :: "page_action \<Rightarrow> page \<Rightarrow> bool" where
  "offers a s \<longleftrightarrow> (\<exists>loc hs. page_view loc s = Inr hs \<and> a \<in> clickable hs)"

definition submits :: "page \<Rightarrow> bool" where
  "submits s \<longleftrightarrow> (\<exists>loc hs. page_view loc s = Inr hs \<and> can_submit hs)"

inductive page_step :: "page \<Rightarrow> page \<Rightarrow> bool" where
  typing: "(a \<in> {PresetRoutable, PresetHalt} \<longrightarrow> offers a s) \<Longrightarrow> page_step s (s\<lparr>pg_ticket := ticket_edit a (pg_ticket s)\<rparr>)"
| typing_id: "pg_panel s = Some p \<Longrightarrow> page_step s (s\<lparr>pg_panel := Some (p\<lparr>pn_approvalId := t\<rparr>)\<rparr>)"
| propose: "submits s \<Longrightarrow>
    page_step s (remount (s\<lparr>pg_route := propose_start (pg_route s),
      pg_flights := Proposing (pg_ticket s) # pg_flights s\<rparr>))"
| proposed: "Proposing rq \<in> set (pg_flights s) \<Longrightarrow>
    page_step s (remount (s\<lparr>pg_route := propose_end reply (pg_route s),
      pg_flights := remove1 (Proposing rq) (pg_flights s),
      pg_proposals := pg_proposals s \<union> (case reply of Inr v \<Rightarrow> {v} | Inl e \<Rightarrow> {})\<rparr>))"
| look: "offers LookUp s \<Longrightarrow> pg_panel s = Some p \<Longrightarrow>
    page_step s (s\<lparr>pg_panel := Some (look_start p),
      pg_flights := Looking (pn_id p) (trim (pn_approvalId p)) # pg_flights s\<rparr>)"
| looked: "Looking i t \<in> set (pg_flights s) \<Longrightarrow>
    page_step s (in_panel i (look_end reply) (s\<lparr>pg_flights := remove1 (Looking i t) (pg_flights s),
      pg_seen := pg_seen s \<union> (case reply of Inr v \<Rightarrow> {v} | Inl e \<Rightarrow> {})\<rparr>))"
| run: "offers (Execute v) s \<Longrightarrow> pg_panel s = Some p \<Longrightarrow>
    execute_request (ro_result (pg_route s)) v = Inr rq \<Longrightarrow>
    page_step s (s\<lparr>pg_panel := Some (execute_start p), pg_route := run_start (pg_route s),
      pg_flights := Running (pn_id p) rq # pg_flights s,
      pg_sent := pg_sent s @ [(rq, ro_result (pg_route s), v)]\<rparr>)"
| ran: "Running i rq \<in> set (pg_flights s) \<Longrightarrow>
    page_step s (in_panel i execute_end (s\<lparr>pg_route := run_end reply (pg_route s),
      pg_flights := remove1 (Running i rq) (pg_flights s)\<rparr>))"

inductive_cases page_stepE: "page_step s s'"

definition page_run :: "page \<Rightarrow> bool" where
  "page_run s \<longleftrightarrow> page_step\<^sup>*\<^sup>* page_start s"

section \<open>What the rendered page offers\<close>

lemma page_view_parts:
  assumes "page_view loc s = Inr hs"
  obtains screen panel where
    "hs = OrderTicket (pg_ticket s) (ro_submitting (pg_route s)) (ro_failure (pg_route s)) @ screen @ panel"
    "frag_els ''button'' screen = []"
    "panel = [] \<and> pg_panel s = None \<or> (\<exists>x p. pg_panel s = Some p \<and> ExecutionPanel x p = Inr panel)"
proof -
  from assms obtain x screen panel where
    "OrderRoutingScreen loc (ro_result (pg_route s)) (ro_execution (pg_route s)) = Inr screen"
    "(case pg_panel s of None \<Rightarrow> Inr [] | Some p \<Rightarrow> ExecutionPanel x p) = Inr panel"
    "hs = OrderTicket (pg_ticket s) (ro_submitting (pg_route s)) (ro_failure (pg_route s)) @ screen @ panel"
    unfolding page_view_def Let_def bindE_Inr_iff by blast
  then show thesis
    by (intro that [of screen panel]) (auto dest: OrderRoutingScreen_els split: option.splits)
qed

lemma no_buttons_clickable: "frag_els ''button'' hs = [] \<Longrightarrow> clickable hs = {}"
  by (simp add: clickable_frag_els)

lemma submits_idle: "submits s \<Longrightarrow> \<not> ro_submitting (pg_route s)"
proof -
  assume "submits s"
  then obtain loc hs where v: "page_view loc s = Inr hs" and c: "can_submit hs"
    by (auto simp: submits_def)
  from v obtain screen panel where hs: "hs = OrderTicket (pg_ticket s) (ro_submitting (pg_route s))
      (ro_failure (pg_route s)) @ screen @ panel"
    and n: "frag_els ''button'' screen = []"
    and p: "panel = [] \<and> pg_panel s = None \<or> (\<exists>x p. pg_panel s = Some p \<and> ExecutionPanel x p = Inr panel)"
    by (rule page_view_parts)
  have "\<not> can_submit (screen @ panel)"
    using n p by (auto simp: can_submit_def ExecutionPanel_buttons panel_button_def)
  with c show ?thesis
    by (simp add: hs OrderTicket_can_submit)
qed

lemma offers_panel:
  assumes "offers a s" and "a \<notin> {PresetRoutable, PresetHalt}"
  obtains p where "pg_panel s = Some p" "\<not> pn_busy p"
    "a = LookUp \<and> trim (pn_approvalId p) \<noteq> [] \<or> a = Execute JUndef
      \<or> a = Execute (pn_lookup p) \<and> truthy (pn_lookup p)"
proof -
  from assms(1) obtain loc hs where v: "page_view loc s = Inr hs" and c: "a \<in> clickable hs"
    by (auto simp: offers_def)
  from v obtain screen panel where hs: "hs = OrderTicket (pg_ticket s) (ro_submitting (pg_route s))
      (ro_failure (pg_route s)) @ screen @ panel"
    and n: "frag_els ''button'' screen = []"
    and p: "panel = [] \<and> pg_panel s = None \<or> (\<exists>x p. pg_panel s = Some p \<and> ExecutionPanel x p = Inr panel)"
    by (rule page_view_parts)
  from c assms(2) have "a \<in> clickable panel"
    by (auto simp: hs OrderTicket_clickable no_buttons_clickable [OF n] split: if_splits)
  with p obtain x q where "pg_panel s = Some q" "ExecutionPanel x q = Inr panel"
    by auto
  with \<open>a \<in> clickable panel\<close> show thesis
    by (intro that [of q]) (auto simp: ExecutionPanel_clickable split: if_splits)
qed

section \<open>One proposal at a time\<close>

fun is_proposing :: "flight \<Rightarrow> bool" where
  "is_proposing (Proposing _) = True"
| "is_proposing _ = False"

definition proposals_in_flight :: "page \<Rightarrow> int" where
  "proposals_in_flight s = int (length (filter is_proposing (pg_flights s)))"

lemma remount_simps [simp]:
  "pg_route (remount s) = pg_route s" "pg_flights (remount s) = pg_flights s" "pg_sent (remount s) = pg_sent s"
  "pg_seen (remount s) = pg_seen s" "pg_proposals (remount s) = pg_proposals s" "pg_ticket (remount s) = pg_ticket s"
  by (simp_all add: remount_def split: option.split)

lemma in_panel_simps [simp]:
  "pg_route (in_panel i f s) = pg_route s" "pg_flights (in_panel i f s) = pg_flights s"
  "pg_sent (in_panel i f s) = pg_sent s" "pg_seen (in_panel i f s) = pg_seen s"
  "pg_proposals (in_panel i f s) = pg_proposals s" "pg_next (in_panel i f s) = pg_next s"
  by (simp_all add: in_panel_def)

lemma route_end_submitting [simp]:
  "ro_submitting (propose_end r s) = False" "ro_submitting (run_end r s) = ro_submitting s"
  "ro_submitting (propose_start s) = True" "ro_submitting (run_start s) = ro_submitting s"
  by (auto simp: propose_end_def run_end_def propose_start_def run_start_def split: sum.splits)

lemma filter_remove1_length:
  "x \<in> set xs \<Longrightarrow> int (length (filter P (remove1 x xs))) = int (length (filter P xs)) - of_bool (P x)"
  by (induction xs) auto

interpretation propose_flight: single_flight
  "\<lambda>s. s = page_start" page_step "\<lambda>s. ro_submitting (pg_route s)" proposals_in_flight
proof
  fix s s' assume "page_step s s'"
  then show "ro_submitting (pg_route s') = ro_submitting (pg_route s) \<and> proposals_in_flight s' = proposals_in_flight s
    \<or> \<not> ro_submitting (pg_route s) \<and> ro_submitting (pg_route s') \<and> proposals_in_flight s' = proposals_in_flight s + 1
    \<or> (ro_submitting (pg_route s) \<or> 0 < proposals_in_flight s) \<and> \<not> ro_submitting (pg_route s')
        \<and> proposals_in_flight s' = proposals_in_flight s - 1"
  proof (induction rule: page_step.induct)
    case (propose s)
    then show ?case using submits_idle [of s] by (simp add: proposals_in_flight_def)
  next
    case (proposed rq s reply)
    then have "0 < length (filter is_proposing (pg_flights s))"
      by (force simp: filter_empty_conv)
    with proposed show ?case by (simp add: proposals_in_flight_def filter_remove1_length)
  qed (simp_all add: proposals_in_flight_def filter_remove1_length)
qed (simp add: page_start_def route_start_def proposals_in_flight_def)

section \<open>What requests are made of\<close>

definition mounted :: "jsval \<Rightarrow> bool" where
  "mounted result \<longleftrightarrow> (\<exists>x. executable result = Inr x \<and> x \<noteq> JUndef)"

lemma executable_Inr: "executable r = Inr x \<Longrightarrow> x \<noteq> JUndef \<Longrightarrow> x = r \<and> truthy r \<and> isHalt r = Inr False"
  by (auto simp: executable_def bindE_Inr_iff split: if_splits)

lemma mounted_iff: "mounted r \<longleftrightarrow> truthy r \<and> isHalt r = Inr False"
proof
  assume "mounted r"
  then show "truthy r \<and> isHalt r = Inr False"
    using executable_Inr unfolding mounted_def by blast
next
  assume r: "truthy r \<and> isHalt r = Inr False"
  then have "executable r = Inr r" "r \<noteq> JUndef"
    by (auto simp: executable_def)
  then show "mounted r" unfolding mounted_def by blast
qed

definition sent_ok :: "page \<Rightarrow> ExecuteRouteRequest \<times> jsval \<times> jsval \<Rightarrow> bool" where
  "sent_ok s e = (case e of (rq, result, v) \<Rightarrow>
     execute_request result v = Inr rq \<and> result \<in> pg_proposals s \<and> mounted result
     \<and> (v = JUndef \<or> v \<in> pg_seen s \<and> truthy v))"

definition page_inv :: "page \<Rightarrow> bool" where
  "page_inv s \<longleftrightarrow>
     (ro_result (pg_route s) = JUndef \<or> ro_result (pg_route s) \<in> pg_proposals s)
     \<and> (\<forall>p. pg_panel s = Some p \<longrightarrow> mounted (ro_result (pg_route s)) \<and> (pn_lookup p = JUndef \<or> pn_lookup p \<in> pg_seen s))
     \<and> (\<forall>e \<in> set (pg_sent s). sent_ok s e)"

lemma remount_panel:
  "pg_panel (remount s) = Some p \<Longrightarrow>
     mounted (ro_result (pg_route s)) \<and> (pg_panel s = Some p \<or> p = fresh_panel (pg_next s))"
  by (auto simp: remount_def mounted_def split: option.splits if_splits)

lemma sent_ok_mono:
  "sent_ok s e \<Longrightarrow> pg_proposals s \<subseteq> pg_proposals s' \<Longrightarrow> pg_seen s \<subseteq> pg_seen s' \<Longrightarrow> sent_ok s' e"
  by (auto simp: sent_ok_def)

lemma route_results [simp]:
  "ro_result (propose_start r) = ro_result r" "ro_result (run_start r) = ro_result r"
  "ro_result (run_end reply r) = ro_result r"
  by (auto simp: propose_start_def run_start_def run_end_def split: sum.splits)

lemma panel_lookups [simp]:
  "pn_lookup (look_start p) = JUndef" "pn_lookup (execute_start p) = pn_lookup p"
  "pn_lookup (execute_end p) = pn_lookup p" "pn_lookup (fresh_panel n) = JUndef"
  by (simp_all add: look_start_def execute_start_def execute_end_def fresh_panel_def)

lemma in_panel_panel: "pg_panel (in_panel i f s) = map_option (\<lambda>p. if pn_id p = i then f p else p) (pg_panel s)"
  by (simp add: in_panel_def)

lemma in_panel_Some:
  assumes "pg_panel (in_panel i f s) = Some q"
  obtains p where "pg_panel s = Some p" "q = f p \<or> q = p"
  using assms by (cases "pg_panel s") (simp_all add: in_panel_panel, metis)

lemma page_invI:
  assumes "page_inv s"
    and "ro_result (pg_route s') = JUndef \<or> ro_result (pg_route s') \<in> pg_proposals s'"
    and "\<And>p. pg_panel s' = Some p \<Longrightarrow>
        mounted (ro_result (pg_route s')) \<and> (pn_lookup p = JUndef \<or> pn_lookup p \<in> pg_seen s')"
    and "pg_proposals s \<subseteq> pg_proposals s'" and "pg_seen s \<subseteq> pg_seen s'"
    and "\<And>e. e \<in> set (pg_sent s') \<Longrightarrow> e \<in> set (pg_sent s) \<or> sent_ok s' e"
  shows "page_inv s'"
  using assms sent_ok_mono unfolding page_inv_def by metis

lemma page_step_inv: "page_step s s' \<Longrightarrow> page_inv s \<Longrightarrow> page_inv s'"
proof (induction rule: page_step.induct)
  case (typing a s)
  show ?case by (rule page_invI [OF typing.prems]) (use typing.prems in \<open>auto simp: page_inv_def\<close>)
next
  case (typing_id s p t)
  then show ?case by (intro page_invI [OF typing_id.prems]) (auto simp: page_inv_def)
next
  case (propose s)
  show ?case
    by (rule page_invI [OF propose.prems])
      (use propose.prems in \<open>auto simp: page_inv_def dest!: remount_panel\<close>)
next
  case (proposed rq s reply)
  show ?case
    by (rule page_invI [OF proposed.prems])
      (use proposed.prems in \<open>auto simp: page_inv_def propose_end_def dest!: remount_panel split: sum.splits\<close>)
next
  case (look s p)
  show ?case
    by (rule page_invI [OF look.prems]) (use look in \<open>auto simp: page_inv_def\<close>)
next
  case (looked i t s reply)
  show ?case
    by (rule page_invI [OF looked.prems])
      (use looked.prems in \<open>auto simp: page_inv_def look_end_def elim!: in_panel_Some split: sum.splits if_splits\<close>)
next
  case (run v s p rq)
  from offers_panel [OF run.hyps(1)] obtain q where "pg_panel s = Some q"
    "v = JUndef \<or> v = pn_lookup q \<and> truthy v"
    by blast
  with run.prems run.hyps(3) have ok: "sent_ok s (rq, ro_result (pg_route s), v)"
    by (auto simp: page_inv_def sent_ok_def mounted_iff)
  show ?case
    by (rule page_invI [OF run.prems])
      (use run.prems run.hyps(2) sent_ok_mono [OF ok] in \<open>auto simp: page_inv_def\<close>)
next
  case (ran i rq s reply)
  show ?case
    by (rule page_invI [OF ran.prems])
      (use ran.prems in \<open>auto simp: page_inv_def elim!: in_panel_Some\<close>)
qed

lemma page_run_inv: "page_run s \<Longrightarrow> page_inv s"
  unfolding page_run_def
proof (induction rule: rtranclp_induct)
  case base
  show ?case by (simp add: page_inv_def page_start_def route_start_def)
next
  case (step s s')
  then show ?case by (blast intro: page_step_inv)
qed

section \<open>One operation per panel\<close>

fun flight_panel :: "flight \<Rightarrow> nat option" where
  "flight_panel (Proposing _) = None"
| "flight_panel (Looking i _) = Some i"
| "flight_panel (Running i _) = Some i"

definition panel_flights :: "nat \<Rightarrow> page \<Rightarrow> int" where
  "panel_flights i s = int (length (filter (\<lambda>f. flight_panel f = Some i) (pg_flights s)))"

definition panel_inv :: "page \<Rightarrow> bool" where
  "panel_inv s \<longleftrightarrow>
     (\<forall>f \<in> set (pg_flights s). \<forall>i. flight_panel f = Some i \<longrightarrow> i < pg_next s)
     \<and> (\<forall>p. pg_panel s = Some p \<longrightarrow> pn_id p < pg_next s \<and> panel_flights (pn_id p) s = of_bool (pn_busy p))"

lemma panel_invI:
  assumes "\<And>f i. f \<in> set (pg_flights s) \<Longrightarrow> flight_panel f = Some i \<Longrightarrow> i < pg_next s"
    and "\<And>p. pg_panel s = Some p \<Longrightarrow> pn_id p < pg_next s \<and> panel_flights (pn_id p) s = of_bool (pn_busy p)"
  shows "panel_inv s"
  using assms by (auto simp: panel_inv_def)

lemma panel_fields [simp]:
  "pn_id (look_start p) = pn_id p" "pn_busy (look_start p)" "pn_id (execute_start p) = pn_id p"
  "pn_busy (execute_start p)" "pn_id (execute_end p) = pn_id p" "\<not> pn_busy (execute_end p)"
  "pn_id (look_end r p) = pn_id p" "\<not> pn_busy (look_end r p)" "pn_id (fresh_panel n) = n" "\<not> pn_busy (fresh_panel n)"
  by (simp_all add: look_start_def execute_start_def execute_end_def look_end_def fresh_panel_def split: sum.splits)

lemma unused_panel_flights: "panel_inv s \<Longrightarrow> pg_next s \<le> i \<Longrightarrow> panel_flights i s = 0"
  by (fastforce simp: panel_inv_def panel_flights_def filter_empty_conv)

lemma panel_inv_remount: "panel_inv s \<Longrightarrow> panel_inv (remount s)"
proof -
  assume inv: "panel_inv s"
  from unused_panel_flights [OF inv] have "panel_flights (pg_next s) s = 0" by simp
  with inv show ?thesis
    by (auto simp: remount_def panel_inv_def panel_flights_def less_Suc_eq split: option.splits)
qed

lemma panel_inv_route:
  "panel_inv s \<Longrightarrow> pg_flights s' = pg_flights s \<Longrightarrow> pg_panel s' = pg_panel s \<Longrightarrow> pg_next s' = pg_next s \<Longrightarrow> panel_inv s'"
  by (auto simp: panel_inv_def panel_flights_def)

lemma panel_flights_start:
  assumes "panel_inv s" "pg_panel s = Some p" "\<not> pn_busy p" "flight_panel f = Some (pn_id p)"
    and "pg_flights s' = f # pg_flights s" "pg_panel s' = Some q" "pn_id q = pn_id p" "pn_busy q" "pg_next s' = pg_next s"
  shows "panel_inv s'"
  using assms by (auto simp: panel_inv_def panel_flights_def)

lemma panel_flights_end:
  assumes inv: "panel_inv s" and f: "f \<in> set (pg_flights s)" "flight_panel f = Some i"
    and g: "\<And>p. pn_id (g p) = pn_id p \<and> \<not> pn_busy (g p)"
    and s': "pg_flights s' = remove1 f (pg_flights s)" "pg_panel s' = pg_panel s" "pg_next s' = pg_next s"
  shows "panel_inv (in_panel i g s')"
proof (rule panel_invI)
  fix h j assume "h \<in> set (pg_flights (in_panel i g s'))" and "flight_panel h = Some j"
  then show "j < pg_next (in_panel i g s')"
    using inv notin_set_remove1 [of h "pg_flights s" f] by (auto simp: panel_inv_def s')
next
  fix q assume "pg_panel (in_panel i g s') = Some q"
  then obtain p where p: "pg_panel s = Some p" and q: "q = (if pn_id p = i then g p else p)"
    by (auto simp: in_panel_panel s')
  have n: "pn_id p < pg_next s" and c: "panel_flights (pn_id p) s = of_bool (pn_busy p)"
    using inv p by (auto simp: panel_inv_def)
  have "panel_flights (pn_id p) (in_panel i g s') = panel_flights (pn_id p) s - of_bool (pn_id p = i)"
    using f by (auto simp: panel_flights_def s' filter_remove1_length)
  moreover have "pn_id p = i \<Longrightarrow> 0 < panel_flights (pn_id p) s"
    using f by (force simp: panel_flights_def filter_empty_conv)
  ultimately show "pn_id q < pg_next (in_panel i g s') \<and> panel_flights (pn_id q) (in_panel i g s') = of_bool (pn_busy q)"
    using n c g [of p] by (cases "pn_id p = i"; cases "pn_busy p") (simp_all add: q s')
qed

lemma page_step_panel: "page_step s s' \<Longrightarrow> panel_inv s \<Longrightarrow> panel_inv s'"
proof (induction rule: page_step.induct)
  case (typing a s)
  show ?case by (rule panel_inv_route [OF typing.prems]) simp_all
next
  case (typing_id s p t)
  then show ?case by (auto simp: panel_inv_def panel_flights_def)
next
  case (propose s)
  show ?case
    by (rule panel_inv_remount) (use propose.prems in \<open>auto simp: panel_inv_def panel_flights_def\<close>)
next
  case (proposed rq s reply)
  show ?case
  proof (rule panel_inv_remount, rule panel_invI)
    fix f i assume "f \<in> set (pg_flights (s\<lparr>pg_route := propose_end reply (pg_route s),
        pg_flights := remove1 (Proposing rq) (pg_flights s),
        pg_proposals := pg_proposals s \<union> (case reply of Inr v \<Rightarrow> {v} | Inl e \<Rightarrow> {})\<rparr>))" "flight_panel f = Some i"
    then show "i < pg_next (s\<lparr>pg_route := propose_end reply (pg_route s),
        pg_flights := remove1 (Proposing rq) (pg_flights s),
        pg_proposals := pg_proposals s \<union> (case reply of Inr v \<Rightarrow> {v} | Inl e \<Rightarrow> {})\<rparr>)"
      using proposed.prems notin_set_remove1 [of f "pg_flights s" "Proposing rq"] by (auto simp: panel_inv_def)
  qed (use proposed in \<open>auto simp: panel_inv_def panel_flights_def filter_remove1_length\<close>)
next
  case (look s p)
  from offers_panel [OF look.hyps(1)] look.hyps(2) have "\<not> pn_busy p" by auto
  then show ?case
    by (rule panel_flights_start [OF look.prems look.hyps(2), where q = "look_start p"]) simp_all
next
  case (looked i t s reply)
  show ?case
    by (rule panel_flights_end [OF looked.prems looked.hyps]) simp_all
next
  case (run v s p rq)
  from offers_panel [OF run.hyps(1)] run.hyps(2) have "\<not> pn_busy p" by auto
  then show ?case
    by (rule panel_flights_start [OF run.prems run.hyps(2), where q = "execute_start p"]) simp_all
next
  case (ran i rq s reply)
  show ?case
    by (rule panel_flights_end [OF ran.prems ran.hyps]) simp_all
qed

lemma page_run_panel: "page_run s \<Longrightarrow> panel_inv s"
  unfolding page_run_def
proof (induction rule: rtranclp_induct)
  case base
  show ?case by (simp add: panel_inv_def page_start_def)
next
  case (step s s')
  then show ?case by (blast intro: page_step_panel)
qed

section \<open>Concrete runs\<close>

text \<open>The fields of an approval record that the panel reads.\<close>

definition approval_json :: "ApprovalResponse \<Rightarrow> jsval" where
  "approval_json a = JObj
     ([(u ''id'', JStr (ap_id a)), (u ''state'', JStr (ApprovalState_text (ap_state a))),
       (u ''proposedByObjectId'', JStr (ap_proposedByObjectId a))]
      @ opt_field ''decidedByObjectId'' JStr (ap_decidedByObjectId a)
      @ [(u ''expiresAt'', JStr (ap_expiresAt a)), (u ''createdAt'', JStr (ap_createdAt a))]
      @ opt_field ''decidedAt'' JStr (ap_decidedAt a))"

lemma approval_json_renders: "\<exists>hs. lookup_view (approval_json a) = Inr hs"
  by (simp add: lookup_view_def approval_json_def child_at_def lookup_prop_def opt_field_def coalesce_def
      nullish_def split: option.splits)

lemma approval_json_truthy: "truthy (approval_json a)"
  by (simp add: approval_json_def)

abbreviation reply :: "RouteProposal \<Rightarrow> jsstring \<Rightarrow> jsval" where
  "reply p c \<equiv> proposal_reply p (JArr []) c"

lemma reply_executable: "executable (reply p c) = Inr (reply p c)"
  by (simp add: executable_def isHalt_def proposal_reply_def lookup_prop_def)

lemma reply_not_undefined [simp]: "reply p c \<noteq> JUndef"
  by (simp add: proposal_reply_def)

lemma panel_base_reply:
  "panel_base (reply p c) = Inr \<lparr>er_proposalId = JStr (rp_proposalId p), er_correlationId = JStr c, er_approval = None\<rparr>"
  by (simp add: panel_base_def proposal_reply_def RouteProposal_json_def lookup_prop_def)

lemma screen_reply: "\<exists>hs :: page_action html list. OrderRoutingScreen loc (reply p c) JUndef = Inr hs"
proof -
  obtain k :: "page_action html list" where "ProposalView loc (proposal_reply p (JArr (map VenueEvaluation_json [])) c) = Inr k"
    using ProposalView_typed by blast
  then show ?thesis
    by (simp add: OrderRoutingScreen_def proposal_reply_def lookup_prop_def)
qed

lemma panel_reply:
  "pn_lookup q = JUndef \<or> (\<exists>a. pn_lookup q = approval_json a) \<Longrightarrow> \<exists>hs. ExecutionPanel (reply p c) q = Inr hs"
proof -
  assume q: "pn_lookup q = JUndef \<or> (\<exists>a. pn_lookup q = approval_json a)"
  have "lookup_view JUndef = Inr []"
    by (simp add: lookup_view_def)
  with q approval_json_renders have "\<exists>hs. lookup_view (pn_lookup q) = Inr hs"
    by auto
  then show ?thesis
    by (auto simp: ExecutionPanel_def panel_base_reply)
qed

lemma page_reply_view:
  assumes "ro_result (pg_route s) = reply p c" "ro_execution (pg_route s) = JUndef"
    and "\<And>q. pg_panel s = Some q \<Longrightarrow> pn_lookup q = JUndef \<or> (\<exists>a. pn_lookup q = approval_json a)"
  shows "\<exists>hs. page_view loc s = Inr hs"
proof -
  obtain h where "OrderRoutingScreen loc (reply p c) JUndef = Inr (h :: page_action html list)"
    using screen_reply by blast
  moreover have "\<exists>k. (case pg_panel s of None \<Rightarrow> Inr [] | Some q \<Rightarrow> ExecutionPanel (reply p c) q) = Inr k"
    using assms(3) panel_reply by (cases "pg_panel s") auto
  ultimately show ?thesis
    using assms(1,2) by (auto simp: page_view_def Let_def reply_executable)
qed

lemma page_start_view: "\<exists>hs. page_view loc page_start = Inr hs"
  by (simp add: page_view_def page_start_def route_start_def Let_def executable_def OrderRoutingScreen_def)

lemma submitsI: "page_view loc s = Inr hs \<Longrightarrow> \<not> ro_submitting (pg_route s) \<Longrightarrow> submits s"
proof -
  assume v: "page_view loc s = Inr hs" and n: "\<not> ro_submitting (pg_route s)"
  from v obtain t where "hs = OrderTicket (pg_ticket s) (ro_submitting (pg_route s)) (ro_failure (pg_route s)) @ t"
    by (rule page_view_parts) simp
  with v n show ?thesis
    unfolding submits_def using OrderTicket_can_submit by blast
qed

lemma offersI:
  assumes v: "page_view loc s = Inr hs" and p: "pg_panel s = Some p" "\<not> pn_busy p"
    and a: "a = LookUp \<and> trim (pn_approvalId p) \<noteq> [] \<or> a = Execute JUndef
      \<or> a = Execute (pn_lookup p) \<and> truthy (pn_lookup p)"
  shows "offers a s"
proof -
  from v obtain screen panel where hs: "hs = OrderTicket (pg_ticket s) (ro_submitting (pg_route s))
      (ro_failure (pg_route s)) @ screen @ panel"
    and q: "panel = [] \<and> pg_panel s = None \<or> (\<exists>x p. pg_panel s = Some p \<and> ExecutionPanel x p = Inr panel)"
    by (rule page_view_parts)
  from q p(1) obtain x where "ExecutionPanel x p = Inr panel" by auto
  with p(2) a have "a \<in> clickable panel"
    by (auto simp: ExecutionPanel_clickable)
  then have "a \<in> clickable hs" by (simp add: hs)
  with v show ?thesis
    unfolding offers_def by blast
qed

text \<open>
  A page that shows a proposal beside a panel that has looked an approval up, with nothing in flight.
\<close>

definition ready_page :: "RouteProposal \<Rightarrow> jsstring \<Rightarrow> ApprovalResponse \<Rightarrow> page" where
  "ready_page p c a = page_start\<lparr>pg_route := route_start\<lparr>ro_result := reply p c\<rparr>,
     pg_panel := Some ((fresh_panel 0)\<lparr>pn_approvalId := u ''A'', pn_lookup := approval_json a\<rparr>), pg_next := 1,
     pg_seen := {approval_json a}, pg_proposals := {reply p c}\<rparr>"

lemma page_run_step: "page_run s \<Longrightarrow> page_step s s' \<Longrightarrow> page_run s'"
  unfolding page_run_def by (rule rtranclp.rtrancl_into_rtrancl)

lemma page_run_start: "page_run page_start"
  by (simp add: page_run_def)

lemma remount_reply:
  "ro_result (pg_route s) = reply p c \<Longrightarrow> remount s =
     (case pg_panel s of Some q \<Rightarrow> s
      | None \<Rightarrow> s\<lparr>pg_panel := Some (fresh_panel (pg_next s)), pg_next := Suc (pg_next s)\<rparr>)"
  using reply_executable by (auto simp: remount_def)

lemma remount_start: "ro_result (pg_route s) = JUndef \<Longrightarrow> remount s = s\<lparr>pg_panel := None\<rparr>"
  by (simp add: remount_def executable_def)

lemma first_proposal:
  "page_run (page_start\<lparr>pg_route := route_start\<lparr>ro_result := reply p c\<rparr>,
     pg_panel := Some (fresh_panel 0), pg_next := 1, pg_proposals := {reply p c}\<rparr>)"
proof -
  obtain hs where "page_view (\<lambda>_. []) page_start = Inr hs"
    using page_start_view by blast
  then have "submits page_start"
    by (rule submitsI) (simp add: page_start_def route_start_def)
  from page_run_step [OF page_run_start page_step.propose [OF this]]
  have 1: "page_run (page_start\<lparr>pg_route := propose_start route_start, pg_flights := [Proposing routablePreset]\<rparr>)"
    by (simp add: page_start_def remount_start route_start_def)
  from page_run_step [OF 1 page_step.proposed [of routablePreset _ "Inr (reply p c)"]]
  show ?thesis
    by (simp add: remount_reply propose_end_def propose_start_def page_start_def route_start_def)
qed

lemma ready_page_run: "page_run (ready_page p c a)"
proof -
  let ?s1 = "page_start\<lparr>pg_route := route_start\<lparr>ro_result := reply p c\<rparr>,
     pg_panel := Some (fresh_panel 0), pg_next := 1, pg_proposals := {reply p c}\<rparr>"
  let ?q = "(fresh_panel 0)\<lparr>pn_approvalId := u ''A''\<rparr>"
  let ?s2 = "?s1\<lparr>pg_panel := Some ?q\<rparr>"
  have 2: "page_run ?s2"
    using page_run_step [OF first_proposal page_step.typing_id] by simp
  obtain hs where "page_view (\<lambda>_. []) ?s2 = Inr hs"
    using page_reply_view [of ?s2 p c] by (auto simp: fresh_panel_def route_start_def)
  then have "offers LookUp ?s2"
    by (rule offersI [where p = ?q]) (simp_all, code_simp)
  moreover have "trim (u ''A'') = u ''A''" by code_simp
  ultimately have 3: "page_run (?s2\<lparr>pg_panel := Some (look_start ?q), pg_flights := [Looking 0 (u ''A'')]\<rparr>)"
    using page_run_step [OF 2 page_step.look [of ?s2 ?q]] by (simp add: page_start_def)
  from page_run_step [OF 3 page_step.looked [of 0 "u ''A''" _ "Inr (approval_json a)"]]
  show ?thesis
    by (simp add: ready_page_def in_panel_def look_end_def look_start_def fresh_panel_def page_start_def)
qed

lemma ready_page_view: "\<exists>hs. page_view loc (ready_page p c a) = Inr hs"
  by (rule page_reply_view [of _ p c]) (auto simp: ready_page_def page_start_def route_start_def fresh_panel_def)

definition sample_proposal :: "jsstring \<Rightarrow> RouteProposal" where
  "sample_proposal i = \<lparr>rp_proposalId = i, rp_correlationId = [], rp_orderId = [], rp_quantity = 1, rp_venueCode = [],
     rp_cost = ve_cost sample_evaluation, rp_liquidityRationale = [], rp_bestExecutionJustification = [],
     rp_proposedBy = [], rp_considered = []\<rparr>"

definition sample_fill :: "jsstring \<Rightarrow> SimulatedExecution" where
  "sample_fill i = \<lparr>se_executionId = i, se_proposalId = [], se_orderId = [], se_correlationId = [], se_venueCode = [],
     se_quantity = 1, se_price = 1, se_executedAt = [], se_approvalId = [], se_executionMode = []\<rparr>"

text \<open>The order-routing service's reply to an execution: \<open>{ executed: true, execution, correlationId }\<close>.\<close>

definition fill_reply :: "SimulatedExecution \<Rightarrow> jsstring \<Rightarrow> jsval" where
  "fill_reply x c = JObj [(u ''executed'', JBool True), (u ''execution'', SimulatedExecution_json x),
     (u ''correlationId'', JStr c)]"

lemma run_end_fill: "run_end (Inr (fill_reply x c)) r = r\<lparr>ro_execution := SimulatedExecution_json x\<rparr>"
  by (simp add: run_end_def fill_reply_def isExecutionRefusal_def lookup_prop_def)

definition copy_of :: "ApprovalResponse \<Rightarrow> ExecutionApproval" where
  "copy_of a = \<lparr>ea_approvalId = JStr (ap_id a),
     ea_approvedBy = JStr (case ap_decidedByObjectId a of None \<Rightarrow> [] | Some d \<Rightarrow> d),
     ea_approvedAt = JStr (case ap_decidedAt a of None \<Rightarrow> ap_createdAt a | Some t \<Rightarrow> t),
     ea_expiresAt = JStr (ap_expiresAt a)\<rparr>"

lemma copied_approval_json: "copied_approval (approval_json a) = Inr (copy_of a)"
  by (simp add: copied_approval_def approval_json_def lookup_prop_def opt_field_def coalesce_def nullish_def
      copy_of_def split: option.splits)

lemma execute_request_reply:
  "execute_request (reply p c) (approval_json a) =
     Inr \<lparr>er_proposalId = JStr (rp_proposalId p), er_correlationId = JStr c, er_approval = Some (copy_of a)\<rparr>"
  by (simp add: execute_request_def panel_base_reply approval_json_truthy copied_approval_json)

lemma ready_page_fields:
  "pg_route (ready_page p c a) = route_start\<lparr>ro_result := reply p c\<rparr>"
  "pg_panel (ready_page p c a) = Some ((fresh_panel 0)\<lparr>pn_approvalId := u ''A'', pn_lookup := approval_json a\<rparr>)"
  "pg_flights (ready_page p c a) = []" "pg_sent (ready_page p c a) = []" "pg_seen (ready_page p c a) = {approval_json a}"
  by (simp_all add: ready_page_def page_start_def)

lemma propose_again:
  assumes "page_run s" "page_view loc s = Inr hs" "\<not> ro_submitting (pg_route s)"
    and "pg_panel s = Some q" "ro_result (pg_route s) = reply p c"
  shows "page_step\<^sup>*\<^sup>* s (s\<lparr>pg_route := (pg_route s)\<lparr>ro_failure := None, ro_execution := JUndef,
      ro_result := reply p' c', ro_submitting := False\<rparr>, pg_proposals := pg_proposals s \<union> {reply p' c'}\<rparr>)"
proof -
  let ?t = "s\<lparr>pg_route := propose_start (pg_route s), pg_flights := Proposing (pg_ticket s) # pg_flights s\<rparr>"
  have "submits s"
    using assms(2,3) by (rule submitsI)
  then have 1: "page_step s (remount ?t)" by (rule page_step.propose)
  have t: "remount ?t = ?t"
    using assms(4,5) by (simp add: remount_reply)
  have 2: "page_step ?t (remount (?t\<lparr>pg_route := propose_end (Inr (reply p' c')) (pg_route ?t),
      pg_flights := remove1 (Proposing (pg_ticket s)) (pg_flights ?t),
      pg_proposals := pg_proposals ?t \<union> (case Inr (reply p' c') of Inr v \<Rightarrow> {v} | Inl (e::js_exn) \<Rightarrow> {})\<rparr>))"
    by (rule page_step.proposed) simp
  have e: "remount (?t\<lparr>pg_route := propose_end (Inr (reply p' c')) (pg_route ?t),
      pg_flights := remove1 (Proposing (pg_ticket s)) (pg_flights ?t),
      pg_proposals := pg_proposals ?t \<union> (case Inr (reply p' c') of Inr v \<Rightarrow> {v} | Inl (e::js_exn) \<Rightarrow> {})\<rparr>)
    = s\<lparr>pg_route := (pg_route s)\<lparr>ro_failure := None, ro_execution := JUndef,
      ro_result := reply p' c', ro_submitting := False\<rparr>, pg_proposals := pg_proposals s \<union> {reply p' c'}\<rparr>"
    using assms(4) by (simp add: remount_reply [of _ p' c'] propose_end_def propose_start_def)
  from 1 2 show ?thesis
    unfolding t e by (rule converse_rtranclp_into_rtranclp [OF _ r_into_rtranclp])
qed

definition copies :: "jsval \<Rightarrow> ExecutionApproval \<Rightarrow> bool" where
  "copies v a \<longleftrightarrow>
     get_prop v ''id'' = Inr (ea_approvalId a) \<and> get_prop v ''expiresAt'' = Inr (ea_expiresAt a)
     \<and> (\<exists>d. get_prop v ''decidedByObjectId'' = Inr d \<and> ea_approvedBy a = coalesce d (JStr []))
     \<and> (\<exists>t c. get_prop v ''decidedAt'' = Inr t \<and> (nullish t \<longrightarrow> get_prop v ''createdAt'' = Inr c)
           \<and> ea_approvedAt a = coalesce t c)"

lemma copied_approval_copies: "copied_approval v = Inr a \<Longrightarrow> copies v a"
proof -
  assume "copied_approval v = Inr a"
  then obtain i d t at' e where f: "get_prop v ''id'' = Inr i" "get_prop v ''decidedByObjectId'' = Inr d"
      "get_prop v ''decidedAt'' = Inr t" "(if nullish t then get_prop v ''createdAt'' else Inr t) = Inr at'"
      "get_prop v ''expiresAt'' = Inr e"
    and a: "a = \<lparr>ea_approvalId = i, ea_approvedBy = coalesce d (JStr []), ea_approvedAt = at', ea_expiresAt = e\<rparr>"
    unfolding copied_approval_def bindE_Inr_iff by blast
  from f(4) have "(nullish t \<longrightarrow> get_prop v ''createdAt'' = Inr at') \<and> at' = coalesce t at'"
    by (cases "nullish t") (simp_all add: coalesce_def)
  with f a show ?thesis
    unfolding copies_def by simp blast
qed

lemma execute_request_parts:
  "execute_request result v = Inr rq \<Longrightarrow>
     get_path result [''proposal'', ''proposalId''] = Inr (er_proposalId rq)
     \<and> get_prop result ''correlationId'' = Inr (er_correlationId rq)
     \<and> (if truthy v then \<exists>a. er_approval rq = Some a \<and> copied_approval v = Inr a else er_approval rq = None)"
  unfolding execute_request_def panel_base_def bindE_Inr_iff
  by (cases "truthy v") (auto simp del: get_path.simps simp: bindE_Inr_iff)

section \<open>Properties\<close>

text \<open>Every execute request the page ever sends, whatever the replies and their order: it was clicked
  on a reply to a proposal that is not a halt, its ids are the ones that reply carries, and its
  approval is absent or is a field-for-field copy of a record that an approval look-up returned,
  with an empty approver when nobody has decided and the creation time when no decision time exists.\<close>

theorem execute_requests_are_copies:
  assumes "page_run s" and "(rq, result, v) \<in> set (pg_sent s)"
  shows "result \<in> pg_proposals s \<and> isHalt result = Inr False
    \<and> get_path result [''proposal'', ''proposalId''] = Inr (er_proposalId rq)
    \<and> get_prop result ''correlationId'' = Inr (er_correlationId rq)
    \<and> (case er_approval rq of None \<Rightarrow> v = JUndef | Some a \<Rightarrow> v \<in> pg_seen s \<and> copies v a)"
proof -
  have e: "execute_request result v = Inr rq" and r: "result \<in> pg_proposals s" "mounted result"
    and v: "v = JUndef \<or> v \<in> pg_seen s \<and> truthy v"
    using page_run_inv [OF assms(1)] assms(2) by (auto simp: page_inv_def sent_ok_def)
  from execute_request_parts [OF e] v
  have "case er_approval rq of None \<Rightarrow> v = JUndef | Some a \<Rightarrow> v \<in> pg_seen s \<and> copies v a"
    by (auto simp del: get_path.simps intro: copied_approval_copies split: if_splits)
  with r execute_request_parts [OF e] show ?thesis
    unfolding mounted_iff by blast
qed

theorem execute_requests_are_copies_witness:
  "\<exists>s rq result v. page_run s \<and> (rq, result, v) \<in> set (pg_sent s) \<and> copies v (copy_of sample_approval)"
proof -
  let ?p = "sample_proposal (u ''P1'')" and ?a = "sample_approval"
  let ?rq = "\<lparr>er_proposalId = JStr (rp_proposalId ?p), er_correlationId = JStr [], er_approval = Some (copy_of ?a)\<rparr>"
  let ?s = "ready_page ?p [] ?a"
  obtain hs where "page_view (\<lambda>_. []) ?s = Inr hs"
    using ready_page_view by blast
  then have o: "offers (Execute (approval_json ?a)) ?s"
    by (rule offersI) (auto simp: ready_page_fields fresh_panel_def approval_json_truthy)
  have e: "execute_request (ro_result (pg_route ?s)) (approval_json ?a) = Inr ?rq"
    by (simp add: ready_page_fields execute_request_reply)
  from page_run_step [OF ready_page_run page_step.run [OF o ready_page_fields(2) e]]
  obtain s where s: "page_run s" and l: "(?rq, reply ?p [], approval_json ?a) \<in> set (pg_sent s)"
    by (fastforce simp: ready_page_fields)
  from execute_requests_are_copies [OF s l] have "copies (approval_json ?a) (copy_of ?a)"
    by simp
  with s l show ?thesis by blast
qed

text \<open>C25. At most one proposal is ever in flight, and the ticket reads as submitting exactly while one is.\<close>

theorem one_proposal_in_flight:
  assumes "page_run s"
  shows "length (filter is_proposing (pg_flights s)) \<le> 1
    \<and> (ro_submitting (pg_route s) \<longleftrightarrow> length (filter is_proposing (pg_flights s)) = 1)"
proof -
  have "proposals_in_flight s = of_bool (ro_submitting (pg_route s))"
    using assms unfolding page_run_def by (rule propose_flight.inflight_iff_busy) simp
  then show ?thesis
    by (cases "ro_submitting (pg_route s)") (simp_all add: proposals_in_flight_def)
qed

theorem one_proposal_in_flight_witness:
  "length (filter is_proposing (pg_flights page_start)) \<le> 1"
  using one_proposal_in_flight [OF page_run_start] by blast

text \<open>C28. A mounted execution panel never has two operations in flight: its controls are busy exactly
  while one look-up or one execution of that panel is pending, so no reply ever finds them stuck.\<close>

theorem panel_one_operation:
  assumes "page_run s" and "pg_panel s = Some p"
  shows "length (filter (\<lambda>f. flight_panel f = Some (pn_id p)) (pg_flights s)) = (if pn_busy p then 1 else 0)"
proof -
  have "panel_flights (pn_id p) s = of_bool (pn_busy p)"
    using page_run_panel [OF assms(1)] assms(2) by (simp add: panel_inv_def)
  then show ?thesis
    by (cases "pn_busy p") (simp_all add: panel_flights_def)
qed

theorem panel_one_operation_witness:
  "length (filter (\<lambda>f. flight_panel f = Some 0) (pg_flights (ready_page (sample_proposal []) [] sample_approval))) = 0"
proof -
  let ?s = "ready_page (sample_proposal []) [] sample_approval"
  have "page_run ?s" by (rule ready_page_run)
  from panel_one_operation [OF this ready_page_fields(2)] show ?thesis
    by (simp add: fresh_panel_def)
qed

text \<open>C8. A fill of an earlier proposal can end up beside a fresh one.  Clearing the execution when a
  proposal starts does not stop a run already in flight: for any two proposals and any fill there is
  a run of the page that shows the second proposal, with nothing in flight, beside a fill whose only
  execute request named the first.\<close>

theorem stale_fill_reachable:
  "\<exists>s. page_run s \<and> ro_result (pg_route s) = reply p2 c2 \<and> ro_execution (pg_route s) = SimulatedExecution_json x
     \<and> pg_flights s = [] \<and> map (\<lambda>(rq, _, _). er_proposalId rq) (pg_sent s) = [JStr (rp_proposalId (p1 :: RouteProposal))]"
proof -
  let ?a = sample_approval and ?s = "ready_page p1 c1 sample_approval"
  let ?q = "(fresh_panel 0)\<lparr>pn_approvalId := u ''A'', pn_lookup := approval_json ?a\<rparr>"
  let ?rq = "\<lparr>er_proposalId = JStr (rp_proposalId p1), er_correlationId = JStr c1, er_approval = Some (copy_of ?a)\<rparr>"
  let ?s1 = "?s\<lparr>pg_panel := Some (execute_start ?q), pg_route := run_start (pg_route ?s),
      pg_flights := Running (pn_id ?q) ?rq # pg_flights ?s,
      pg_sent := pg_sent ?s @ [(?rq, ro_result (pg_route ?s), approval_json ?a)]\<rparr>"
  let ?s2 = "?s1\<lparr>pg_route := (pg_route ?s1)\<lparr>ro_failure := None, ro_execution := JUndef,
      ro_result := reply p2 c2, ro_submitting := False\<rparr>, pg_proposals := pg_proposals ?s1 \<union> {reply p2 c2}\<rparr>"
  obtain hs where "page_view (\<lambda>_. []) ?s = Inr hs"
    using ready_page_view by blast
  then have o: "offers (Execute (approval_json ?a)) ?s"
    by (rule offersI) (auto simp: ready_page_fields fresh_panel_def approval_json_truthy)
  have e: "execute_request (ro_result (pg_route ?s)) (approval_json ?a) = Inr ?rq"
    by (simp add: ready_page_fields execute_request_reply)
  have 1: "page_run ?s1"
    by (rule page_run_step [OF ready_page_run page_step.run [OF o ready_page_fields(2) e]])
  have "\<exists>hs. page_view (\<lambda>_. []) ?s1 = Inr hs"
    by (rule page_reply_view [of _ p1 c1])
      (auto simp: ready_page_fields run_start_def execute_start_def route_start_def)
  then obtain hs where v: "page_view (\<lambda>_. []) ?s1 = Inr hs" by blast
  have "page_step\<^sup>*\<^sup>* ?s1 ?s2"
    by (rule propose_again [OF 1 v, of "execute_start ?q" p1 c1])
      (simp_all add: ready_page_fields run_start_def route_start_def)
  with 1 have 2: "page_run ?s2"
    unfolding page_run_def by (rule rtranclp_trans)
  have "Running 0 ?rq \<in> set (pg_flights ?s2)"
    by (simp add: fresh_panel_def)
  from page_run_step [OF 2 page_step.ran [OF this, of "Inr (fill_reply x c1)"]]
  show ?thesis
    by - (rule exI, rule conjI, assumption, simp add: run_end_fill ready_page_fields fresh_panel_def)
qed

text \<open>C9. An approval looked up for one proposal is still armed after the next proposal arrives: the panel
  keeps its looked-up record while the page goes from proposal to proposal, so one click sends the
  second proposal's ids with the record that was looked up, and only ever looked up, before that
  proposal existed.\<close>

theorem stale_approval_reachable:
  "\<exists>s1 s2. page_run s1 \<and> ro_result (pg_route s1) = reply p1 c1 \<and> pg_proposals s1 = {reply p1 c1}
     \<and> page_step\<^sup>*\<^sup>* s1 s2 \<and> pg_seen s2 = pg_seen s1
     \<and> pg_sent s2 = [(\<lparr>er_proposalId = JStr (rp_proposalId (p2 :: RouteProposal)), er_correlationId = JStr c2,
          er_approval = Some (copy_of a)\<rparr>, reply p2 c2, approval_json a)]"
proof -
  let ?s1 = "ready_page (p1 :: RouteProposal) c1 a"
  let ?q = "(fresh_panel 0)\<lparr>pn_approvalId := u ''A'', pn_lookup := approval_json a\<rparr>"
  let ?rq = "\<lparr>er_proposalId = JStr (rp_proposalId p2), er_correlationId = JStr c2, er_approval = Some (copy_of a)\<rparr>"
  let ?s2 = "?s1\<lparr>pg_route := (pg_route ?s1)\<lparr>ro_failure := None, ro_execution := JUndef,
      ro_result := reply p2 c2, ro_submitting := False\<rparr>, pg_proposals := pg_proposals ?s1 \<union> {reply p2 c2}\<rparr>"
  obtain hs where "page_view (\<lambda>_. []) ?s1 = Inr hs"
    using ready_page_view by blast
  then have 12: "page_step\<^sup>*\<^sup>* ?s1 ?s2"
    by (rule propose_again [OF ready_page_run _ _ ready_page_fields(2)]) (simp_all add: ready_page_fields route_start_def)
  have q: "pg_panel ?s2 = Some ?q"
    by (simp add: ready_page_fields)
  have "\<exists>hs. page_view (\<lambda>_. []) ?s2 = Inr hs"
    by (rule page_reply_view [of _ p2 c2]) (auto simp: ready_page_fields)
  then obtain hs where "page_view (\<lambda>_. []) ?s2 = Inr hs" by blast
  then have o: "offers (Execute (approval_json a)) ?s2"
    by (rule offersI [OF _ q]) (auto simp: fresh_panel_def approval_json_truthy)
  have e: "execute_request (ro_result (pg_route ?s2)) (approval_json a) = Inr ?rq"
    by (simp add: execute_request_reply)
  define s3 where "s3 = ?s2\<lparr>pg_panel := Some (execute_start ?q),
      pg_route := run_start (pg_route ?s2), pg_flights := Running (pn_id ?q) ?rq # pg_flights ?s2,
      pg_sent := pg_sent ?s2 @ [(?rq, ro_result (pg_route ?s2), approval_json a)]\<rparr>"
  have "page_step ?s2 s3"
    unfolding s3_def by (rule page_step.run [OF o q e])
  with 12 have "page_step\<^sup>*\<^sup>* ?s1 s3" by (rule rtranclp.rtrancl_into_rtrancl)
  moreover have "pg_seen s3 = pg_seen ?s1" "pg_sent s3 = [(?rq, reply p2 c2, approval_json a)]"
    by (simp_all add: s3_def ready_page_fields)
  moreover have "ro_result (pg_route ?s1) = reply p1 c1" "pg_proposals ?s1 = {reply p1 c1}"
    by (simp_all add: ready_page_def)
  ultimately show ?thesis
    using ready_page_run [of p1 c1 a] by blast
qed

text \<open>C24. A refusal by the service's role filter leaves no trace.  It answers 403 with a body that has
  neither \<open>executed\<close> nor \<open>execution\<close>; the client takes 403 for an answer, so the page shows neither a
  refusal nor a failure: only the execution slot is emptied.\<close>

theorem role_refusal_is_silent:
  assumes "opt_getAccessToken opts = Inr tok"
    and "\<forall>rq. \<exists>r. opt_fetch opts rq = Inr r \<and> rsp_status r = 403 \<and> rsp_json r = Inr (JObj fs)"
    and "map_of fs (u ''executed'') = None" and "map_of fs (u ''execution'') = None"
  shows "run_end (snd (executeRoute opts req)) r = r\<lparr>ro_execution := JUndef\<rparr>
    \<and> ro_failure (run_end (snd (executeRoute opts req)) (run_start r)) = None"
proof -
  let ?rq = "build_request opts tok ''POST'' (u ''/v1/executions'') (Some (ExecuteRouteRequest_json req))"
  from assms(2) obtain x where x: "opt_fetch opts ?rq = Inr x" "rsp_status x = 403" "rsp_json x = Inr (JObj fs)"
    by blast
  then have "snd (executeRoute opts req) = Inr (JObj fs)"
    using assms(1) by (simp add: executeRoute_def sendAllowing_def read_response_def)
  then show ?thesis
    using assms(3,4) by (simp add: run_end_def run_start_def isExecutionRefusal_def lookup_prop_def)
qed

theorem role_refusal_is_silent_witness:
  "ro_failure (run_end (snd (executeRoute sample_options
     \<lparr>er_proposalId = JUndef, er_correlationId = JUndef, er_approval = None\<rparr>)) (run_start route_start)) = None"
  using role_refusal_is_silent [of sample_options None
      "[(u ''error'', JStr (u ''Forbidden'')),
        (u ''detail'', JStr (u ''The caller does not hold the OrderRouting.Execute app role.''))]"
      "\<lparr>er_proposalId = JUndef, er_correlationId = JUndef, er_approval = None\<rparr>" route_start]
  by (simp add: sample_options_def)



end
