(* ===== verification/OrderSession.thy ===== *)
theory OrderSession
  imports OrderRouting "HOL-Library.Multiset"
begin

text \<open>
  The order-routing page together with the client it calls: which HTTP requests a session of the page
  sends, what the answers bring into the page, and what becomes of the page once every call in flight
  has settled.  \<open>fetch\<close> may answer every request anew.
\<close>

section \<open>Settling a call\<close>

text \<open>What the part of a handler after its \<open>await\<close> makes of the page.\<close>

fun settle :: "flight \<Rightarrow> js_exn + jsval \<Rightarrow> page \<Rightarrow> page" where
  "settle (Proposing rq) answer s = remount (s\<lparr>pg_route := propose_end answer (pg_route s),
      pg_flights := remove1 (Proposing rq) (pg_flights s),
      pg_proposals := pg_proposals s \<union> (case answer of Inr v \<Rightarrow> {v} | Inl e \<Rightarrow> {})\<rparr>)"
| "settle (Looking i t) answer s = in_panel i (look_end answer) (s\<lparr>pg_flights := remove1 (Looking i t) (pg_flights s),
      pg_seen := pg_seen s \<union> (case answer of Inr v \<Rightarrow> {v} | Inl e \<Rightarrow> {})\<rparr>)"
| "settle (Running i rq) answer s = in_panel i execute_end (s\<lparr>pg_route := run_end answer (pg_route s),
      pg_flights := remove1 (Running i rq) (pg_flights s)\<rparr>)"

lemma settle_step: "f \<in> set (pg_flights s) \<Longrightarrow> page_step s (settle f answer s)"
  by (cases f) (auto intro: page_step.proposed page_step.looked page_step.ran)

lemma settle_flights [simp]: "pg_flights (settle f answer s) = remove1 f (pg_flights s)"
  by (cases f) simp_all

lemma settle_history [simp]:
  "pg_sent (settle f answer s) = pg_sent s"
  "pg_proposals (settle f answer s) = pg_proposals s \<union> (case answer of Inr v \<Rightarrow> if is_proposing f then {v} else {} | Inl e \<Rightarrow> {})"
  "pg_seen (settle f answer s) = pg_seen s \<union> (case answer of Inr v \<Rightarrow> if (\<exists>i t. f = Looking i t) then {v} else {} | Inl e \<Rightarrow> {})"
  by (cases f; simp split: sum.split)+

text \<open>Every step of the page edits its input, starts one call, or settles one.\<close>

lemma page_step_kinds:
  assumes "page_step s s'"
  obtains (edit) "pg_flights s' = pg_flights s" "pg_sent s' = pg_sent s" "pg_proposals s' = pg_proposals s" "pg_seen s' = pg_seen s"
      "pg_route s' = pg_route s"
    | (start) f where "pg_flights s' = f # pg_flights s" "pg_proposals s' = pg_proposals s" "pg_seen s' = pg_seen s"
      "\<forall>i rq. f = Running i rq \<longrightarrow> (\<exists>v. pg_sent s' = pg_sent s @ [(rq, ro_result (pg_route s), v)]
          \<and> pg_route s' = run_start (pg_route s))"
      "(\<forall>i rq. f \<noteq> Running i rq) \<longrightarrow> pg_sent s' = pg_sent s"
      "is_proposing f \<longrightarrow> pg_route s' = propose_start (pg_route s)"
      "(\<exists>i t. f = Looking i t) \<longrightarrow> pg_route s' = pg_route s"
    | (finish) f answer where "f \<in> set (pg_flights s)" "s' = settle f answer s"
  using assms
proof (induction rule: page_step.induct)
  case (proposed rq s answer)
  show ?case by (rule proposed.prems(3) [OF proposed.hyps, of answer]) simp
next
  case (looked i t s answer)
  show ?case by (rule looked.prems(3) [OF looked.hyps, of answer]) simp
next
  case (ran i rq s answer)
  show ?case by (rule ran.prems(3) [OF ran.hyps, of answer]) simp
next
  case (propose s)
  show ?case by (rule propose.prems(2) [of "Proposing (pg_ticket s)"]) simp_all
next
  case (look s p)
  show ?case by (rule look.prems(2) [of "Looking (pn_id p) (trim (pn_approvalId p))"]) simp_all
next
  case (run v s p rq)
  show ?case by (rule run.prems(2) [of "Running (pn_id p) rq"]) simp_all
qed simp_all

section \<open>No call leaves the page stuck\<close>

text \<open>All calls in flight settle, in the order of the list, each with the answer \<open>g\<close> gives it.\<close>

definition settle_all :: "(flight \<Rightarrow> js_exn + jsval) \<Rightarrow> flight list \<Rightarrow> page \<Rightarrow> page" where
  "settle_all g fs s = fold (\<lambda>f. settle f (g f)) fs s"

lemma settle_all_steps: "mset fs = mset (pg_flights s) \<Longrightarrow> page_step\<^sup>*\<^sup>* s (settle_all g fs s) \<and> pg_flights (settle_all g fs s) = []"
proof (induction fs arbitrary: s)
  case Nil
  then show ?case by (simp add: settle_all_def)
next
  case (Cons f fs)
  then have f: "f \<in> set (pg_flights s)" by (metis list.set_intros(1) set_mset_mset)
  have "mset fs = mset (pg_flights (settle f (g f) s))"
    using Cons.prems by (simp add: Cons.prems [symmetric])
  from Cons.IH [OF this] settle_step [OF f] show ?case
    by (auto simp: settle_all_def intro: converse_rtranclp_into_rtranclp)
qed

lemma page_run_steps: "page_run s \<Longrightarrow> page_step\<^sup>*\<^sup>* s s' \<Longrightarrow> page_run s'"
  unfolding page_run_def by (rule rtranclp_trans)

lemma idle_page:
  assumes "page_run s" "pg_flights s = []"
  shows "\<not> ro_submitting (pg_route s)" "pg_panel s = Some p \<Longrightarrow> \<not> pn_busy p"
proof -
  have "proposals_in_flight s = of_bool (ro_submitting (pg_route s))"
    using assms(1) unfolding page_run_def by (rule propose_flight.inflight_iff_busy) simp
  then show "\<not> ro_submitting (pg_route s)"
    using assms(2) by (simp add: proposals_in_flight_def)
  show "pg_panel s = Some p \<Longrightarrow> \<not> pn_busy p"
    using page_run_panel [OF assms(1)] assms(2) by (auto simp: panel_inv_def panel_flights_def)
qed

section \<open>Runs without overlap\<close>

text \<open>A run of the page in which no proposal and no execution are in flight together.\<close>

fun is_running :: "flight \<Rightarrow> bool" where
  "is_running (Running _ _) = True"
| "is_running _ = False"

definition overlap :: "page \<Rightarrow> bool" where
  "overlap s \<longleftrightarrow> list_ex is_proposing (pg_flights s) \<and> list_ex is_running (pg_flights s)"

definition calm_run :: "page \<Rightarrow> bool" where
  "calm_run s \<longleftrightarrow> (\<lambda>s s'. page_step s s' \<and> \<not> overlap s')\<^sup>*\<^sup>* page_start s"

text \<open>The last execute request was made of the result that is shown.\<close>

definition last_sent_current :: "page \<Rightarrow> bool" where
  "last_sent_current s \<longleftrightarrow> pg_sent s \<noteq> [] \<and> fst (snd (last (pg_sent s))) = ro_result (pg_route s)"

definition calm_inv :: "page \<Rightarrow> bool" where
  "calm_inv s \<longleftrightarrow> \<not> overlap s
     \<and> (list_ex is_running (pg_flights s) \<longrightarrow> last_sent_current s)
     \<and> (ro_execution (pg_route s) \<noteq> JUndef \<longrightarrow> last_sent_current s \<and> \<not> list_ex is_proposing (pg_flights s))"

lemma list_ex_remove1: "list_ex P (remove1 x xs) \<Longrightarrow> list_ex P xs"
  using set_remove1_subset [of x xs] by (auto simp: list_ex_iff)

lemma list_ex_member: "x \<in> set xs \<Longrightarrow> P x \<Longrightarrow> list_ex P xs"
  by (auto simp: list_ex_iff)

lemma settle_route:
  "pg_route (settle f a s) = (case f of Proposing _ \<Rightarrow> propose_end a (pg_route s) | Looking _ _ \<Rightarrow> pg_route s
     | Running _ _ \<Rightarrow> run_end a (pg_route s))"
  by (cases f) simp_all

lemma propose_end_execution: "ro_execution (propose_end a r) = ro_execution r"
  by (simp add: propose_end_def split: sum.split)

lemma calm_step_inv:
  assumes "page_step s s'" "\<not> overlap s'" "calm_inv s"
  shows "calm_inv s'"
  using assms(1)
proof (cases rule: page_step_kinds)
  case edit
  with assms(3) show ?thesis by (simp add: calm_inv_def overlap_def last_sent_current_def)
next
  case (start f)
  with assms(2,3) show ?thesis
    by (cases f) (auto simp: calm_inv_def overlap_def last_sent_current_def propose_start_def run_start_def)
next
  case (finish f a)
  have sub: "list_ex P (pg_flights s') \<Longrightarrow> list_ex P (pg_flights s)" for P
    unfolding finish settle_flights by (rule list_ex_remove1)
  show ?thesis
  proof (cases "is_proposing f")
    case True
    with finish(1) have p: "list_ex is_proposing (pg_flights s)" by (rule list_ex_member)
    then have "\<not> list_ex is_running (pg_flights s)" "ro_execution (pg_route s) = JUndef"
      using assms(3) by (auto simp: calm_inv_def overlap_def)
    then have "\<not> list_ex is_running (pg_flights s')" "ro_execution (pg_route s') = JUndef"
      using True sub [of is_running] by (cases f; force simp: finish(2) settle_route propose_end_execution)+
    then show ?thesis
      using assms(2) by (simp add: calm_inv_def)
  next
    case False
    then have same: "last_sent_current s' = last_sent_current s"
      by (cases f) (simp_all add: finish last_sent_current_def settle_route)
    have "ro_execution (pg_route s') = ro_execution (pg_route s) \<or> list_ex is_running (pg_flights s)"
    proof (cases "is_running f")
      case True
      then show ?thesis using list_ex_member [OF finish(1)] by blast
    next
      case f: False
      with False show ?thesis by (cases f) (simp_all add: finish(2) settle_route)
    qed
    then show ?thesis
      using assms(2,3) sub [of is_proposing] sub [of is_running] unfolding calm_inv_def same overlap_def by metis
  qed
qed

lemma calm_run_inv: "calm_run s \<Longrightarrow> calm_inv s"
  unfolding calm_run_def
proof (induction rule: rtranclp_induct)
  case base
  show ?case by (simp add: calm_inv_def overlap_def page_start_def route_start_def)
next
  case (step s s')
  then show ?case by (blast intro: calm_step_inv)
qed

section \<open>The page and its client\<close>

text \<open>The call of the client behind each flight, with the options it runs under.\<close>

fun flight_call :: "ApiClientOptions \<Rightarrow> flight \<Rightarrow> outcome" where
  "flight_call opts (Proposing rq) = proposeRoute opts rq"
| "flight_call opts (Looking _ t) = getApproval opts t"
| "flight_call opts (Running _ rq) = executeRoute opts rq"

text \<open>The exchange a call makes, when \<open>fetch\<close> resolves.\<close>

definition exchanged :: "ApiClientOptions \<Rightarrow> flight \<Rightarrow> (request \<times> response) list" where
  "exchanged opts f = concat (map (\<lambda>rq. case opt_fetch opts rq of Inr r \<Rightarrow> [(rq, r)] | Inl _ \<Rightarrow> []) (fst (flight_call opts f)))"

text \<open>The page, the requests it sent, and the exchanges that were answered.\<close>

record session =
  ss_page :: page
  ss_requests :: "request list"
  ss_answers :: "(request \<times> response) list"

definition session_start :: session where
  "session_start = \<lparr>ss_page = page_start, ss_requests = [], ss_answers = []\<rparr>"

inductive session_step :: "ApiClientOptions \<Rightarrow> session \<Rightarrow> session \<Rightarrow> bool" for opts where
  edit: "page_step (ss_page s) p \<Longrightarrow> pg_flights p = pg_flights (ss_page s) \<Longrightarrow> session_step opts s (s\<lparr>ss_page := p\<rparr>)"
| start: "page_step (ss_page s) p \<Longrightarrow> pg_flights p = f # pg_flights (ss_page s) \<Longrightarrow>
    session_step opts s (s\<lparr>ss_page := p, ss_requests := ss_requests s @ fst (flight_call opts f)\<rparr>)"
| answer: "f \<in> set (pg_flights (ss_page s)) \<Longrightarrow>
    session_step opts s (s\<lparr>ss_page := settle f (snd (flight_call (opts\<lparr>opt_fetch := fetch\<rparr>) f)) (ss_page s),
      ss_answers := ss_answers s @ exchanged (opts\<lparr>opt_fetch := fetch\<rparr>) f\<rparr>)"

definition session_run :: "ApiClientOptions \<Rightarrow> session \<Rightarrow> bool" where
  "session_run opts s \<longleftrightarrow> (session_step opts)\<^sup>*\<^sup>* session_start s"

text \<open>A session is a run of the page: the page alone, which takes any reply, abstracts it.\<close>

lemma session_step_page: "session_step opts s s' \<Longrightarrow> page_step (ss_page s) (ss_page s')"
  by (induction rule: session_step.induct) (simp_all add: settle_step)

lemma session_run_page: "session_run opts s \<Longrightarrow> page_run (ss_page s)"
  unfolding session_run_def
proof (induction rule: rtranclp_induct)
  case base
  then show ?case by (simp add: session_start_def page_run_start)
next
  case (step s s')
  then show ?case by (blast intro: page_run_step session_step_page)
qed

section \<open>What the answers bring into the page\<close>

definition proposal_answer :: "ApiClientOptions \<Rightarrow> jsval \<Rightarrow> request \<times> response \<Rightarrow> bool" where
  "proposal_answer opts v e = (case e of (rq, r) \<Rightarrow> rq_method rq = u ''POST'' \<and> rq_url rq = opt_baseUrl opts @ u ''/v1/route-proposals''
     \<and> (rsp_ok r \<or> rsp_status r = 422) \<and> rsp_json r = Inr v)"

definition approval_answer :: "ApiClientOptions \<Rightarrow> jsval \<Rightarrow> request \<times> response \<Rightarrow> bool" where
  "approval_answer opts v e = (case e of (rq, r) \<Rightarrow> rq_method rq = u ''GET''
     \<and> (\<exists>i seg. encodeURIComponent i = Inr seg \<and> rq_url rq = opt_baseUrl opts @ u ''/v1/approvals/'' @ seg)
     \<and> rsp_ok r \<and> rsp_json r = Inr v)"

lemma build_request_fields [simp]:
  "rq_method (build_request opts tok m p b) = u m" "rq_url (build_request opts tok m p b) = opt_baseUrl opts @ p"
  "rq_body (build_request opts tok m p b) = b"
  by (simp_all add: build_request_def)

lemma proposal_exchanged:
  "snd (flight_call opts (Proposing rq)) = Inr v \<Longrightarrow> \<exists>e \<in> set (exchanged opts (Proposing rq)). proposal_answer opts v e"
  by (auto simp: proposeRoute_def sendAllowing_Inr_iff sendAllowing_requests exchanged_def proposal_answer_def)

lemma approval_exchanged:
  "snd (flight_call opts (Looking i t)) = Inr v \<Longrightarrow> \<exists>e \<in> set (exchanged opts (Looking i t)). approval_answer opts v e"
  by (auto simp: getApproval_def send_def sendAllowing_Inr_iff sendAllowing_requests exchanged_def approval_answer_def
      split: sum.splits)

lemma other_fetch [simp]: "proposal_answer (opts\<lparr>opt_fetch := g\<rparr>) = proposal_answer opts"
  "approval_answer (opts\<lparr>opt_fetch := g\<rparr>) = approval_answer opts"
  by (simp_all add: fun_eq_iff proposal_answer_def approval_answer_def)

definition is_execution :: "ApiClientOptions \<Rightarrow> request \<Rightarrow> bool" where
  "is_execution opts rq \<longleftrightarrow> rq_url rq = opt_baseUrl opts @ u ''/v1/executions''"

lemma execution_requests:
  "rq \<in> set (fst (flight_call opts f)) \<Longrightarrow> is_execution opts rq \<Longrightarrow>
     \<exists>i q. f = Running i q \<and> rq_method rq = u ''POST'' \<and> rq_body rq = Some (ExecuteRouteRequest_json q)"
  by (cases f) (auto simp: endpoint_defs send_def sendAllowing_requests is_execution_def u_def split: sum.splits)

definition session_inv :: "ApiClientOptions \<Rightarrow> session \<Rightarrow> bool" where
  "session_inv opts s \<longleftrightarrow>
     (\<forall>rq \<in> set (ss_requests s). is_execution opts rq \<longrightarrow> rq_method rq = u ''POST''
        \<and> (\<exists>q result v. (q, result, v) \<in> set (pg_sent (ss_page s)) \<and> rq_body rq = Some (ExecuteRouteRequest_json q)))
     \<and> (\<forall>v \<in> pg_proposals (ss_page s). \<exists>e \<in> set (ss_answers s). proposal_answer opts v e)
     \<and> (\<forall>v \<in> pg_seen (ss_page s). \<exists>e \<in> set (ss_answers s). approval_answer opts v e)"

definition request_ok :: "session \<Rightarrow> request \<Rightarrow> bool" where
  "request_ok s rq \<longleftrightarrow> rq_method rq = u ''POST''
     \<and> (\<exists>q result v. (q, result, v) \<in> set (pg_sent (ss_page s)) \<and> rq_body rq = Some (ExecuteRouteRequest_json q))"

lemma session_invI:
  assumes "session_inv opts s" "set (pg_sent (ss_page s)) \<subseteq> set (pg_sent (ss_page s'))" "set (ss_answers s) \<subseteq> set (ss_answers s')"
    and "\<And>rq. rq \<in> set (ss_requests s') \<Longrightarrow> is_execution opts rq \<Longrightarrow> rq \<in> set (ss_requests s) \<or> request_ok s' rq"
    and "\<And>v. v \<in> pg_proposals (ss_page s') \<Longrightarrow> v \<in> pg_proposals (ss_page s) \<or> (\<exists>e \<in> set (ss_answers s'). proposal_answer opts v e)"
    and "\<And>v. v \<in> pg_seen (ss_page s') \<Longrightarrow> v \<in> pg_seen (ss_page s) \<or> (\<exists>e \<in> set (ss_answers s'). approval_answer opts v e)"
  shows "session_inv opts s'"
  unfolding session_inv_def
proof (intro conjI ballI impI)
  fix rq assume rq: "rq \<in> set (ss_requests s')" "is_execution opts rq"
  have "rq \<in> set (ss_requests s) \<Longrightarrow> request_ok s' rq"
    using assms(1,2) rq(2) unfolding session_inv_def request_ok_def by blast
  with assms(4) [OF rq] have "request_ok s' rq" by blast
  then show "rq_method rq = u ''POST''"
    "\<exists>q result v. (q, result, v) \<in> set (pg_sent (ss_page s')) \<and> rq_body rq = Some (ExecuteRouteRequest_json q)"
    unfolding request_ok_def by blast+
qed (use assms(1,3,5,6) in \<open>unfold session_inv_def, blast+\<close>)

lemma settle_shorter: "f \<in> set (pg_flights s) \<Longrightarrow> length (pg_flights (settle f a s)) < length (pg_flights s)"
  using length_pos_if_in_set [of f "pg_flights s"] by (simp add: length_remove1)

lemma session_step_inv: "session_step opts s s' \<Longrightarrow> session_inv opts s \<Longrightarrow> session_inv opts s'"
proof (induction rule: session_step.induct)
  case (edit s p)
  have n: "p \<noteq> settle f a (ss_page s)" if "f \<in> set (pg_flights (ss_page s))" for f a
    using settle_shorter [OF that, of a] edit.hyps(2) by auto
  from edit.hyps(1) have "pg_sent p = pg_sent (ss_page s) \<and> pg_proposals p = pg_proposals (ss_page s) \<and> pg_seen p = pg_seen (ss_page s)"
    by (cases rule: page_step_kinds) (use n edit.hyps(2) in auto)
  then show ?case by (intro session_invI [OF edit.prems]) simp_all
next
  case (start s p f)
  have n: "p \<noteq> settle g a (ss_page s)" if "g \<in> set (pg_flights (ss_page s))" for g a
    using settle_shorter [OF that, of a] start.hyps(2) by auto
  from start.hyps(1) have h: "pg_proposals p = pg_proposals (ss_page s) \<and> pg_seen p = pg_seen (ss_page s)
    \<and> set (pg_sent (ss_page s)) \<subseteq> set (pg_sent p)
    \<and> (\<forall>i q. f = Running i q \<longrightarrow> (\<exists>v. (q, ro_result (pg_route (ss_page s)), v) \<in> set (pg_sent p)))"
  proof (cases rule: page_step_kinds)
    case (start g)
    with \<open>pg_flights p = f # pg_flights (ss_page s)\<close> show ?thesis by (cases f) auto
  qed (use n start.hyps(2) in auto)
  then show ?case
    by (intro session_invI [OF start.prems]) (auto simp: request_ok_def dest!: execution_requests, blast)
next
  case (answer f s fetch)
  let ?o = "opts\<lparr>opt_fetch := fetch\<rparr>"
  show ?case
  proof (rule session_invI [OF answer.prems])
    fix v assume v: "v \<in> pg_proposals (ss_page (s\<lparr>ss_page := settle f (snd (flight_call ?o f)) (ss_page s),
        ss_answers := ss_answers s @ exchanged ?o f\<rparr>))"
    show "v \<in> pg_proposals (ss_page s) \<or> (\<exists>e \<in> set (ss_answers (s\<lparr>ss_page := settle f (snd (flight_call ?o f)) (ss_page s),
        ss_answers := ss_answers s @ exchanged ?o f\<rparr>)). proposal_answer opts v e)"
      using v proposal_exchanged [of ?o _ v] by (cases f) (auto split: sum.splits)
  next
    fix v assume v: "v \<in> pg_seen (ss_page (s\<lparr>ss_page := settle f (snd (flight_call ?o f)) (ss_page s),
        ss_answers := ss_answers s @ exchanged ?o f\<rparr>))"
    show "v \<in> pg_seen (ss_page s) \<or> (\<exists>e \<in> set (ss_answers (s\<lparr>ss_page := settle f (snd (flight_call ?o f)) (ss_page s),
        ss_answers := ss_answers s @ exchanged ?o f\<rparr>)). approval_answer opts v e)"
      using v approval_exchanged [of ?o _ _ v] by (cases f) (auto split: sum.splits)
  qed simp_all
qed

lemma session_run_inv: "session_run opts s \<Longrightarrow> session_inv opts s"
  unfolding session_run_def
proof (induction rule: rtranclp_induct)
  case base
  then show ?case by (simp add: session_inv_def session_start_def page_start_def)
next
  case (step s s')
  then show ?case by (blast intro: session_step_inv)
qed

section \<open>A concrete session\<close>

definition sample_reply :: jsval where
  "sample_reply = reply (sample_proposal (u ''P1'')) []"

definition bare_request :: ExecuteRouteRequest where
  "bare_request = \<lparr>er_proposalId = JStr (u ''P1''), er_correlationId = JStr [], er_approval = None\<rparr>"

definition proposing_page :: page where
  "proposing_page = page_start\<lparr>pg_route := propose_start route_start, pg_flights := [Proposing routablePreset]\<rparr>"

definition proposed_page :: page where
  "proposed_page = page_start\<lparr>pg_route := route_start\<lparr>ro_result := sample_reply\<rparr>, pg_panel := Some (fresh_panel 0),
     pg_next := 1, pg_proposals := {sample_reply}\<rparr>"

definition executing_page :: page where
  "executing_page = proposed_page\<lparr>pg_panel := Some (execute_start (fresh_panel 0)), pg_route := run_start (pg_route proposed_page),
     pg_flights := [Running 0 bare_request], pg_sent := [(bare_request, sample_reply, JUndef)]\<rparr>"

lemma sample_steps:
  "page_step page_start proposing_page"
  "settle (Proposing routablePreset) (Inr sample_reply) proposing_page = proposed_page"
  "page_step proposed_page executing_page"
proof -
  obtain hs where "page_view (\<lambda>_. []) page_start = Inr hs"
    using page_start_view by blast
  then have "submits page_start"
    by (rule submitsI) (simp add: page_start_def route_start_def)
  from page_step.propose [OF this] show "page_step page_start proposing_page"
    by (simp add: proposing_page_def page_start_def remount_start route_start_def)
  show "settle (Proposing routablePreset) (Inr sample_reply) proposing_page = proposed_page"
    by (simp add: proposing_page_def proposed_page_def sample_reply_def remount_reply propose_end_def propose_start_def
        page_start_def route_start_def)
  obtain hs where v: "page_view (\<lambda>_. []) proposed_page = Inr hs"
    using page_reply_view [of proposed_page "sample_proposal (u ''P1'')" "[]"]
    by (auto simp: proposed_page_def sample_reply_def fresh_panel_def route_start_def)
  have p: "pg_panel proposed_page = Some (fresh_panel 0)" by (simp add: proposed_page_def)
  have o: "offers (Execute JUndef) proposed_page"
    by (rule offersI [OF v p]) simp_all
  have e: "execute_request (ro_result (pg_route proposed_page)) JUndef = Inr bare_request"
    by (simp add: proposed_page_def sample_reply_def execute_request_def panel_base_reply bare_request_def sample_proposal_def)
  from page_step.run [OF o p e] show "page_step proposed_page executing_page"
    by (simp add: executing_page_def proposed_page_def page_start_def)
qed

section \<open>Properties\<close>

text \<open>C1. Every request a session sends to the executions endpoint, whatever the service answers and in
  whatever order: it is a POST whose ids were read from the body of an answered proposal, accepted or
  422, that is not a halt; and its approval is absent or copied field for field from the body of an
  accepted GET of one approval.\<close>

theorem wire_requests_are_copies:
  assumes "session_run opts s" "rq \<in> set (ss_requests s)" "rq_url rq = opt_baseUrl opts @ u ''/v1/executions''"
  shows "\<exists>q result. rq_method rq = u ''POST'' \<and> rq_body rq = Some (ExecuteRouteRequest_json q) \<and> isHalt result = Inr False
    \<and> get_path result [''proposal'', ''proposalId''] = Inr (er_proposalId q)
    \<and> get_prop result ''correlationId'' = Inr (er_correlationId q)
    \<and> (\<exists>(p, r) \<in> set (ss_answers s). rq_method p = u ''POST'' \<and> rq_url p = opt_baseUrl opts @ u ''/v1/route-proposals''
         \<and> (rsp_ok r \<or> rsp_status r = 422) \<and> rsp_json r = Inr result)
    \<and> (\<forall>a. er_approval q = Some a \<longrightarrow> (\<exists>(p, r) \<in> set (ss_answers s). \<exists>i seg v.
         rq_method p = u ''GET'' \<and> encodeURIComponent i = Inr seg \<and> rq_url p = opt_baseUrl opts @ u ''/v1/approvals/'' @ seg
         \<and> rsp_ok r \<and> rsp_json r = Inr v \<and> copies v a))"
proof -
  have inv: "session_inv opts s" and run: "page_run (ss_page s)"
    using session_run_inv session_run_page assms(1) by blast+
  from assms(2,3) inv obtain q result v where q: "rq_method rq = u ''POST''" "rq_body rq = Some (ExecuteRouteRequest_json q)"
      and sent: "(q, result, v) \<in> set (pg_sent (ss_page s))"
    unfolding session_inv_def is_execution_def by blast
  note c = execute_requests_are_copies [OF run sent]
  obtain e where e: "e \<in> set (ss_answers s)" "proposal_answer opts result e"
    using c inv unfolding session_inv_def by blast
  have "\<exists>e \<in> set (ss_answers s). approval_answer opts v e \<and> copies v a" if "er_approval q = Some a" for a
    using c inv that unfolding session_inv_def by auto
  then have looked: "\<exists>(p, r) \<in> set (ss_answers s). \<exists>i seg v.
         rq_method p = u ''GET'' \<and> encodeURIComponent i = Inr seg \<and> rq_url p = opt_baseUrl opts @ u ''/v1/approvals/'' @ seg
         \<and> rsp_ok r \<and> rsp_json r = Inr v \<and> copies v a" if "er_approval q = Some a" for a
    using that unfolding approval_answer_def by fast
  have proposed: "\<exists>(p, r) \<in> set (ss_answers s). rq_method p = u ''POST'' \<and> rq_url p = opt_baseUrl opts @ u ''/v1/route-proposals''
         \<and> (rsp_ok r \<or> rsp_status r = 422) \<and> rsp_json r = Inr result"
    using e unfolding proposal_answer_def by fast
  from q c proposed looked show ?thesis
    by (intro exI [of _ q] exI [of _ result]) blast
qed

theorem wire_requests_are_copies_witness:
  "\<exists>s rq. session_run sample_options s \<and> rq \<in> set (ss_requests s) \<and> rq_url rq = u ''/api'' @ u ''/v1/executions''
     \<and> (\<exists>result. (\<exists>(p, r) \<in> set (ss_answers s). rsp_json r = Inr result)
        \<and> get_path result [''proposal'', ''proposalId''] = Inr (JStr (u ''P1'')))"
proof -
  let ?o = sample_options and ?f = "Proposing routablePreset"
  let ?fetch = "\<lambda>_. Inr \<lparr>rsp_status = 200, rsp_statusText = u ''OK'', rsp_correlation = None, rsp_json = Inr sample_reply\<rparr>"
  let ?s1 = "session_start\<lparr>ss_page := proposing_page, ss_requests := ss_requests session_start @ fst (flight_call ?o ?f)\<rparr>"
  have 1: "session_step ?o session_start ?s1"
    by (rule session_step.start) (simp_all add: session_start_def sample_steps, simp add: proposing_page_def page_start_def)
  have "snd (flight_call (?o\<lparr>opt_fetch := ?fetch\<rparr>) ?f) = Inr sample_reply"
    by (simp add: proposeRoute_def sendAllowing_def sample_options_def read_response_def rsp_ok_def)
  moreover have "?f \<in> set (pg_flights (ss_page ?s1))" by (simp add: proposing_page_def)
  ultimately obtain s2 where 2: "session_step ?o ?s1 s2" "ss_page s2 = proposed_page"
    using session_step.answer [of ?f ?s1 ?o ?fetch] sample_steps(2) by fastforce
  let ?g = "Running 0 bare_request"
  let ?s3 = "s2\<lparr>ss_page := executing_page, ss_requests := ss_requests s2 @ fst (flight_call ?o ?g)\<rparr>"
  have 3: "session_step ?o s2 ?s3"
    by (rule session_step.start) (simp_all add: 2(2) sample_steps, simp add: executing_page_def proposed_page_def page_start_def)
  have run: "session_run ?o ?s3"
    unfolding session_run_def
    by (rule rtranclp.rtrancl_into_rtrancl, rule rtranclp.rtrancl_into_rtrancl, rule rtranclp.rtrancl_into_rtrancl,
        rule rtranclp.rtrancl_refl, rule 1, rule 2(1), rule 3)
  let ?rq = "build_request ?o None ''POST'' (u ''/v1/executions'') (Some (ExecuteRouteRequest_json bare_request))"
  have rq: "?rq \<in> set (ss_requests ?s3)"
    by (simp add: executeRoute_def sendAllowing_requests sample_options_def)
  have b: "opt_baseUrl ?o = u ''/api''" by (simp add: sample_options_def)
  from wire_requests_are_copies [OF run rq] b obtain q result where
      q: "Some (ExecuteRouteRequest_json bare_request) = Some (ExecuteRouteRequest_json q)"
    and r: "get_path result [''proposal'', ''proposalId''] = Inr (er_proposalId q)"
      "\<exists>(p, r) \<in> set (ss_answers ?s3). rsp_json r = Inr result"
    by (auto simp del: get_path.simps)
  have "ExecuteRouteRequest_json q = ExecuteRouteRequest_json bare_request" using q by (rule option.inject [THEN iffD1, symmetric])
  then have "lookup_prop (case ExecuteRouteRequest_json q of JObj fs \<Rightarrow> fs) (u ''proposalId'') = JStr (u ''P1'')"
    by (simp only:) (simp add: ExecuteRouteRequest_json_def ApiClient.fields_def bare_request_def lookup_prop_def)
  then have "er_proposalId q = JStr (u ''P1'')"
    by (auto simp: ExecuteRouteRequest_json_def ApiClient.fields_def lookup_prop_def u_def split: if_splits)
  with run rq r b show ?thesis
    by (intro exI [of _ ?s3] exI [of _ ?rq]) (auto simp del: get_path.simps)
qed

text \<open>C14. The page never gets stuck: from every state it can reach, let the calls in flight settle in any
  order with any answers; then nothing is in flight, the ticket is not submitting and the panel is not
  busy, and whenever the page renders, the ticket can be submitted and a mounted panel can execute.\<close>

theorem page_never_stuck:
  assumes "page_run s" "mset fs = mset (pg_flights s)"
  shows "page_step\<^sup>*\<^sup>* s (settle_all g fs s) \<and> pg_flights (settle_all g fs s) = []
    \<and> \<not> ro_submitting (pg_route (settle_all g fs s))
    \<and> (\<forall>loc hs. page_view loc (settle_all g fs s) = Inr hs \<longrightarrow> submits (settle_all g fs s)
         \<and> (pg_panel (settle_all g fs s) \<noteq> None \<longrightarrow> offers (Execute JUndef) (settle_all g fs s)))"
proof -
  let ?t = "settle_all g fs s"
  have t: "page_step\<^sup>*\<^sup>* s ?t" "pg_flights ?t = []"
    using settle_all_steps [OF assms(2)] by blast+
  then have idle: "\<not> ro_submitting (pg_route ?t)" "\<And>p. pg_panel ?t = Some p \<Longrightarrow> \<not> pn_busy p"
    using idle_page page_run_steps [OF assms(1)] by blast+
  have "submits ?t \<and> (pg_panel ?t \<noteq> None \<longrightarrow> offers (Execute JUndef) ?t)" if v: "page_view loc ?t = Inr hs" for loc hs
    using submitsI [OF v idle(1)] offersI [OF v _ _, of _ "Execute JUndef"] idle(2) by blast
  with t idle(1) show ?thesis by blast
qed

theorem page_never_stuck_witness:
  "\<exists>s. page_run s \<and> pg_flights s = [Proposing routablePreset] \<and> pg_flights (settle_all (\<lambda>_. Inl NotAnError) [Proposing routablePreset] s) = []
     \<and> \<not> ro_submitting (pg_route (settle_all (\<lambda>_. Inl NotAnError) [Proposing routablePreset] s))"
proof -
  obtain hs where "page_view (\<lambda>_. []) page_start = Inr hs"
    using page_start_view by blast
  then have "submits page_start"
    by (rule submitsI) (simp add: page_start_def route_start_def)
  from page_run_step [OF page_run_start page_step.propose [OF this]]
  obtain s where s: "page_run s" "pg_flights s = [Proposing routablePreset]"
    by (force simp: page_start_def)
  from page_never_stuck [OF s(1), of "[Proposing routablePreset]" "\<lambda>_. Inl NotAnError"] s show ?thesis by auto
qed



end
