(* ===== verification/AppShell.thy ===== *)
theory AppShell
  imports Navigation ApiClient JsHtml
begin

text \<open>
  The application shell: the routes of \<open>App.tsx\<close>, the error boundary around them
  (\<open>shell/ErrorBoundary.tsx\<close>), the placeholder screen, the client the shell builds
  (\<open>app/apiClient.ts\<close>), the defaults of the query cache (\<open>app/QueryProvider.tsx\<close>) and the entry point (\<open>main.tsx\<close>).  Which route a
  location selects is the router's; it is an argument, and so is what a selected screen renders.
\<close>

section \<open>Client and query defaults\<close>

definition apiBaseUrl :: "jsstring option \<Rightarrow> jsstring" where
  "apiBaseUrl VITE_API_BASE_URL = (case VITE_API_BASE_URL of None \<Rightarrow> u ''/api'' | Some s \<Rightarrow> s)"

definition createApiClient ::
  "jsstring option \<Rightarrow> (request \<Rightarrow> js_exn + response) \<Rightarrow> (js_exn + jsstring option) \<Rightarrow> ApiClientOptions" where
  "createApiClient env fetch getAccessToken =
     \<lparr>opt_baseUrl = apiBaseUrl env, opt_getAccessToken = getAccessToken, opt_fetch = fetch\<rparr>"

definition noToken :: "js_exn + jsstring option" where
  "noToken = Inr None"

record query_defaults =
  qd_retry :: bool
  qd_refetchOnWindowFocus :: bool

definition defaultOptions :: query_defaults where
  "defaultOptions = \<lparr>qd_retry = False, qd_refetchOnWindowFocus = False\<rparr>"

section \<open>Routes\<close>

datatype target =
    RedirectTo jsstring
  | ApprovalsQueueRoute
  | OrderRoutingRoute
  | PlaceholderScreen jsstring "nat option"
  | ApprovalDetailRoute

record app_props =
  app_roles :: "AppRole list"
  app_currentUserObjectId :: "jsstring option"
  app_clientProp :: "ApiClientOptions option"

text \<open>The defaults of the destructured props.\<close>

definition default_props :: app_props where
  "default_props = \<lparr>app_roles = [RouterInvoke, RouterRead, Approver], app_currentUserObjectId = None, app_clientProp = None\<rparr>"

definition app_client :: "app_props \<Rightarrow> jsstring option \<Rightarrow> (request \<Rightarrow> js_exn + response) \<Rightarrow> ApiClientOptions" where
  "app_client props env fetch =
     (case app_clientProp props of Some c \<Rightarrow> c | None \<Rightarrow> createApiClient env fetch noToken)"

definition implemented :: "jsstring \<Rightarrow> target option" where
  "implemented path =
     (if path = u ''/approvals'' then Some ApprovalsQueueRoute
      else if path = u ''/order-routing'' then Some OrderRoutingRoute
      else None)"

definition screen_target :: "ScreenDefinition \<Rightarrow> target" where
  "screen_target s = (case implemented (sd_path s) of Some t \<Rightarrow> t | None \<Rightarrow> PlaceholderScreen (sd_title s) (sd_beat s))"

definition home_path :: "AppRole list \<Rightarrow> jsstring" where
  "home_path roles = (case visibleScreens roles of [] \<Rightarrow> u ''/scoreboard'' | s # _ \<Rightarrow> sd_path s)"

text \<open>The \<open>Route\<close> elements in order: a path pattern and what it shows.\<close>

definition app_routes :: "AppRole list \<Rightarrow> (jsstring \<times> target) list" where
  "app_routes roles =
     [(u ''/'', RedirectTo (home_path roles))]
     @ map (\<lambda>s. (sd_path s, screen_target s)) (visibleScreens roles)
     @ (if Approver \<in> set roles then [(u ''/approvals/:id'', ApprovalDetailRoute)] else [])
     @ [(u ''*'', PlaceholderScreen (u ''Not found'') None)]"

definition nav_links :: "AppRole list \<Rightarrow> (jsstring \<times> jsstring) list" where
  "nav_links roles = map (\<lambda>s. (sd_path s, sd_title s)) (visibleScreens roles)"

definition placeholder_view :: "jsstring \<Rightarrow> nat option \<Rightarrow> 'e html list" where
  "placeholder_view title beat =
     [El ''section'' [cls ''state'']
       [El ''span'' [cls ''state__title''] [Txt title],
        El ''p'' [cls ''state__detail'']
          ([Txt (u ''Not yet implemented.'')]
           @ (case beat of None \<Rightarrow> [] | Some b \<Rightarrow> [Txt (u '' This screen serves demo beat '' @ show_int (of_nat b) @ u ''.'')]))]]"

section \<open>The error boundary\<close>

definition error_view :: "js_exn \<Rightarrow> 'e \<Rightarrow> 'e html list" where
  "error_view e try_again =
     [El ''div'' [cls ''state state--error'', Attr ''role'' (u ''alert'')]
       [El ''span'' [cls ''state__title''] [Txt (u ''This screen failed to render'')],
        El ''p'' [cls ''state__detail''] [Txt (exn_text e)],
        El ''button'' [Attr ''type'' (u ''button''), cls ''button'', On ''onClick'' try_again] [Txt (u ''Try again'')]]]"

text \<open>
  \<open>render\<close> with React's reaction to a throw: \<open>getDerivedStateFromError\<close> records the error and the
  boundary renders again.  The state after and what is shown.
\<close>

definition boundary_render :: "'e \<Rightarrow> js_exn option \<Rightarrow> js_exn + 'e html list \<Rightarrow> js_exn option \<times> 'e html list" where
  "boundary_render try_again st children =
     (case st of
        Some e \<Rightarrow> (Some e, error_view e try_again)
      | None \<Rightarrow> (case children of Inr h \<Rightarrow> (None, h) | Inl e \<Rightarrow> (Some e, error_view e try_again)))"

text \<open>What happens to the shell: a link is followed, a screen renders anew, the button is clicked.\<close>

datatype shell_event = Follow jsstring | Refresh | TryAgain

record shell =
  sh_location :: jsstring
  sh_error :: "js_exn option"

fun shell_step :: "(jsstring \<Rightarrow> js_exn + 'e html list) \<Rightarrow> 'e \<Rightarrow> shell \<Rightarrow> shell_event \<Rightarrow> shell" where
  "shell_step screens again s (Follow path) =
     s\<lparr>sh_location := path, sh_error := fst (boundary_render again (sh_error s) (screens path))\<rparr>"
| "shell_step screens again s Refresh =
     s\<lparr>sh_error := fst (boundary_render again (sh_error s) (screens (sh_location s)))\<rparr>"
| "shell_step screens again s TryAgain =
     s\<lparr>sh_error := fst (boundary_render again None (screens (sh_location s)))\<rparr>"

definition shell_main :: "(jsstring \<Rightarrow> js_exn + 'e html list) \<Rightarrow> 'e \<Rightarrow> shell \<Rightarrow> 'e html list" where
  "shell_main screens again s = snd (boundary_render again (sh_error s) (screens (sh_location s)))"

section \<open>The page\<close>

text \<open>The frame of every page: the title, the links to the screens the caller may open, the main panel.\<close>

definition app_frame :: "app_props \<Rightarrow> 'e html list \<Rightarrow> 'e html list" where
  "app_frame props panel =
     [El ''div'' [cls ''app'']
       [El ''header'' [cls ''app__header'']
          [El ''h1'' [cls ''app__title''] [Txt (u ''Governed AI Exchange'')],
           El ''nav'' [cls ''app__nav'']
             (map (\<lambda>(path, title). El ''NavLink'' [Attr ''to'' path] [Txt title]) (nav_links (app_roles props)))],
        El ''main'' [cls ''app__main''] panel]]"

definition app_view :: "app_props \<Rightarrow> (jsstring \<Rightarrow> js_exn + 'e html list) \<Rightarrow> 'e \<Rightarrow> shell \<Rightarrow> 'e html list" where
  "app_view props screens again s = app_frame props (shell_main screens again s)"

text \<open>
  \<open>main.tsx\<close>: the application is rendered without props into the element the page names
  \<open>root\<close>; a page without that element is an error.  \<open>screens\<close> are those of the default props.
\<close>

definition mount :: "(string \<Rightarrow> 'd option) \<Rightarrow> (jsstring \<Rightarrow> js_exn + 'e html list) \<Rightarrow> 'e \<Rightarrow> jsstring \<Rightarrow> js_exn + 'd \<times> 'e html list" where
  "mount getElementById screens again location =
     (case getElementById ''root'' of
        None \<Rightarrow> Inl (JsError (u ''Root container missing from index.html''))
      | Some container \<Rightarrow>
          Inr (container, app_view default_props screens again \<lparr>sh_location = location, sh_error = None\<rparr>))"

section \<open>Properties\<close>

lemma mount_throws_iff: "(\<exists>e. mount page screens again loc = Inl e) \<longleftrightarrow> page ''root'' = None"
  by (simp add: mount_def split: option.split)

text \<open>Without props the caller holds every role, so every screen of the inventory is linked.\<close>

lemma default_page_links_all:
  "frag_els ''NavLink'' (app_frame default_props []) = map (\<lambda>s. El ''NavLink'' [Attr ''to'' (sd_path s)] [Txt (sd_title s)]) SCREENS"
  by (simp add: app_frame_def nav_links_def default_props_def visibleScreens_def SCREENS_def screen_def)

lemma boundary_keeps: "fst (boundary_render again (Some e) children) = Some e"
  by (simp add: boundary_render_def)

lemma boundary_shows: "snd (boundary_render again (Some e) children) = error_view e again"
  by (simp add: boundary_render_def)

lemma error_stays:
  "sh_error s = Some e \<Longrightarrow> TryAgain \<notin> set events \<Longrightarrow> sh_error (foldl (shell_step screens again) s events) = Some e"
proof (induction events arbitrary: s)
  case (Cons x xs)
  then show ?case by (cases x) (simp_all add: boundary_keeps)
qed simp

lemma error_panel:
  "sh_error s = Some e \<Longrightarrow> TryAgain \<notin> set events \<Longrightarrow>
     shell_main screens again (foldl (shell_step screens again) s events) = error_view e again"
  by (simp add: shell_main_def error_stays boundary_shows)

lemma default_client_requests:
  "rq \<in> set (fst (send (createApiClient env fetch noToken) m p b)) \<Longrightarrow> rq_headers rq = [(u ''content-type'', u ''application/json'')]"
  "rq \<in> set (fst (sendAllowing (createApiClient env fetch noToken) m p b rs)) \<Longrightarrow> rq_headers rq = [(u ''content-type'', u ''application/json'')]"
  by (auto simp: send_def sendAllowing_requests createApiClient_def noToken_def build_request_def)

text \<open>A screen that throws keeps every screen off the main panel: whatever links are followed
  afterwards and whatever those screens would render, the panel shows the first error until the user
  clicks Try again, and the navigation is the same as before.\<close>

theorem error_outlives_navigation:
  assumes "sh_error s = None" "screens path = Inl e" "TryAgain \<notin> set events"
  shows "app_view props screens' again (foldl (shell_step screens' again) (shell_step screens again s (Follow path)) events)
    = app_frame props (error_view e again)"
proof -
  have "sh_error (shell_step screens again s (Follow path)) = Some e"
    using assms(1,2) by (simp add: boundary_render_def)
  from error_panel [OF this assms(3), of screens' again] show ?thesis unfolding app_view_def by simp
qed

theorem error_outlives_navigation_witness:
  "app_view default_props (\<lambda>_. Inr []) () (shell_step (\<lambda>_. Inr []) () (shell_step (\<lambda>_. Inl (JsError (u ''x''))) ()
      \<lparr>sh_location = u ''/'', sh_error = None\<rparr> (Follow (u ''/order-routing''))) (Follow (u ''/approvals'')))
    = app_frame default_props (error_view (JsError (u ''x'')) ())"
  using error_outlives_navigation [of "\<lparr>sh_location = u ''/'', sh_error = None\<rparr>" "\<lambda>_. Inl (JsError (u ''x''))"
      "u ''/order-routing''" "JsError (u ''x'')" "[Follow (u ''/approvals'')]" default_props "\<lambda>_. Inr []" "()"]
  by simp

text \<open>The start page redirects to the first screen the caller may open; a caller who may open none is
  redirected to the scoreboard, for which there is no route.\<close>

theorem home_redirect:
  "(home_path roles \<in> fst ` set (tl (app_routes roles)) \<longleftrightarrow> roles \<noteq> [])
   \<and> (home_path roles = u ''/scoreboard'' \<and> visibleScreens roles = [] \<longleftrightarrow> roles = [])"
proof -
  have "visibleScreens roles = [] \<longleftrightarrow> roles = []"
  proof
    show "visibleScreens roles = []" if "roles = []"
      using that by (simp add: visibleScreens_def SCREENS_def screen_def)
    show "roles = []" if "visibleScreens roles = []"
    proof (rule ccontr)
      assume "roles \<noteq> []"
      then obtain r rs where "roles = r # rs" by (cases roles) auto
      with that show False
        by (cases r) (auto simp: visibleScreens_def SCREENS_def screen_def split: if_splits)
    qed
  qed
  then show ?thesis
    by (auto simp: home_path_def app_routes_def u_def split: list.split)
qed

text \<open>The client the shell builds by default sends no token: every request of every call carries the
  content type and nothing else, whatever the environment.\<close>

theorem default_client_sends_no_token:
  "\<Union> (set ` fst ` (\<lambda>c. {route c a, listPolicySets c, listApprovals c st, getApproval c i, decideApproval c i d,
       proposeRoute c b, executeRoute c x}) (app_client default_props env fetch))
     \<subseteq> {rq. rq_headers rq = [(u ''content-type'', u ''application/json'')]}"
proof -
  have c: "app_client default_props env fetch = createApiClient env fetch noToken"
    by (simp add: app_client_def default_props_def)
  show ?thesis
    unfolding c endpoint_defs by (auto dest: default_client_requests split: sum.splits)
qed

end
