(* ===== verification/DiagramKit.thy ===== *)
theory DiagramKit
  imports JsValue
begin

text \<open>
  The Excalidraw element factory (\<open>scripts/diagrams/diagram-kit.mjs\<close>): the counter-based generator of
  seeds on 32-bit words, the text estimator and word wrap, the column ruler, and the \<open>Scene\<close> class
  with its methods as functions from a scene to a result and the scene after it.  Coordinates are
  exact rationals.  \<open>byId\<close> maps an id to the position of the element object it refers to, so pushing
  to \<open>boundElements\<close> through it changes the element in the list.
\<close>

section \<open>The generator\<close>

definition PRNG_SEED :: "32 word" where "PRNG_SEED = 0x5f3a91c7"

definition UPDATED :: rat where "UPDATED = 1"

text \<open>\<open>next\<close>: the number drawn and the counter after it.\<close>

definition rng_next :: "32 word \<Rightarrow> int \<times> 32 word" where
  "rng_next counter =
     (let c = counter + 0x9e3779b9;
          z1 = (c XOR drop_bit 16 c) * 0x21f0aaad;
          z2 = (z1 XOR drop_bit 15 z1) * 0x735a2d97;
          z3 = z2 XOR drop_bit 15 z2
      in (uint z3 mod 2147483647, c))"

section \<open>Palette and metrics\<close>

definition C_ink :: jsstring where "C_ink = u ''#1e1e1e''"
definition C_red :: jsstring where "C_red = u ''#e03131''"
definition C_green :: jsstring where "C_green = u ''#2f9e44''"
definition C_blue :: jsstring where "C_blue = u ''#1971c2''"
definition C_orange :: jsstring where "C_orange = u ''#f08c00''"
definition C_violet :: jsstring where "C_violet = u ''#9c36b5''"
definition C_transparent :: jsstring where "C_transparent = u ''transparent''"
definition C_bgRed :: jsstring where "C_bgRed = u ''#ffc9c9''"
definition C_bgGreen :: jsstring where "C_bgGreen = u ''#b2f2bb''"
definition C_bgBlue :: jsstring where "C_bgBlue = u ''#a5d8ff''"
definition C_bgYellow :: jsstring where "C_bgYellow = u ''#ffec99''"
definition C_bgViolet :: jsstring where "C_bgViolet = u ''#eebefa''"
definition C_white :: jsstring where "C_white = u ''#ffffff''"

definition FONT_hand :: int where "FONT_hand = 1"
definition FONT_helvetica :: int where "FONT_helvetica = 2"
definition FONT_mono :: int where "FONT_mono = 3"

definition LINE_HEIGHT :: rat where "LINE_HEIGHT = 5 / 4"
definition BOX_PAD :: rat where "BOX_PAD = 16"

definition CHAR_RATIO :: "int \<Rightarrow> rat option" where
  "CHAR_RATIO f = (if f = 1 then Some (58 / 100) else if f = 2 then Some (55 / 100)
     else if f = 3 then Some (62 / 100) else None)"

definition charWidth :: "rat \<Rightarrow> int \<Rightarrow> rat" where
  "charWidth fontSize fontFamily = fontSize * (case CHAR_RATIO fontFamily of Some r \<Rightarrow> r | None \<Rightarrow> 55 / 100)"

definition measureLine :: "jsstring \<Rightarrow> rat \<Rightarrow> int \<Rightarrow> rat" where
  "measureLine line fontSize fontFamily = of_nat (length line) * charWidth fontSize fontFamily"

section \<open>Word wrap\<close>

text \<open>\<open>while (rest.length > maxChars)\<close>: the full slices and the rest; \<open>maxChars\<close> is at least 1.\<close>

function hard_break :: "nat \<Rightarrow> jsstring \<Rightarrow> jsstring list \<times> jsstring" where
  "hard_break n rest =
     (if 0 < n \<and> n < length rest
      then (case hard_break n (drop n rest) of (pieces, r) \<Rightarrow> (take n rest # pieces, r))
      else ([], rest))"
  by pat_completeness auto
termination by (relation "measure (\<lambda>(n, rest). length rest)") auto

declare hard_break.simps [simp del]

text \<open>The loop over the words of a paragraph: the current line and the lines pushed so far.\<close>

fun wrap_words :: "nat \<Rightarrow> jsstring list \<Rightarrow> jsstring \<Rightarrow> jsstring list" where
  "wrap_words n [] line = [line]"
| "wrap_words n (word # ws) line =
     (let candidate = (if line = [] then word else line @ [32] @ word) in
      if length candidate \<le> n then wrap_words n ws candidate
      else (case hard_break n word of (pieces, rest) \<Rightarrow>
        (if line \<noteq> [] then [line] else []) @ pieces @ wrap_words n ws rest))"

definition wrap_paragraph :: "nat \<Rightarrow> jsstring \<Rightarrow> jsstring list" where
  "wrap_paragraph n p = (if p = [] then [[]] else wrap_words n (split_on 32 p) [])"

definition max_chars :: "rat \<Rightarrow> rat \<Rightarrow> int \<Rightarrow> nat" where
  "max_chars maxWidth fontSize fontFamily = nat (max 1 \<lfloor>maxWidth / charWidth fontSize fontFamily\<rfloor>)"

definition wrapText :: "jsstring \<Rightarrow> rat \<Rightarrow> rat \<Rightarrow> int \<Rightarrow> jsstring list" where
  "wrapText t fontSize maxWidth fontFamily =
     concat (map (wrap_paragraph (max_chars maxWidth fontSize fontFamily)) (split_on 10 t))"

definition block_width :: "jsstring list \<Rightarrow> rat \<Rightarrow> int \<Rightarrow> rat" where
  "block_width lines fontSize fontFamily = foldl (\<lambda>m l. max m (measureLine l fontSize fontFamily)) 0 lines"

definition block_height :: "jsstring list \<Rightarrow> rat \<Rightarrow> rat" where
  "block_height lines fontSize = of_nat (length lines) * fontSize * LINE_HEIGHT"

text \<open>\<open>textBlockSize\<close>: width and height.\<close>

definition textBlockSize :: "jsstring list \<Rightarrow> rat \<Rightarrow> int \<Rightarrow> rat \<times> rat" where
  "textBlockSize lines fontSize fontFamily = (block_width lines fontSize fontFamily, block_height lines fontSize)"

section \<open>Columns\<close>

record ruler =
  ru_cols :: "(rat \<times> rat) list"
  ru_totalWidth :: rat

definition columns :: "rat \<Rightarrow> nat \<Rightarrow> rat \<Rightarrow> rat \<Rightarrow> ruler" where
  "columns x count width gap =
     \<lparr>ru_cols = map (\<lambda>i. (x + of_nat i * (width + gap), width)) [0..<count],
      ru_totalWidth = of_nat count * width + (of_nat count - 1) * gap\<rparr>"

text \<open>\<open>at(i)\<close>, or nothing past the last column; \<open>span(i, n)\<close>.\<close>

definition col_at :: "ruler \<Rightarrow> nat \<Rightarrow> (rat \<times> rat) option" where
  "col_at r i = (if i < length (ru_cols r) then Some (ru_cols r ! i) else None)"

definition col_span :: "ruler \<Rightarrow> rat \<Rightarrow> rat \<Rightarrow> nat \<Rightarrow> nat \<Rightarrow> (rat \<times> rat) option" where
  "col_span r width gap i n =
     (case col_at r i of None \<Rightarrow> None
      | Some (x, w) \<Rightarrow> Some (x, of_nat n * width + (of_nat n - 1) * gap))"

text \<open>\<open>stack\<close>: \<open>next(height)\<close> returns the top and the cursor after it.\<close>

definition stack_next :: "rat \<Rightarrow> rat \<Rightarrow> rat \<Rightarrow> rat \<times> rat" where
  "stack_next gap height cursor = (cursor, cursor + height + gap)"

definition stack_skip :: "rat \<Rightarrow> rat \<Rightarrow> rat" where
  "stack_skip amount cursor = cursor + amount"

section \<open>Elements and scenes\<close>

text \<open>\<open>round\<close>: \<open>Math.round\<close> takes the nearest integer, the larger one on a tie.\<close>

definition math_round :: "rat \<Rightarrow> int" where
  "math_round q = \<lfloor>q + 1 / 2\<rfloor>"

definition round2 :: "rat \<Rightarrow> rat" where
  "round2 n = of_int (math_round (n * 100)) / 100"

record bound =
  bo_type :: jsstring
  bo_id :: jsstring

record text_part =
  tp_text :: jsstring
  tp_originalText :: jsstring
  tp_fontSize :: rat
  tp_fontFamily :: int
  tp_textAlign :: jsstring
  tp_verticalAlign :: jsstring
  tp_containerId :: "jsstring option"
  tp_lineHeight :: rat

record binding =
  bi_elementId :: jsstring
  bi_gap :: rat

record arrow_part =
  ar_points :: "(rat \<times> rat) list"
  ar_startBinding :: binding
  ar_endBinding :: binding
  ar_startArrowhead :: "jsstring option"
  ar_endArrowhead :: "jsstring option"

record element =
  el_id :: jsstring
  el_type :: jsstring
  el_x :: rat
  el_y :: rat
  el_width :: rat
  el_height :: rat
  el_strokeColor :: jsstring
  el_backgroundColor :: jsstring
  el_fillStyle :: jsstring
  el_strokeWidth :: rat
  el_strokeStyle :: jsstring
  el_roughness :: rat
  el_roundness :: "int option"
  el_seed :: int
  el_versionNonce :: int
  el_boundElements :: "bound list"
  el_text :: "text_part option"
  el_arrow :: "arrow_part option"

record scene =
  sc_name :: jsstring
  sc_elements :: "element list"
  sc_counter :: "32 word"
  sc_idCounter :: int
  sc_byId :: "jsstring \<Rightarrow> nat option"

definition new_scene :: "jsstring \<Rightarrow> 32 word \<Rightarrow> scene" where
  "new_scene name seed =
     \<lparr>sc_name = name, sc_elements = [], sc_counter = seed, sc_idCounter = 0, sc_byId = (\<lambda>_. None)\<rparr>"

definition fresh_id :: "string \<Rightarrow> scene \<Rightarrow> jsstring \<times> scene" where
  "fresh_id kind s =
     (let n = sc_idCounter s + 1 in
      (u kind @ [45] @ pad_left 3 48 (show_int n), s\<lparr>sc_idCounter := n\<rparr>))"

text \<open>The optional properties of \<open>base\<close>; \<open>None\<close> is a missing one.  \<open>Some None\<close> is \<open>roundness: null\<close>.\<close>

record props =
  pr_strokeColor :: "jsstring option"
  pr_backgroundColor :: "jsstring option"
  pr_fillStyle :: "jsstring option"
  pr_strokeWidth :: "rat option"
  pr_strokeStyle :: "jsstring option"
  pr_roughness :: "rat option"
  pr_roundness :: "int option option"

definition no_props :: props where
  "no_props = \<lparr>pr_strokeColor = None, pr_backgroundColor = None, pr_fillStyle = None, pr_strokeWidth = None,
     pr_strokeStyle = None, pr_roughness = None, pr_roundness = None\<rparr>"

definition dflt :: "'a option \<Rightarrow> 'a \<Rightarrow> 'a" where
  "dflt x d = (case x of None \<Rightarrow> d | Some v \<Rightarrow> v)"

text \<open>\<open>base\<close> draws the seed and then the nonce, appends the element and makes its id refer to it.\<close>

definition base :: "string \<Rightarrow> jsstring \<Rightarrow> rat \<Rightarrow> rat \<Rightarrow> rat \<Rightarrow> rat \<Rightarrow> props \<Rightarrow> scene \<Rightarrow> scene" where
  "base type i x y width height p s =
     (let (seed, c1) = rng_next (sc_counter s); (nonce, c2) = rng_next c1;
          el = \<lparr>el_id = i, el_type = u type, el_x = round2 x, el_y = round2 y, el_width = round2 width,
            el_height = round2 height, el_strokeColor = dflt (pr_strokeColor p) C_ink,
            el_backgroundColor = dflt (pr_backgroundColor p) C_transparent,
            el_fillStyle = dflt (pr_fillStyle p) (u ''solid''), el_strokeWidth = dflt (pr_strokeWidth p) 2,
            el_strokeStyle = dflt (pr_strokeStyle p) (u ''solid''), el_roughness = dflt (pr_roughness p) 0,
            el_roundness = dflt (pr_roundness p) (Some 3), el_seed = seed, el_versionNonce = nonce,
            el_boundElements = [], el_text = None, el_arrow = None\<rparr>
      in s\<lparr>sc_elements := sc_elements s @ [el], sc_counter := c2, sc_byId := (sc_byId s)(i \<mapsto> length (sc_elements s))\<rparr>)"

text \<open>\<open>Object.assign\<close> to the element just created.\<close>

definition update_last :: "(element \<Rightarrow> element) \<Rightarrow> scene \<Rightarrow> scene" where
  "update_last f s = s\<lparr>sc_elements := butlast (sc_elements s) @ [f (last (sc_elements s))]\<rparr>"

text \<open>\<open>this.byId.get(id).boundElements.push(b)\<close>: a missing id is a read of \<open>undefined\<close>.\<close>

definition push_bound :: "jsstring \<Rightarrow> bound \<Rightarrow> scene \<Rightarrow> js_exn + scene" where
  "push_bound i b s =
     (case sc_byId s i of
        None \<Rightarrow> Inl (JsError (u ''Cannot read properties of undefined (reading '' @ [39] @ u ''boundElements'' @ [39] @ u '')''))
      | Some k \<Rightarrow> Inr (s\<lparr>sc_elements := (sc_elements s)[k := (sc_elements s ! k)
          \<lparr>el_boundElements := el_boundElements (sc_elements s ! k) @ [b]\<rparr>]\<rparr>))"

section \<open>Text, boxes and groups\<close>

record text_opts =
  to_x :: rat
  to_y :: rat
  to_width :: "rat option"
  to_fontSize :: rat
  to_fontFamily :: int
  to_color :: jsstring
  to_align :: jsstring
  to_id :: "jsstring option"

definition text_at :: "rat \<Rightarrow> rat \<Rightarrow> text_opts" where
  "text_at x y = \<lparr>to_x = x, to_y = y, to_width = None, to_fontSize = 16, to_fontFamily = FONT_helvetica,
     to_color = C_ink, to_align = u ''left'', to_id = None\<rparr>"

definition text_props :: "jsstring \<Rightarrow> rat option \<Rightarrow> props" where
  "text_props color strokeWidth = no_props\<lparr>pr_strokeColor := Some color,
     pr_backgroundColor := Some C_transparent, pr_roundness := Some None, pr_strokeWidth := strokeWidth\<rparr>"

text \<open>The method \<open>text\<close>; it returns the element, of which callers read the height.\<close>

definition scene_text :: "jsstring \<Rightarrow> text_opts \<Rightarrow> scene \<Rightarrow> element \<times> scene" where
  "scene_text content o' s =
     (let maxWidth = (case to_width o' of Some w \<Rightarrow> w
            | None \<Rightarrow> measureLine (hd (split_on 10 content)) (to_fontSize o') (to_fontFamily o') + 1);
          lines = wrapText content (to_fontSize o') maxWidth (to_fontFamily o');
          (bw, bh) = textBlockSize lines (to_fontSize o') (to_fontFamily o');
          (i, s1) = (case to_id o' of Some i \<Rightarrow> (i, s) | None \<Rightarrow> fresh_id ''txt'' s);
          s2 = base ''text'' i (to_x o') (to_y o') (dflt (to_width o') bw) bh (text_props (to_color o') (Some 2)) s1;
          s3 = update_last (\<lambda>el. el\<lparr>el_text := Some
            \<lparr>tp_text = join [10] lines, tp_originalText = content, tp_fontSize = to_fontSize o',
             tp_fontFamily = to_fontFamily o', tp_textAlign = to_align o', tp_verticalAlign = u ''top'',
             tp_containerId = None, tp_lineHeight = LINE_HEIGHT\<rparr>\<rparr>) s2
      in (last (sc_elements s3), s3))"

record box_spec =
  bx_x :: rat
  bx_y :: rat
  bx_width :: rat
  bx_height :: "rat option"
  bx_title :: jsstring
  bx_body :: "jsstring option"
  bx_stroke :: jsstring
  bx_background :: jsstring
  bx_fillStyle :: jsstring
  bx_strokeStyle :: jsstring
  bx_strokeWidth :: rat
  bx_titleSize :: rat
  bx_bodySize :: rat
  bx_titleFamily :: int
  bx_bodyFamily :: int
  bx_titleColor :: "jsstring option"
  bx_bodyColor :: "jsstring option"

text \<open>A specification with a title and the destructuring defaults of \<open>box\<close>.\<close>

definition box_titled :: "jsstring \<Rightarrow> box_spec" where
  "box_titled title =
     \<lparr>bx_x = 0, bx_y = 0, bx_width = 0, bx_height = None, bx_title = title, bx_body = None, bx_stroke = C_ink,
      bx_background = C_transparent, bx_fillStyle = u ''solid'', bx_strokeStyle = u ''solid'', bx_strokeWidth = 2,
      bx_titleSize = 20, bx_bodySize = 16, bx_titleFamily = FONT_helvetica, bx_bodyFamily = FONT_helvetica,
      bx_titleColor = None, bx_bodyColor = None\<rparr>"

text \<open>A body is truthy when it is present and not empty.\<close>

definition spec_body :: "box_spec \<Rightarrow> jsstring option" where
  "spec_body b = (case bx_body b of None \<Rightarrow> None | Some t \<Rightarrow> if t = [] then None else Some t)"

definition scene_measure :: "box_spec \<Rightarrow> rat \<Rightarrow> rat" where
  "scene_measure b width =
     (let inner = width - 2 * BOX_PAD;
          h0 = BOX_PAD * 2;
          h1 = (if bx_title b \<noteq> []
                then h0 + block_height (wrapText (bx_title b) (bx_titleSize b) inner (bx_titleFamily b)) (bx_titleSize b)
                else h0);
          h2 = (case spec_body b of None \<Rightarrow> h1
                | Some t \<Rightarrow> h1 + (10 + block_height (wrapText t (bx_bodySize b) inner (bx_bodyFamily b)) (bx_bodySize b)))
      in max h2 64)"

record handle =
  hd_id :: jsstring
  hd_x :: rat
  hd_y :: rat
  hd_width :: rat
  hd_height :: rat
  hd_cx :: rat
  hd_cy :: rat

definition handle_of :: "jsstring \<Rightarrow> rat \<Rightarrow> rat \<Rightarrow> rat \<Rightarrow> rat \<Rightarrow> handle" where
  "handle_of i x y width height =
     \<lparr>hd_id = i, hd_x = x, hd_y = y, hd_width = width, hd_height = height, hd_cx = x + width / 2, hd_cy = y + height / 2\<rparr>"

text \<open>\<open>rect.boundElements.push\<close> on the rectangle object itself, which is the element at position \<open>k\<close>.\<close>

definition push_at :: "nat \<Rightarrow> bound \<Rightarrow> scene \<Rightarrow> scene" where
  "push_at k b s = s\<lparr>sc_elements := (sc_elements s)[k := (sc_elements s ! k)
     \<lparr>el_boundElements := el_boundElements (sc_elements s ! k) @ [b]\<rparr>]\<rparr>"

definition scene_box :: "box_spec \<Rightarrow> scene \<Rightarrow> handle \<times> scene" where
  "scene_box b s =
     (let x = bx_x b; y = bx_y b; width = bx_width b;
          h = (case bx_height b of Some h \<Rightarrow> h | None \<Rightarrow> scene_measure b width);
          (rectId, s1) = fresh_id ''box'' s;
          inner = width - 2 * BOX_PAD;
          k = length (sc_elements s1);
          s2 = base ''rectangle'' rectId x y width h (no_props\<lparr>pr_strokeColor := Some (bx_stroke b),
                 pr_backgroundColor := Some (bx_background b), pr_fillStyle := Some (bx_fillStyle b),
                 pr_strokeStyle := Some (bx_strokeStyle b), pr_strokeWidth := Some (bx_strokeWidth b),
                 pr_roundness := Some (Some 3)\<rparr>) s1;
          titleLines = wrapText (bx_title b) (bx_titleSize b) inner (bx_titleFamily b);
          th = block_height titleLines (bx_titleSize b);
          (titleId, s3) = fresh_id ''txt'' s2;
          centred = (spec_body b = None);
          titleY = (if centred then y + (h - th) / 2 else y + BOX_PAD);
          s4 = base ''text'' titleId (x + BOX_PAD) titleY inner th (text_props (dflt (bx_titleColor b) C_ink) None) s3;
          s5 = update_last (\<lambda>el. el\<lparr>el_text := Some
            \<lparr>tp_text = join [10] titleLines, tp_originalText = bx_title b, tp_fontSize = bx_titleSize b,
             tp_fontFamily = bx_titleFamily b, tp_textAlign = u ''center'',
             tp_verticalAlign = (if centred then u ''middle'' else u ''top''),
             tp_containerId = Some rectId, tp_lineHeight = LINE_HEIGHT\<rparr>\<rparr>) s4;
          s6 = push_at k \<lparr>bo_type = u ''text'', bo_id = titleId\<rparr> s5;
          s7 = (case spec_body b of None \<Rightarrow> s6
            | Some t \<Rightarrow> snd (scene_text t ((text_at (x + BOX_PAD) (titleY + th + 10))
                \<lparr>to_width := Some inner, to_fontSize := bx_bodySize b, to_fontFamily := bx_bodyFamily b,
                 to_color := dflt (bx_bodyColor b) C_ink, to_align := u ''center''\<rparr>) s6))
      in (handle_of rectId x y width h, s7))"

record group_spec =
  gs_x :: rat
  gs_y :: rat
  gs_width :: rat
  gs_height :: rat
  gs_label :: jsstring
  gs_stroke :: jsstring
  gs_background :: jsstring
  gs_fillStyle :: jsstring
  gs_strokeStyle :: jsstring
  gs_strokeWidth :: rat
  gs_labelSize :: rat
  gs_labelColor :: "jsstring option"
  gs_sublabel :: jsstring
  gs_sublabelSize :: rat

text \<open>A group with the destructuring defaults; an absent label or sublabel is the empty one.\<close>

definition group_at :: "rat \<Rightarrow> rat \<Rightarrow> rat \<Rightarrow> rat \<Rightarrow> group_spec" where
  "group_at x y width height =
     \<lparr>gs_x = x, gs_y = y, gs_width = width, gs_height = height, gs_label = [], gs_stroke = C_ink,
      gs_background = C_transparent, gs_fillStyle = u ''solid'', gs_strokeStyle = u ''solid'', gs_strokeWidth = 2,
      gs_labelSize = 20, gs_labelColor = None, gs_sublabel = [], gs_sublabelSize = 16\<rparr>"

definition scene_group :: "group_spec \<Rightarrow> scene \<Rightarrow> handle \<times> scene" where
  "scene_group g s =
     (let x = gs_x g; y = gs_y g; width = gs_width g; height = gs_height g;
          (rectId, s1) = fresh_id ''grp'' s;
          s2 = base ''rectangle'' rectId x y width height (no_props\<lparr>pr_strokeColor := Some (gs_stroke g),
                 pr_backgroundColor := Some (gs_background g), pr_fillStyle := Some (gs_fillStyle g),
                 pr_strokeStyle := Some (gs_strokeStyle g), pr_strokeWidth := Some (gs_strokeWidth g),
                 pr_roundness := Some (Some 3)\<rparr>) s1;
          color = dflt (gs_labelColor g) (gs_stroke g);
          s3 = (if gs_label g = [] then s2
            else (case scene_text (gs_label g) ((text_at (x + BOX_PAD) (y + 12))
                     \<lparr>to_width := Some (width - 2 * BOX_PAD), to_fontSize := gs_labelSize g, to_color := color\<rparr>) s2 of
                    (el, s') \<Rightarrow>
                      if gs_sublabel g = [] then s'
                      else snd (scene_text (gs_sublabel g) ((text_at (x + BOX_PAD) (y + 12 + el_height el + 4))
                        \<lparr>to_width := Some (width - 2 * BOX_PAD), to_fontSize := gs_sublabelSize g, to_color := color\<rparr>) s')))
      in (handle_of rectId x y width height, s3))"

section \<open>Arrows\<close>

datatype side = SLeft | SRight | STop | SBottom

fun scene_anchor :: "handle \<Rightarrow> side \<Rightarrow> rat \<times> rat" where
  "scene_anchor b SLeft = (hd_x b, hd_y b + hd_height b / 2)"
| "scene_anchor b SRight = (hd_x b + hd_width b, hd_y b + hd_height b / 2)"
| "scene_anchor b STop = (hd_x b + hd_width b / 2, hd_y b)"
| "scene_anchor b SBottom = (hd_x b + hd_width b / 2, hd_y b + hd_height b)"

definition autoSides :: "handle \<Rightarrow> handle \<Rightarrow> side \<times> side" where
  "autoSides a b =
     (let dx = hd_cx b - hd_cx a; dy = hd_cy b - hd_cy a in
      if \<bar>dx\<bar> \<ge> \<bar>dy\<bar> then (if dx \<ge> 0 then (SRight, SLeft) else (SLeft, SRight))
      else (if dy \<ge> 0 then (SBottom, STop) else (STop, SBottom)))"

datatype elbow = ElbowH | ElbowV

record arrow_opts =
  ao_color :: jsstring
  ao_strokeWidth :: rat
  ao_strokeStyle :: jsstring
  ao_gap :: rat
  ao_label :: jsstring
  ao_labelSize :: rat
  ao_labelColor :: "jsstring option"
  ao_labelWidth :: rat
  ao_labelDx :: rat
  ao_labelDy :: rat
  ao_elbow :: "elbow option"
  ao_endArrowhead :: "jsstring option"
  ao_startArrowhead :: "jsstring option"
  ao_sides :: "(side \<times> side) option"
  ao_detour :: "rat option"
  ao_labelAt :: "(rat \<times> rat) option"

definition arrow_defaults :: arrow_opts where
  "arrow_defaults = \<lparr>ao_color = C_ink, ao_strokeWidth = 2, ao_strokeStyle = u ''solid'', ao_gap = 8, ao_label = [],
     ao_labelSize = 16, ao_labelColor = None, ao_labelWidth = 240, ao_labelDx = 0, ao_labelDy = 0, ao_elbow = None,
     ao_endArrowhead = Some (u ''arrow''), ao_startArrowhead = None, ao_sides = None, ao_detour = None, ao_labelAt = None\<rparr>"

fun arrow_off :: "rat \<times> rat \<Rightarrow> side \<Rightarrow> rat \<Rightarrow> rat \<times> rat" where
  "arrow_off (px, py) SLeft d = (px - d, py)"
| "arrow_off (px, py) SRight d = (px + d, py)"
| "arrow_off (px, py) STop d = (px, py - d)"
| "arrow_off (px, py) SBottom d = (px, py + d)"

text \<open>The routed polyline, relative to its start, for a displacement \<open>(dx, dy)\<close>.\<close>

definition arrow_points :: "side \<Rightarrow> side \<Rightarrow> rat option \<Rightarrow> elbow option \<Rightarrow> rat \<Rightarrow> rat \<Rightarrow> (rat \<times> rat) list" where
  "arrow_points sSide eSide detour elbow dx dy =
     (0, 0) #
     (if sSide = eSide then
        (let reach = (if sSide = SLeft \<or> sSide = STop then -1 else 1) * dflt detour 70 in
         if sSide = SLeft \<or> sSide = SRight then [(reach, 0), (reach, dy), (dx, dy)]
         else [(0, reach), (dx, reach), (dx, dy)])
      else (case elbow of Some ElbowH \<Rightarrow> [(dx, 0)] | Some ElbowV \<Rightarrow> [(0, dy)] | None \<Rightarrow> []) @ [(dx, dy)])"

definition extent :: "rat list \<Rightarrow> rat" where
  "extent xs = Max (set xs) - Min (set xs)"

definition scene_arrow :: "handle \<Rightarrow> handle \<Rightarrow> arrow_opts \<Rightarrow> scene \<Rightarrow> js_exn + jsstring \<times> scene" where
  "scene_arrow from to o' s =
     (let (sSide, eSide) = dflt (ao_sides o') (autoSides from to);
          (sx, sy) = arrow_off (scene_anchor from sSide) sSide (ao_gap o');
          (ex, ey) = arrow_off (scene_anchor to eSide) eSide (ao_gap o');
          pts = arrow_points sSide eSide (ao_detour o') (ao_elbow o') (ex - sx) (ey - sy);
          (arrowId, s1) = fresh_id ''arr'' s;
          s2 = base ''arrow'' arrowId sx sy (extent (map fst pts)) (extent (map snd pts))
                 (no_props\<lparr>pr_strokeColor := Some (ao_color o'), pr_backgroundColor := Some C_transparent,
                  pr_strokeWidth := Some (ao_strokeWidth o'), pr_strokeStyle := Some (ao_strokeStyle o'),
                  pr_roundness := Some (Some 2)\<rparr>) s1;
          s3 = update_last (\<lambda>el. el\<lparr>el_arrow := Some
            \<lparr>ar_points = map (\<lambda>(px, py). (round2 px, round2 py)) pts,
             ar_startBinding = \<lparr>bi_elementId = hd_id from, bi_gap = ao_gap o'\<rparr>,
             ar_endBinding = \<lparr>bi_elementId = hd_id to, bi_gap = ao_gap o'\<rparr>,
             ar_startArrowhead = ao_startArrowhead o', ar_endArrowhead = ao_endArrowhead o'\<rparr>\<rparr>) s2;
          b = \<lparr>bo_type = u ''arrow'', bo_id = arrowId\<rparr>
      in bindE (push_bound (hd_id from) b s3) (\<lambda>s4.
         bindE (push_bound (hd_id to) b s4) (\<lambda>s5.
           if ao_label o' = [] then Inr (arrowId, s5)
           else
             (let n = of_nat (length pts);
                  (mx, my) = dflt (ao_labelAt o') (sx + sum_list (map fst pts) / n, sy + sum_list (map snd pts) / n);
                  lines = wrapText (ao_label o') (ao_labelSize o') (ao_labelWidth o') FONT_helvetica;
                  h = block_height lines (ao_labelSize o')
              in Inr (arrowId, snd (scene_text (ao_label o')
                   ((text_at (mx - ao_labelWidth o' / 2 + ao_labelDx o') (my - h / 2 + ao_labelDy o'))
                    \<lparr>to_width := Some (ao_labelWidth o'), to_fontSize := ao_labelSize o',
                     to_color := dflt (ao_labelColor o') (ao_color o'), to_align := u ''center''\<rparr>) s5))))))"

section \<open>Header and legend\<close>

definition scene_header :: "rat \<Rightarrow> rat \<Rightarrow> rat \<Rightarrow> jsstring \<Rightarrow> jsstring \<Rightarrow> scene \<Rightarrow> rat \<times> scene" where
  "scene_header x y width title subtitle s =
     (let (t, s1) = scene_text title ((text_at x y)\<lparr>to_width := Some width, to_fontSize := 28\<rparr>) s;
          (st, s2) = scene_text subtitle ((text_at x (y + el_height t + 10))
            \<lparr>to_width := Some width, to_fontSize := 20, to_color := C_blue\<rparr>) s1
      in (el_height t + 10 + el_height st, s2))"

record legend_item =
  li_stroke :: "jsstring option"
  li_background :: "jsstring option"
  li_strokeWidth :: "rat option"
  li_strokeStyle :: "jsstring option"
  li_text :: jsstring

fun legend_items :: "rat \<Rightarrow> rat \<Rightarrow> rat \<Rightarrow> legend_item list \<Rightarrow> scene \<Rightarrow> scene" where
  "legend_items x width cursor [] s = s"
| "legend_items x width cursor (item # items) s =
     (let (i, s1) = fresh_id ''swa'' s;
          s2 = base ''rectangle'' i (x + BOX_PAD) cursor 26 26 (no_props
                 \<lparr>pr_strokeColor := Some (dflt (li_stroke item) C_ink),
                  pr_backgroundColor := Some (dflt (li_background item) C_transparent),
                  pr_fillStyle := Some (u ''solid''), pr_strokeWidth := Some (dflt (li_strokeWidth item) 2),
                  pr_strokeStyle := Some (dflt (li_strokeStyle item) (u ''solid'')), pr_roundness := Some (Some 3)\<rparr>) s1;
          s3 = snd (scene_text (li_text item) ((text_at (x + BOX_PAD + 26 + 12) (cursor + 3))
                 \<lparr>to_width := Some (width - 2 * BOX_PAD - 26 - 12)\<rparr>) s2)
      in legend_items x width (cursor + 34) items s3)"

definition legend_title :: jsstring where
  "legend_title = u ''Legend '' @ [0x2014] @ u '' what the colours mean''"

definition scene_legend :: "rat \<Rightarrow> rat \<Rightarrow> rat \<Rightarrow> legend_item list \<Rightarrow> jsstring \<Rightarrow> scene \<Rightarrow> handle \<times> scene" where
  "scene_legend x y width items title s =
     (let height = 16 + 24 + 12 + of_nat (length items) * 34 + 12;
          (frame, s1) = scene_group ((group_at x y width height)
            \<lparr>gs_label := title, gs_labelSize := 20, gs_stroke := C_ink, gs_background := C_white, gs_strokeWidth := 2\<rparr>) s
      in (frame, legend_items x width (y + 16 + 24 + 14) items s1))"

section \<open>Bounds and documents\<close>

definition el_xs :: "element \<Rightarrow> rat list" where
  "el_xs e = (case el_arrow e of Some a \<Rightarrow> map (\<lambda>p. el_x e + fst p) (ar_points a) | None \<Rightarrow> [el_x e, el_x e + el_width e])"

definition el_ys :: "element \<Rightarrow> rat list" where
  "el_ys e = (case el_arrow e of Some a \<Rightarrow> map (\<lambda>p. el_y e + snd p) (ar_points a) | None \<Rightarrow> [el_y e, el_y e + el_height e])"

text \<open>\<open>bounds\<close>: \<open>(minX, minY, maxX, maxY)\<close>, or nothing for an empty scene, where they are infinite.\<close>

definition scene_bounds :: "element list \<Rightarrow> (rat \<times> rat \<times> rat \<times> rat) option" where
  "scene_bounds els =
     (if els = [] then None
      else Some (Min (set (concat (map el_xs els))), Min (set (concat (map el_ys els))),
                 Max (set (concat (map el_xs els))), Max (set (concat (map el_ys els)))))"

section \<open>Lemmas on word wrap\<close>

lemma hard_break_pieces:
  "0 < n \<Longrightarrow> hard_break n w = (ps, r) \<Longrightarrow>
     (\<forall>p \<in> set ps. length p = n) \<and> length r \<le> n \<and> concat ps @ r = w \<and> (w \<noteq> [] \<longrightarrow> r \<noteq> [])"
proof (induction n w arbitrary: ps r rule: hard_break.induct)
  case (1 n rest)
  show ?case
  proof (cases "n < length rest")
    case True
    then obtain qs where q: "hard_break n (drop n rest) = (qs, r)" and ps: "ps = take n rest # qs"
      using "1.prems" by (auto simp: hard_break.simps [of n rest] split: prod.splits)
    from "1.IH" [OF _ "1.prems"(1) q] True "1.prems"(1) show ?thesis
      by (auto simp: ps)
  next
    case False
    with "1.prems" show ?thesis by (auto simp: hard_break.simps [of n rest])
  qed
qed

text \<open>A line as the wrap emits them: short enough, and not beginning with a space.\<close>

definition good_line :: "nat \<Rightarrow> jsstring \<Rightarrow> bool" where
  "good_line n l \<longleftrightarrow> length l \<le> n \<and> (l = [] \<or> hd l \<noteq> 32) \<and> 10 \<notin> set l"

lemma hard_break_good:
  assumes "0 < n" "hard_break n w = (ps, r)" "32 \<notin> set w" "10 \<notin> set w"
  shows "good_line n r \<and> list_all (good_line n) ps"
proof -
  note hb = hard_break_pieces [OF assms(1,2)]
  have "set w = (\<Union>p \<in> set ps. set p) \<union> set r"
    using hb by (metis set_append set_concat)
  then have sub: "set p \<subseteq> set w" if "p \<in> set ps \<or> p = r" for p
    using that by blast
  have "good_line n p" if "p \<in> set ps \<or> p = r" for p
    using sub [OF that] that hb assms(3,4) list.set_sel(1) [of p] unfolding good_line_def by fastforce
  then show ?thesis by (simp add: list_all_iff)
qed

lemma wrap_words_good:
  "0 < n \<Longrightarrow> good_line n line \<Longrightarrow> \<forall>w \<in> set ws. 32 \<notin> set w \<and> 10 \<notin> set w \<Longrightarrow>
     list_all (good_line n) (wrap_words n ws line)"
proof (induction ws arbitrary: line)
  case (Cons w ws)
  let ?c = "if line = [] then w else line @ [32] @ w"
  obtain ps r where hb: "hard_break n w = (ps, r)" by fastforce
  from Cons.prems(3) have w: "32 \<notin> set w" "10 \<notin> set w" and ws: "\<forall>v \<in> set ws. 32 \<notin> set v \<and> 10 \<notin> set v"
    by auto
  have hw: "w \<noteq> [] \<Longrightarrow> hd w \<noteq> 32"
    using w(1) hd_in_set [of w] by metis
  have c: "good_line n ?c" if "length ?c \<le> n"
    using that Cons.prems(2) w(2) hw unfolding good_line_def by (auto split: if_splits)
  from hard_break_good [OF Cons.prems(1) hb w] Cons.IH [OF Cons.prems(1) _ ws] c Cons.prems(2)
  show ?case by (simp add: Let_def hb)
qed simp

lemma wrap_paragraph_good:
  "0 < n \<Longrightarrow> 10 \<notin> set p \<Longrightarrow> list_all (good_line n) (wrap_paragraph n p)"
proof -
  assume n: "0 < n" and p: "10 \<notin> set p"
  have "set w \<subseteq> set p" if "w \<in> set (split_on 32 p)" for w
    using that
  proof (induction p arbitrary: w)
    case (Cons x p)
    obtain v vs where "split_on 32 p = v # vs"
      by (metis neq_Nil_conv split_on_not_Nil)
    with Cons.prems Cons.IH [of v] Cons.IH [of w] show ?case by (auto split: if_splits)
  qed simp
  with p have "\<forall>w \<in> set (split_on 32 p). 32 \<notin> set w \<and> 10 \<notin> set w"
    using split_on_pieces by blast
  from wrap_words_good [OF n _ this, of "[]"] show ?thesis
    by (auto simp: wrap_paragraph_def good_line_def)
qed

lemma max_chars_pos: "0 < max_chars w fs ff"
  by (simp add: max_chars_def)

lemma wrapText_good: "list_all (good_line (max_chars w fs ff)) (wrapText t fs w ff)"
  using wrap_paragraph_good [OF max_chars_pos] split_on_pieces [of _ 10 t]
  by (fastforce simp: wrapText_def list_all_iff)

lemma wrap_words_not_Nil: "wrap_words n ws line \<noteq> []"
  by (induction ws arbitrary: line) (auto simp: Let_def split: prod.splits)

lemma wrap_paragraph_not_Nil: "wrap_paragraph n p \<noteq> []"
  by (simp add: wrap_paragraph_def wrap_words_not_Nil)

lemma wrapText_not_Nil: "wrapText t fs w ff \<noteq> []"
  by (cases "split_on 10 t") (auto simp: wrapText_def wrap_paragraph_not_Nil)

text \<open>A line that fits is a fixed point of the wrap.\<close>

lemma wrap_words_fits:
  "line \<noteq> [] \<Longrightarrow> length (join [32] (line # ws)) \<le> n \<Longrightarrow> wrap_words n ws line = [join [32] (line # ws)]"
proof (induction ws arbitrary: line)
  case (Cons w ws)
  have j: "join [32] (line # w # ws) = join [32] ((line @ [32] @ w) # ws)"
    by (cases ws) (simp_all add: join_Cons)
  with Cons.prems have "length (line @ [32] @ w) \<le> n"
    by (cases ws) (auto simp: join_Cons)
  moreover from Cons.IH [of "line @ [32] @ w"] Cons.prems
  have "wrap_words n ws (line @ [32] @ w) = [join [32] ((line @ [32] @ w) # ws)]"
    by (simp only: j) simp
  ultimately show ?case
    using Cons.prems(1) by (simp only: j) (simp add: Let_def)
qed simp

lemma wrap_paragraph_fixed: "good_line n l \<Longrightarrow> wrap_paragraph n l = [l]"
proof (cases "l = []")
  case False
  assume g: "good_line n l"
  obtain v vs where s: "split_on 32 l = v # vs"
    by (metis neq_Nil_conv split_on_not_Nil)
  have j: "join [32] (v # vs) = l"
    using join_split_on [of 32 l] s by simp
  have "v \<noteq> []"
    using False g s by (cases l) (auto simp: good_line_def split: if_splits list.splits)
  moreover from j g have "length (join [32] (v # vs)) \<le> n" by (simp add: good_line_def)
  moreover from this have "length v \<le> n"
    by (cases vs) (auto simp: join_Cons)
  ultimately show ?thesis
    using False wrap_words_fits [of v vs n] j by (simp add: wrap_paragraph_def s)
qed (simp add: wrap_paragraph_def)

lemma wrapText_rejoin:
  assumes "ls \<noteq> []" "list_all (good_line (max_chars w fs ff)) ls"
  shows "wrapText (join [10] ls) fs w ff = ls"
proof -
  have "\<forall>l \<in> set ls. 10 \<notin> set l"
    using assms(2) by (auto simp: list_all_iff good_line_def)
  with assms(1) have "split_on 10 (join [10] ls) = ls"
    by (intro split_on_join) auto
  moreover have "concat (map (wrap_paragraph (max_chars w fs ff)) ls) = ls"
    using assms(2) by (induction ls) (auto simp: wrap_paragraph_fixed)
  ultimately show ?thesis by (simp add: wrapText_def)
qed

text \<open>Nothing but spaces is lost: the other characters survive in order.\<close>

definition unspaced :: "jsstring \<Rightarrow> jsstring" where
  "unspaced s = filter (\<lambda>c. c \<noteq> 32 \<and> c \<noteq> 10) s"

lemma unspaced_append [simp]: "unspaced (s @ t) = unspaced s @ unspaced t"
  by (simp add: unspaced_def)

lemma unspaced_sep [simp]: "unspaced [] = []" "unspaced (32 # s) = unspaced s" "unspaced (10 # s) = unspaced s"
  by (simp_all add: unspaced_def)

lemma unspaced_join: "c = 32 \<or> c = 10 \<Longrightarrow> unspaced (join [c] ws) = concat (map unspaced ws)"
proof (induction ws)
  case (Cons w ws)
  then show ?case by (cases "ws = []") (auto simp: join_Cons)
qed simp

lemma unspaced_concat: "unspaced (concat ps) = concat (map unspaced ps)"
  by (induction ps) auto

lemma wrap_words_unspaced:
  "0 < n \<Longrightarrow> concat (map unspaced (wrap_words n ws line)) = unspaced line @ concat (map unspaced ws)"
proof (induction ws arbitrary: line)
  case (Cons w ws)
  obtain ps r where hb: "hard_break n w = (ps, r)" by fastforce
  from hard_break_pieces [OF Cons.prems hb] have "concat (map unspaced ps) @ unspaced r = unspaced w"
    using unspaced_append unspaced_concat by metis
  then have "concat (map unspaced ps) @ unspaced r @ x = unspaced w @ x" for x
    by (metis append.assoc)
  with Cons show ?case by (simp add: Let_def hb)
qed simp

lemma wrapText_unspaced: "concat (map unspaced (wrapText t fs w ff)) = unspaced t"
proof -
  let ?n = "max_chars w fs ff"
  have "concat (map unspaced (wrap_paragraph ?n p)) = unspaced p" for p
    using wrap_words_unspaced [OF max_chars_pos, of w fs ff "split_on 32 p" "[]"]
      unspaced_join [of 32 "split_on 32 p"]
    by (simp add: wrap_paragraph_def)
  then have "concat (map unspaced (concat (map (wrap_paragraph ?n) ps))) = concat (map unspaced ps)" for ps
    by (induction ps) auto
  then show ?thesis
    using unspaced_join [of 10 "split_on 10 t"] by (simp add: wrapText_def)
qed

lemma measureLine_fits:
  assumes "length l \<le> max_chars w fs ff" "0 < charWidth fs ff" "charWidth fs ff \<le> w"
  shows "measureLine l fs ff \<le> w"
proof -
  have q: "1 \<le> w / charWidth fs ff"
    using assms(2,3) by (simp add: le_divide_eq)
  then have "1 \<le> \<lfloor>w / charWidth fs ff\<rfloor>"
    by (simp add: le_floor_iff)
  then have "rat_of_nat (max_chars w fs ff) = of_int \<lfloor>w / charWidth fs ff\<rfloor>"
    by (simp add: max_chars_def)
  also have "\<dots> \<le> w / charWidth fs ff"
    by (rule of_int_floor_le)
  finally have "rat_of_nat (length l) \<le> w / charWidth fs ff"
    using assms(1) by (meson of_nat_le_iff order_trans)
  then show ?thesis
    using assms(2) by (simp add: measureLine_def pos_le_divide_eq)
qed

end
