(* ===== verification/SceneLaws.thy ===== *)
theory SceneLaws
  imports DiagramKit
begin

text \<open>
  Laws of the \<open>Scene\<close> class: ids are fresh and unique, \<open>byId\<close> finds the element with an id, and
  every reference an element makes is answered by an entry in the \<open>boundElements\<close> of the element it
  refers to.  Each method is described by what it adds: the links it makes and the entries it lists.
\<close>

section \<open>Ids\<close>

definition dec_value :: "jsstring \<Rightarrow> int" where
  "dec_value s = foldl (\<lambda>a c. 10 * a + (uint c - 48)) 0 s"

lemma dec_value_snoc: "dec_value (s @ [c]) = 10 * dec_value s + (uint c - 48)"
  by (simp add: dec_value_def)

lemma dec_value_zeros: "dec_value (replicate k 48 @ s) = dec_value s"
  by (induction k) (simp_all add: dec_value_def)

lemma ten: "0 \<le> (n::int) \<Longrightarrow> n < 10 \<Longrightarrow> n \<in> {0, 1, 2, 3, 4, 5, 6, 7, 8, 9}"
  unfolding insert_iff empty_iff by presburger

lemma uint_digit: "0 \<le> n \<Longrightarrow> n < 10 \<Longrightarrow> uint (of_int (48 + n) :: jschar) = 48 + n"
  using ten [of n] by auto

lemma digit_not_dash: "0 \<le> n \<Longrightarrow> n < 10 \<Longrightarrow> (of_int (48 + n) :: jschar) \<noteq> 45"
  using ten [of n] by auto

lemma dec_value_digits: "0 \<le> n \<Longrightarrow> dec_value (digits n) = n"
proof (induction n rule: digits.induct)
  case (1 n)
  show ?case
  proof (cases "n < 10")
    case True
    then have "digits n = [of_int (48 + n)]" by (subst digits.simps) simp
    moreover have "dec_value [of_int (48 + n)] = n"
      unfolding dec_value_def foldl.simps using uint_digit [OF "1.prems" True] by simp
    ultimately show ?thesis by simp
  next
    case False
    then have "dec_value (digits (n div 10)) = n div 10"
      using "1.IH" "1.prems" by simp
    moreover have "uint (of_int (48 + n mod 10) :: jschar) = 48 + n mod 10"
      by (rule uint_digit) simp_all
    moreover have "digits n = digits (n div 10) @ [of_int (48 + n mod 10)]"
      using False by (subst digits.simps) simp
    ultimately show ?thesis
      by (simp only: dec_value_snoc) simp
  qed
qed

lemma digits_no_dash: "0 \<le> n \<Longrightarrow> 45 \<notin> set (digits n)"
proof (induction n rule: digits.induct)
  case (1 n)
  show ?case
  proof (cases "n < 10")
    case True
    then have "digits n = [of_int (48 + n)]" by (subst digits.simps) simp
    then show ?thesis using digit_not_dash [OF "1.prems" True] by (simp del: of_int_add)
  next
    case False
    then have "digits n = digits (n div 10) @ [of_int (48 + n mod 10)]"
      by (subst digits.simps) simp
    moreover have "45 \<notin> set (digits (n div 10))"
      using "1.IH" "1.prems" False by simp
    moreover have "(of_int (48 + n mod 10) :: jschar) \<noteq> 45"
      by (rule digit_not_dash) simp_all
    ultimately show ?thesis by (simp del: of_int_add)
  qed
qed

text \<open>The id made from a kind and a number.\<close>

definition make_id :: "string \<Rightarrow> int \<Rightarrow> jsstring" where
  "make_id kind n = u kind @ [45] @ pad_left 3 48 (show_int n)"

lemma make_id_inject:
  assumes "45 \<notin> set (u k)" "45 \<notin> set (u k')" "0 \<le> n" "0 \<le> m" "make_id k n = make_id k' m"
  shows "k = k' \<and> n = m"
proof -
  let ?p = "\<lambda>n. pad_left 3 48 (show_int n)"
  have s: "split_on 45 (make_id c i) = u c # split_on 45 (?p i)" if "45 \<notin> set (u c)" for c i
    unfolding make_id_def using split_on_append [OF that, of "?p i"] by simp
  have d: "45 \<notin> set (?p i)" if "0 \<le> i" for i
    using digits_no_dash [OF that] that by (auto simp: show_int_def)
  have "u k # split_on 45 (?p n) = u k' # split_on 45 (?p m)"
    using s [OF assms(1), of n] s [OF assms(2), of m] assms(5) by simp
  then have "u k = u k'" "split_on 45 (?p n) = split_on 45 (?p m)" by simp_all
  with split_on_no_sep [OF d [OF assms(3)]] split_on_no_sep [OF d [OF assms(4)]]
  have "k = k'" "?p n = ?p m" by simp_all
  moreover have "dec_value (?p i) = i" if "0 \<le> i" for i
    using that by (simp add: show_int_def dec_value_zeros dec_value_digits)
  ultimately show ?thesis using assms(3,4) by metis
qed

section \<open>Links and entries\<close>

definition text_bound :: "jsstring \<Rightarrow> bound" where
  "text_bound i = \<lparr>bo_type = u ''text'', bo_id = i\<rparr>"

definition arrow_bound :: "jsstring \<Rightarrow> bound" where
  "arrow_bound i = \<lparr>bo_type = u ''arrow'', bo_id = i\<rparr>"

fun text_links :: "jsstring \<Rightarrow> text_part option \<Rightarrow> (jsstring \<times> bound) set" where
  "text_links i None = {}"
| "text_links i (Some t) = (case tp_containerId t of None \<Rightarrow> {} | Some c \<Rightarrow> {(c, text_bound i)})"

fun arrow_links :: "jsstring \<Rightarrow> arrow_part option \<Rightarrow> (jsstring \<times> bound) set" where
  "arrow_links i None = {}"
| "arrow_links i (Some a) = {(bi_elementId (ar_startBinding a), arrow_bound i), (bi_elementId (ar_endBinding a), arrow_bound i)}"

definition element_links :: "element \<Rightarrow> (jsstring \<times> bound) set" where
  "element_links e = text_links (el_id e) (el_text e) \<union> arrow_links (el_id e) (el_arrow e)"

definition links :: "scene \<Rightarrow> (jsstring \<times> bound) set" where
  "links s = (\<Union>e \<in> set (sc_elements s). element_links e)"

definition listed :: "scene \<Rightarrow> (jsstring \<times> bound) set" where
  "listed s = (\<Union>e \<in> set (sc_elements s). Pair (el_id e) ` set (el_boundElements e))"

definition ids :: "scene \<Rightarrow> jsstring list" where
  "ids s = map el_id (sc_elements s)"

definition well_shaped :: "element \<Rightarrow> bool" where
  "well_shaped e \<longleftrightarrow>
     (el_type e = u ''rectangle'' \<and> el_text e = None \<and> el_arrow e = None)
     \<or> (el_type e = u ''text'' \<and> (\<exists>t. el_text e = Some t \<and> tp_lineHeight t = LINE_HEIGHT) \<and> el_arrow e = None)
     \<or> (el_type e = u ''arrow'' \<and> el_text e = None \<and> (\<exists>a. el_arrow e = Some a \<and> 2 \<le> length (ar_points a)))"

definition numbered :: "int \<Rightarrow> jsstring \<Rightarrow> bool" where
  "numbered c i \<longleftrightarrow> (\<exists>kind n. 45 \<notin> set (u kind) \<and> 0 \<le> n \<and> n \<le> c \<and> i = make_id kind n)"

definition scene_wf :: "scene \<Rightarrow> bool" where
  "scene_wf s \<longleftrightarrow>
     0 \<le> sc_idCounter s \<and> distinct (ids s)
     \<and> (\<forall>i k. sc_byId s i = Some k \<longleftrightarrow> k < length (ids s) \<and> ids s ! k = i)
     \<and> (\<forall>i \<in> set (ids s). numbered (sc_idCounter s) i)
     \<and> (\<forall>e \<in> set (sc_elements s). well_shaped e)"

text \<open>What a method adds to a well-formed scene.\<close>

definition grows :: "scene \<Rightarrow> scene \<Rightarrow> (jsstring \<times> bound) set \<Rightarrow> (jsstring \<times> bound) set \<Rightarrow> bool" where
  "grows s s' L B \<longleftrightarrow>
     scene_wf s' \<and> links s' = links s \<union> L \<and> listed s' = listed s \<union> B \<and> (\<exists>new. ids s' = ids s @ new)"

lemma grows_trans:
  "grows s s' L B \<Longrightarrow> grows s' s'' L' B' \<Longrightarrow> grows s s'' (L \<union> L') (B \<union> B')"
  by (auto simp: grows_def)

lemma grows_wf: "grows s s' L B \<Longrightarrow> scene_wf s'"
  by (simp add: grows_def)

lemma numbered_mono: "numbered c i \<Longrightarrow> c \<le> d \<Longrightarrow> numbered d i"
  unfolding numbered_def by fastforce

lemma fresh_not_used:
  assumes "scene_wf s" "45 \<notin> set (u kind)"
  shows "make_id kind (sc_idCounter s + 1) \<notin> set (ids s)"
proof
  assume "make_id kind (sc_idCounter s + 1) \<in> set (ids s)"
  then have "numbered (sc_idCounter s) (make_id kind (sc_idCounter s + 1))"
    using assms(1) unfolding scene_wf_def by blast
  then obtain k n where "45 \<notin> set (u k)" "0 \<le> n" "n \<le> sc_idCounter s"
    and eq: "make_id kind (sc_idCounter s + 1) = make_id k n"
    unfolding numbered_def by blast
  moreover have "0 \<le> sc_idCounter s + 1"
    using assms(1) by (simp add: scene_wf_def)
  ultimately show False
    using make_id_inject [OF assms(2) _ _ _ eq] by simp
qed

section \<open>Adding an element\<close>

definition added :: "string \<Rightarrow> string \<Rightarrow> text_part option \<Rightarrow> arrow_part option \<Rightarrow> scene \<Rightarrow> scene \<Rightarrow> bool" where
  "added kind type T A s s' \<longleftrightarrow>
     (\<exists>e. sc_elements s' = sc_elements s @ [e] \<and> el_id e = make_id kind (sc_idCounter s + 1)
        \<and> el_type e = u type \<and> el_text e = T \<and> el_arrow e = A \<and> el_boundElements e = [])
     \<and> sc_idCounter s' = sc_idCounter s + 1
     \<and> sc_byId s' = (sc_byId s)(make_id kind (sc_idCounter s + 1) \<mapsto> length (sc_elements s))"

lemma fresh_id_eq: "fresh_id kind s = (make_id kind (sc_idCounter s + 1), s\<lparr>sc_idCounter := sc_idCounter s + 1\<rparr>)"
  by (simp add: fresh_id_def make_id_def Let_def)

lemma added_base:
  "added kind type None None s
     (base type (make_id kind (sc_idCounter s + 1)) x y w h p (s\<lparr>sc_idCounter := sc_idCounter s + 1\<rparr>))"
  by (simp add: added_def base_def Let_def split: prod.splits)

lemma added_text:
  "added kind type None None s s' \<Longrightarrow> added kind type (Some t) None s (update_last (\<lambda>e. e\<lparr>el_text := Some t\<rparr>) s')"
  by (auto simp: added_def update_last_def)

lemma added_arrow:
  "added kind type None None s s' \<Longrightarrow> added kind type None (Some a) s (update_last (\<lambda>e. e\<lparr>el_arrow := Some a\<rparr>) s')"
  by (auto simp: added_def update_last_def)

definition shape_ok :: "string \<Rightarrow> text_part option \<Rightarrow> arrow_part option \<Rightarrow> bool" where
  "shape_ok type T A \<longleftrightarrow>
     (type = ''rectangle'' \<and> T = None \<and> A = None)
     \<or> (type = ''text'' \<and> (\<exists>t. T = Some t \<and> tp_lineHeight t = LINE_HEIGHT) \<and> A = None)
     \<or> (type = ''arrow'' \<and> T = None \<and> (\<exists>a. A = Some a \<and> 2 \<le> length (ar_points a)))"

lemma added_grows:
  assumes a: "added kind type T A s s'" and wf: "scene_wf s" and kind: "45 \<notin> set (u kind)"
    and shape: "shape_ok type T A"
  shows "grows s s' (text_links (make_id kind (sc_idCounter s + 1)) T
      \<union> arrow_links (make_id kind (sc_idCounter s + 1)) A) {}
    \<and> ids s' = ids s @ [make_id kind (sc_idCounter s + 1)]"
proof -
  let ?i = "make_id kind (sc_idCounter s + 1)"
  from a obtain e where e: "sc_elements s' = sc_elements s @ [e]" "el_id e = ?i" "el_type e = u type"
      "el_text e = T" "el_arrow e = A" "el_boundElements e = []"
    and c: "sc_idCounter s' = sc_idCounter s + 1"
    and b: "sc_byId s' = (sc_byId s)(?i \<mapsto> length (sc_elements s))"
    unfolding added_def by blast
  have i': "ids s' = ids s @ [?i]"
    by (simp add: ids_def e)
  have fr: "?i \<notin> set (ids s)"
    by (rule fresh_not_used [OF wf kind])
  have "0 \<le> sc_idCounter s" using wf by (simp add: scene_wf_def)
  with kind have num: "numbered (sc_idCounter s + 1) ?i"
    unfolding numbered_def by (intro exI [of _ kind] exI [of _ "sc_idCounter s + 1"]) simp
  have old: "sc_byId s j = Some k \<longleftrightarrow> k < length (ids s) \<and> ids s ! k = j" for j k
    using wf by (simp add: scene_wf_def)
  have len: "length (sc_elements s) = length (ids s)"
    by (simp add: ids_def)
  have nth: "ids s ! k \<noteq> ?i" if "k < length (ids s)" for k
    using fr that by (metis nth_mem)
  have map: "sc_byId s' j = Some k \<longleftrightarrow> k < length (ids s') \<and> ids s' ! k = j" for j k
    using nth unfolding b i' len by (auto simp: nth_append less_Suc_eq old)
  have "well_shaped e"
    using shape by (auto simp: well_shaped_def shape_ok_def e)
  then have "scene_wf s'"
    using wf fr num map \<open>0 \<le> sc_idCounter s\<close> unfolding scene_wf_def
    by (auto simp: i' c e intro: numbered_mono)
  moreover have "links s' = links s \<union> (text_links ?i T \<union> arrow_links ?i A)"
    by (auto simp: links_def element_links_def e)
  moreover have "listed s' = listed s"
    by (auto simp: listed_def e)
  ultimately show ?thesis
    by (simp add: grows_def i')
qed

lemma push_at_grows:
  assumes wf: "scene_wf s" and k: "k < length (ids s)"
  shows "grows s (push_at k b s) {} {(ids s ! k, b)} \<and> ids (push_at k b s) = ids s"
proof -
  let ?es = "sc_elements s" and ?e = "sc_elements s ! k"
  let ?f = "?e\<lparr>el_boundElements := el_boundElements ?e @ [b]\<rparr>"
  have k': "k < length ?es" using k by (simp add: ids_def)
  have i: "ids (push_at k b s) = ids s"
    by (simp add: ids_def push_at_def map_update list_update_same_conv k')
  have el: "element_links ?f = element_links ?e" by (simp add: element_links_def)
  have upd: "(\<Union>x \<in> set (?es[k := ?f]). g x) = (\<Union>x \<in> set ?es. g x) \<union> g ?f" if "g ?e \<subseteq> g ?f" for g :: "element \<Rightarrow> 'z set"
  proof -
    have "set (?es[k := ?f]) \<subseteq> insert ?f (set ?es)" by (rule set_update_subset_insert)
    moreover have "?f \<in> set (?es[k := ?f])" by (rule set_update_memI [OF k'])
    moreover have "x \<in> set (?es[k := ?f]) \<or> x = ?e" if "x \<in> set ?es" for x
      using that by (metis in_set_conv_nth length_list_update nth_list_update_neq)
    ultimately show ?thesis using that by blast
  qed
  have "links (push_at k b s) = links s"
    using upd [of element_links] el UN_upper [OF nth_mem [OF k'], of element_links]
    by (simp add: links_def push_at_def Un_absorb2)
  moreover have "listed (push_at k b s) = listed s \<union> {(ids s ! k, b)}"
  proof -
    let ?g = "\<lambda>e. Pair (el_id e) ` set (el_boundElements e)"
    have g: "?g ?f = insert (ids s ! k, b) (?g ?e)"
      using k' by (simp add: ids_def)
    have "(\<Union>x \<in> set (?es[k := ?f]). ?g x) = (\<Union>x \<in> set ?es. ?g x) \<union> ?g ?f"
      by (rule upd) (simp only: g subset_insertI)
    then show ?thesis
      using UN_upper [OF nth_mem [OF k'], of ?g] unfolding g listed_def push_at_def by simp blast
  qed
  moreover have "scene_wf (push_at k b s)"
  proof -
    have all: "\<forall>x \<in> set ?es. well_shaped x"
      using wf by (simp add: scene_wf_def)
    have "well_shaped ?f = well_shaped ?e"
      by (simp add: well_shaped_def)
    with all nth_mem [OF k'] have "well_shaped ?f" by blast
    with all set_update_subset_insert [of ?es k ?f] have "well_shaped x" if "x \<in> set (?es[k := ?f])" for x
      using that by blast
    then show ?thesis
      using wf i unfolding scene_wf_def by (simp add: push_at_def)
  qed
  ultimately show ?thesis by (simp add: grows_def i)
qed

lemma push_bound_grows:
  assumes "push_bound i b s = Inr s'" "scene_wf s"
  shows "grows s s' {} {(i, b)} \<and> ids s' = ids s \<and> i \<in> set (ids s)"
proof -
  from assms(1) obtain k where k: "sc_byId s i = Some k" and s': "s' = push_at k b s"
    by (auto simp: push_bound_def push_at_def split: option.splits)
  with assms(2) have "k < length (ids s)" "ids s ! k = i"
    by (auto simp: scene_wf_def)
  with push_at_grows [OF assms(2), of k b] show ?thesis
    by (auto simp: s')
qed

lemma push_bound_known:
  "scene_wf s \<Longrightarrow> i \<in> set (ids s) \<Longrightarrow> \<exists>s'. push_bound i b s = Inr s'"
  by (auto simp: push_bound_def scene_wf_def in_set_conv_nth split: option.splits)

section \<open>The methods\<close>

lemma dash_free: "45 \<notin> set (u ''txt'')" "45 \<notin> set (u ''box'')" "45 \<notin> set (u ''grp'')" "45 \<notin> set (u ''arr'')"
    "45 \<notin> set (u ''swa'')"
  by code_simp+

lemma grows_refl: "scene_wf s \<Longrightarrow> grows s s {} {}"
  by (simp add: grows_def)

abbreviation fresh_base :: "string \<Rightarrow> string \<Rightarrow> rat \<Rightarrow> rat \<Rightarrow> rat \<Rightarrow> rat \<Rightarrow> props \<Rightarrow> scene \<Rightarrow> scene" where
  "fresh_base type kind x y w h p s \<equiv>
     base type (make_id kind (sc_idCounter s + 1)) x y w h p (s\<lparr>sc_idCounter := sc_idCounter s + 1\<rparr>)"

abbreviation set_text :: "text_part \<Rightarrow> scene \<Rightarrow> scene" where
  "set_text t \<equiv> update_last (\<lambda>e. e\<lparr>el_text := Some t\<rparr>)"

lemma rectangle_grows:
  assumes wf: "scene_wf s" and kind: "45 \<notin> set (u kind)"
  shows "grows s (fresh_base ''rectangle'' kind x y w h p s) {} {}
    \<and> ids (fresh_base ''rectangle'' kind x y w h p s) = ids s @ [make_id kind (sc_idCounter s + 1)]"
proof -
  have "shape_ok ''rectangle'' None None" by (simp add: shape_ok_def)
  from added_grows [OF added_base wf kind this] show ?thesis by simp
qed

lemma text_element_grows:
  assumes wf: "scene_wf s" and "tp_lineHeight t = LINE_HEIGHT"
  shows "grows s (set_text t (fresh_base ''text'' ''txt'' x y w h p s)) (text_links (make_id ''txt'' (sc_idCounter s + 1)) (Some t)) {}
    \<and> ids (set_text t (fresh_base ''text'' ''txt'' x y w h p s)) = ids s @ [make_id ''txt'' (sc_idCounter s + 1)]"
proof -
  have "shape_ok ''text'' (Some t) None" using assms(2) by (simp add: shape_ok_def)
  from added_grows [OF added_text [OF added_base] wf dash_free(1) this] show ?thesis by simp
qed

lemma scene_text_grows:
  assumes "scene_wf s" "to_id o' = None"
  shows "grows s (snd (scene_text c o' s)) {} {}"
proof -
  have "\<exists>t x y w h p. snd (scene_text c o' s) = set_text t (fresh_base ''text'' ''txt'' x y w h p s)
      \<and> tp_lineHeight t = LINE_HEIGHT \<and> tp_containerId t = None"
    unfolding scene_text_def Let_def fresh_id_eq textBlockSize_def assms(2) option.case prod.case snd_conv
    by (intro exI conjI, rule refl, simp_all)
  then obtain t x y w h p where "snd (scene_text c o' s) = set_text t (fresh_base ''text'' ''txt'' x y w h p s)"
      "tp_lineHeight t = LINE_HEIGHT" "tp_containerId t = None" by blast
  with text_element_grows [OF assms(1), of t x y w h p] show ?thesis by simp
qed

lemma grows_after: "grows s s' L B \<Longrightarrow> grows s' s'' {} {} \<Longrightarrow> grows s s'' L B"
  using grows_trans [of s s' L B s'' "{}" "{}"] by simp

lemma grows_none: "grows s s' {} {} \<Longrightarrow> grows s' s'' L B \<Longrightarrow> grows s s'' L B"
  using grows_trans [of s s' "{}" "{}" s'' L B] by simp

lemma grows_ids: "grows s s' L B \<Longrightarrow> set (ids s) \<subseteq> set (ids s')"
  by (auto simp: grows_def)

text \<open>The steps of \<open>box\<close>: the rectangle, the title bound to it, the entry for the title, the body.\<close>

lemma scene_box_steps:
  "\<exists>x y w h p x' y' w' h' p' t o' X Y W H.
     scene_box b s =
       (handle_of (make_id ''box'' (sc_idCounter s + 1)) X Y W H,
        case spec_body b of
          None \<Rightarrow> push_at (length (sc_elements (s\<lparr>sc_idCounter := sc_idCounter s + 1\<rparr>)))
            \<lparr>bo_type = u ''text'', bo_id = make_id ''txt'' (sc_idCounter (fresh_base ''rectangle'' ''box'' x y w h p s) + 1)\<rparr>
            (set_text t (fresh_base ''text'' ''txt'' x' y' w' h' p' (fresh_base ''rectangle'' ''box'' x y w h p s)))
        | Some c \<Rightarrow> snd (scene_text c o' (push_at (length (sc_elements (s\<lparr>sc_idCounter := sc_idCounter s + 1\<rparr>)))
            \<lparr>bo_type = u ''text'', bo_id = make_id ''txt'' (sc_idCounter (fresh_base ''rectangle'' ''box'' x y w h p s) + 1)\<rparr>
            (set_text t (fresh_base ''text'' ''txt'' x' y' w' h' p' (fresh_base ''rectangle'' ''box'' x y w h p s))))))
     \<and> tp_lineHeight t = LINE_HEIGHT \<and> tp_containerId t = Some (make_id ''box'' (sc_idCounter s + 1)) \<and> to_id o' = None"
  unfolding scene_box_def Let_def fresh_id_eq prod.case
  by (intro exI conjI, rule refl, simp_all add: text_at_def)

lemma scene_box_grows:
  assumes wf: "scene_wf s" and b: "scene_box b s = (hd', s')"
  shows "\<exists>i. grows s s' {(hd_id hd', text_bound i)} {(hd_id hd', text_bound i)}
    \<and> hd_id hd' \<in> set (ids s') \<and> i \<in> set (ids s')"
proof -
  let ?r = "make_id ''box'' (sc_idCounter s + 1)"
  obtain x y w h p x' y' w' h' p' t o' X Y W H where
    eq: "scene_box b s = (handle_of ?r X Y W H,
        case spec_body b of
          None \<Rightarrow> push_at (length (sc_elements (s\<lparr>sc_idCounter := sc_idCounter s + 1\<rparr>)))
            \<lparr>bo_type = u ''text'', bo_id = make_id ''txt'' (sc_idCounter (fresh_base ''rectangle'' ''box'' x y w h p s) + 1)\<rparr>
            (set_text t (fresh_base ''text'' ''txt'' x' y' w' h' p' (fresh_base ''rectangle'' ''box'' x y w h p s)))
        | Some c \<Rightarrow> snd (scene_text c o' (push_at (length (sc_elements (s\<lparr>sc_idCounter := sc_idCounter s + 1\<rparr>)))
            \<lparr>bo_type = u ''text'', bo_id = make_id ''txt'' (sc_idCounter (fresh_base ''rectangle'' ''box'' x y w h p s) + 1)\<rparr>
            (set_text t (fresh_base ''text'' ''txt'' x' y' w' h' p' (fresh_base ''rectangle'' ''box'' x y w h p s))))))"
    and t: "tp_lineHeight t = LINE_HEIGHT" "tp_containerId t = Some ?r" and o': "to_id o' = None"
    using scene_box_steps [of b s] by (elim exE conjE) (rule that)
  define s2 where "s2 = fresh_base ''rectangle'' ''box'' x y w h p s"
  define i where "i = make_id ''txt'' (sc_idCounter s2 + 1)"
  define s5 where "s5 = set_text t (fresh_base ''text'' ''txt'' x' y' w' h' p' s2)"
  define k where "k = length (sc_elements (s\<lparr>sc_idCounter := sc_idCounter s + 1\<rparr>))"
  define s6 where "s6 = push_at k (text_bound i) s5"
  have "scene_box b s = (handle_of ?r X Y W H, case spec_body b of None \<Rightarrow> s6 | Some c \<Rightarrow> snd (scene_text c o' s6))"
    unfolding s6_def s5_def i_def s2_def k_def text_bound_def by (rule eq)
  with b have eq: "hd_id hd' = ?r" "s' = (case spec_body b of None \<Rightarrow> s6 | Some c \<Rightarrow> snd (scene_text c o' s6))"
    by (auto simp: handle_of_def)
  have g2: "grows s s2 {} {}" and i2: "ids s2 = ids s @ [?r]"
    using rectangle_grows [OF wf dash_free(2)] by (simp_all add: s2_def)
  have g5: "grows s2 s5 {(?r, text_bound i)} {}" and i5: "ids s5 = ids s2 @ [i]"
    using text_element_grows [OF grows_wf [OF g2] t(1)] t(2) by (simp_all add: s5_def i_def)
  have "k = length (ids s)"
    by (simp add: k_def ids_def)
  then have k: "k < length (ids s5)" "ids s5 ! k = ?r"
    by (simp_all add: i5 i2 nth_append)
  have g6: "grows s5 s6 {} {(?r, text_bound i)}" and i6: "ids s6 = ids s5"
    using push_at_grows [OF grows_wf [OF g5] k(1), of "text_bound i"] k(2) by (simp_all add: s6_def)
  have g: "grows s s6 {(?r, text_bound i)} {(?r, text_bound i)}"
    using grows_trans [OF grows_trans [OF g2 g5] g6] by simp
  have "grows s6 s' {} {}"
    unfolding eq using scene_text_grows [OF grows_wf [OF g6] o'] grows_refl [OF grows_wf [OF g6]]
    by (simp split: option.split)
  with g have "grows s s' {(?r, text_bound i)} {(?r, text_bound i)}"
    by (rule grows_after)
  moreover have "?r \<in> set (ids s')" "i \<in> set (ids s')"
    using grows_ids [OF \<open>grows s6 s' {} {}\<close>] by (auto simp: i6 i5 i2)
  ultimately show ?thesis unfolding eq by blast
qed

lemma scene_group_grows:
  assumes wf: "scene_wf s" and g: "scene_group g s = (hd', s')"
  shows "grows s s' {} {} \<and> hd_id hd' \<in> set (ids s')"
proof -
  let ?r = "make_id ''grp'' (sc_idCounter s + 1)"
  have "\<exists>x y w h p c1 c2 o1 o2 X Y W H. scene_group g s = (handle_of ?r X Y W H,
      if gs_label g = [] then fresh_base ''rectangle'' ''grp'' x y w h p s
      else (case scene_text c1 o1 (fresh_base ''rectangle'' ''grp'' x y w h p s) of (el, t) \<Rightarrow>
        if gs_sublabel g = [] then t else snd (scene_text c2 (o2 el) t)))
      \<and> to_id o1 = None \<and> (\<forall>el. to_id (o2 el) = None)"
    unfolding scene_group_def Let_def fresh_id_eq prod.case
    by (intro exI conjI, rule refl, simp_all add: text_at_def)
  then obtain x y w h p c1 c2 o1 o2 X Y W H where eq: "scene_group g s = (handle_of ?r X Y W H,
      if gs_label g = [] then fresh_base ''rectangle'' ''grp'' x y w h p s
      else (case scene_text c1 o1 (fresh_base ''rectangle'' ''grp'' x y w h p s) of (el, t) \<Rightarrow>
        if gs_sublabel g = [] then t else snd (scene_text c2 (o2 el) t)))"
    and o': "to_id o1 = None" "\<And>el. to_id (o2 el) = None"
    by blast
  define s2 where "s2 = fresh_base ''rectangle'' ''grp'' x y w h p s"
  have g2: "grows s s2 {} {}" and i2: "ids s2 = ids s @ [?r]"
    using rectangle_grows [OF wf dash_free(3)] by (simp_all add: s2_def)
  obtain el t where t: "scene_text c1 o1 s2 = (el, t)" by fastforce
  have g3: "grows s2 t {} {}"
    using scene_text_grows [OF grows_wf [OF g2] o'(1), of c1] t by simp
  have "s' = (if gs_label g = [] then s2 else if gs_sublabel g = [] then t else snd (scene_text c2 (o2 el) t))"
    and hd': "hd_id hd' = ?r"
    using g eq t by (auto simp: s2_def handle_of_def)
  then have g': "grows s2 s' {} {}"
    using grows_refl [OF grows_wf [OF g2]] g3 grows_after [OF g3 scene_text_grows [OF grows_wf [OF g3] o'(2)]]
    by simp
  with grows_after [OF g2 this] grows_ids [OF g'] show ?thesis
    by (auto simp: hd' i2)
qed

lemma legend_items_grows: "scene_wf s \<Longrightarrow> grows s (legend_items x width cursor items s) {} {}"
proof (induction items arbitrary: s cursor)
  case Nil
  then show ?case by (simp add: grows_refl)
next
  case (Cons item items)
  have "\<exists>x' y' w h p c o'. legend_items x width cursor (item # items) s =
      legend_items x width (cursor + 34) items (snd (scene_text c o' (fresh_base ''rectangle'' ''swa'' x' y' w h p s)))
      \<and> to_id o' = None"
    unfolding legend_items.simps Let_def fresh_id_eq prod.case
    by (intro exI conjI, rule refl, simp add: text_at_def)
  then obtain x' y' w h p c o' where eq: "legend_items x width cursor (item # items) s =
      legend_items x width (cursor + 34) items (snd (scene_text c o' (fresh_base ''rectangle'' ''swa'' x' y' w h p s)))"
    and o': "to_id o' = None" by blast
  have g1: "grows s (fresh_base ''rectangle'' ''swa'' x' y' w h p s) {} {}"
    using rectangle_grows [OF Cons.prems dash_free(5)] by blast
  have g2: "grows s (snd (scene_text c o' (fresh_base ''rectangle'' ''swa'' x' y' w h p s))) {} {}"
    by (rule grows_after [OF g1 scene_text_grows [OF grows_wf [OF g1] o']])
  show ?case
    unfolding eq by (rule grows_after [OF g2 Cons.IH [OF grows_wf [OF g2]]])
qed

lemma scene_legend_grows:
  assumes wf: "scene_wf s" and l: "scene_legend x y width items title s = (hd', s')"
  shows "grows s s' {} {}"
proof -
  obtain g frame s1 c where "scene_group g s = (frame, s1)" "s' = legend_items x width c items s1"
    using l by (auto simp: scene_legend_def Let_def split: prod.splits)
  with scene_group_grows [OF wf] legend_items_grows show ?thesis
    by (metis grows_after grows_wf)
qed

lemma scene_header_grows:
  assumes wf: "scene_wf s"
  shows "grows s (snd (scene_header x y width title subtitle s)) {} {}"
proof -
  obtain t s1 where t: "scene_text title ((text_at x y)\<lparr>to_width := Some width, to_fontSize := 28\<rparr>) s = (t, s1)"
    by fastforce
  have g1: "grows s s1 {} {}"
    using scene_text_grows [OF wf, of "(text_at x y)\<lparr>to_width := Some width, to_fontSize := 28\<rparr>" title] t
    by (simp add: text_at_def)
  have "\<exists>o'. snd (scene_header x y width title subtitle s) = snd (scene_text subtitle o' s1) \<and> to_id o' = None"
    unfolding scene_header_def Let_def t prod.case split_beta snd_conv
    by (intro exI conjI, rule refl, simp add: text_at_def)
  with scene_text_grows [OF grows_wf [OF g1]] g1 show ?thesis
    by (metis grows_after)
qed

abbreviation set_arrow :: "arrow_part \<Rightarrow> scene \<Rightarrow> scene" where
  "set_arrow a \<equiv> update_last (\<lambda>e. e\<lparr>el_arrow := Some a\<rparr>)"

lemma arrow_element_grows:
  assumes wf: "scene_wf s" and "2 \<le> length (ar_points a)"
  shows "grows s (set_arrow a (fresh_base ''arrow'' ''arr'' x y w h p s)) (arrow_links (make_id ''arr'' (sc_idCounter s + 1)) (Some a)) {}
    \<and> ids (set_arrow a (fresh_base ''arrow'' ''arr'' x y w h p s)) = ids s @ [make_id ''arr'' (sc_idCounter s + 1)]"
proof -
  have "shape_ok ''arrow'' None (Some a)" using assms(2) by (simp add: shape_ok_def)
  from added_grows [OF added_arrow [OF added_base] wf dash_free(4) this] show ?thesis by simp
qed

lemma arrow_points_two: "2 \<le> length (arrow_points ss es d el dx dy)"
  by (auto simp: arrow_points_def Let_def split: option.split elbow.split)

text \<open>The steps of \<open>arrow\<close>: the element with its bindings, the two entries, the label.\<close>

lemma scene_arrow_steps:
  "\<exists>a x y w h p c o'.
     scene_arrow f t ao s =
       (let i = make_id ''arr'' (sc_idCounter s + 1);
            s3 = set_arrow a (fresh_base ''arrow'' ''arr'' x y w h p s) in
        bindE (push_bound (hd_id f) (arrow_bound i) s3) (\<lambda>s4.
        bindE (push_bound (hd_id t) (arrow_bound i) s4) (\<lambda>s5.
          if ao_label ao = [] then Inr (i, s5) else Inr (i, snd (scene_text c o' s5)))))
     \<and> 2 \<le> length (ar_points a) \<and> bi_elementId (ar_startBinding a) = hd_id f
     \<and> bi_elementId (ar_endBinding a) = hd_id t \<and> to_id o' = None"
proof -
  obtain ss es where sides: "dflt (ao_sides ao) (autoSides f t) = (ss, es)" by fastforce
  show ?thesis
    unfolding scene_arrow_def Let_def fresh_id_eq sides prod.case arrow_bound_def split_beta fst_conv snd_conv
    by (intro exI conjI, rule refl, simp_all add: text_at_def arrow_points_two)
qed

lemma scene_arrow_grows:
  assumes wf: "scene_wf s" and ar: "scene_arrow f t ao s = Inr (i, s')"
  shows "let L = {(hd_id f, arrow_bound i), (hd_id t, arrow_bound i)} in
    grows s s' L L \<and> {hd_id f, hd_id t, i} \<subseteq> set (ids s')"
proof -
  obtain a x y w h p c o' where eq: "scene_arrow f t ao s =
       (let i = make_id ''arr'' (sc_idCounter s + 1);
            s3 = set_arrow a (fresh_base ''arrow'' ''arr'' x y w h p s) in
        bindE (push_bound (hd_id f) (arrow_bound i) s3) (\<lambda>s4.
        bindE (push_bound (hd_id t) (arrow_bound i) s4) (\<lambda>s5.
          if ao_label ao = [] then Inr (i, s5) else Inr (i, snd (scene_text c o' s5)))))"
    and a: "2 \<le> length (ar_points a)" "bi_elementId (ar_startBinding a) = hd_id f"
      "bi_elementId (ar_endBinding a) = hd_id t" and o': "to_id o' = None"
    using scene_arrow_steps [of f t ao s] by (elim exE conjE) (rule that)
  define s3 where "s3 = set_arrow a (fresh_base ''arrow'' ''arr'' x y w h p s)"
  from ar eq obtain s4 s5 where p4: "push_bound (hd_id f) (arrow_bound i) s3 = Inr s4"
    and p5: "push_bound (hd_id t) (arrow_bound i) s4 = Inr s5" and i: "i = make_id ''arr'' (sc_idCounter s + 1)"
    and s': "s' = (if ao_label ao = [] then s5 else snd (scene_text c o' s5))"
    by (auto simp: Let_def bindE_Inr_iff s3_def split: if_splits)
  have g3: "grows s s3 {(hd_id f, arrow_bound i), (hd_id t, arrow_bound i)} {}" and i3: "ids s3 = ids s @ [i]"
    using arrow_element_grows [OF wf a(1)] a(2,3) by (simp_all add: s3_def i)
  note g4 = push_bound_grows [OF p4 grows_wf [OF g3]]
  note g5 = push_bound_grows [OF p5 grows_wf [OF conjunct1 [OF g4]]]
  have "grows s s5 {(hd_id f, arrow_bound i), (hd_id t, arrow_bound i)} {(hd_id f, arrow_bound i), (hd_id t, arrow_bound i)}"
    using grows_trans [OF grows_trans [OF g3 conjunct1 [OF g4]] conjunct1 [OF g5]] by (simp add: insert_commute)
  moreover have g: "grows s5 s' {} {}"
    unfolding s' using scene_text_grows [OF grows_wf [OF conjunct1 [OF g5]] o', of c]
      grows_refl [OF grows_wf [OF conjunct1 [OF g5]]] by simp
  ultimately have "grows s s' {(hd_id f, arrow_bound i), (hd_id t, arrow_bound i)} {(hd_id f, arrow_bound i), (hd_id t, arrow_bound i)}"
    by (rule grows_after)
  with g4 g5 grows_ids [OF g] show ?thesis
    by (auto simp: Let_def i3)
qed

lemma scene_arrow_works:
  assumes wf: "scene_wf s" and "hd_id f \<in> set (ids s)" "hd_id t \<in> set (ids s)"
  shows "\<exists>i s'. scene_arrow f t ao s = Inr (i, s')"
proof -
  obtain a x y w h p c o' where eq: "scene_arrow f t ao s =
       (let i = make_id ''arr'' (sc_idCounter s + 1);
            s3 = set_arrow a (fresh_base ''arrow'' ''arr'' x y w h p s) in
        bindE (push_bound (hd_id f) (arrow_bound i) s3) (\<lambda>s4.
        bindE (push_bound (hd_id t) (arrow_bound i) s4) (\<lambda>s5.
          if ao_label ao = [] then Inr (i, s5) else Inr (i, snd (scene_text c o' s5)))))"
    and a: "2 \<le> length (ar_points a)"
    using scene_arrow_steps [of f t ao s] by (elim exE conjE) (rule that)
  let ?b = "arrow_bound (make_id ''arr'' (sc_idCounter s + 1))"
  define s3 where "s3 = set_arrow a (fresh_base ''arrow'' ''arr'' x y w h p s)"
  have w3: "scene_wf s3" and i3: "set (ids s) \<subseteq> set (ids s3)"
    using arrow_element_grows [OF wf a, of x y w h p] by (auto simp: s3_def grows_def)
  obtain s4 where p4: "push_bound (hd_id f) ?b s3 = Inr s4"
    using push_bound_known [OF w3] assms(2) i3 by blast
  from push_bound_grows [OF this w3] have w4: "scene_wf s4" "ids s4 = ids s3"
    by (auto dest: grows_wf)
  have "hd_id t \<in> set (ids s4)"
    using assms(3) i3 w4(2) by auto
  then obtain s5 where p5: "push_bound (hd_id t) ?b s4 = Inr s5"
    using push_bound_known [OF w4(1)] by blast
  show ?thesis
    unfolding eq Let_def s3_def [symmetric] p4 by (simp add: p5)
qed

section \<open>Scenes built with the class\<close>

text \<open>
  The scenes a program can build with the public methods, from a new one.  A text carries the id the
  scene gives it, as every caller in the repository leaves it.
\<close>

inductive built :: "scene \<Rightarrow> bool" where
  new: "built (new_scene name seed)"
| add_text: "built s \<Longrightarrow> to_id o' = None \<Longrightarrow> built (snd (scene_text c o' s))"
| add_box: "built s \<Longrightarrow> built (snd (scene_box b s))"
| add_group: "built s \<Longrightarrow> built (snd (scene_group g s))"
| add_arrow: "built s \<Longrightarrow> scene_arrow f t ao s = Inr (i, s') \<Longrightarrow> built s'"
| add_header: "built s \<Longrightarrow> built (snd (scene_header x y w title subtitle s))"
| add_legend: "built s \<Longrightarrow> built (snd (scene_legend x y w items title s))"

text \<open>Every link is listed, and everything listed exists.\<close>

definition consistent :: "scene \<Rightarrow> bool" where
  "consistent s \<longleftrightarrow> scene_wf s \<and> links s \<subseteq> listed s \<and> (\<forall>(c, b) \<in> listed s. bo_id b \<in> set (ids s))"

lemma consistent_grows:
  "consistent s \<Longrightarrow> grows s s' L B \<Longrightarrow> L \<subseteq> B \<Longrightarrow> bo_id ` snd ` B \<subseteq> set (ids s') \<Longrightarrow> consistent s'"
  by (fastforce simp: consistent_def grows_def)

lemma new_scene_consistent: "consistent (new_scene name seed)"
  by (simp add: consistent_def scene_wf_def new_scene_def ids_def links_def listed_def)

lemma consistent_wf: "consistent s \<Longrightarrow> scene_wf s"
  by (simp add: consistent_def)

lemma built_consistent: "built s \<Longrightarrow> consistent s"
proof (induction rule: built.induct)
  case (new name seed)
  show ?case by (rule new_scene_consistent)
next
  case (add_text s o' c)
  from scene_text_grows [OF consistent_wf [OF add_text.IH] add_text.hyps(2)] show ?case
    by (rule consistent_grows [OF add_text.IH]) simp_all
next
  case (add_box s b)
  obtain h s' where b: "scene_box b s = (h, s')" by fastforce
  from scene_box_grows [OF consistent_wf [OF add_box.IH] b] obtain i where
    "grows s s' {(hd_id h, text_bound i)} {(hd_id h, text_bound i)}" "i \<in> set (ids s')" by blast
  then have "consistent s'"
    by (intro consistent_grows [OF add_box.IH]) (auto simp: text_bound_def)
  then show ?case by (simp add: b)
next
  case (add_group s g)
  obtain h s' where g: "scene_group g s = (h, s')" by fastforce
  from scene_group_grows [OF consistent_wf [OF add_group.IH] g] have "grows s s' {} {}" by blast
  from consistent_grows [OF add_group.IH this] show ?case by (simp add: g)
next
  case (add_arrow s f t ao i s')
  from scene_arrow_grows [OF consistent_wf [OF add_arrow.IH] add_arrow.hyps(2)]
  have g: "grows s s' {(hd_id f, arrow_bound i), (hd_id t, arrow_bound i)} {(hd_id f, arrow_bound i), (hd_id t, arrow_bound i)}"
    and i: "i \<in> set (ids s')" by (simp_all add: Let_def)
  show ?case
    by (rule consistent_grows [OF add_arrow.IH g]) (auto simp: arrow_bound_def i)
next
  case (add_header s x y w title subtitle)
  from scene_header_grows [OF consistent_wf [OF add_header.IH]] show ?case
    by (rule consistent_grows [OF add_header.IH]) simp_all
next
  case (add_legend s x y w items title)
  obtain h s' where l: "scene_legend x y w items title s = (h, s')" by fastforce
  from consistent_grows [OF add_legend.IH scene_legend_grows [OF consistent_wf [OF add_legend.IH] l]]
  show ?case by (simp add: l)
qed

end
