(* ===== verification/Builder.thy ===== *)
theory Builder
  imports SceneLaws
begin

text \<open>
  Programs that draw: a diagram of \<open>scripts/diagrams/diagrams.mjs\<close> is a sequence of calls on one scene,
  where a call returns a handle that later calls read, and an arrow to an unknown box throws.  A program
  is a function from the scene to an exception or a result with the scene after it.  The theory gives
  the sequencing of such programs and a triple for them: from a scene drawn through the class in which
  some facts hold, the program throws nothing, ends in a scene drawn through the class, keeps every fact
  and establishes those it promises.
\<close>

section \<open>Programs\<close>

type_synonym 'a build = "scene \<Rightarrow> js_exn + 'a \<times> scene"

definition unitB :: "'a \<Rightarrow> 'a build" where
  "unitB a = (\<lambda>s. Inr (a, s))"

definition throwB :: "js_exn \<Rightarrow> 'a build" where
  "throwB e = (\<lambda>s. Inl e)"

definition bindB :: "'a build \<Rightarrow> ('a \<Rightarrow> 'b build) \<Rightarrow> 'b build" where
  "bindB m f = (\<lambda>s. bindE (m s) (\<lambda>(a, s'). f a s'))"

definition thenB :: "'a build \<Rightarrow> 'b build \<Rightarrow> 'b build" where
  "thenB m n = bindB m (\<lambda>_. n)"

text \<open>Statements in sequence, for their effect.\<close>

fun seqB :: "'a build list \<Rightarrow> unit build" where
  "seqB [] = unitB ()"
| "seqB (m # ms) = thenB m (seqB ms)"

fun mapB :: "('a \<Rightarrow> 'b build) \<Rightarrow> 'a list \<Rightarrow> 'b list build" where
  "mapB f [] = unitB []"
| "mapB f (x # xs) = bindB (f x) (\<lambda>y. bindB (mapB f xs) (\<lambda>ys. unitB (y # ys)))"

text \<open>The methods of the scene as programs.\<close>

definition draw_box :: "box_spec \<Rightarrow> handle build" where
  "draw_box b = (\<lambda>s. Inr (scene_box b s))"

definition draw_group :: "group_spec \<Rightarrow> handle build" where
  "draw_group g = (\<lambda>s. Inr (scene_group g s))"

definition draw_arrow :: "handle \<Rightarrow> handle \<Rightarrow> arrow_opts \<Rightarrow> jsstring build" where
  "draw_arrow f t ao = scene_arrow f t ao"

definition draw_header :: "rat \<Rightarrow> rat \<Rightarrow> rat \<Rightarrow> jsstring \<Rightarrow> jsstring \<Rightarrow> rat build" where
  "draw_header x y width title subtitle = (\<lambda>s. Inr (scene_header x y width title subtitle s))"

definition draw_legend :: "rat \<Rightarrow> rat \<Rightarrow> rat \<Rightarrow> legend_item list \<Rightarrow> jsstring \<Rightarrow> handle build" where
  "draw_legend x y width items title = (\<lambda>s. Inr (scene_legend x y width items title s))"

text \<open>\<open>const scene = new Scene(...); ...; return scene\<close>.\<close>

definition run_build :: "jsstring \<Rightarrow> 32 word \<Rightarrow> 'a build \<Rightarrow> js_exn + scene" where
  "run_build name seed m = bindE (m (new_scene name seed)) (\<lambda>(_, s). Inr s)"

section \<open>Relations every method respects\<close>

text \<open>
  A reflexive and transitive relation between scenes that the elementary steps of the class respect
  (drawing an id, appending an element, setting the properties of the element just appended, listing a
  bound element) is respected by its methods.
\<close>

locale scene_order =
  fixes below :: "scene \<Rightarrow> scene \<Rightarrow> bool"
  assumes refl: "below s s"
    and trans: "below s s' \<Longrightarrow> below s' s'' \<Longrightarrow> below s s''"
    and counted: "below s (s\<lparr>sc_idCounter := n\<rparr>)"
    and appended: "below s (base type i x y w h p s)"
    and finished: "below s (update_last f (base type i x y w h p s))"
    and listing: "below s (push_at k b s)"
begin

lemma fresh_base: "below s (fresh_base type kind x y w h p s)"
  by (rule trans [OF counted appended])

lemma fresh_finished: "below s (update_last f (fresh_base type kind x y w h p s))"
  by (rule trans [OF counted finished])

lemma scene_text: "below s (snd (scene_text c o' s))"
  unfolding scene_text_def Let_def fresh_id_eq textBlockSize_def
  by (cases "to_id o'") (simp_all add: finished fresh_finished)

lemma scene_box: "below s (snd (scene_box b s))"
proof -
  obtain x y w h p x' y' w' h' p' t o' k bnd where
    eq: "snd (scene_box b s) = (case spec_body b of
          None \<Rightarrow> push_at k bnd (set_text t (fresh_base ''text'' ''txt'' x' y' w' h' p' (fresh_base ''rectangle'' ''box'' x y w h p s)))
        | Some c \<Rightarrow> snd (scene_text c o' (push_at k bnd
            (set_text t (fresh_base ''text'' ''txt'' x' y' w' h' p' (fresh_base ''rectangle'' ''box'' x y w h p s))))))"
    using scene_box_steps [of b s] by (elim exE conjE) simp
  have "below s (push_at k bnd (set_text t (fresh_base ''text'' ''txt'' x' y' w' h' p' (fresh_base ''rectangle'' ''box'' x y w h p s))))"
    by (rule trans [OF trans [OF fresh_base fresh_finished] listing])
  then show ?thesis
    unfolding eq by (cases "spec_body b") (auto intro: trans [OF _ scene_text])
qed

lemma scene_group: "below s (snd (scene_group g s))"
  unfolding scene_group_def Let_def fresh_id_eq split_beta fst_conv snd_conv
  by (simp only: split: if_split)
    (intro conjI impI; rule fresh_base trans [OF fresh_base scene_text] trans [OF trans [OF fresh_base scene_text] scene_text])

lemma legend_items: "below s (legend_items x width cursor items s)"
proof (induction items arbitrary: s cursor)
  case Nil
  then show ?case by (simp add: refl)
next
  case (Cons item items)
  show ?case
    unfolding legend_items.simps Let_def fresh_id_eq prod.case
    by (rule trans [OF trans [OF fresh_base scene_text] Cons.IH])
qed

lemma scene_legend: "below s (snd (scene_legend x y width items title s))"
  unfolding scene_legend_def Let_def split_beta snd_conv by (rule trans [OF scene_group legend_items])

lemma scene_header: "below s (snd (scene_header x y width title subtitle s))"
  unfolding scene_header_def Let_def split_beta snd_conv by (rule trans [OF scene_text scene_text])

lemma push_bound: "push_bound i b s = Inr s' \<Longrightarrow> below s s'"
  using listing by (auto simp: push_bound_def push_at_def split: option.splits)

lemma scene_arrow:
  assumes "scene_arrow f t ao s = Inr (i, s')"
  shows "below s s'"
proof -
  obtain a x y w h p c o' i where eq: "scene_arrow f t ao s =
       (let s3 = set_arrow a (fresh_base ''arrow'' ''arr'' x y w h p s) in
        bindE (push_bound (hd_id f) (arrow_bound i) s3) (\<lambda>s4.
        bindE (push_bound (hd_id t) (arrow_bound i) s4) (\<lambda>s5.
          if ao_label ao = [] then Inr (i, s5) else Inr (i, snd (scene_text c o' s5)))))"
    using scene_arrow_steps [of f t ao s] unfolding Let_def by blast
  from assms obtain s4 s5 where
    "push_bound (hd_id f) (arrow_bound i) (set_arrow a (fresh_base ''arrow'' ''arr'' x y w h p s)) = Inr s4"
    "push_bound (hd_id t) (arrow_bound i) s4 = Inr s5" "s' = s5 \<or> s' = snd (scene_text c o' s5)"
    unfolding eq Let_def by (auto simp: bindE_Inr_iff split: if_splits)
  moreover from this have "below s s5"
    by (intro trans [OF trans [OF fresh_finished push_bound] push_bound])
  ultimately show ?thesis
    using trans [OF _ scene_text] by auto
qed

end

section \<open>Facts\<close>

text \<open>What a program may rely on later: an element with an id, a text at a font size, the name.\<close>

datatype fact = Holds jsstring | Shows jsstring rat | Named jsstring

definition shows_text :: "jsstring \<Rightarrow> rat \<Rightarrow> element \<Rightarrow> bool" where
  "shows_text t fs e \<longleftrightarrow>
     el_type e = u ''text'' \<and> (\<exists>p. el_text e = Some p \<and> tp_originalText p = t \<and> tp_fontSize p = fs)"

fun knows :: "scene \<Rightarrow> fact \<Rightarrow> bool" where
  "knows s (Holds i) \<longleftrightarrow> i \<in> set (ids s)"
| "knows s (Shows t fs) \<longleftrightarrow> (\<exists>e \<in> set (sc_elements s). shows_text t fs e)"
| "knows s (Named n) \<longleftrightarrow> sc_name s = n"

definition keeps :: "scene \<Rightarrow> scene \<Rightarrow> bool" where
  "keeps s s' \<longleftrightarrow> (\<forall>a. knows s a \<longrightarrow> knows s' a)"

lemma keeps_elements:
  assumes "sc_name s' = sc_name s" "\<And>e. e \<in> set (sc_elements s) \<Longrightarrow>
      \<exists>e' \<in> set (sc_elements s'). el_id e' = el_id e \<and> el_type e' = el_type e \<and> el_text e' = el_text e"
  shows "keeps s s'"
  unfolding keeps_def
proof (intro allI impI)
  fix a assume "knows s a"
  then show "knows s' a"
  proof (cases a)
    case (Holds i)
    then obtain e where "e \<in> set (sc_elements s)" "el_id e = i"
      using \<open>knows s a\<close> by (auto simp: ids_def)
    with assms(2) [of e] obtain e' where "e' \<in> set (sc_elements s')" "el_id e' = i" by auto
    with Holds show ?thesis by (force simp: ids_def)
  next
    case (Shows t fs)
    then obtain e where "e \<in> set (sc_elements s)" "shows_text t fs e"
      using \<open>knows s a\<close> by auto
    with assms(2) [of e] Shows show ?thesis by (auto simp: shows_text_def)
  next
    case (Named n)
    with \<open>knows s a\<close> assms(1) show ?thesis by simp
  qed
qed

interpretation facts: scene_order keeps
proof
  show "keeps s s" "keeps s (s\<lparr>sc_idCounter := n\<rparr>)" for s n
    by (rule keeps_elements; auto)+
  show "keeps s s' \<Longrightarrow> keeps s' s'' \<Longrightarrow> keeps s s''" for s s' s''
    by (simp add: keeps_def)
  show "keeps s (base type i x y w h p s)" "keeps s (update_last f (base type i x y w h p s))" for s type i x y w h p f
    by (rule keeps_elements; auto simp: base_def update_last_def Let_def split_beta)+
  show "keeps s (push_at k b s)" for s k b
  proof (rule keeps_elements)
    fix e assume "e \<in> set (sc_elements s)"
    then obtain j where j: "j < length (sc_elements s)" "sc_elements s ! j = e"
      by (auto simp: in_set_conv_nth)
    then have "sc_elements (push_at k b s) ! j \<in> set (sc_elements (push_at k b s))"
      by (simp add: push_at_def)
    moreover have "el_id (sc_elements (push_at k b s) ! j) = el_id e \<and> el_type (sc_elements (push_at k b s) ! j) = el_type e
        \<and> el_text (sc_elements (push_at k b s) ! j) = el_text e"
      using j by (cases "j = k") (simp_all add: push_at_def)
    ultimately show "\<exists>e' \<in> set (sc_elements (push_at k b s)). el_id e' = el_id e \<and> el_type e' = el_type e \<and> el_text e' = el_text e"
      by blast
  qed (simp add: push_at_def)
qed

text \<open>The number of elements never shrinks.\<close>

interpretation count: scene_order "\<lambda>s s'. length (sc_elements s) \<le> length (sc_elements s')"
  by unfold_locales (auto simp: base_def update_last_def push_at_def Let_def split_beta)

section \<open>The triple\<close>

definition sound :: "fact set \<Rightarrow> 'a build \<Rightarrow> ('a \<Rightarrow> bool) \<Rightarrow> ('a \<Rightarrow> fact set) \<Rightarrow> bool" where
  "sound H m V R \<longleftrightarrow> (\<forall>s. built s \<and> Ball H (knows s) \<longrightarrow>
     (\<exists>a s'. m s = Inr (a, s') \<and> built s' \<and> keeps s s' \<and> V a \<and> Ball (R a) (knows s')))"

named_theorems draws "sound drawing programs"

lemma soundI:
  assumes "\<And>s. built s \<Longrightarrow> Ball H (knows s) \<Longrightarrow>
     \<exists>a s'. m s = Inr (a, s') \<and> built s' \<and> keeps s s' \<and> V a \<and> Ball (R a) (knows s')"
  shows "sound H m V R"
  using assms by (simp add: sound_def)

lemma soundE:
  assumes "sound H m V R" "built s" "Ball H (knows s)"
  obtains a s' where "m s = Inr (a, s')" "built s'" "keeps s s'" "V a" "Ball (R a) (knows s')"
  using assms by (auto simp: sound_def)

lemma sound_weaken:
  assumes "sound H' m V' R'" "H' \<subseteq> H" "\<And>a. V' a \<Longrightarrow> V a" "\<And>a. V' a \<Longrightarrow> R a \<subseteq> R' a \<union> H"
  shows "sound H m V R"
proof (rule soundI)
  fix s assume b: "built s" and H: "Ball H (knows s)"
  from H assms(2) have "Ball H' (knows s)" by blast
  with assms(1) b obtain a s' where a: "m s = Inr (a, s')" "built s'" "keeps s s'" "V' a" "Ball (R' a) (knows s')"
    by (rule soundE)
  moreover have "Ball (R a) (knows s')"
    using assms(4) [OF a(4)] a(3,5) H unfolding keeps_def by blast
  ultimately show "\<exists>a s'. m s = Inr (a, s') \<and> built s' \<and> keeps s s' \<and> V a \<and> Ball (R a) (knows s')"
    using assms(3) by blast
qed

lemma sound_conseq: "sound H m V' R \<Longrightarrow> (\<And>a. V' a \<Longrightarrow> V a) \<Longrightarrow> sound H m V R"
  by (erule sound_weaken) auto

lemma sound_unit [draws]: "V a \<Longrightarrow> R a \<subseteq> H \<Longrightarrow> sound H (unitB a) V R"
  by (auto simp: sound_def unitB_def facts.refl)

lemma sound_bind:
  assumes m: "sound H m V R" and f: "\<And>a. V a \<Longrightarrow> sound (H \<union> R a) (f a) V' R'"
  shows "sound H (bindB m f) V' R'"
proof (rule soundI)
  fix s assume s: "built s" and H: "Ball H (knows s)"
  obtain a s' where a: "m s = Inr (a, s')" "built s'" "keeps s s'" "V a" "Ball (R a) (knows s')"
    using m s H by (rule soundE)
  from H a(3) have "Ball H (knows s')" by (simp add: keeps_def)
  with a(5) have "Ball (H \<union> R a) (knows s')" by blast
  with f [OF a(4)] a(2) obtain b s'' where
    "f a s' = Inr (b, s'')" "built s''" "keeps s' s''" "V' b" "Ball (R' b) (knows s'')" by (rule soundE)
  with a(1,3) show "\<exists>a s'. bindB m f s = Inr (a, s') \<and> built s' \<and> keeps s s' \<and> V' a \<and> Ball (R' a) (knows s')"
    by (auto simp: bindB_def bindE_def intro: facts.trans)
qed

lemma sound_then [draws]: "sound H m V R \<Longrightarrow> (\<And>a. V a \<Longrightarrow> sound (H \<union> R a) n V' R') \<Longrightarrow> sound H (thenB m n) V' R'"
  unfolding thenB_def by (rule sound_bind)

lemma sound_Let [draws]: "(\<And>x. x = t \<Longrightarrow> sound H (f x) V R) \<Longrightarrow> sound H (Let t f) V R"
  by simp

lemma sound_seq:
  assumes "\<And>m. m \<in> set ms \<Longrightarrow> sound H m (\<lambda>_. True) (\<lambda>_. {})"
  shows "sound H (seqB ms) (\<lambda>_. True) (\<lambda>_. {})"
  using assms
proof (induction ms)
  case Nil
  then show ?case by (simp add: sound_unit)
next
  case (Cons m ms)
  then have "sound H m (\<lambda>_. True) (\<lambda>_. {})" "sound (H \<union> {}) (seqB ms) (\<lambda>_. True) (\<lambda>_. {})"
    by simp_all
  then show ?case unfolding seqB.simps by (rule sound_then)
qed

lemma sound_seq_Nil [draws]: "sound H (seqB []) (\<lambda>_. True) (\<lambda>_. {})"
  by (rule sound_seq) simp

lemma sound_seq_Cons [draws]:
  "sound H m (\<lambda>_. True) (\<lambda>_. {}) \<Longrightarrow> sound H (seqB ms) (\<lambda>_. True) (\<lambda>_. {}) \<Longrightarrow>
     sound H (seqB (m # ms)) (\<lambda>_. True) (\<lambda>_. {})"
  unfolding seqB.simps by (erule sound_then) simp

lemma sound_map:
  assumes "\<And>x. x \<in> set xs \<Longrightarrow> sound H (f x) (V x) R"
  shows "sound H (mapB f xs) (list_all2 V xs) (\<lambda>ys. \<Union>(R ` set ys))"
  using assms
proof (induction xs arbitrary: H)
  case Nil
  then show ?case by (simp add: sound_unit)
next
  case (Cons x xs)
  have rest: "sound (H \<union> R y) (mapB f xs) (list_all2 V xs) (\<lambda>ys. \<Union>(R ` set ys))" for y
    by (rule Cons.IH) (rule sound_weaken [OF Cons.prems], auto)
  show ?case
    unfolding mapB.simps
    by (rule sound_bind [OF Cons.prems [OF list.set_intros(1)]], rule sound_bind [OF rest], rule sound_unit) auto
qed

section \<open>Rules for the methods\<close>

definition frame :: "handle \<Rightarrow> rat \<times> rat \<times> rat \<times> rat" where
  "frame h = (hd_x h, hd_y h, hd_width h, hd_height h)"

definition drawn_height :: "box_spec \<Rightarrow> rat" where
  "drawn_height b = (case bx_height b of Some h \<Rightarrow> h | None \<Rightarrow> scene_measure b (bx_width b))"

lemma scene_box_frame: "frame (fst (scene_box b s)) = (bx_x b, bx_y b, bx_width b, drawn_height b)"
  by (simp add: scene_box_def Let_def split_beta frame_def handle_of_def drawn_height_def)

lemma scene_group_frame: "frame (fst (scene_group g s)) = (gs_x g, gs_y g, gs_width g, gs_height g)"
  by (simp add: scene_group_def Let_def split_beta frame_def handle_of_def)

lemma built_wf: "built s \<Longrightarrow> scene_wf s"
  by (rule consistent_wf [OF built_consistent])

lemma sound_box:
  "sound H (draw_box b) (\<lambda>h. frame h = (bx_x b, bx_y b, bx_width b, drawn_height b)) (\<lambda>h. {Holds (hd_id h)})"
proof (rule soundI)
  fix s assume s: "built s"
  obtain h s' where b: "scene_box b s = (h, s')" by fastforce
  have "hd_id h \<in> set (ids s')"
    using scene_box_grows [OF built_wf [OF s] b] by blast
  then show "\<exists>a s'. draw_box b s = Inr (a, s') \<and> built s' \<and> keeps s s'
      \<and> frame a = (bx_x b, bx_y b, bx_width b, drawn_height b) \<and> Ball {Holds (hd_id a)} (knows s')"
    using scene_box_frame [of b s] built.add_box [OF s, of b] facts.scene_box [of s b] b by (simp add: draw_box_def)
qed

lemma sound_group [draws]:
  "sound H (draw_group g) (\<lambda>h. frame h = (gs_x g, gs_y g, gs_width g, gs_height g)) (\<lambda>h. {Holds (hd_id h)})"
proof (rule soundI)
  fix s assume s: "built s"
  obtain h s' where g: "scene_group g s = (h, s')" by fastforce
  have "hd_id h \<in> set (ids s')"
    using scene_group_grows [OF built_wf [OF s] g] by blast
  then show "\<exists>a s'. draw_group g s = Inr (a, s') \<and> built s' \<and> keeps s s'
      \<and> frame a = (gs_x g, gs_y g, gs_width g, gs_height g) \<and> Ball {Holds (hd_id a)} (knows s')"
    using scene_group_frame [of g s] built.add_group [OF s, of g] facts.scene_group [of s g] g by (simp add: draw_group_def)
qed

lemma sound_arrow [draws]:
  assumes "{Holds (hd_id f), Holds (hd_id t)} \<subseteq> H"
  shows "sound H (draw_arrow f t ao) (\<lambda>_. True) (\<lambda>_. {})"
proof (rule soundI)
  fix s assume s: "built s" and "Ball H (knows s)"
  with assms have "hd_id f \<in> set (ids s)" "hd_id t \<in> set (ids s)" by auto
  then obtain i s' where a: "scene_arrow f t ao s = Inr (i, s')"
    using scene_arrow_works [OF built_wf [OF s]] by blast
  with built.add_arrow [OF s a] facts.scene_arrow [OF a]
  show "\<exists>a s'. draw_arrow f t ao s = Inr (a, s') \<and> built s' \<and> keeps s s' \<and> True \<and> Ball {} (knows s')"
    by (simp add: draw_arrow_def)
qed

lemma scene_text_shows:
  assumes "to_id o' = None" shows "knows (snd (scene_text c o' s)) (Shows c (to_fontSize o'))"
  using assms by (simp add: scene_text_def Let_def fresh_id_eq textBlockSize_def update_last_def shows_text_def
      base_def split_beta)

lemma sound_header [draws]:
  "sound H (draw_header x y width title subtitle) (\<lambda>_. True) (\<lambda>_. {Shows title 28, Shows subtitle 20})"
proof (rule soundI)
  fix s assume s: "built s"
  define o1 where "o1 = (text_at x y)\<lparr>to_width := Some width, to_fontSize := 28\<rparr>"
  define s1 where "s1 = snd (scene_text title o1 s)"
  have "\<exists>o2. snd (scene_header x y width title subtitle s) = snd (scene_text subtitle o2 s1)
      \<and> to_id o2 = None \<and> to_fontSize o2 = 20"
    unfolding scene_header_def o1_def [symmetric] Let_def s1_def split_beta snd_conv
    by (intro exI conjI, rule refl) (simp_all add: text_at_def)
  then obtain o2 where o2: "snd (scene_header x y width title subtitle s) = snd (scene_text subtitle o2 s1)"
      "to_id o2 = None" "to_fontSize o2 = 20" by blast
  have "knows s1 (Shows title 28)"
    using scene_text_shows [of o1 title s] by (simp add: o1_def s1_def text_at_def)
  then have "knows (snd (scene_header x y width title subtitle s)) (Shows title 28)"
    unfolding o2(1) using facts.scene_text [of s1 subtitle o2] unfolding keeps_def by blast
  moreover have "knows (snd (scene_header x y width title subtitle s)) (Shows subtitle 20)"
    unfolding o2(1) using scene_text_shows [OF o2(2)] o2(3) by metis
  ultimately show "\<exists>a s'. draw_header x y width title subtitle s = Inr (a, s') \<and> built s' \<and> keeps s s' \<and> True
      \<and> Ball {Shows title 28, Shows subtitle 20} (knows s')"
    using built.add_header [OF s] facts.scene_header by (simp add: draw_header_def) (metis prod.collapse)
qed

lemma sound_legend [draws]:
  assumes "title \<noteq> []"
  shows "sound H (draw_legend x y width items title) (\<lambda>_. True) (\<lambda>_. {Shows title 20})"
proof (rule soundI)
  fix s assume s: "built s"
  obtain s1 c where l: "snd (scene_legend x y width items title s) = legend_items x width c items s1"
    and s1: "knows s1 (Shows title 20)"
  proof -
    define g where "g = (group_at x y width (16 + 24 + 12 + of_nat (length items) * 34 + 12))
            \<lparr>gs_label := title, gs_labelSize := 20, gs_stroke := C_ink, gs_background := C_white, gs_strokeWidth := 2\<rparr>"
    have "\<exists>o' s'. snd (scene_group g s) = snd (scene_text title o' s') \<and> to_id o' = None \<and> to_fontSize o' = 20"
      unfolding scene_group_def Let_def split_beta snd_conv using assms
      by (auto simp: g_def group_at_def text_at_def)
    then have "knows (snd (scene_group g s)) (Shows title 20)"
      using scene_text_shows by metis
    then show thesis
      by (rule that [rotated]) (simp add: scene_legend_def Let_def split_beta g_def)
  qed
  have "knows (snd (scene_legend x y width items title s)) (Shows title 20)"
    unfolding l using s1 facts.legend_items unfolding keeps_def by blast
  then show "\<exists>a s'. draw_legend x y width items title s = Inr (a, s') \<and> built s' \<and> keeps s s' \<and> True
      \<and> Ball {Shows title 20} (knows s')"
    using built.add_legend [OF s] facts.scene_legend by (simp add: draw_legend_def) (metis prod.collapse)
qed

text \<open>Running a sound program.\<close>

lemma run_build_sound:
  assumes "sound {Named name} m V R"
  obtains a s where "run_build name seed m = Inr s" "built s" "V a" "Ball (R a) (knows s)" "sc_name s = name"
proof -
  have "Ball {Named name} (knows (new_scene name seed))"
    by (simp add: new_scene_def)
  with assms obtain a s where s: "m (new_scene name seed) = Inr (a, s)" "built s" "keeps (new_scene name seed) s" "V a"
      "Ball (R a) (knows s)"
    using built.new by (metis soundE)
  from s(3) have "knows (new_scene name seed) (Named name) \<longrightarrow> knows s (Named name)"
    unfolding keeps_def by blast
  then have "sc_name s = name" by (simp add: new_scene_def)
  with s show thesis
    by (intro that) (simp_all add: run_build_def bindE_def)
qed

end
