(* ===== verification/DiagramParts.thy ===== *)
theory DiagramParts
  imports Builder
begin

text \<open>
  What the diagrams of \<open>scripts/diagrams/diagrams.mjs\<close> share: the specifications of boxes and the object
  spread that combines them, the rows (\<open>rowHeight\<close>, \<open>placeRow\<close>), the loops that draw boxes in columns
  and in stacks, and the legend entries.  The geometry of rows and stacks is proved here once.
\<close>

section \<open>Specifications\<close>

text \<open>The optional properties a specification may carry; \<open>None\<close> is a property the object does not have.\<close>

record style =
  st_stroke :: "jsstring option"
  st_background :: "jsstring option"
  st_strokeWidth :: "rat option"
  st_strokeStyle :: "jsstring option"
  st_titleSize :: "rat option"
  st_bodySize :: "rat option"
  st_bodyFamily :: "int option"

record spec = style +
  sp_title :: jsstring
  sp_body :: jsstring

definition no_style :: style where
  "no_style = \<lparr>st_stroke = None, st_background = None, st_strokeWidth = None, st_strokeStyle = None,
     st_titleSize = None, st_bodySize = None, st_bodyFamily = None\<rparr>"

definition item :: "jsstring \<Rightarrow> jsstring \<Rightarrow> spec" where
  "item title body = \<lparr>st_stroke = None, st_background = None, st_strokeWidth = None, st_strokeStyle = None,
     st_titleSize = None, st_bodySize = None, st_bodyFamily = None, sp_title = title, sp_body = body\<rparr>"

definition over :: "'a option \<Rightarrow> 'a option \<Rightarrow> 'a option" where
  "over a b = (case a of Some x \<Rightarrow> Some x | None \<Rightarrow> b)"

text \<open>\<open>{ ...common, ...s }\<close>: a property of \<open>s\<close> wins.\<close>

definition spread :: "style \<Rightarrow> spec \<Rightarrow> spec" where
  "spread common s = s
     \<lparr>st_stroke := over (st_stroke s) (st_stroke common), st_background := over (st_background s) (st_background common),
      st_strokeWidth := over (st_strokeWidth s) (st_strokeWidth common),
      st_strokeStyle := over (st_strokeStyle s) (st_strokeStyle common),
      st_titleSize := over (st_titleSize s) (st_titleSize common), st_bodySize := over (st_bodySize s) (st_bodySize common),
      st_bodyFamily := over (st_bodyFamily s) (st_bodyFamily common)\<rparr>"

text \<open>\<open>{ ...s, x, y, width, height }\<close> as \<open>box\<close> destructures it.\<close>

definition place :: "spec \<Rightarrow> rat \<Rightarrow> rat \<Rightarrow> rat \<Rightarrow> rat option \<Rightarrow> box_spec" where
  "place s x y width height = (box_titled (sp_title s))
     \<lparr>bx_x := x, bx_y := y, bx_width := width, bx_height := height, bx_body := Some (sp_body s),
      bx_stroke := dflt (st_stroke s) C_ink, bx_background := dflt (st_background s) C_transparent,
      bx_strokeWidth := dflt (st_strokeWidth s) 2, bx_strokeStyle := dflt (st_strokeStyle s) (u ''solid''),
      bx_titleSize := dflt (st_titleSize s) 20, bx_bodySize := dflt (st_bodySize s) 16,
      bx_bodyFamily := dflt (st_bodyFamily s) FONT_helvetica\<rparr>"

text \<open>\<open>Scene.measure(s, width)\<close> on a specification without a place.\<close>

definition spec_measure :: "spec \<Rightarrow> rat \<Rightarrow> rat" where
  "spec_measure s width = scene_measure (place s 0 0 width None) width"

definition MONO :: int where "MONO = FONT_mono"

section \<open>Rows\<close>

definition rowHeight :: "spec list \<Rightarrow> rat \<Rightarrow> rat" where
  "rowHeight items colWidth = Max (set (map (\<lambda>s. spec_measure s colWidth) items))"

text \<open>\<open>ruler.at(i).x\<close> and \<open>ruler.at(i).width\<close> in layout constants, where \<open>i\<close> is below the literal count of the ruler.\<close>

definition col_x :: "ruler \<Rightarrow> nat \<Rightarrow> rat" where
  "col_x r i = fst (ru_cols r ! i)"

definition col_width :: "ruler \<Rightarrow> nat \<Rightarrow> rat" where
  "col_width r i = snd (ru_cols r ! i)"

definition no_column :: "string \<Rightarrow> js_exn" where
  "no_column field = JsError (u ''Cannot read properties of undefined (reading '' @ [39] @ u field @ [39] @ u '')'')"

text \<open>
  \<open>items.map((s, i) => scene.box({ ...s, x: ruler.at(i).x, y, width: ruler.at(i).width, height }))\<close>: a
  column the ruler does not have throws.
\<close>

definition box_columns :: "ruler \<Rightarrow> rat \<Rightarrow> rat \<Rightarrow> spec list \<Rightarrow> handle list build" where
  "box_columns r y height specs =
     mapB (\<lambda>(i, s). case col_at r i of
         None \<Rightarrow> throwB (no_column ''x'')
       | Some (x, w) \<Rightarrow> draw_box (place s x y w (Some height))) (enumerate 0 specs)"

text \<open>The same with one width for all, as in \<open>placeRow\<close> and where a diagram writes \<open>ruler.at(0).width\<close>.\<close>

definition box_row :: "ruler \<Rightarrow> rat \<Rightarrow> rat \<Rightarrow> rat \<Rightarrow> spec list \<Rightarrow> handle list build" where
  "box_row r y width height specs =
     mapB (\<lambda>(i, s). case col_at r i of
         None \<Rightarrow> throwB (no_column ''x'')
       | Some (x, _) \<Rightarrow> draw_box (place s x y width (Some height))) (enumerate 0 specs)"

definition placeRow :: "ruler \<Rightarrow> rat \<Rightarrow> spec list \<Rightarrow> style \<Rightarrow> handle list build" where
  "placeRow r y items common =
     (case col_at r 0 of
        None \<Rightarrow> throwB (no_column ''width'')
      | Some (_, w) \<Rightarrow>
          (let specs = map (spread common) items;
               h = rowHeight specs w
           in box_row r y w h specs))"

text \<open>
  A loop that draws boxes below each other, \<open>b = scene.box({ ...spec, x, y, width, height })\<close> followed by
  \<open>y = b.y + b.height + gap\<close>; it also gives the last value of the cursor.
\<close>

fun stack_boxes :: "rat \<Rightarrow> rat \<Rightarrow> rat \<Rightarrow> (spec \<times> rat option) list \<Rightarrow> rat \<Rightarrow> (handle list \<times> rat) build" where
  "stack_boxes x width gap [] y = unitB ([], y)"
| "stack_boxes x width gap ((s, height) # items) y =
     bindB (draw_box (place s x y width height)) (\<lambda>b.
     bindB (stack_boxes x width gap items (hd_y b + hd_height b + gap)) (\<lambda>(bs, y').
     unitB (b # bs, y')))"

section \<open>Legend entries\<close>

definition swatch :: "jsstring \<Rightarrow> jsstring \<Rightarrow> jsstring \<Rightarrow> legend_item" where
  "swatch stroke background t =
     \<lparr>li_stroke = Some stroke, li_background = Some background, li_strokeWidth = None, li_strokeStyle = None, li_text = t\<rparr>"

definition LEGEND_PRIVATE :: legend_item where
  "LEGEND_PRIVATE = swatch C_green C_bgGreen (u ''Inside the VNet / private endpoint only. No public data-plane endpoint.'')"

definition LEGEND_PUBLIC :: legend_item where
  "LEGEND_PUBLIC = swatch C_red C_bgRed (u ''Public or refusal / denial. The single public surface, or a governed '' @ [34] @ u ''no'' @ [34] @ u ''.'')"

definition LEGEND_HUMAN :: legend_item where
  "LEGEND_HUMAN = swatch C_orange C_bgYellow (u ''Human-in-the-loop. A person, holding a distinct identity, decides.'')"

definition LEGEND_PREVIEW :: legend_item where
  "LEGEND_PREVIEW = swatch C_violet C_bgViolet (u ''Preview Azure capability (azapi, preview API version).'')"

definition LEGEND_CHOKEPOINT :: legend_item where
  "LEGEND_CHOKEPOINT = swatch C_blue C_bgBlue (u ''Governed chokepoint / deterministic code the exchange depends on.'')"

definition LEGEND_ABSENT :: legend_item where
  "LEGEND_ABSENT = (swatch C_red C_white (u ''Described in docs but ABSENT from infrastructure/*.tf and apps/*.tf.''))\<lparr>li_strokeStyle := Some (u ''dashed'')\<rparr>"

section \<open>Rows and stacks are sound\<close>

lemma columns_length [simp]: "length (ru_cols (columns x n w g)) = n"
  by (simp add: columns_def)

lemma columns_nth: "i < n \<Longrightarrow> ru_cols (columns x n w g) ! i = (x + of_nat i * (w + g), w)"
  by (simp add: columns_def)

lemma col_columns: "i < n \<Longrightarrow> col_x (columns x n w g) i = x + of_nat i * (w + g)" "i < n \<Longrightarrow> col_width (columns x n w g) i = w"
  by (simp_all add: col_x_def col_width_def columns_nth)

abbreviation holding :: "handle list \<Rightarrow> fact set" where
  "holding hs \<equiv> (\<lambda>h. Holds (hd_id h)) ` set hs"

lemma holding_nth: "i < length hs \<Longrightarrow> Holds (hd_id (hs ! i)) \<in> holding hs"
  by simp

lemma place_frame: "(bx_x (place s x y w ho), bx_y (place s x y w ho), bx_width (place s x y w ho)) = (x, y, w)"
    "drawn_height (place s x y w (Some h)) = h" "drawn_height (place s x y w None) = spec_measure s w"
  by (simp_all add: place_def box_titled_def drawn_height_def spec_measure_def scene_measure_def spec_body_def Let_def)

text \<open>A row as drawn: one box for each item, in the columns, all at one height.\<close>

definition in_row :: "ruler \<Rightarrow> rat \<Rightarrow> (nat \<Rightarrow> rat) \<Rightarrow> rat \<Rightarrow> nat \<Rightarrow> handle list \<Rightarrow> bool" where
  "in_row r y w h n hs \<longleftrightarrow> length hs = n \<and> (\<forall>i < n. frame (hs ! i) = (col_x r i, y, w i, h))"

lemma sound_place [draws]: "sound H (draw_box (place s x y w (Some h))) (\<lambda>b. frame b = (x, y, w, h)) (\<lambda>b. {Holds (hd_id b)})"
  using sound_box [of H "place s x y w (Some h)"] place_frame [of s x y w] by simp

lemma sound_place_measured [draws]:
  "sound H (draw_box (place s x y w None)) (\<lambda>b. frame b = (x, y, w, spec_measure s w)) (\<lambda>b. {Holds (hd_id b)})"
  using sound_box [of H "place s x y w None"] place_frame [of s x y w] by simp

lemma sound_columns_gen:
  assumes "length specs \<le> length (ru_cols r)"
    and f: "\<And>i s. i < length specs \<Longrightarrow> f (i, s) = draw_box (place s (col_x r i) y (w i) (Some h))"
  shows "sound H (mapB f (enumerate 0 specs)) (in_row r y w h (length specs)) holding"
proof (rule sound_weaken [OF sound_map])
  show "sound H (f x) (\<lambda>b. frame b = (col_x r (fst x), y, w (fst x), h)) (\<lambda>b. {Holds (hd_id b)})"
    if "x \<in> set (enumerate 0 specs)" for x
  proof -
    obtain i s where x: "x = (i, s)" by fastforce
    with that have "i < length specs" by (simp add: in_set_enumerate_eq)
    with f [of i s] sound_place show ?thesis by (simp add: x)
  qed
  show "in_row r y w h (length specs) hs"
    if "list_all2 (\<lambda>x b. frame b = (col_x r (fst x), y, w (fst x), h)) (enumerate 0 specs) hs" for hs
    using that by (auto simp: in_row_def list_all2_conv_all_nth nth_enumerate_eq)
qed auto

lemma sound_box_columns [draws]:
  "length specs \<le> length (ru_cols r) \<Longrightarrow>
     sound H (box_columns r y h specs) (in_row r y (col_width r) h (length specs)) holding"
  unfolding box_columns_def
  by (rule sound_columns_gen) (auto simp: col_at_def col_x_def col_width_def split: prod.split)

lemma sound_box_row [draws]:
  "length specs \<le> length (ru_cols r) \<Longrightarrow>
     sound H (box_row r y w h specs) (in_row r y (\<lambda>_. w) h (length specs)) holding"
  unfolding box_row_def
  by (rule sound_columns_gen) (auto simp: col_at_def col_x_def split: prod.split)

lemma sound_placeRow [draws]:
  assumes "0 < length items" "length items \<le> length (ru_cols r)"
  shows "sound H (placeRow r y items common)
    (in_row r y (\<lambda>_. col_width r 0) (rowHeight (map (spread common) items) (col_width r 0)) (length items)) holding"
  using sound_box_row [of "map (spread common) items" r] assms
  by (auto simp: placeRow_def col_at_def col_width_def Let_def split: prod.split)

text \<open>Stacked boxes: each begins \<open>gap\<close> below the end of the one before it.\<close>

fun stacked :: "rat \<Rightarrow> rat \<Rightarrow> rat \<Rightarrow> rat \<Rightarrow> (spec \<times> rat option) list \<Rightarrow> handle list \<Rightarrow> rat \<Rightarrow> bool" where
  "stacked x w g y [] hs y' \<longleftrightarrow> hs = [] \<and> y' = y"
| "stacked x w g y ((s, h) # items) hs y' \<longleftrightarrow>
     (\<exists>b bs. hs = b # bs \<and> frame b = (x, y, w, dflt h (spec_measure s w)) \<and> stacked x w g (hd_y b + hd_height b + g) items bs y')"

lemma sound_bind_pair:
  "sound H m V R \<Longrightarrow> (\<And>a b. V (a, b) \<Longrightarrow> sound (H \<union> R (a, b)) (f a b) V' R') \<Longrightarrow>
     sound H (bindB m (\<lambda>(a, b). f a b)) V' R'"
  by (erule sound_bind) (auto split: prod.split)

lemma sound_stack [draws]:
  "sound H (stack_boxes x w g items y) (\<lambda>(hs, y'). stacked x w g y items hs y') (\<lambda>(hs, y'). holding hs)"
proof (induction items arbitrary: y H)
  case Nil
  then show ?case by (simp add: sound_unit)
next
  case (Cons it items)
  obtain s h where it: "it = (s, h)" by fastforce
  have box: "sound H (draw_box (place s x y w h)) (\<lambda>b. frame b = (x, y, w, dflt h (spec_measure s w))) (\<lambda>b. {Holds (hd_id b)})" for H
    by (cases h) (simp_all add: dflt_def sound_place sound_place_measured)
  show ?case
    unfolding it stack_boxes.simps
    by (rule sound_bind [OF box], rule sound_bind_pair [OF Cons.IH], rule sound_unit) auto
qed

text \<open>The rules in the order they are tried.\<close>

lemmas draw_rules = sound_bind_pair sound_bind draws

lemma stacked_length: "stacked x w g y items hs y' \<Longrightarrow> length hs = length items"
  by (induction items arbitrary: y hs) auto

section \<open>Geometry of rows\<close>

lemma rowHeight_fits: "s \<in> set items \<Longrightarrow> spec_measure s w \<le> rowHeight items w"
  by (simp add: rowHeight_def)

lemma spec_measure_at_least: "64 \<le> spec_measure s w"
  by (simp add: spec_measure_def scene_measure_def Let_def split: option.split)

lemma rowHeight_at_least: "items \<noteq> [] \<Longrightarrow> 64 \<le> rowHeight items w"
  using rowHeight_fits [of "hd items" items w] spec_measure_at_least [of "hd items" w] by (cases items) auto

text \<open>A style without font properties changes no height.\<close>

lemma scene_measure_cong:
  "bx_title a = bx_title b \<Longrightarrow> bx_body a = bx_body b \<Longrightarrow> bx_titleSize a = bx_titleSize b \<Longrightarrow> bx_bodySize a = bx_bodySize b \<Longrightarrow>
     bx_titleFamily a = bx_titleFamily b \<Longrightarrow> bx_bodyFamily a = bx_bodyFamily b \<Longrightarrow> scene_measure a w = scene_measure b w"
  by (simp only: scene_measure_def spec_body_def)

lemma spec_measure_spread [simp]:
  "spec_measure (spread (no_style\<lparr>st_stroke := a, st_background := b\<rparr>) s) w = spec_measure s w"
  "spec_measure (spread (no_style\<lparr>st_stroke := a, st_background := b, st_strokeWidth := c\<rparr>) s) w = spec_measure s w"
  unfolding spec_measure_def
  by (rule scene_measure_cong; simp add: place_def spread_def over_def no_style_def box_titled_def split: option.split)+

lemma spread_no_style [simp]: "spread no_style s = s"
  by (simp add: spread_def no_style_def over_def split: option.split)

lemma rowHeight_spread [simp]:
  "rowHeight (map (spread (no_style\<lparr>st_stroke := a, st_background := b\<rparr>)) items) w = rowHeight items w"
  "rowHeight (map (spread (no_style\<lparr>st_stroke := a, st_background := b, st_strokeWidth := c\<rparr>)) items) w = rowHeight items w"
  "rowHeight (map (spread no_style) items) w = rowHeight items w"
  by (simp_all add: rowHeight_def image_image)

text \<open>One rectangle inside another, and two that do not touch.\<close>

definition inside :: "handle \<Rightarrow> handle \<Rightarrow> bool" where
  "inside a b \<longleftrightarrow> hd_x b \<le> hd_x a \<and> hd_y b \<le> hd_y a
     \<and> hd_x a + hd_width a \<le> hd_x b + hd_width b \<and> hd_y a + hd_height a \<le> hd_y b + hd_height b"

lemma inside_trans: "inside a b \<Longrightarrow> inside b c \<Longrightarrow> inside a c"
  by (auto simp: inside_def)

definition clear_of :: "rat \<Rightarrow> handle \<Rightarrow> handle \<Rightarrow> bool" where
  "clear_of g a b \<longleftrightarrow> hd_x a + hd_width a + g \<le> hd_x b \<or> hd_x b + hd_width b + g \<le> hd_x a
     \<or> hd_y a + hd_height a + g \<le> hd_y b \<or> hd_y b + hd_height b + g \<le> hd_y a"

lemma frame_eqD: "frame h = (x, y, w, t) \<Longrightarrow> hd_x h = x \<and> hd_y h = y \<and> hd_width h = w \<and> hd_height h = t"
  by (simp add: frame_def)

lemma in_row_nth:
  "in_row r y w h n hs \<Longrightarrow> i < n \<Longrightarrow>
     hd_x (hs ! i) = col_x r i \<and> hd_y (hs ! i) = y \<and> hd_width (hs ! i) = w i \<and> hd_height (hs ! i) = h"
  by (auto simp: in_row_def dest: frame_eqD)

lemma in_row_length: "in_row r y w h n hs \<Longrightarrow> length hs = n"
  by (simp add: in_row_def)

lemma row_clear:
  assumes row: "in_row (columns x0 m w g) y (\<lambda>_. w) h n hs" and "n \<le> m" "0 \<le> w" "0 \<le> g" "i < j" "j < n"
  shows "clear_of g (hs ! i) (hs ! j)"
proof -
  from assms(5) have "of_nat i + 1 \<le> (of_nat j :: rat)"
    by (metis Suc_leI of_nat_Suc of_nat_mono add.commute)
  then have "(of_nat i + 1) * (w + g) \<le> of_nat j * (w + g)"
    using assms(3,4) by (intro mult_right_mono) auto
  moreover have "hd_x (hs ! i) = x0 + of_nat i * (w + g)" "hd_x (hs ! j) = x0 + of_nat j * (w + g)" "hd_width (hs ! i) = w"
    using in_row_nth [OF row, of i] in_row_nth [OF row, of j] assms by (simp_all add: col_columns)
  ultimately show ?thesis
    by (simp add: clear_of_def algebra_simps)
qed

text \<open>A row is inside a rectangle that its first and last column and its height are inside of.\<close>

lemma row_inside:
  assumes row: "in_row r y (\<lambda>_. w) h n hs" and r: "r = columns x0 m w g" and "n \<le> m" "0 \<le> w + g"
    and e: "x0 + of_nat m * (w + g) - g = e"
    and x: "hd_x c \<le> x0" "e \<le> hd_x c + hd_width c"
    and y: "hd_y c \<le> y" "y + h \<le> hd_y c + hd_height c"
  shows "list_all (\<lambda>b. inside b c) hs"
proof -
  have "inside (hs ! i) c" if i: "i < n" for i
  proof -
    from i assms(3) have "of_nat i + 1 \<le> (of_nat m :: rat)"
      by (metis Suc_leI of_nat_Suc of_nat_mono add.commute order.strict_trans2)
    then have "(of_nat i + 1) * (w + g) \<le> of_nat m * (w + g)" "0 \<le> of_nat i * (w + g)"
      using assms(4) by (auto intro: mult_right_mono)
    then show ?thesis
      using in_row_nth [OF row i] x y i assms(3) by (simp add: inside_def r col_columns e [symmetric] algebra_simps)
  qed
  then show ?thesis
    using in_row_length [OF row] by (auto simp: list_all_length)
qed

section \<open>Geometry of stacks\<close>

definition item_height :: "rat \<Rightarrow> spec \<times> rat option \<Rightarrow> rat" where
  "item_height w it = dflt (snd it) (spec_measure (fst it) w)"

lemma foldl_gaps: "foldl (\<lambda>a b. a + b + g) c xs = c + sum_list (map (\<lambda>b. b + g) xs)" for c g :: rat
  by (induction xs arbitrary: c) auto

text \<open>The cursor ends below everything, by the sum of the heights and gaps.\<close>

lemma stacked_end: "stacked x w g y items hs y' \<Longrightarrow> y' = y + foldl (\<lambda>a b. a + b + g) 0 (map (item_height w) items)"
  unfolding foldl_gaps
proof (induction items arbitrary: y hs)
  case (Cons it items)
  then show ?case by (cases it) (auto simp: item_height_def dest!: frame_eqD Cons.IH)
qed simp

lemma stacked_le: "stacked x w g y items hs y' \<Longrightarrow> 0 \<le> g \<Longrightarrow> list_all (\<lambda>it. 0 \<le> item_height w it) items \<Longrightarrow> y \<le> y'"
  by (drule stacked_end) (auto simp: foldl_gaps list_all_iff intro!: sum_list_nonneg)

lemma stacked_member:
  assumes "stacked x w g y items hs y'" "0 \<le> g" "list_all (\<lambda>it. 0 \<le> item_height w it) items" "b \<in> set hs"
  shows "hd_x b = x \<and> hd_width b = w \<and> y \<le> hd_y b \<and> hd_y b + hd_height b + g \<le> y'"
  using assms
proof (induction items arbitrary: y hs)
  case (Cons it items)
  obtain s h where it: "it = (s, h)" by fastforce
  from Cons.prems(1) obtain a bs where hs: "hs = a # bs" and f: "frame a = (x, y, w, item_height w it)"
    and st: "stacked x w g (hd_y a + hd_height a + g) items bs y'"
    by (auto simp: it item_height_def)
  note a = frame_eqD [OF f]
  have "0 \<le> item_height w it" "list_all (\<lambda>it. 0 \<le> item_height w it) items" using Cons.prems(3) by simp_all
  show ?case
  proof (cases "b = a")
    case True
    with a stacked_le [OF st Cons.prems(2)] \<open>list_all _ items\<close> show ?thesis by simp
  next
    case False
    with Cons.IH [OF st Cons.prems(2) \<open>list_all _ items\<close>] Cons.prems(4) have
      "hd_x b = x \<and> hd_width b = w \<and> hd_y a + hd_height a + g \<le> hd_y b \<and> hd_y b + hd_height b + g \<le> y'"
      by (simp add: hs)
    with a \<open>0 \<le> item_height w it\<close> Cons.prems(2) show ?thesis by simp
  qed
qed simp

text \<open>In a stack every box starts at least the gap below the one before it.\<close>

definition apart :: "rat \<Rightarrow> handle list \<Rightarrow> bool" where
  "apart g hs \<longleftrightarrow> sorted_wrt (\<lambda>a b. hd_y a + hd_height a + g \<le> hd_y b) hs"

lemma stacked_apart:
  "stacked x w g y items hs y' \<Longrightarrow> 0 \<le> g \<Longrightarrow> list_all (\<lambda>it. 0 \<le> item_height w it) items \<Longrightarrow> apart g hs"
proof (induction items arbitrary: y hs)
  case (Cons it items)
  obtain s h where it: "it = (s, h)" by fastforce
  from Cons.prems(1) obtain a bs where hs: "hs = a # bs"
    and st: "stacked x w g (hd_y a + hd_height a + g) items bs y'"
    by (auto simp: it)
  have l: "list_all (\<lambda>it. 0 \<le> item_height w it) items" using Cons.prems(3) by simp
  show ?case
    using Cons.IH [OF st Cons.prems(2) l] stacked_member [OF st Cons.prems(2) l] by (simp add: hs apart_def)
qed (simp add: apart_def)

lemma measured_heights: "list_all (\<lambda>it. 0 \<le> item_height w it) (map (\<lambda>s. (s, None)) specs)"
    "list_all (\<lambda>it. 0 \<le> item_height w it) (zip specs (map (\<lambda>s. Some (spec_measure s v)) specs'))"
  using order_trans [OF _ spec_measure_at_least]
  by (auto simp: list_all_iff item_height_def dflt_def set_zip)

section \<open>Properties\<close>

lemma mapB_throws:
  assumes "\<And>s. f x s = Inl e" "\<And>a s. a \<in> set xs \<Longrightarrow> \<exists>b s'. f a s = Inr (b, s')"
  shows "mapB f (xs @ x # ys) s = Inl e"
  using assms(2)
proof (induction xs arbitrary: s)
  case Nil
  show ?case by (simp add: bindB_def bindE_def assms(1))
next
  case (Cons a xs)
  obtain b s' where "f a s = Inr (b, s')" using Cons.prems by fastforce
  then show ?case using Cons by (simp add: bindB_def bindE_def)
qed

lemma box_row_throws:
  assumes "length (ru_cols r) < length specs"
  shows "box_row r y w h specs s = Inl (no_column ''x'')"
proof -
  let ?n = "length (ru_cols r)"
  have split: "enumerate 0 specs = enumerate 0 (take ?n specs) @ (?n, specs ! ?n) # enumerate (Suc ?n) (drop (Suc ?n) specs)"
    using assms by (subst id_take_nth_drop [OF assms]) (simp add: enumerate_append_eq)
  let ?f = "\<lambda>(i, s). (case col_at r i of None \<Rightarrow> throwB (no_column ''x'') | Some (x, _) \<Rightarrow> draw_box (place s x y w (Some h)))"
  show ?thesis
    unfolding box_row_def split
  proof (rule mapB_throws)
    show "?f (?n, specs ! ?n) s' = Inl (no_column ''x'')" for s'
      by (simp add: col_at_def throwB_def)
  next
    fix a s' assume a: "a \<in> set (enumerate 0 (take ?n specs))"
    obtain i x where p: "a = (i, x)" by fastforce
    with a have "i < ?n" by (simp add: in_set_enumerate_eq)
    then show "\<exists>b s''. ?f a s' = Inr (b, s'')"
      by (simp add: p col_at_def draw_box_def split: prod.split)
  qed
qed

text \<open>C20. A row of boxes is uniform: when the items fit the columns of the ruler, \<open>placeRow\<close> draws one box
  for each, all at the same top, width and height, each high enough for its own title and body, and any two
  of them the gap of the ruler apart; with more items than columns it throws.\<close>

theorem rows_are_uniform:
  assumes "built s" "items \<noteq> []" "0 < n" "0 \<le> w" "0 \<le> g"
  shows "if n < length items then placeRow (columns x0 n w g) y items common s = Inl (no_column ''x'')
    else \<exists>hs s'. placeRow (columns x0 n w g) y items common s = Inr (hs, s') \<and> built s' \<and> length hs = length items
      \<and> (let h = rowHeight (map (spread common) items) w in
          (\<forall>i < length items. frame (hs ! i) = (x0 + of_nat i * (w + g), y, w, h) \<and> spec_measure (spread common (items ! i)) w \<le> h)
          \<and> (\<forall>j < length items. \<forall>i < j. clear_of g (hs ! i) (hs ! j)))"
proof (cases "n < length items")
  case True
  have col: "col_at (columns x0 n w g) 0 = Some (x0, w)"
    using assms(3) by (simp add: col_at_def columns_def)
  from True show ?thesis
    by (simp add: placeRow_def col Let_def box_row_throws)
next
  case False
  let ?h = "rowHeight (map (spread common) items) w"
  have w: "col_width (columns x0 n w g) 0 = w" using assms(3) by (simp add: col_columns)
  have "sound {} (placeRow (columns x0 n w g) y items common) (in_row (columns x0 n w g) y (\<lambda>_. w) ?h (length items)) holding"
    using sound_placeRow [of items "columns x0 n w g" "{}" y common] assms(2) False by (simp add: w)
  then obtain hs s' where r: "placeRow (columns x0 n w g) y items common s = Inr (hs, s')" "built s'"
    and row: "in_row (columns x0 n w g) y (\<lambda>_. w) ?h (length items) hs"
    using assms(1) by (rule soundE) auto
  have "frame (hs ! i) = (x0 + of_nat i * (w + g), y, w, ?h)" if "i < length items" for i
    using row that False by (simp add: in_row_def col_columns)
  moreover have "spec_measure (spread common (items ! i)) w \<le> ?h" if "i < length items" for i
    using that by (intro rowHeight_fits) simp
  moreover have "clear_of g (hs ! i) (hs ! j)" if "i < j" "j < length items" for i j
    using row_clear [OF row _ assms(4,5) that] False by simp
  ultimately show ?thesis
    using r in_row_length [OF row] False by (simp add: Let_def)
qed

theorem rows_are_uniform_witness:
  "placeRow (columns 0 1 100 40) 0 [item [] [], item [] []] no_style (new_scene [] 1) = Inl (no_column ''x'')
   \<and> (\<exists>hs s'. placeRow (columns 0 2 100 40) 0 [item [] [], item [] []] no_style (new_scene [] 1) = Inr (hs, s')
        \<and> clear_of 40 (hs ! 0) (hs ! 1))"
proof -
  have a: "placeRow (columns 0 1 100 40) 0 [item [] [], item [] []] no_style (new_scene [] 1) = Inl (no_column ''x'')"
    using rows_are_uniform [OF built.new, of "[item [] [], item [] []]" 1 100 40 0 0 no_style "[]" 1] by simp
  have "\<exists>hs s'. placeRow (columns 0 2 100 40) 0 [item [] [], item [] []] no_style (new_scene [] 1) = Inr (hs, s')
        \<and> clear_of 40 (hs ! 0) (hs ! 1)"
    using rows_are_uniform [OF built.new, of "[item [] [], item [] []]" 2 100 40 0 0 no_style "[]" 1]
    by (fastforce simp: Let_def)
  with a show ?thesis by blast
qed

end
