(* ===== verification/PlatformTopology.thy ===== *)
theory PlatformTopology
  imports DiagramParts
begin

text \<open>
  The first diagram (\<open>platformTopology\<close> in \<open>scripts/diagrams/diagrams.mjs\<close>): the public zone, the VNet with
  its two subnets, the data planes and the observability row.  Each constant of the function is a
  definition with the prefix \<open>pt_\<close>; the drawing calls are grouped in the order of the code.  At the end,
  the layout lemmas: what the picture draws inside the VNet really is inside it.
\<close>

section \<open>Layout\<close>

definition pt_title :: "jsstring" where
  "pt_title =
    u ''01 '' @ [0xb7] @ u '' Governed AI Exchange '' @ [0x2014] @ u '' private Azure platform topology''"

definition pt_subtitle :: "jsstring" where
  "pt_subtitle =
    u ''Conclusion: every data plane in this system '' @ [0x2014] @ u '' Cosmos, AI Search, Key Vault, the registry and Microsoft Foundry '' @ [0x2014] @ u '' is reachable only from inside the VNet, and the sole public surface is the demo UI front door.''"

definition pt_X0 :: rat where
  "pt_X0 = 80"

definition pt_W :: rat where
  "pt_W = 2560"

definition pt_INNER_X :: rat where
  "pt_INNER_X = pt_X0 + 40"

definition pt_INNER_W :: rat where
  "pt_INNER_W = pt_W - 80"

definition pt_pubY :: rat where
  "pt_pubY = 200"

definition pt_pubCols :: ruler where
  "pt_pubCols = columns pt_INNER_X 3 ((pt_INNER_W - 2 * 40) / 3) 40"

definition pt_pubItems :: "spec list" where
  "pt_pubItems =
    [(item (u ''Demo operator (browser)'')
       (join [10]
       [u ''Entra ID interactive sign-in via MSAL.'',
        u ''Two identities on the day: one holding'',
        u ''Approver, one deliberately without it.''])),
     (item (u ''Microsoft Entra ID  '' @ [0xb7] @ u ''  identity plane'')
       (join [10]
       [u ''apps/entra.tf '' @ [0x2014] @ u '' one app registration, three app roles:'',
        u ''Router.Invoke (Application), Router.Read (User+App), Approver (User).'',
        u ''Deliberately a public endpoint: it is an identity plane, not a data plane.''])),
     (item (u ''Azure control plane  '' @ [0xb7] @ u ''  Terraform'')
       (join [10]
       [u ''Two stacks, remote state: infrastructure/ (platform)'',
        u ''and apps/ (workloads). Control-plane access is not'',
        u ''what Principle II constrains '' @ [0x2014] @ u '' data planes are.'']))]"

definition pt_pubBoxY :: rat where
  "pt_pubBoxY = pt_pubY + 76"

definition pt_pubH :: rat where
  "pt_pubH = rowHeight pt_pubItems (col_width pt_pubCols 0)"

definition pt_pubZoneBottom :: rat where
  "pt_pubZoneBottom = pt_pubY + 76 + pt_pubH + 34"

definition pt_vnetY :: rat where
  "pt_vnetY = pt_pubZoneBottom + 150"

definition pt_vContentTop :: rat where
  "pt_vContentTop = pt_vnetY + 104"

text \<open>The subnet of the container apps.\<close>

definition pt_caSubX :: rat where
  "pt_caSubX = pt_INNER_X"

definition pt_caSubW :: rat where
  "pt_caSubW = 1180"

definition pt_caeX :: rat where
  "pt_caeX = pt_caSubX + 30"

definition pt_caeW :: rat where
  "pt_caeW = pt_caSubW - 60"

definition pt_appX :: rat where
  "pt_appX = pt_caeX + 25"

definition pt_appW :: rat where
  "pt_appW = pt_caeW - 50"

definition pt_laneCols :: ruler where
  "pt_laneCols = columns pt_appX 3 ((pt_appW - 2 * 40) / 3) 40"

definition pt_webuiSpec :: spec where
  "pt_webuiSpec =
    item (u ''webui  '' @ [0xb7] @ u ''  Vite / React  '' @ [0xb7] @ u ''  EXTERNAL ingress'')
       (join [10]
       [u ''apps/container-apps.tf '' @ [0x2014] @ u '' the only container app with'',
        u ''external_enabled = true. This is the single public surface'',
        u ''allowed by Principle II.''])"

definition pt_routerSpec :: spec where
  "pt_routerSpec =
    item (u ''router-service  '' @ [0xb7] @ u ''  the chokepoint'')
       (join [10]
       [u ''The only workload identity holding '' @ [34] @ u ''Azure AI Developer'' @ [34] @ u '' on the'',
        u ''Foundry project (apps/roles.tf). Every model call in the system'',
        u ''passes through POST /v1/route. Internal ingress only.''])"

definition pt_laneSpecs :: "spec list" where
  "pt_laneSpecs =
    [(item (u ''research-service'')
       (join [10]
       [u ''Search Index Data Reader.'',
        u ''No Foundry role assignment.''])),
     (item (u ''surveillance-service'')
       (join [10]
       [u ''Search Index Data Reader.'',
        u ''No Foundry role assignment.''])),
     (item (u ''orderrouting-service'')
       (join [10]
       [u ''Simulated OMS only.'',
        u ''No Foundry role assignment.'']))]"

definition pt_hWebui :: rat where
  "pt_hWebui = spec_measure pt_webuiSpec pt_appW"

definition pt_hRouter :: rat where
  "pt_hRouter = spec_measure pt_routerSpec pt_appW"

definition pt_hLane :: rat where
  "pt_hLane = rowHeight pt_laneSpecs (col_width pt_laneCols 0)"

definition pt_caeH :: rat where
  "pt_caeH = 76 + pt_hWebui + 40 + pt_hRouter + 40 + pt_hLane + 30"

definition pt_caSubH :: rat where
  "pt_caSubH = 82 + pt_caeH + 30"

text \<open>The subnet of the private endpoints.\<close>

definition pt_peSubX :: rat where
  "pt_peSubX = pt_caSubX + pt_caSubW + 240"

definition pt_peSubW :: rat where
  "pt_peSubW = pt_INNER_X + pt_INNER_W - pt_peSubX"

definition pt_peCols :: ruler where
  "pt_peCols = columns (pt_peSubX + 30) 2 ((pt_peSubW - 60 - 40) / 2) 40"

definition pt_peItems :: "spec list" where
  "pt_peItems =
    [(item (u ''cosmos-pe'')
       (join [10]
       [u ''group: Sql'',
        u ''privatelink.documents.azure.com''])),
     (item (u ''search-pe'')
       (join [10]
       [u ''group: searchService'',
        u ''privatelink.search.windows.net''])),
     (item (u ''keyvault-pe'')
       (join [10]
       [u ''group: vault'',
        u ''privatelink.vaultcore.azure.net''])),
     (item (u ''registry-pe'')
       (join [10]
       [u ''group: registry'',
        u ''privatelink.azurecr.io''])),
     (item (u ''foundry-pe'')
       (join [10]
       [u ''group: account'',
        u ''privatelink.services.ai.azure.com''])),
     ((item (u ''Private DNS  '' @ [0xb7] @ u ''  6 zones'')
       (join [10]
       [u ''All six linked to the VNet'',
        u ''(privatelink.openai.azure.com is'',
        u ''created but has no endpoint).'']))
       \<lparr>st_stroke := Some C_blue, st_background := Some C_bgBlue\<rparr>)]"

definition pt_peRowH :: "rat list" where
  "pt_peRowH =
    map (\<lambda>r. rowHeight (take 2 (drop (r * 2) pt_peItems)) (col_width pt_peCols 0)) [0, 1, 2]"

definition pt_peSubH :: rat where
  "pt_peSubH =
    82 + (pt_peRowH ! 0) + 40 + (pt_peRowH ! 1) + 40 + (pt_peRowH ! 2) + 30"

definition pt_subnetRowH :: rat where
  "pt_subnetRowH = max pt_caSubH pt_peSubH"

text \<open>The data planes.\<close>

definition pt_dpY :: rat where
  "pt_dpY = pt_vContentTop + pt_subnetRowH + 70"

definition pt_dpX :: rat where
  "pt_dpX = pt_INNER_X"

definition pt_dpW :: rat where
  "pt_dpW = pt_INNER_W"

definition pt_dpInnerX :: rat where
  "pt_dpInnerX = pt_dpX + 30"

definition pt_dpInnerW :: rat where
  "pt_dpInnerW = pt_dpW - 60"

definition pt_dataCols :: ruler where
  "pt_dataCols = columns pt_dpInnerX 4 ((pt_dpInnerW - 3 * 40) / 4) 40"

definition pt_dataItems :: "spec list" where
  "pt_dataItems =
    [(item (u ''Cosmos DB (SQL)'')
       (join [10]
       [u ''public_network_access_enabled = false'',
        u ''local_authentication_enabled = false'',
        u ''6 containers: routerDecisions, approvals,'',
        u ''surveillanceAlerts, researchQueries,'',
        u ''orderProposals, auditEvents''])),
     (item (u ''Azure AI Search'')
       (join [10]
       [u ''public_network_access_enabled = false'',
        u ''local_authentication_enabled = false'',
        u ''System-assigned identity.'',
        u ''Standard SKU. Research corpus.''])),
     (item (u ''Key Vault'')
       (join [10]
       [u ''public_network_access_enabled = false'',
        u ''RBAC authorization, network_acls Deny.'',
        u ''Holds only what cannot be managed-'',
        u ''identity authenticated (Principle VIII).''])),
     (item (u ''Container Registry (Premium)'')
       (join [10]
       [u ''public_network_access_enabled = false'',
        u ''admin_enabled = false'',
        u ''anonymous_pull_enabled = false'',
        u ''Premium SKU is required for private link.'']))]"

definition pt_dataH :: rat where
  "pt_dataH = rowHeight pt_dataItems (col_width pt_dataCols 0)"

definition pt_fndX :: rat where
  "pt_fndX = pt_dpInnerX"

definition pt_fndW :: rat where
  "pt_fndW = 1200"

definition pt_apimX :: rat where
  "pt_apimX = pt_fndX + pt_fndW + 40"

definition pt_apimW :: rat where
  "pt_apimW = pt_dpInnerX + pt_dpInnerW - pt_apimX"

definition pt_fndInnerX :: rat where
  "pt_fndInnerX = pt_fndX + 30"

definition pt_fndInnerW :: rat where
  "pt_fndInnerW = pt_fndW - 60"

definition pt_fndProjSpec :: spec where
  "pt_fndProjSpec =
    (item (u ''Foundry project  '' @ [0xb7] @ u ''  fcmr-*-proj  '' @ [0xb7] @ u ''  PREVIEW API'')
       (join [10]
       [u ''accounts/projects@2026-05-15-preview, system-assigned identity.'',
        u ''Hosted agents run under this project identity.'']))
       \<lparr>st_stroke := Some C_violet, st_background := Some C_bgViolet\<rparr>"

definition pt_fndCols :: ruler where
  "pt_fndCols = columns pt_fndInnerX 2 ((pt_fndInnerW - 40) / 2) 40"

definition pt_fndDeploySpecs :: "spec list" where
  "pt_fndDeploySpecs =
    [((item (u ''Serverless deployments'')
       (join [10]
       [u ''gpt-5.4-mini '' @ [0xb7] @ u '' gpt-5.4 '' @ [0xb7] @ u '' gpt-5.6-sol'',
        u ''claude-sonnet-4-5 (Anthropic)'',
        u ''grok-4.3 (xAI)'',
        u ''Billed per token.'']))
       \<lparr>st_stroke := Some C_green, st_background := Some C_bgGreen\<rparr>),
     ((item (u ''Managed compute  '' @ [0xb7] @ u ''  PREVIEW'')
       (join [10]
       [u ''managedComputeDeployments@2026-05-15-preview'',
        u ''nvidia-nemotron-3-nano-30b-a3b-fp8 on H100_80GB,'',
        u ''GlobalManagedCompute capacity 1.'',
        u ''The only destination cleared for Restricted data.'',
        u ''60m timeouts '' @ [0x2014] @ u '' provision ahead of the demo.'']))
       \<lparr>st_stroke := Some C_violet, st_background := Some C_bgViolet\<rparr>)]"

definition pt_fndDeployH :: rat where
  "pt_fndDeployH = rowHeight pt_fndDeploySpecs (col_width pt_fndCols 0)"

definition pt_fndProjH :: rat where
  "pt_fndProjH = spec_measure pt_fndProjSpec pt_fndInnerW"

definition pt_fndH :: rat where
  "pt_fndH = 82 + pt_fndProjH + 40 + pt_fndDeployH + 30"

definition pt_apimSpec :: spec where
  "pt_apimSpec =
    (item (u ''APIM as AI gateway  '' @ [0x2014] @ u ''  NOT IN TERRAFORM'')
       (join [10]
       [u ''docs/architecture.md and the constitution both require all model'',
        u ''traffic to transit APIM for token metering, cost ceilings and content'',
        u ''safety. No azurerm_api_management resource exists in either stack,'',
        u ''and no private DNS zone for it is declared. Today the router calls the'',
        u ''Foundry data plane directly over the foundry private endpoint.'']))
       \<lparr>st_stroke := Some C_red, st_background := Some C_white, st_strokeStyle := Some (u ''dashed''), st_strokeWidth := Some 3\<rparr>"

definition pt_apimH :: rat where
  "pt_apimH = max (spec_measure pt_apimSpec pt_apimW) pt_fndH"

definition pt_dpH :: rat where
  "pt_dpH = 82 + pt_dataH + 40 + (max pt_fndH pt_apimH) + 30"

text \<open>Observability.\<close>

definition pt_obsY :: rat where
  "pt_obsY = pt_dpY + pt_dpH + 60"

definition pt_obsCols :: ruler where
  "pt_obsCols = columns pt_dpInnerX 2 ((pt_dpInnerW - 40) / 2) 40"

definition pt_obsItems :: "spec list" where
  "pt_obsItems =
    [(item (u ''Log Analytics workspace'')
       (join [10]
       [u ''PerGB2018, 30-day retention.'',
        u ''Backs the Container Apps Environment.''])),
     (item (u ''Application Insights'')
       (join [10]
       [u ''sampling_percentage = 100 '' @ [0x2014] @ u '' sampling is off so the'',
        u ''scoreboard is complete inside the 5s budget (AC-5, ADR 004).'',
        u ''Cosmos remains the system of record for audit.'']))]"

definition pt_obsH :: rat where
  "pt_obsH = rowHeight pt_obsItems (col_width pt_obsCols 0)"

definition pt_obsGroupH :: rat where
  "pt_obsGroupH = 82 + pt_obsH + 30"

definition pt_vnetH :: rat where
  "pt_vnetH = pt_obsY + pt_obsGroupH + 40 - pt_vnetY"

section \<open>Drawing\<close>

definition pt_public :: "handle list build" where
  "pt_public =
     thenB (draw_group ((group_at pt_X0 pt_pubY pt_W (76 + pt_pubH + 34))
       \<lparr>gs_label := (u ''PUBLIC INTERNET''),
        gs_sublabel := (u ''Nothing below this line reaches an Azure data plane directly.''),
        gs_stroke := C_red, gs_background := C_bgRed, gs_fillStyle := (u ''solid''), gs_strokeWidth := 3, gs_strokeStyle := (u ''dashed'')\<rparr>)) (
     placeRow pt_pubCols pt_pubBoxY pt_pubItems
       (no_style\<lparr>st_stroke := Some C_red, st_background := Some C_white, st_strokeWidth := Some 2\<rparr>))"

text \<open>The groups, drawn behind the boxes.\<close>

record topology_zones =
  tz_vnet :: handle
  tz_caSub :: handle
  tz_cae :: handle
  tz_peSub :: handle
  tz_dpGroup :: handle
  tz_fnd :: handle
  tz_obs :: handle

definition pt_zones :: "topology_zones build" where
  "pt_zones =
     bindB (draw_group ((group_at pt_X0 pt_vnetY pt_W pt_vnetH)
       \<lparr>gs_label := (u ''VNET  fcmr-*-vnet   10.42.0.0/16   '' @ [0x2014] @ u ''   NO PUBLIC DATA-PLANE ENDPOINT''),
        gs_sublabel := (u ''Principle II, enforced by scripts/policy-no-public-endpoints.sh in CI: every resource below declares public access disabled. This boundary is the compliance claim the demo rests on.''),
        gs_stroke := C_green, gs_background := C_white, gs_strokeWidth := 6, gs_labelSize := 28, gs_sublabelSize := 18\<rparr>)) (\<lambda>vnet.
     bindB (draw_group ((group_at pt_caSubX pt_vContentTop pt_caSubW pt_subnetRowH)
       \<lparr>gs_label := (u ''subnet  container-apps   10.42.0.0/23''),
        gs_sublabel := (u ''Delegated to Microsoft.App/environments.''),
        gs_stroke := C_green, gs_background := C_white, gs_strokeWidth := 3\<rparr>)) (\<lambda>caSub.
     bindB (draw_group ((group_at pt_caeX (pt_vContentTop + 82) pt_caeW pt_caeH)
       \<lparr>gs_label := (u ''Container Apps Environment  '' @ [0xb7] @ u ''  internal load balancer''),
        gs_sublabel := (u ''internal_load_balancer_enabled = true. No Kubernetes (ADR 001).''),
        gs_stroke := C_blue, gs_background := C_white, gs_strokeWidth := 2\<rparr>)) (\<lambda>cae.
     bindB (draw_group ((group_at pt_peSubX pt_vContentTop pt_peSubW pt_subnetRowH)
       \<lparr>gs_label := (u ''subnet  private-endpoints   10.42.2.0/24''),
        gs_sublabel := (u ''One private endpoint per data plane. infrastructure/private-endpoints.tf.''),
        gs_stroke := C_green, gs_background := C_white, gs_strokeWidth := 3\<rparr>)) (\<lambda>peSub.
     bindB (draw_group ((group_at pt_dpX pt_dpY pt_dpW pt_dpH)
       \<lparr>gs_label := (u ''AZURE DATA PLANES  '' @ [0x2014] @ u ''  publicNetworkAccess = false on every one''),
        gs_sublabel := (u ''Entra-only authentication; local auth and account keys disabled (Principle VIII).''),
        gs_stroke := C_green, gs_background := C_white, gs_strokeWidth := 3\<rparr>)) (\<lambda>dpGroup.
     bindB (draw_group ((group_at pt_fndX (pt_dpY + 82 + pt_dataH + 40) pt_fndW pt_fndH)
       \<lparr>gs_label := (u ''Microsoft Foundry account  '' @ [0xb7] @ u ''  kind = AIServices''),
        gs_sublabel := (u ''publicNetworkAccess Disabled '' @ [0xb7] @ u '' disableLocalAuth true '' @ [0xb7] @ u '' allowProjectManagement true. Not an AI Hub workspace.''),
        gs_stroke := C_green, gs_background := C_white, gs_strokeWidth := 3\<rparr>)) (\<lambda>fnd.
     bindB (draw_group ((group_at pt_dpX pt_obsY pt_dpW pt_obsGroupH)
       \<lparr>gs_label := (u ''Observability''),
        gs_sublabel := (u ''Neither workspace has a private endpoint in infrastructure/*.tf '' @ [0x2014] @ u '' telemetry ingestion is the one data path that is not private-linked.''),
        gs_stroke := C_orange, gs_background := C_white, gs_strokeWidth := 3\<rparr>)) (\<lambda>obs.
     unitB \<lparr>tz_vnet = vnet, tz_caSub = caSub, tz_cae = cae, tz_peSub = peSub, tz_dpGroup = dpGroup, tz_fnd = fnd, tz_obs = obs\<rparr>)))))))"

text \<open>
  The loop over the three rows of private endpoints; the top of row \<open>r\<close> is
  \<open>peRowH.slice(0, r).reduce((a, b) => a + b + 40, 0)\<close> below the first.
\<close>

definition pt_peRowY :: "nat \<Rightarrow> rat" where
  "pt_peRowY r = pt_vContentTop + 82 + foldl (\<lambda>a b. a + b + 40) 0 (take r pt_peRowH)"

definition pt_peRow :: "nat \<Rightarrow> handle list build" where
  "pt_peRow r =
     box_columns pt_peCols (pt_peRowY r) (pt_peRowH ! r)
       (map (spread (no_style\<lparr>st_stroke := Some C_green, st_background := Some C_bgGreen\<rparr>))
         (take 2 (drop (r * 2) pt_peItems)))"

definition pt_peBoxes :: "handle list build" where
  "pt_peBoxes = bindB (mapB pt_peRow [0, 1, 2]) (\<lambda>rows. unitB (concat rows))"

record topology_boxes =
  tb_webui :: handle
  tb_router :: handle
  tb_lanes :: "handle list"
  tb_peBoxes :: "handle list"
  tb_dataBoxes :: "handle list"
  tb_fndProj :: handle
  tb_fndDeploy :: "handle list"
  tb_apim :: handle
  tb_obs :: "handle list"

definition pt_boxes :: "topology_boxes build" where
  "pt_boxes =
     bindB (draw_box (place (pt_webuiSpec\<lparr>st_stroke := Some C_red, st_background := Some C_bgRed\<rparr>)
       pt_appX (pt_vContentTop + 82 + 76) pt_appW (Some pt_hWebui))) (\<lambda>webui.
     bindB (draw_box (place (pt_routerSpec\<lparr>st_stroke := Some C_blue, st_background := Some C_bgBlue, st_strokeWidth := Some 3\<rparr>)
       pt_appX (pt_vContentTop + 82 + 76 + pt_hWebui + 40) pt_appW (Some pt_hRouter))) (\<lambda>router.
     bindB (placeRow pt_laneCols (pt_vContentTop + 82 + 76 + pt_hWebui + 40 + pt_hRouter + 40) pt_laneSpecs
       (no_style\<lparr>st_stroke := Some C_green, st_background := Some C_bgGreen\<rparr>)) (\<lambda>lanes.
     bindB (pt_peBoxes) (\<lambda>peBoxes.
     bindB (placeRow pt_dataCols (pt_dpY + 82) pt_dataItems
       (no_style\<lparr>st_stroke := Some C_green, st_background := Some C_bgGreen\<rparr>)) (\<lambda>dataBoxes.
     bindB (draw_box (place pt_fndProjSpec
       pt_fndInnerX (pt_dpY + 82 + pt_dataH + 40 + 82) pt_fndInnerW (Some pt_fndProjH))) (\<lambda>fndProj.
     bindB (placeRow pt_fndCols (pt_dpY + 82 + pt_dataH + 40 + 82 + pt_fndProjH + 40) pt_fndDeploySpecs no_style) (\<lambda>fndDeploy.
     bindB (draw_box (place pt_apimSpec
       pt_apimX (pt_dpY + 82 + pt_dataH + 40) pt_apimW (Some pt_apimH))) (\<lambda>apim.
     bindB (placeRow pt_obsCols (pt_obsY + 82) pt_obsItems
       (no_style\<lparr>st_stroke := Some C_orange, st_background := Some C_bgYellow\<rparr>)) (\<lambda>obsBoxes.
     unitB \<lparr>tb_webui = webui, tb_router = router, tb_lanes = lanes, tb_peBoxes = peBoxes, tb_dataBoxes = dataBoxes,
       tb_fndProj = fndProj, tb_fndDeploy = fndDeploy, tb_apim = apim, tb_obs = obsBoxes\<rparr>)))))))))"

definition pt_gapBandY :: rat where
  "pt_gapBandY = pt_pubZoneBottom + 60"

definition pt_arrows :: "handle list \<Rightarrow> topology_zones \<Rightarrow> topology_boxes \<Rightarrow> unit build" where
  "pt_arrows pub z b =
     thenB (seqB
     [draw_arrow (pub ! 0) (tb_webui b)
       (arrow_defaults\<lparr>ao_color := C_red, ao_strokeWidth := 5,
        ao_label := (join [10]
           [u ''HTTPS '' @ [0x2014] @ u '' the ONLY public ingress'',
            u ''anywhere in the system'']),
        ao_labelWidth := 520, ao_labelAt := Some (hd_cx (pub ! 0) - 40, pt_gapBandY),
        ao_sides := Some (SBottom, STop)\<rparr>),
      draw_arrow (pub ! 1) (tz_caSub z)
       (arrow_defaults\<lparr>ao_color := C_violet, ao_strokeStyle := (u ''dashed''), ao_strokeWidth := 3,
        ao_label := (join [10]
           [u ''Entra token issuance '' @ [0xb7] @ u '' managed identity '' @ [0xb7] @ u '' app roles'',
            u ''(identity plane, not a data plane)'']),
        ao_labelWidth := 640, ao_labelAt := Some (hd_cx (pub ! 1) + 120, pt_gapBandY),
        ao_sides := Some (SBottom, STop)\<rparr>),
      draw_arrow (tz_caSub z) (tz_peSub z)
       (arrow_defaults\<lparr>ao_color := C_green, ao_strokeWidth := 5, ao_sides := Some (SRight, SLeft),
        ao_label := (join [10]
           [u ''ALL data-plane'',
            u ''traffic leaves'',
            u ''through a private'',
            u ''endpoint'']),
        ao_labelWidth := 200, ao_labelDy := (- 110)\<rparr>),
      draw_arrow (tb_router b) (tz_peSub z)
       (arrow_defaults\<lparr>ao_color := C_blue, ao_strokeWidth := 4, ao_sides := Some (SRight, SLeft),
        ao_label := (join [10]
           [u ''only the router'',
            u ''reaches a model'',
            u ''deployment'']),
        ao_labelWidth := 200, ao_labelDy := 90\<rparr>),
      draw_arrow (tz_peSub z) (tz_dpGroup z)
       (arrow_defaults\<lparr>ao_color := C_green, ao_strokeWidth := 5, ao_sides := Some (SBottom, STop),
        ao_label := (join [10]
           [u ''five private endpoints, six private DNS zones linked to the VNet '' @ [0x2014],
            u ''each terminates on the data plane below'']),
        ao_labelWidth := 760, ao_labelAt := Some (pt_caSubX + 420, pt_vContentTop + pt_subnetRowH + 34)\<rparr>),
      draw_arrow (tb_webui b) (tb_router b)
       (arrow_defaults\<lparr>ao_color := C_blue, ao_strokeWidth := 3, ao_sides := Some (SBottom, STop)\<rparr>)])
     (seqB (map (\<lambda>lane. draw_arrow lane (tb_router b)
       (arrow_defaults\<lparr>ao_color := C_green, ao_strokeWidth := 2, ao_sides := Some (STop, SBottom)\<rparr>)) (tb_lanes b)))"

definition pt_body :: "unit build" where
  "pt_body =
     thenB (draw_header pt_X0 60 pt_W pt_title pt_subtitle) (
     bindB (pt_public) (\<lambda>pub.
     bindB (pt_zones) (\<lambda>z.
     bindB (pt_boxes) (\<lambda>b.
     thenB (pt_arrows pub z b) (
     thenB (draw_legend pt_X0 (pt_vnetY + pt_vnetH + 60) 1240
       [LEGEND_PRIVATE,
        LEGEND_PUBLIC,
        LEGEND_PREVIEW,
        LEGEND_CHOKEPOINT,
        LEGEND_ABSENT]
       legend_title) (
     thenB (draw_box (place ((item (u ''What Beat 2 demonstrates with this picture'')
       (join [10]
       [u ''task cloud:prove-private attempts the same data-plane operation from outside and from inside the VNet: the first fails, the second succeeds.'',
        u ''The CI policy job then shows that it cannot silently stop being private. The claim is continuous, not a point-in-time configuration.'',
        u ''Deliberately excluded (say so out loud): no high availability, no disaster recovery, no multi-region, no real execution, no real data.'']))
       \<lparr>st_stroke := Some C_blue, st_background := Some C_white\<rparr>)
       (pt_X0 + 1240 + 60) (pt_vnetY + pt_vnetH + 60) (pt_W - 1240 - 60) None)) (
     unitB ())))))))"

definition platformTopology :: "js_exn + scene" where
  "platformTopology = run_build (u ''01-platform-topology'') 0x11a2b3c4 pt_body"

section \<open>The drawing is sound\<close>

lemma pt_lengths: "length pt_pubItems = 3" "length pt_laneSpecs = 3" "length pt_peItems = 6" "length pt_dataItems = 4"
    "length pt_fndDeploySpecs = 2" "length pt_obsItems = 2" "length pt_peRowH = 3"
  by (simp_all add: pt_pubItems_def pt_laneSpecs_def pt_peItems_def pt_dataItems_def pt_fndDeploySpecs_def
      pt_obsItems_def pt_peRowH_def)

lemma pt_columns: "length (ru_cols pt_pubCols) = 3" "length (ru_cols pt_laneCols) = 3" "length (ru_cols pt_peCols) = 2"
    "length (ru_cols pt_dataCols) = 4" "length (ru_cols pt_fndCols) = 2" "length (ru_cols pt_obsCols) = 2"
  by (simp_all add: pt_pubCols_def pt_laneCols_def pt_peCols_def pt_dataCols_def pt_fndCols_def pt_obsCols_def)

lemmas pt_rulers = pt_pubCols_def pt_laneCols_def pt_peCols_def pt_dataCols_def pt_fndCols_def pt_obsCols_def

abbreviation row_of :: "ruler \<Rightarrow> rat \<Rightarrow> spec list \<Rightarrow> style \<Rightarrow> handle list \<Rightarrow> bool" where
  "row_of r y items common \<equiv>
     in_row r y (\<lambda>_. col_width r 0) (rowHeight (map (spread common) items) (col_width r 0)) (length items)"

lemma pt_public_sound:
  "sound H pt_public (row_of pt_pubCols pt_pubBoxY pt_pubItems
     (no_style\<lparr>st_stroke := Some C_red, st_background := Some C_white, st_strokeWidth := Some 2\<rparr>)) holding"
  unfolding pt_public_def by (rule draw_rules)+ (simp_all add: pt_lengths pt_columns)

text \<open>The rectangles of the groups.\<close>

definition zone_frames :: "topology_zones \<Rightarrow> bool" where
  "zone_frames z \<longleftrightarrow>
     frame (tz_vnet z) = (pt_X0, pt_vnetY, pt_W, pt_vnetH)
     \<and> frame (tz_caSub z) = (pt_caSubX, pt_vContentTop, pt_caSubW, pt_subnetRowH)
     \<and> frame (tz_cae z) = (pt_caeX, pt_vContentTop + 82, pt_caeW, pt_caeH)
     \<and> frame (tz_peSub z) = (pt_peSubX, pt_vContentTop, pt_peSubW, pt_subnetRowH)
     \<and> frame (tz_dpGroup z) = (pt_dpX, pt_dpY, pt_dpW, pt_dpH)
     \<and> frame (tz_fnd z) = (pt_fndX, pt_dpY + 82 + pt_dataH + 40, pt_fndW, pt_fndH)
     \<and> frame (tz_obs z) = (pt_dpX, pt_obsY, pt_dpW, pt_obsGroupH)"

lemma pt_zones_sound:
  "sound H pt_zones zone_frames (\<lambda>z. holding [tz_caSub z, tz_peSub z, tz_dpGroup z])"
  unfolding pt_zones_def by (rule draw_rules)+ (simp_all add: zone_frames_def group_at_def)

text \<open>The rows of private endpoints.\<close>

definition pe_row :: "nat \<Rightarrow> handle list \<Rightarrow> bool" where
  "pe_row r hs \<longleftrightarrow> in_row pt_peCols (pt_peRowY r) (col_width pt_peCols) (pt_peRowH ! r) 2 hs"

definition pe_box :: "handle \<Rightarrow> bool" where
  "pe_box h \<longleftrightarrow> (\<exists>r hs. r < 3 \<and> pe_row r hs \<and> h \<in> set hs)"

lemma pe_boxI: "pe_row r hs \<Longrightarrow> h \<in> set hs \<Longrightarrow> r < 3 \<Longrightarrow> pe_box h"
  by (auto simp: pe_box_def)

lemma pe_rows: "list_all2 pe_row rs rows \<Longrightarrow> list_all (\<lambda>r. r < 3) rs \<Longrightarrow> list_all pe_box (concat rows)"
  by (induction rule: list_all2_induct) (auto simp: list_all_iff intro: pe_boxI)

lemma pt_peRow_sound: "r < 3 \<Longrightarrow> sound H (pt_peRow r) (pe_row r) holding"
  unfolding pt_peRow_def pe_row_def
  by (rule sound_weaken [OF sound_box_columns]) (auto simp: pt_lengths pt_columns)

lemma pt_peBoxes_sound:
  "sound H pt_peBoxes (list_all pe_box) (\<lambda>_. {})"
proof -
  have map: "sound H (mapB pt_peRow [0, 1, 2]) (list_all2 pe_row [0, 1, 2]) (\<lambda>rows. \<Union>(holding ` set rows))"
    by (rule sound_map) (auto intro: pt_peRow_sound)
  show ?thesis
    unfolding pt_peBoxes_def
    by (rule sound_bind [OF map], rule sound_unit) (auto dest: pe_rows)
qed

definition box_frames :: "topology_boxes \<Rightarrow> bool" where
  "box_frames b \<longleftrightarrow>
     frame (tb_webui b) = (pt_appX, pt_vContentTop + 82 + 76, pt_appW, pt_hWebui)
     \<and> frame (tb_router b) = (pt_appX, pt_vContentTop + 82 + 76 + pt_hWebui + 40, pt_appW, pt_hRouter)
     \<and> in_row pt_laneCols (pt_vContentTop + 82 + 76 + pt_hWebui + 40 + pt_hRouter + 40) (\<lambda>_. col_width pt_laneCols 0) pt_hLane 3 (tb_lanes b)
     \<and> list_all pe_box (tb_peBoxes b)
     \<and> in_row pt_dataCols (pt_dpY + 82) (\<lambda>_. col_width pt_dataCols 0) pt_dataH 4 (tb_dataBoxes b)
     \<and> frame (tb_fndProj b) = (pt_fndInnerX, pt_dpY + 82 + pt_dataH + 40 + 82, pt_fndInnerW, pt_fndProjH)
     \<and> in_row pt_fndCols (pt_dpY + 82 + pt_dataH + 40 + 82 + pt_fndProjH + 40) (\<lambda>_. col_width pt_fndCols 0) pt_fndDeployH 2 (tb_fndDeploy b)
     \<and> frame (tb_apim b) = (pt_apimX, pt_dpY + 82 + pt_dataH + 40, pt_apimW, pt_apimH)
     \<and> in_row pt_obsCols (pt_obsY + 82) (\<lambda>_. col_width pt_obsCols 0) pt_obsH 2 (tb_obs b)"

lemma pt_boxes_sound:
  "sound H pt_boxes box_frames
     (\<lambda>b. holding (tb_webui b # tb_router b # tb_lanes b))"
  unfolding pt_boxes_def
  by (rule pt_peBoxes_sound draw_rules
    | (auto simp: box_frames_def pt_lengths pt_columns pt_hLane_def pt_dataH_def pt_fndDeployH_def pt_obsH_def; fail))+

lemma pt_arrows_sound:
  assumes "\<And>h. h \<in> set (pub @ [tz_caSub z, tz_peSub z, tz_dpGroup z, tb_webui b, tb_router b] @ tb_lanes b) \<Longrightarrow> Holds (hd_id h) \<in> H"
    and "length pub = 3"
  shows "sound H (pt_arrows pub z b) (\<lambda>_. True) (\<lambda>_. {})"
proof -
  have known: "Holds (hd_id (pub ! 0)) \<in> H" "Holds (hd_id (pub ! 1)) \<in> H"
    using assms by simp_all
  have lane: "H \<subseteq> H' \<Longrightarrow> h \<in> set (tb_lanes b) \<Longrightarrow> Holds (hd_id h) \<in> H'"
    and router: "H \<subseteq> H' \<Longrightarrow> Holds (hd_id (tb_router b)) \<in> H'" for h H'
    using assms(1) [of h] assms(1) [of "tb_router b"] by auto
  have lanes: "H \<subseteq> H' \<Longrightarrow> sound H' (seqB (map (\<lambda>lane. draw_arrow lane (tb_router b) ao) (tb_lanes b))) (\<lambda>_. True) (\<lambda>_. {})" for ao and H' :: "fact set"
    by (rule sound_seq) (auto intro!: sound_arrow lane router)
  show ?thesis
    unfolding pt_arrows_def
    by (rule lanes draws | (simp add: known assms; fail))+
qed

lemma pt_body_sound:
  "sound H pt_body (\<lambda>_. True) (\<lambda>_. {Shows pt_title 28, Shows pt_subtitle 20, Shows legend_title 20})"
  unfolding pt_body_def
  by (rule pt_public_sound pt_zones_sound pt_boxes_sound pt_arrows_sound draw_rules
    | (auto simp: legend_title_def pt_lengths in_row_length; fail))+

section \<open>The picture\<close>

lemma pt_heights: "64 \<le> pt_pubH" "64 \<le> pt_hWebui" "64 \<le> pt_hRouter" "64 \<le> pt_hLane" "64 \<le> pt_dataH"
    "64 \<le> pt_fndProjH" "64 \<le> pt_fndDeployH" "64 \<le> pt_obsH" "r < 3 \<Longrightarrow> 64 \<le> pt_peRowH ! r"
proof -
  have "pt_pubItems \<noteq> []" "pt_laneSpecs \<noteq> []" "pt_dataItems \<noteq> []" "pt_fndDeploySpecs \<noteq> []" "pt_obsItems \<noteq> []"
    using pt_lengths by auto
  then show "64 \<le> pt_pubH" "64 \<le> pt_hLane" "64 \<le> pt_dataH" "64 \<le> pt_fndDeployH" "64 \<le> pt_obsH"
    by (simp_all add: pt_pubH_def pt_hLane_def pt_dataH_def pt_fndDeployH_def pt_obsH_def rowHeight_at_least)
  show "64 \<le> pt_hWebui" "64 \<le> pt_hRouter" "64 \<le> pt_fndProjH"
    by (simp_all add: pt_hWebui_def pt_hRouter_def pt_fndProjH_def spec_measure_at_least)
  assume r: "r < 3"
  then have "take 2 (drop (r * 2) pt_peItems) \<noteq> []" by (simp add: pt_lengths)
  from rowHeight_at_least [OF this] r show "64 \<le> pt_peRowH ! r"
    by (cases "r = 0 \<or> r = 1 \<or> r = 2") (auto simp: pt_peRowH_def)
qed

text \<open>The horizontal layout in numbers.\<close>

lemmas pt_horizontal = pt_X0_def pt_W_def pt_INNER_X_def pt_INNER_W_def pt_caSubX_def pt_caSubW_def pt_caeX_def
  pt_caeW_def pt_appX_def pt_appW_def pt_peSubX_def pt_peSubW_def pt_dpX_def pt_dpW_def pt_dpInnerX_def pt_dpInnerW_def
  pt_fndX_def pt_fndW_def pt_apimX_def pt_apimW_def pt_fndInnerX_def pt_fndInnerW_def

lemma pt_x: "pt_X0 = 80" "pt_W = 2560" "pt_caSubX = 120" "pt_caSubW = 1180" "pt_caeX = 150" "pt_caeW = 1120"
    "pt_appX = 175" "pt_appW = 1070" "pt_peSubX = 1540" "pt_peSubW = 1060" "pt_dpX = 120" "pt_dpW = 2480"
    "pt_dpInnerX = 150" "pt_dpInnerW = 2420" "pt_fndX = 150" "pt_fndW = 1200" "pt_apimX = 1390" "pt_apimW = 1180"
    "pt_fndInnerX = 180" "pt_fndInnerW = 1140"
  by (simp_all add: pt_horizontal)

text \<open>The vertical layout: each zone is as high as what it holds.\<close>

lemma pt_y: "pt_vContentTop = pt_vnetY + 104" "pt_dpY = pt_vContentTop + pt_subnetRowH + 70"
    "pt_obsY = pt_dpY + pt_dpH + 60" "pt_vnetY + pt_vnetH = pt_obsY + pt_obsGroupH + 40"
    "112 + pt_caeH \<le> pt_subnetRowH" "pt_peSubH \<le> pt_subnetRowH" "pt_caeH = 186 + pt_hWebui + pt_hRouter + pt_hLane"
    "pt_peSubH = 192 + pt_peRowH ! 0 + pt_peRowH ! 1 + pt_peRowH ! 2"
    "152 + pt_dataH + pt_fndH \<le> pt_dpH" "152 + pt_dataH + pt_apimH \<le> pt_dpH"
    "pt_fndH = 152 + pt_fndProjH + pt_fndDeployH" "pt_fndH \<le> pt_apimH" "pt_obsGroupH = 112 + pt_obsH"
  by (simp_all add: pt_vContentTop_def pt_dpY_def pt_obsY_def pt_vnetH_def pt_subnetRowH_def pt_caSubH_def pt_caeH_def
      pt_peSubH_def pt_dpH_def pt_fndH_def pt_apimH_def pt_obsGroupH_def)

lemma pt_pe_heights: "64 \<le> pt_peRowH ! 0" "64 \<le> pt_peRowH ! 1" "64 \<le> pt_peRowH ! 2"
  by (rule pt_heights(9); simp)+

lemmas pt_measures = pt_x pt_y pt_heights(1-8) pt_pe_heights

lemma zones_nested:
  assumes "zone_frames z"
  shows "inside (tz_caSub z) (tz_vnet z)" "inside (tz_peSub z) (tz_vnet z)" "inside (tz_dpGroup z) (tz_vnet z)"
    "inside (tz_obs z) (tz_vnet z)" "inside (tz_cae z) (tz_caSub z)" "inside (tz_fnd z) (tz_dpGroup z)"
proof -
  note f = assms [unfolded zone_frames_def frame_def prod.inject]
  show "inside (tz_caSub z) (tz_vnet z)" "inside (tz_peSub z) (tz_vnet z)" "inside (tz_dpGroup z) (tz_vnet z)"
    "inside (tz_obs z) (tz_vnet z)" "inside (tz_cae z) (tz_caSub z)" "inside (tz_fnd z) (tz_dpGroup z)"
    unfolding inside_def using f pt_measures by linarith+
qed

lemma pt_ruler_x: "pt_pubCols = columns 120 3 800 40" "pt_laneCols = columns 175 3 330 40" "pt_peCols = columns 1570 2 480 40"
    "pt_dataCols = columns 150 4 575 40" "pt_fndCols = columns 180 2 550 40" "pt_obsCols = columns 150 2 1190 40"
  by (simp_all add: pt_rulers pt_horizontal)

lemma pt_widths: "col_width pt_pubCols 0 = 800" "col_width pt_laneCols 0 = 330" "i < 2 \<Longrightarrow> col_width pt_peCols i = 480"
    "col_width pt_dataCols 0 = 575" "col_width pt_fndCols 0 = 550" "col_width pt_obsCols 0 = 1190"
  by (simp_all add: pt_ruler_x col_columns)

lemma pt_peRowY_values: "pt_peRowY 0 = pt_vContentTop + 82" "pt_peRowY 1 = pt_vContentTop + 122 + pt_peRowH ! 0"
    "pt_peRowY 2 = pt_vContentTop + 162 + pt_peRowH ! 0 + pt_peRowH ! 1"
proof -
  have t: "pt_peRowH = [pt_peRowH ! 0, pt_peRowH ! 1, pt_peRowH ! 2]"
    by (simp add: pt_peRowH_def)
  show "pt_peRowY 0 = pt_vContentTop + 82" by (simp add: pt_peRowY_def)
  show "pt_peRowY 1 = pt_vContentTop + 122 + pt_peRowH ! 0" unfolding pt_peRowY_def by (subst t) simp
  show "pt_peRowY 2 = pt_vContentTop + 162 + pt_peRowH ! 0 + pt_peRowH ! 1" unfolding pt_peRowY_def by (subst t) simp
qed

lemma pt_peRow_fits:
  assumes "r < 3"
  shows "pt_vContentTop + 82 \<le> pt_peRowY r \<and> pt_peRowY r + pt_peRowH ! r + 30 \<le> pt_vContentTop + pt_peSubH"
proof -
  from assms consider "r = 0" | "r = 1" | "r = 2" by linarith
  then show ?thesis
  proof cases
    case 1
    show ?thesis unfolding 1 pt_peRowY_values using pt_measures by (intro conjI) linarith+
  next
    case 2
    show ?thesis unfolding 2 pt_peRowY_values using pt_measures by (intro conjI) linarith+
  next
    case 3
    show ?thesis unfolding 3 pt_peRowY_values using pt_measures by (intro conjI) linarith+
  qed
qed

lemma pe_rows_inside:
  assumes z: "zone_frames z" and b: "pe_box b"
  shows "inside b (tz_peSub z)"
proof -
  note f = z [unfolded zone_frames_def frame_def prod.inject]
  from b obtain r hs where r: "r < 3" and row: "pe_row r hs" and "b \<in> set hs"
    by (auto simp: pe_box_def)
  have "length hs = 2" using row by (simp add: pe_row_def in_row_length)
  with \<open>b \<in> set hs\<close> obtain i where i: "i < 2" "b = hs ! i" by (auto simp: in_set_conv_nth)
  have x: "hd_x b = col_x pt_peCols i" "hd_y b = pt_peRowY r" "hd_width b = 480" "hd_height b = pt_peRowH ! r"
    using in_row_nth [OF row [unfolded pe_row_def] i(1)] i pt_widths(3) by simp_all
  have "col_x pt_peCols i \<in> {1570, 2090}"
    using i(1) by (auto simp: pt_ruler_x col_columns less_Suc_eq numeral_2_eq_2)
  then have "1570 \<le> col_x pt_peCols i" "col_x pt_peCols i \<le> 2090" by auto
  moreover have "pt_vContentTop + 82 \<le> pt_peRowY r \<and> pt_peRowY r + pt_peRowH ! r + 30 \<le> pt_vContentTop + pt_peSubH"
    by (rule pt_peRow_fits [OF r])
  ultimately show ?thesis
    unfolding inside_def using f x pt_x(9,10) pt_y(6) by linarith
qed

lemma boxes_nested:
  assumes z: "zone_frames z" and b: "box_frames b"
  shows "inside (tb_webui b) (tz_cae z)" "inside (tb_router b) (tz_cae z)" "list_all (\<lambda>h. inside h (tz_cae z)) (tb_lanes b)"
    "list_all (\<lambda>h. inside h (tz_peSub z)) (tb_peBoxes b)" "list_all (\<lambda>h. inside h (tz_dpGroup z)) (tb_dataBoxes b)"
    "inside (tb_fndProj b) (tz_fnd z)" "list_all (\<lambda>h. inside h (tz_fnd z)) (tb_fndDeploy b)"
    "inside (tb_apim b) (tz_dpGroup z)" "list_all (\<lambda>h. inside h (tz_obs z)) (tb_obs b)"
proof -
  note f = z [unfolded zone_frames_def frame_def prod.inject]
  note g = b [unfolded box_frames_def frame_def prod.inject pt_widths]
  show "inside (tb_webui b) (tz_cae z)" "inside (tb_router b) (tz_cae z)" "inside (tb_fndProj b) (tz_fnd z)"
      "inside (tb_apim b) (tz_dpGroup z)"
    unfolding inside_def using f g pt_measures by linarith+
  show "list_all (\<lambda>h. inside h (tz_peSub z)) (tb_peBoxes b)"
    using b pe_rows_inside [OF z] by (auto simp: box_frames_def list_all_iff)
  note rows = g [THEN conjunct2, THEN conjunct2]
  have lanes: "in_row pt_laneCols (pt_vContentTop + 82 + 76 + pt_hWebui + 40 + pt_hRouter + 40) (\<lambda>_. 330) pt_hLane 3 (tb_lanes b)"
    and data: "in_row pt_dataCols (pt_dpY + 82) (\<lambda>_. 575) pt_dataH 4 (tb_dataBoxes b)"
    and deploy: "in_row pt_fndCols (pt_dpY + 82 + pt_dataH + 40 + 82 + pt_fndProjH + 40) (\<lambda>_. 550) pt_fndDeployH 2 (tb_fndDeploy b)"
    and obs: "in_row pt_obsCols (pt_obsY + 82) (\<lambda>_. 1190) pt_obsH 2 (tb_obs b)"
    using rows by blast+
  show "list_all (\<lambda>h. inside h (tz_cae z)) (tb_lanes b)"
    by (rule row_inside [OF lanes pt_ruler_x(2)], simp, simp, simp; (use f pt_measures in linarith))
  show "list_all (\<lambda>h. inside h (tz_dpGroup z)) (tb_dataBoxes b)"
    by (rule row_inside [OF data pt_ruler_x(4)], simp, simp, simp; (use f pt_measures in linarith))
  show "list_all (\<lambda>h. inside h (tz_fnd z)) (tb_fndDeploy b)"
    by (rule row_inside [OF deploy pt_ruler_x(5)], simp, simp, simp; (use f pt_measures in linarith))
  show "list_all (\<lambda>h. inside h (tz_obs z)) (tb_obs b)"
    by (rule row_inside [OF obs pt_ruler_x(6)], simp, simp, simp; (use f pt_measures in linarith))
qed

text \<open>
  The drawing of the zones and boxes, in the order of the function: what belongs to the private platform
  is inside the VNet, the public zone ends above it.
\<close>

definition pt_picture :: "(handle list \<times> topology_zones \<times> topology_boxes) build" where
  "pt_picture = bindB pt_public (\<lambda>pub. bindB pt_zones (\<lambda>z. bindB pt_boxes (\<lambda>b. unitB (pub, z, b))))"

definition private_boxes :: "topology_boxes \<Rightarrow> handle list" where
  "private_boxes b = tb_webui b # tb_router b # tb_fndProj b # tb_apim b
     # tb_lanes b @ tb_peBoxes b @ tb_dataBoxes b @ tb_fndDeploy b @ tb_obs b"

lemma private_boxes_inside:
  assumes "zone_frames z" "box_frames b"
  shows "list_all (\<lambda>h. inside h (tz_vnet z)) (private_boxes b)"
proof -
  note zn = zones_nested [OF assms(1)] and bn = boxes_nested [OF assms]
  have cae: "inside h (tz_cae z) \<Longrightarrow> inside h (tz_vnet z)" and pe: "inside h (tz_peSub z) \<Longrightarrow> inside h (tz_vnet z)"
    and dp: "inside h (tz_dpGroup z) \<Longrightarrow> inside h (tz_vnet z)" and fnd: "inside h (tz_fnd z) \<Longrightarrow> inside h (tz_vnet z)"
    and obs: "inside h (tz_obs z) \<Longrightarrow> inside h (tz_vnet z)" for h
    using zn inside_trans by blast+
  show ?thesis
    using bn cae pe dp fnd obs by (auto simp: private_boxes_def list_all_iff)
qed

lemma public_above:
  assumes "zone_frames z" "row_of pt_pubCols pt_pubBoxY pt_pubItems c pub" "c = no_style\<lparr>st_stroke := a, st_background := b, st_strokeWidth := w\<rparr>"
  shows "list_all (\<lambda>h. hd_y h + hd_height h + 184 = hd_y (tz_vnet z)) pub"
proof -
  have "hd_y (tz_vnet z) = pt_vnetY" using assms(1) by (simp add: zone_frames_def frame_def)
  moreover have "hd_y (pub ! i) + hd_height (pub ! i) + 184 = pt_vnetY" if "i < length pub" for i
    using that in_row_nth [OF assms(2), of i] in_row_length [OF assms(2)]
    by (simp add: assms(3) pt_pubH_def [symmetric] pt_vnetY_def pt_pubZoneBottom_def pt_pubBoxY_def)
  ultimately show ?thesis by (auto simp: list_all_length)
qed


end
