(* ===== verification/RequestFlow.thy ===== *)
theory RequestFlow
  imports DiagramParts
begin

text \<open>
  The second diagram (\<open>requestDecisionFlow\<close> in \<open>scripts/diagrams/diagrams.mjs\<close>): the request on the left,
  the pipeline of the router in the middle, the four outcomes on the right, what is persisted below.
\<close>

section \<open>Layout and content\<close>

definition rf_title :: "jsstring" where
  "rf_title =
    u ''02 '' @ [0xb7] @ u '' POST /v1/route '' @ [0x2014] @ u '' how a request becomes a governed decision''"

definition rf_subtitle :: "jsstring" where
  "rf_subtitle =
    u ''Conclusion: the caller never names a model, and governance policy runs BEFORE cost and complexity selection '' @ [0x2014] @ u '' so a cost optimisation can never reach a model policy has not approved.''"

definition rf_X0 :: rat where
  "rf_X0 = 80"

definition rf_W :: rat where
  "rf_W = 2960"

definition rf_COL_L :: "rat \<times> rat" where
  "rf_COL_L = (rf_X0, 760)"

definition rf_COL_C :: "rat \<times> rat" where
  "rf_COL_C = (rf_X0 + 760 + 200, 1000)"

definition rf_COL_R :: "rat \<times> rat" where
  "rf_COL_R = (rf_X0 + 760 + 200 + 1000 + 200, 800)"

definition rf_topY :: rat where
  "rf_topY = 230"

definition rf_callerSpec :: spec where
  "rf_callerSpec =
    (item (u ''Caller  '' @ [0xb7] @ u ''  lane service or webui'')
       (join [10]
       [u ''POST /v1/route   (Entra token, Router.Invoke app role)'',
        u ''{'',
        u ''  '' @ [34] @ u ''correlationId'' @ [34] @ u '': '' @ [34] @ u ''b6b1f0a2-'' @ [0x2026, 34] @ u '','',
        u ''  '' @ [34] @ u ''lane'' @ [34] @ u '': '' @ [34] @ u ''Research'' @ [34] @ u '','',
        u ''  '' @ [34] @ u ''taskKind'' @ [34] @ u '': '' @ [34] @ u ''synthesize'' @ [34] @ u '','',
        u ''  '' @ [34] @ u ''payload'' @ [34] @ u '': { '' @ [34] @ u ''question'' @ [34] @ u '': '' @ [34, 0x2026, 34] @ u '' },'',
        u ''  '' @ [34] @ u ''costCeilingUsd'' @ [34] @ u '': 0.25,'',
        u ''  '' @ [34] @ u ''latencyBudgetMs'' @ [34] @ u '': 8000,'',
        u ''  '' @ [34] @ u ''dataClassification'' @ [34] @ u '': '' @ [34] @ u ''Internal'' @ [34] @ u '','',
        u ''  '' @ [34] @ u ''policySetId'' @ [34] @ u '': '' @ [34] @ u ''CapitalMarkets-US'' @ [34] @ u '','',
        u ''  '' @ [34] @ u ''complexityHints'' @ [34] @ u '': {'',
        u ''    '' @ [34] @ u ''inputTokenEstimate'' @ [34] @ u '': 12000,'',
        u ''    '' @ [34] @ u ''requiresMultiStep'' @ [34] @ u '': true,'',
        u ''    '' @ [34] @ u ''requiresRetrieval'' @ [34] @ u '': true,'',
        u ''    '' @ [34] @ u ''requiresToolCalls'' @ [34] @ u '': false'',
        u ''  }'',
        u ''}'']))
       \<lparr>st_bodyFamily := Some MONO, st_bodySize := Some 16, st_stroke := Some C_blue, st_background := Some C_white\<rparr>"

definition rf_steps :: "spec list" where
  "rf_steps =
    [((item (u ''router-service  '' @ [0xb7] @ u ''  POST /v1/route'')
       (join [10]
       [u ''Internal Container Apps ingress. There is no public FQDN.'',
        u ''Rejects a caller without the Router.Invoke app role with 403.'',
        u ''RoutingPlanner.Plan() is the single entry point and the one place'',
        u ''the evaluation order is decided '' @ [0x2014] @ u '' calling TierSelector directly'',
        u ''would bypass the gate.'']))
       \<lparr>st_stroke := Some C_blue, st_background := Some C_bgBlue, st_strokeWidth := Some 3\<rparr>),
     ((item (u ''ComplexityScorer.Score(hints)'')
       (join [10]
       [u ''Pure, deterministic, caller-supplied signals only '' @ [0x2014] @ u '' never inferred from model output.'',
        u ''tokens/32000 '' @ [0xd7] @ u '' 0.40  +  multiStep '' @ [0xd7] @ u '' 0.25  +  retrieval '' @ [0xd7] @ u '' 0.20  +  toolCalls '' @ [0xd7] @ u '' 0.15'',
        u ''Rounded to 4dp, clamped 0'' @ [0x2013] @ u ''1.   IndicatedTier:  <0.35 Economy '' @ [0xb7] @ u '' <0.70 Standard '' @ [0xb7] @ u '' else Premium.'']))
       \<lparr>st_stroke := Some C_blue, st_background := Some C_bgBlue\<rparr>),
     ((item (u ''STEP 1 '' @ [0x2014] @ u '' PolicyGate.Evaluate(catalog, policySet, classification, region)'')
       (join [10]
       [u ''Runs FIRST, against the full multi-vendor catalog. Excludes, in order:'',
        u ''  '' @ [0xb7] @ u '' region not in policy.AllowedRegions  '' @ [0x2192] @ u '' the whole catalog is excluded'',
        u ''  '' @ [0xb7] @ u '' vendor not in policy.ApprovedVendors'',
        u ''  '' @ [0xb7] @ u '' classification > policy.MaxClassification[vendor]'',
        u ''  '' @ [0xb7] @ u '' cost > policy.MaxCostPerRequestUsd'',
        u ''Every exclusion carries prose fit to read aloud to a governance audience.'']))
       \<lparr>st_stroke := Some C_red, st_background := Some C_bgYellow, st_strokeWidth := Some 4\<rparr>),
     ((item (u ''STEP 2 '' @ [0x2014] @ u '' TierSelector.Select(score, ceiling, eligible)'')
       (join [10]
       [u ''Sees ONLY the policy-eligible candidates. Prefers the indicated tier; if it is'',
        u ''unaffordable or unavailable it takes the most capable tier that is both.'',
        u ''The ceiling is a control, not a report.'']))
       \<lparr>st_stroke := Some C_blue, st_background := Some C_bgBlue, st_strokeWidth := Some 4\<rparr>),
     ((item (u ''Vendor invocation'')
       (join [10]
       [u ''The selected deployment is invoked over the Foundry private endpoint.'',
        u ''APIM metering / content safety is specified but not yet in Terraform.'',
        u ''No silent retry on a different tier '' @ [0x2014] @ u '' that would corrupt the cost figures.'']))
       \<lparr>st_stroke := Some C_green, st_background := Some C_bgGreen\<rparr>)]"

definition rf_outcomes :: "spec list" where
  "rf_outcomes =
    [((item (u ''RefusedByPolicy  '' @ [0x2192] @ u ''  HTTP 200'')
       (join [10]
       [u ''Policy left no eligible candidate. selectedDeployment is null and every'',
        u ''candidate is listed with its reason.'',
        [],
        u ''Returned as 200 on purpose: a refusal is a correct, governed outcome.'',
        u ''Modelling it as 4xx would invite retry-on-error, and the one thing that'',
        u ''must never happen is a retry that finds an unapproved model.'']))
       \<lparr>st_stroke := Some C_red, st_background := Some C_bgRed, st_strokeWidth := Some 4\<rparr>),
     ((item (u ''Denied  '' @ [0x2192] @ u ''  HTTP 402'')
       (join [10]
       [u ''Cost ceiling. Even the cheapest available tier projects above the ceiling.'',
        [34] @ u ''Cheapest available tier Economy projects 0.310 USD against a ceiling'',
        u ''of 0.250 USD.'' @ [34],
        [],
        u ''Kept distinct from RefusedByPolicy: '' @ [34] @ u ''too expensive'' @ [34] @ u '' and '' @ [34] @ u ''not permitted'' @ [34],
        u ''are different conversations with different people.'']))
       \<lparr>st_stroke := Some C_red, st_background := Some C_bgRed, st_strokeWidth := Some 3\<rparr>),
     ((item (u ''Downgraded  '' @ [0x2192] @ u ''  HTTP 200'')
       (join [10]
       [u ''Complexity indicated a higher tier; the ceiling did not allow it.'',
        u ''Routed to the most capable affordable tier, with the downgrade named'',
        u ''in the rationale. This is wow moment B on the comparison screen.'']))
       \<lparr>st_stroke := Some C_orange, st_background := Some C_bgYellow, st_strokeWidth := Some 3\<rparr>),
     ((item (u ''Routed  '' @ [0x2192] @ u ''  HTTP 200'')
       (join [10]
       [u ''Routed to the tier the complexity score indicated, within both the policy'',
        u ''ceiling and the request ceiling. Rationale names the deciding factor in a'',
        u ''plain sentence, because the presenter reads it aloud on stage.'']))
       \<lparr>st_stroke := Some C_green, st_background := Some C_bgGreen, st_strokeWidth := Some 3\<rparr>)]"

definition rf_outcomeH :: "rat list" where
  "rf_outcomeH = map (\<lambda>s2. spec_measure s2 (snd rf_COL_R - 60)) rf_outcomes"

definition rf_outcomesTop :: rat where
  "rf_outcomesTop = rf_topY"

definition rf_outcomesGroupH :: "rat" where
  "rf_outcomesGroupH = 96 + foldl (\<lambda>a b. a + b + 50) 0 rf_outcomeH - 50 + 30"

definition rf_persistCols :: ruler where
  "rf_persistCols = columns (rf_X0 + 40) 3 ((rf_W - 80 - 2 * 40) / 3) 40"

definition rf_persistItems :: "spec list" where
  "rf_persistItems =
    [((item (u ''Cosmos  '' @ [0xb7] @ u ''  routerDecisions'')
       (join [10]
       [u ''Partitioned by /correlationId.'',
        u ''Inputs, candidate tiers with per-candidate rejection'',
        u ''reasons, policy exclusions, outcome, rationale,'',
        u ''policySetId and policySetVersion.'',
        u ''GET /v1/decisions/{correlationId} (Router.Read).'']))
       \<lparr>st_stroke := Some C_green, st_background := Some C_bgGreen\<rparr>),
     ((item (u ''Cosmos  '' @ [0xb7] @ u ''  auditEvents  (append-only)'')
       (join [10]
       [u ''Every step writes one record keyed by the same correlationId.'',
        u ''Append-only and retained for the life of the environment.'',
        u ''AC-8: the whole chain is reconstructable in ONE query '' @ [0x2014],
        u ''which is exactly what Beat 8 does from an unrehearsed pick.'']))
       \<lparr>st_stroke := Some C_green, st_background := Some C_bgGreen, st_strokeWidth := Some 3\<rparr>),
     ((item (u ''Scoreboard  '' @ [0xb7] @ u ''  Application Insights (Cosmos change feed as fallback)'')
       (join [10]
       [u ''GET /v1/scoreboard?window=15m '' @ [0x2014] @ u '' count, total cost, baseline cost,'',
        u ''savings delta, p50/p95 latency, tier distribution, mean quality by lane.'',
        u ''Visible within 5 seconds (AC-5). Sampling is disabled for router and'',
        u ''approval telemetry; the UI labels the degraded source when it falls back.'']))
       \<lparr>st_stroke := Some C_blue, st_background := Some C_bgBlue\<rparr>)]"

definition rf_persistH :: rat where
  "rf_persistH = rowHeight rf_persistItems (col_width rf_persistCols 0)"

section \<open>Drawing\<close>

text \<open>The column of the caller; later calls read \<open>caller\<close> and \<open>swap\<close>.\<close>

definition rf_caller :: "(handle \<times> handle) build" where
  "rf_caller =
     bindB (draw_box (place rf_callerSpec
       (fst rf_COL_L) rf_topY (snd rf_COL_L) None)) (\<lambda>caller.
     bindB (draw_box (place ((item (u ''PRINCIPLE IV '' @ [0x2014] @ u '' what is NOT in this request'')
       (join [10]
       [u ''There is no '' @ [34] @ u ''model'' @ [34] @ u '' field.'',
        u ''There is no '' @ [34] @ u ''vendor'' @ [34] @ u '' field.'',
        u ''There is no '' @ [34] @ u ''deployment'' @ [34] @ u '' field.'',
        [],
        u ''And there will not be one: a field that exists is a field that'',
        u ''eventually gets used. dataClassification states what the data IS;'',
        u ''it is not a routing preference. Omitting it is a 400, never an'',
        u ''assumption of '' @ [34] @ u ''Public'' @ [34] @ u ''.'']))
       \<lparr>st_stroke := Some C_red, st_background := Some C_bgRed, st_strokeWidth := Some 4\<rparr>)
       (fst rf_COL_L) (hd_y caller + hd_height caller + 50) (snd rf_COL_L) None)) (\<lambda>absent.
     bindB (draw_box (place ((item (u ''THE ORDER IS LOAD-BEARING'')
       (join [10]
       [u ''catalog '' @ [0x2192] @ u '' PolicyGate.Evaluate() '' @ [0x2192] @ u '' eligible '' @ [0x2192] @ u '' TierSelector.Select()'',
        [],
        u ''Policy decides what is PERMISSIBLE.'',
        u ''The router then decides what is APPROPRIATE among the permissible.'',
        [],
        u ''Reverse these two and a cost optimisation can reach a model'',
        u ''governance has not approved. The order is asserted by test, not'',
        u ''left to code reading.'']))
       \<lparr>st_stroke := Some C_red, st_background := Some C_bgYellow, st_strokeWidth := Some 4\<rparr>)
       (fst rf_COL_L) (hd_y absent + hd_height absent + 50) (snd rf_COL_L) None)) (\<lambda>orderBanner.
     bindB (draw_box (place ((item (u ''Beat 5 '' @ [0x2014] @ u '' the swap nobody deployed for'')
       (join [10]
       [u ''An approver toggles Anthropic off on /policy. No redeploy, no code'',
        u ''change, no prompt change. The identical request replans across the'',
        u ''remaining approved vendors and the exclusion reason reads:'',
        [34] @ u ''Vendor Anthropic is not approved under policy set'',
        [39] @ u ''CapitalMarkets-US'' @ [39] @ u ''.'' @ [34],
        [],
        u ''Set dataClassification to Restricted and every hosted vendor is'',
        u ''excluded; execution lands on the open-weight model on managed'',
        u ''compute inside the VNet.'']))
       \<lparr>st_stroke := Some C_violet, st_background := Some C_bgViolet\<rparr>)
       (fst rf_COL_L) (hd_y orderBanner + hd_height orderBanner + 50) (snd rf_COL_L) None)) (\<lambda>swap.
     unitB (caller, swap)))))"

definition rf_pipeline :: "(handle list \<times> rat) build" where
  "rf_pipeline =
     stack_boxes (fst rf_COL_C) (snd rf_COL_C) 60 (map (\<lambda>spec. (spec, None)) rf_steps) rf_topY"

definition rf_outcome_boxes :: "(handle \<times> handle list) build" where
  "rf_outcome_boxes =
     bindB (draw_group ((group_at (fst rf_COL_R - 30) rf_outcomesTop (snd rf_COL_R) rf_outcomesGroupH)
       \<lparr>gs_label := (u ''FOUR OUTCOMES '' @ [0x2014] @ u '' three of them are HTTP 200''),
        gs_sublabel := (u ''A governed '' @ [34] @ u ''no'' @ [34] @ u '' is a correct answer, not an error.''),
        gs_stroke := C_ink, gs_background := C_white, gs_strokeWidth := 3\<rparr>)) (\<lambda>outcomesGroup.
     bindB (stack_boxes (fst rf_COL_R) (snd rf_COL_R - 60) 50 (zip rf_outcomes (map Some rf_outcomeH)) (rf_outcomesTop + 96)) (\<lambda>(outcomeBoxes, oy).
     unitB (outcomesGroup, outcomeBoxes)))"

text \<open>The persistence band, at the \<open>bottomY\<close> below all three columns.\<close>

definition rf_bottomY :: "rat \<Rightarrow> rat \<Rightarrow> handle \<Rightarrow> rat" where
  "rf_bottomY = (\<lambda>cy oy swap. max cy (max oy (hd_y swap + hd_height swap + 60)) + 40)"

definition rf_persist :: "rat \<Rightarrow> handle build" where
  "rf_persist bottomY =
     bindB (draw_group ((group_at rf_X0 bottomY rf_W (82 + rf_persistH + 30))
       \<lparr>gs_label := (u ''EVERY outcome above '' @ [0x2014] @ u '' including both refusals '' @ [0x2014] @ u '' is persisted and audited''),
        gs_sublabel := (u ''A denial is never silently absorbed; it is always surfaced to the UI. Principle VI: one correlationId spans the whole lifecycle.''),
        gs_stroke := C_green, gs_background := C_white, gs_strokeWidth := 3\<rparr>)) (\<lambda>persistGroup.
     thenB (placeRow rf_persistCols (bottomY + 82) rf_persistItems no_style) (
     unitB persistGroup))"

definition rf_arrows :: "handle \<Rightarrow> handle list \<Rightarrow> handle \<Rightarrow> handle list \<Rightarrow> handle \<Rightarrow> unit build" where
  "rf_arrows caller centreBoxes outcomesGroup outcomeBoxes persistGroup =
     (let entry = centreBoxes ! 0; scorer = centreBoxes ! 1; gate = centreBoxes ! 2; selector = centreBoxes ! 3;
          invoke = centreBoxes ! 4; refused = outcomeBoxes ! 0; denied = outcomeBoxes ! 1;
          downgraded = outcomeBoxes ! 2; routed = outcomeBoxes ! 3
      in seqB
     [draw_arrow caller entry
       (arrow_defaults\<lparr>ao_color := C_blue, ao_strokeWidth := 3,
        ao_label := (join [10]
           [u ''a business'',
            u ''request, not a'',
            u ''model choice'']),
        ao_labelWidth := 190, ao_labelDy := (- 60)\<rparr>),
      draw_arrow entry scorer
       (arrow_defaults\<lparr>ao_color := C_ink, ao_strokeWidth := 3, ao_sides := Some (SBottom, STop)\<rparr>),
      draw_arrow scorer gate
       (arrow_defaults\<lparr>ao_color := C_red, ao_strokeWidth := 5, ao_sides := Some (SBottom, STop),
        ao_label := (u ''score + the FULL catalog''), ao_labelWidth := 300, ao_labelDx := 260\<rparr>),
      draw_arrow gate selector
       (arrow_defaults\<lparr>ao_color := C_red, ao_strokeWidth := 5, ao_sides := Some (SBottom, STop),
        ao_label := (u ''ONLY the policy-eligible candidates reach selection''), ao_labelWidth := 460,
        ao_labelDx := 340\<rparr>),
      draw_arrow selector invoke
       (arrow_defaults\<lparr>ao_color := C_green, ao_strokeWidth := 3, ao_sides := Some (SBottom, STop)\<rparr>),
      draw_arrow gate refused
       (arrow_defaults\<lparr>ao_color := C_red, ao_strokeWidth := 4, ao_sides := Some (SRight, SLeft),
        ao_label := (join [10]
           [u ''no eligible'',
            u ''candidate'']),
        ao_labelWidth := 190, ao_labelDy := (- 46)\<rparr>),
      draw_arrow selector denied
       (arrow_defaults\<lparr>ao_color := C_red, ao_strokeWidth := 3, ao_sides := Some (SRight, SLeft),
        ao_label := (join [10]
           [u ''nothing'',
            u ''affordable'']),
        ao_labelWidth := 190, ao_labelDy := (- 46)\<rparr>),
      draw_arrow invoke downgraded
       (arrow_defaults\<lparr>ao_color := C_orange, ao_strokeWidth := 3, ao_sides := Some (SRight, SLeft),
        ao_label := (join [10]
           [u ''chosen.Tier'',
            u ''< indicated'']),
        ao_labelWidth := 190, ao_labelDy := (- 46)\<rparr>),
      draw_arrow invoke routed
       (arrow_defaults\<lparr>ao_color := C_green, ao_strokeWidth := 3, ao_sides := Some (SRight, SLeft),
        ao_label := (join [10]
           [u ''chosen.Tier'',
            u ''== indicated'']),
        ao_labelWidth := 190, ao_labelDy := 46\<rparr>),
      draw_arrow invoke persistGroup
       (arrow_defaults\<lparr>ao_color := C_green, ao_strokeWidth := 4, ao_sides := Some (SBottom, STop),
        ao_label := (u ''result + metrics''), ao_labelWidth := 260, ao_labelDx := (- 190)\<rparr>),
      draw_arrow outcomesGroup persistGroup
       (arrow_defaults\<lparr>ao_color := C_ink, ao_strokeWidth := 4, ao_sides := Some (SBottom, STop), ao_elbow := Some ElbowV,
        ao_label := (join [10]
           [u ''EVERY outcome is written,'',
            u ''including both refusals'']),
        ao_labelWidth := 400, ao_labelDx := (- 230), ao_labelDy := 60\<rparr>)])"

definition rf_body :: "unit build" where
  "rf_body =
     thenB (draw_header rf_X0 60 rf_W rf_title rf_subtitle) (
     bindB (rf_caller) (\<lambda>(caller, swap).
     bindB (rf_pipeline) (\<lambda>(centreBoxes, cy).
     bindB (rf_outcome_boxes) (\<lambda>(outcomesGroup, outcomeBoxes).
     (let oy = rf_outcomesTop + rf_outcomesGroupH in
     (let bottomY = rf_bottomY cy oy swap in
     bindB (rf_persist bottomY) (\<lambda>persistGroup.
     thenB (rf_arrows caller centreBoxes outcomesGroup outcomeBoxes persistGroup) (
     (let legendY = bottomY + 82 + rf_persistH + 30 + 60 in
     thenB (draw_legend rf_X0 legendY 1240
       [LEGEND_CHOKEPOINT,
        swatch C_red C_bgYellow (u ''Governance gate. Runs before any cost reasoning.''),
        LEGEND_PUBLIC,
        swatch C_orange C_bgYellow (u ''Cost control acting '' @ [0x2014] @ u '' a downgrade, visible and explained.''),
        LEGEND_PRIVATE]
       legend_title) (
     thenB (draw_box (place ((item (u ''The test of Principle IV, stated as an experiment'')
       (join [10]
       [u ''Two requests with byte-identical bodies, submitted under different policy sets, may execute on different vendors and both succeed.'',
        u ''If swapping a vendor requires a code change, a redeploy, or a prompt edit, the principle is violated '' @ [0x2014] @ u '' no matter what the diagram says.'',
        u ''The router is deterministic code and always will be: routing the thing that decides routing would be circular, and a compliance audience'',
        u ''will read this assembly line by line. It is under a 70% coverage gate for exactly that reason.'']))
       \<lparr>st_stroke := Some C_blue, st_background := Some C_white\<rparr>)
       (rf_X0 + 1240 + 60) legendY (rf_W - 1240 - 60) None)) (
     unitB ())))))))))))"

definition requestDecisionFlow :: "js_exn + scene" where
  "requestDecisionFlow = run_build (u ''02-request-decision-flow'') 0x22c4d5e6 rf_body"

section \<open>The drawing is sound\<close>

lemma rf_lengths: "length rf_steps = 5" "length rf_outcomes = 4" "length rf_outcomeH = 4" "length rf_persistItems = 3"
  by (simp_all add: rf_steps_def rf_outcomes_def rf_outcomeH_def rf_persistItems_def)

lemma rf_columns: "length (ru_cols rf_persistCols) = 3"
  by (simp add: rf_persistCols_def)

lemma rf_caller_sound:
  "sound H rf_caller (\<lambda>_. True) (\<lambda>(caller, swap). holding [caller, swap])"
  unfolding rf_caller_def by (rule draw_rules | (auto; fail))+

abbreviation pipeline_items :: "(spec \<times> rat option) list" where
  "pipeline_items \<equiv> map (\<lambda>spec. (spec, None)) rf_steps"

abbreviation outcome_items :: "(spec \<times> rat option) list" where
  "outcome_items \<equiv> zip rf_outcomes (map Some rf_outcomeH)"

lemma rf_pipeline_sound:
  "sound H rf_pipeline (\<lambda>(hs, cy). stacked (fst rf_COL_C) (snd rf_COL_C) 60 rf_topY pipeline_items hs cy)
     (\<lambda>(hs, cy). holding hs)"
  unfolding rf_pipeline_def by (rule sound_stack)

lemma rf_outcomes_sound:
  "sound H rf_outcome_boxes
     (\<lambda>(g, hs). frame g = (fst rf_COL_R - 30, rf_outcomesTop, snd rf_COL_R, rf_outcomesGroupH)
        \<and> (\<exists>y'. stacked (fst rf_COL_R) (snd rf_COL_R - 60) 50 (rf_outcomesTop + 96) outcome_items hs y'))
     (\<lambda>(g, hs). holding (g # hs))"
  unfolding rf_outcome_boxes_def
  by (rule draw_rules | (auto simp: group_at_def; fail))+

lemma rf_persist_sound:
  "sound H (rf_persist bottomY) (\<lambda>g. frame g = (rf_X0, bottomY, rf_W, 82 + rf_persistH + 30)) (\<lambda>g. holding [g])"
  unfolding rf_persist_def
  by (rule draw_rules | (auto simp: group_at_def rf_lengths rf_columns; fail))+

lemma rf_arrows_sound:
  assumes "\<And>h. h \<in> set (caller # outcomesGroup # persistGroup # centreBoxes @ outcomeBoxes) \<Longrightarrow> Holds (hd_id h) \<in> H"
    and "length centreBoxes = 5" "length outcomeBoxes = 4"
  shows "sound H (rf_arrows caller centreBoxes outcomesGroup outcomeBoxes persistGroup) (\<lambda>_. True) (\<lambda>_. {})"
  unfolding rf_arrows_def Let_def by (rule draws | (simp add: assms; fail))+

lemma rf_body_sound:
  "sound H rf_body (\<lambda>_. True) (\<lambda>_. {Shows rf_title 28, Shows rf_subtitle 20, Shows legend_title 20})"
  unfolding rf_body_def
  by (rule rf_caller_sound rf_pipeline_sound rf_outcomes_sound rf_persist_sound rf_arrows_sound draw_rules
    | (auto simp: legend_title_def rf_lengths dest: stacked_length; fail))+

section \<open>The picture\<close>

lemma rf_x: "rf_X0 = 80" "rf_W = 2960" "rf_COL_L = (80, 760)" "rf_COL_C = (1040, 1000)" "rf_COL_R = (2240, 800)"
  by (simp_all add: rf_X0_def rf_W_def rf_COL_L_def rf_COL_C_def rf_COL_R_def)

lemma outcome_heights: "list_all (\<lambda>it. 0 \<le> item_height w it) outcome_items"
  unfolding rf_outcomeH_def map_map comp_def by (rule measured_heights)

lemma outcome_item_heights: "map (item_height w) outcome_items = rf_outcomeH"
  using rf_lengths by (auto simp: item_height_def dflt_def intro!: nth_equalityI)

text \<open>Every outcome is inside the frame of the outcomes, which ends 30 below the last one.\<close>

lemma outcomes_inside:
  assumes g: "frame g = (fst rf_COL_R - 30, rf_outcomesTop, snd rf_COL_R, rf_outcomesGroupH)"
    and st: "stacked (fst rf_COL_R) (snd rf_COL_R - 60) 50 (rf_outcomesTop + 96) outcome_items hs y'"
  shows "list_all (\<lambda>h. inside h g) hs" "apart 50 hs"
proof -
  have y': "y' = rf_outcomesTop + rf_outcomesGroupH + 20"
    using stacked_end [OF st] by (simp only: outcome_item_heights) (simp add: rf_outcomesGroupH_def)
  have "inside h g" if "h \<in> set hs" for h
    using stacked_member [OF st _ outcome_heights that] frame_eqD [OF g] y' by (simp add: inside_def rf_x)
  then show "list_all (\<lambda>h. inside h g) hs" by (simp add: list_all_iff)
  show "apart 50 hs" by (rule stacked_apart [OF st _ outcome_heights]) simp
qed

text \<open>The three columns and the persistence band, as \<open>requestDecisionFlow\<close> draws them.\<close>

definition rf_picture :: "(handle \<times> handle list \<times> handle \<times> handle list \<times> handle) build" where
  "rf_picture =
     bindB rf_caller (\<lambda>(caller, swap).
     bindB rf_pipeline (\<lambda>(centreBoxes, cy).
     bindB rf_outcome_boxes (\<lambda>(outcomesGroup, outcomeBoxes).
     bindB (rf_persist (rf_bottomY cy (rf_outcomesTop + rf_outcomesGroupH) swap)) (\<lambda>persistGroup.
     unitB (swap, centreBoxes, outcomesGroup, outcomeBoxes, persistGroup)))))"

definition flow_layout :: "handle \<times> handle list \<times> handle \<times> handle list \<times> handle \<Rightarrow> bool" where
  "flow_layout = (\<lambda>(swap, centre, grp, outcomes, band).
     length centre = 5 \<and> apart 60 centre \<and> length outcomes = 4 \<and> apart 50 outcomes
     \<and> list_all (\<lambda>h. inside h grp) outcomes
     \<and> list_all (\<lambda>h. hd_y h + hd_height h + 40 \<le> hd_y band) (swap # grp # centre @ outcomes))"

lemma rf_layout:
  assumes c: "stacked (fst rf_COL_C) (snd rf_COL_C) 60 rf_topY pipeline_items centre cy"
    and g: "frame grp = (fst rf_COL_R - 30, rf_outcomesTop, snd rf_COL_R, rf_outcomesGroupH)"
    and o': "stacked (fst rf_COL_R) (snd rf_COL_R - 60) 50 (rf_outcomesTop + 96) outcome_items outcomes y'"
    and b: "frame band = (rf_X0, rf_bottomY cy (rf_outcomesTop + rf_outcomesGroupH) swap, rf_W, h)"
  shows "flow_layout (swap, centre, grp, outcomes, band)"
proof -
  have band: "cy + 40 \<le> hd_y band" "hd_y grp + hd_height grp + 40 \<le> hd_y band" "hd_y swap + hd_height swap + 100 \<le> hd_y band"
    using frame_eqD [OF b] frame_eqD [OF g] by (simp_all add: rf_bottomY_def)
  have "hd_y h + hd_height h + 40 \<le> hd_y band" if "h \<in> set centre" for h
    using stacked_member [OF c _ measured_heights(1) that] band(1) by simp
  moreover have "hd_y h + hd_height h + 40 \<le> hd_y band" if "h \<in> set outcomes" for h
    using outcomes_inside(1) [OF g o'] that band(2) by (auto simp: list_all_iff inside_def)
  moreover have "apart 60 centre"
    by (rule stacked_apart [OF c _ measured_heights(1)]) simp
  ultimately show ?thesis
    using outcomes_inside [OF g o'] stacked_length [OF c] stacked_length [OF o'] band rf_lengths
    by (auto simp: flow_layout_def list_all_iff)
qed

text \<open>The second picture puts the stages of a request below each other in the order of its list
  of steps, at least 60 apart; all four outcomes lie inside their frame, at least 50
  apart; and the persistence band is at least 40 below everything above it.\<close>

theorem request_flow_layout:
  "\<exists>r s. rf_picture (new_scene name seed) = Inr (r, s) \<and> flow_layout r"
proof -
  have "sound {} rf_picture flow_layout (\<lambda>_. {})"
    unfolding rf_picture_def
    by (rule rf_caller_sound rf_pipeline_sound rf_outcomes_sound rf_persist_sound sound_bind_pair sound_bind sound_unit
      | (use rf_layout in \<open>force\<close>) | (simp; fail))+
  then obtain r s where "rf_picture (new_scene name seed) = Inr (r, s)" "flow_layout r"
    using built.new by (rule soundE) auto
  then show ?thesis by blast
qed

end
