(* ===== verification/AgentArchitecture.thy ===== *)
theory AgentArchitecture
  imports DiagramParts
begin

text \<open>
  The third diagram (\<open>agentArchitecture\<close> in \<open>scripts/diagrams/diagrams.mjs\<close>): the row of custodian, agent,
  tools and data, the two boundaries, the router chain, and the rows on reproducibility, approval and failure.
\<close>

section \<open>Layout and content\<close>

definition aa_title :: "jsstring" where
  "aa_title =
    u ''03 '' @ [0xb7] @ u '' Lane services as custodians of Foundry hosted agents''"

definition aa_subtitle :: "jsstring" where
  "aa_subtitle =
    u ''Conclusion: the agent reasons but the service is accountable '' @ [0x2014] @ u '' two network-enforced boundaries stop the agent reaching a model or a tool reaching a model, and no consequential action leaves the system without a human.''"

definition aa_X0 :: rat where
  "aa_X0 = 80"

definition aa_W :: rat where
  "aa_W = 2760"

definition aa_topY :: rat where
  "aa_topY = 240"

definition aa_cols4 :: ruler where
  "aa_cols4 = columns aa_X0 4 ((aa_W - 3 * 160) / 4) 160"

definition aa_custodianSpec :: spec where
  "aa_custodianSpec =
    (item ([0x2460] @ u '' Lane service  '' @ [0xb7] @ u ''  the CUSTODIAN'')
       (join [10]
       [u ''C# on Container Apps. It is not the agent.'',
        [],
        u ''1. stamps correlationId BEFORE thread creation'',
        u ''2. creates ONE thread for ONE business request '' @ [0x2014],
        u ''   threads are never reused, because carried-over'',
        u ''   context makes cost and reproducibility'',
        u ''   unexplainable and both are demo claims'',
        u ''3. supplies the tool surface'',
        u ''4. enforces the approval halt'',
        u ''5. writes the audit record'',
        [],
        u ''Step budget: exceed it and the agent halts, returns'',
        u ''partial work, and logs. An agent that loops on stage'',
        u ''is worse than one that stops.'']))
       \<lparr>st_stroke := Some C_blue, st_background := Some C_bgBlue, st_strokeWidth := Some 3\<rparr>"

definition aa_agentSpec :: spec where
  "aa_agentSpec =
    (item ([0x2461] @ u '' Hosted Foundry agent  '' @ [0xb7] @ u ''  one per lane'')
       (join [10]
       [u ''Runs under the Foundry PROJECT identity (ADR 005).'',
        [],
        u ''Research '' @ [0x2014] @ u '' retrieve, then synthesise per claim.'',
        u ''  Read-only. Must be able to return '' @ [34] @ u ''I could not'',
        u ''  attribute this'' @ [34] @ u '' as a SUCCESS (Principle III).'',
        u ''Surveillance '' @ [0x2014] @ u '' triage 500+ alerts, then assemble'',
        u ''  evidence. Halts for approval.'',
        u ''Order routing '' @ [0x2014] @ u '' one proposal. Halts every time.'',
        [],
        u ''Retrieved chunks are DATA, never instructions:'',
        u ''wrapped in a delimited envelope that carries no tool'',
        u ''authority. Injection attempts are logged as audit'',
        u ''events (T-024).'']))
       \<lparr>st_stroke := Some C_violet, st_background := Some C_bgViolet, st_strokeWidth := Some 3\<rparr>"

definition aa_mcpSpec :: spec where
  "aa_mcpSpec =
    (item ([0x2462] @ u '' MCP tool server  '' @ [0xb7] @ u ''  hosted IN the lane service'')
       (join [10]
       [u ''Research: search_corpus, fetch_chunk, list_sources'',
        u ''  '' @ [0x2014] @ u '' all read-only.'',
        u ''Surveillance: fetch_alert_batch, fetch_communications,'',
        u ''  fetch_trade_context, submit_for_approval.'',
        u ''Order routing: fetch_order, fetch_venue_liquidity,'',
        u ''  evaluate_best_execution_policy, submit_for_approval.'',
        [],
        u ''evaluate_best_execution_policy is deterministic code'',
        u ''the agent CALLS, not the agent'' @ [39] @ u ''s judgement. The model'',
        u ''explains the result; code decides what is permitted.'',
        [],
        u ''submit_for_approval is the ONLY tool in the entire'',
        u ''system with a side effect '' @ [0x2014] @ u '' and it writes a proposal,'',
        u ''never a state change.'']))
       \<lparr>st_stroke := Some C_green, st_background := Some C_bgGreen, st_strokeWidth := Some 3\<rparr>"

definition aa_dataSpec :: spec where
  "aa_dataSpec =
    (item ([0x2463] @ u '' Data planes  '' @ [0xb7] @ u ''  private endpoints only'')
       (join [10]
       [u ''Azure AI Search '' @ [0x2014] @ u '' synthetic research corpus.'',
        u ''Cosmos DB '' @ [0x2014] @ u '' alerts, proposals, approvals, audit.'',
        u ''Simulated OMS '' @ [0x2014] @ u '' labelled simulated on the record'',
        u ''itself, not as a disclaimer in a corner, so a'',
        u ''screenshot taken out of context is still honest.'',
        [],
        u ''The lane service identities hold Search Index Data'',
        u ''Reader and nothing on Foundry (apps/roles.tf).'']))
       \<lparr>st_stroke := Some C_green, st_background := Some C_bgGreen, st_strokeWidth := Some 3\<rparr>"

definition aa_rowSpecs :: "spec list" where
  "aa_rowSpecs = [aa_custodianSpec, aa_agentSpec, aa_mcpSpec, aa_dataSpec]"

definition aa_rowH :: rat where
  "aa_rowH = rowHeight aa_rowSpecs (col_width aa_cols4 0)"

definition aa_b2y :: rat where
  "aa_b2y = aa_topY + aa_rowH + 70"

definition aa_chainCols :: ruler where
  "aa_chainCols = columns aa_X0 3 ((aa_W - 2 * 60) / 3) 60"

definition aa_chainSpecs :: "spec list" where
  "aa_chainSpecs =
    [((item (u ''router-service  '' @ [0xb7] @ u ''  POST /v1/route'')
       (join [10]
       [u ''The single chokepoint. Deterministic code, never an agent:'',
        u ''making the component that enforces governance non-deterministic'',
        u ''is not a position you can defend to a compliance audience.'',
        u ''PolicyGate then TierSelector, decision recorded with rationale.'']))
       \<lparr>st_stroke := Some C_blue, st_background := Some C_bgBlue, st_strokeWidth := Some 4\<rparr>),
     ((item (u ''APIM AI gateway  '' @ [0x2014] @ u ''  NOT IN TERRAFORM'')
       (join [10]
       [u ''Specified for token metering, cost ceilings and content safety in'',
        u ''docs/architecture.md and the constitution. No APIM resource exists'',
        u ''in either stack today, so the ceiling is currently enforced in one'',
        u ''place (the router) rather than two.'']))
       \<lparr>st_stroke := Some C_red, st_background := Some C_white, st_strokeWidth := Some 3, st_strokeStyle := Some (u ''dashed'')\<rparr>),
     ((item (u ''Foundry model deployments'')
       (join [10]
       [u ''Serverless: AzureOpenAI, Anthropic, xAI.'',
        u ''Managed compute (PREVIEW): open-weight model on H100_80GB'',
        u ''capacity inside the VNet '' @ [0x2014] @ u '' the only destination cleared for'',
        u ''Restricted data.'']))
       \<lparr>st_stroke := Some C_green, st_background := Some C_bgGreen, st_strokeWidth := Some 3\<rparr>)]"

definition aa_chainH :: rat where
  "aa_chainH = rowHeight aa_chainSpecs (col_width aa_chainCols 0)"

definition aa_detCols :: ruler where
  "aa_detCols = columns (aa_X0 + 40) 3 ((aa_W - 80 - 2 * 60) / 3) 60"

definition aa_detSpecs :: "spec list" where
  "aa_detSpecs =
    [((item (u ''The model produces SCORES'')
       (join [10]
       [u ''Each alert is scored against a fixed rubric with the temperature'',
        u ''pinned. 500 alerts do not fit one context window and do not try to:'',
        u ''the service chunks them and routes each chunk independently '' @ [0x2014],
        u ''which is also what makes the cost scoreboard interesting.'']))
       \<lparr>st_stroke := Some C_violet, st_background := Some C_bgViolet\<rparr>),
     ((item (u ''Deterministic CODE produces the RANKING'')
       (join [10]
       [u ''The ordering is applied by the lane service, not by the model.'',
        u ''This is the single design choice that makes AC-6 achievable:'',
        u ''same seed and same inputs produce the same order, provably,'',
        u ''on stage. A free-running agent over 500 alerts would not.'']))
       \<lparr>st_stroke := Some C_blue, st_background := Some C_bgBlue, st_strokeWidth := Some 4\<rparr>),
     ((item (u ''Quality is deterministic too '' @ [0x2014] @ u '' never LLM-as-judge'')
       (join [10]
       [u ''Attribution coverage (research), rank agreement against a seeded'',
        u ''ground truth (surveillance), policy conformance (order routing).'',
        u ''All recomputable by the audience. A model-graded number invites'',
        u ''an obvious objection and the demo loses the room defending it.'']))
       \<lparr>st_stroke := Some C_green, st_background := Some C_bgGreen\<rparr>)]"

definition aa_detH :: rat where
  "aa_detH = rowHeight aa_detSpecs (col_width aa_detCols 0)"

definition aa_hitlCols :: ruler where
  "aa_hitlCols = columns (aa_X0 + 40) 4 ((aa_W - 80 - 3 * 50) / 4) 50"

definition aa_hitlSpecs :: "spec list" where
  "aa_hitlSpecs =
    [((item (u ''submit_for_approval'')
       (join [10]
       [u ''The only side-effecting tool in the system.'',
        u ''It writes a proposal plus an evidence packet.'',
        u ''No alert, order or publication changes state.'']))
       \<lparr>st_stroke := Some C_orange, st_background := Some C_bgYellow\<rparr>),
     ((item (u ''PendingApproval  '' @ [0xb7] @ u ''  Cosmos approvals'')
       (join [10]
       [u ''The proposal, the evidence packet exactly as it'',
        u ''will be presented, and the proposing identity.'',
        u ''Partitioned by /correlationId.'']))
       \<lparr>st_stroke := Some C_orange, st_background := Some C_bgYellow\<rparr>),
     ((item (u ''HUMAN approver  '' @ [0xb7] @ u ''  Approver app role'')
       (join [10]
       [u ''Segregation of duties is enforced in the approval API,'',
        u ''not in the UI. The UI renders the control disabled with'',
        u ''the reason; the API refuses the call. Beat 6 shows the'',
        u ''API refusing, because that is the one the audience believes.'']))
       \<lparr>st_stroke := Some C_orange, st_background := Some C_bgYellow, st_strokeWidth := Some 4\<rparr>),
     ((item (u ''Approved '' @ [0x2192] @ u '' executed & audited   '' @ [0xb7] @ u ''   Expired '' @ [0x2192] @ u '' nothing happened'')
       (join [10]
       [u ''An approval persists approver identity, timestamp, decision and'',
        u ''the full evidence packet presented at decision time.'',
        u ''An unapproved proposal EXPIRES. It never auto-executes on'',
        u ''timeout '' @ [0x2014] @ u '' a gate that opens on inaction is not a gate.'']))
       \<lparr>st_stroke := Some C_orange, st_background := Some C_bgYellow, st_strokeWidth := Some 3\<rparr>)]"

definition aa_hitlH :: rat where
  "aa_hitlH = rowHeight aa_hitlSpecs (col_width aa_hitlCols 0)"

definition aa_failCols :: ruler where
  "aa_failCols = columns (aa_X0 + 40) 4 ((aa_W - 80 - 3 * 50) / 4) 50"

definition aa_failSpecs :: "spec list" where
  "aa_failSpecs =
    [(item (u ''Tool error'')
       (join [10]
       [u ''Surfaced to the agent. One retry, then partial'',
        u ''results with the gap explicitly named.''])),
     (item (u ''Model timeout'')
       (join [10]
       [u ''The router returns a routing failure and the lane'',
        u ''reports it. NO silent retry on a different tier '' @ [0x2014],
        u ''that would corrupt the cost figures.''])),
     ((item (u ''No eligible model (policy)'')
       (join [10]
       [u ''Explicit refusal naming the exclusions. Never a'',
        u ''fallback to an unapproved model. A governance'',
        u ''system that degrades OPEN is not a control.'']))
       \<lparr>st_stroke := Some C_red, st_background := Some C_bgRed, st_strokeWidth := Some 3\<rparr>),
     (item (u ''Step budget exceeded'')
       (join [10]
       [u ''Halt, return partial work, log. Foundry caps tool'',
        u ''count and step depth; the surveillance agent is'',
        u ''closest to those limits (verify early, T-027a).'']))]"

definition aa_failH :: rat where
  "aa_failH = rowHeight aa_failSpecs (col_width aa_failCols 0)"

section \<open>Drawing\<close>

definition aa_row :: "handle list build" where
  "aa_row =
     bindB (box_columns aa_cols4 aa_topY aa_rowH aa_rowSpecs) (\<lambda>rowBoxes.
     (let custodian = rowBoxes ! 0 in
     (let agent = rowBoxes ! 1 in
     (let mcp = rowBoxes ! 2 in
     (let dataPlanes = rowBoxes ! 3 in
     thenB (seqB
     [draw_arrow custodian agent
       (arrow_defaults\<lparr>ao_color := C_blue, ao_strokeWidth := 3,
        ao_label := (join [10]
           [u ''thread +'',
            u ''correlationId'']),
        ao_labelWidth := 150, ao_labelDy := (- 60)\<rparr>),
      draw_arrow agent mcp
       (arrow_defaults\<lparr>ao_color := C_violet, ao_strokeWidth := 3, ao_label := (u ''tool call''), ao_labelWidth := 150,
        ao_labelDy := (- 60)\<rparr>),
      draw_arrow mcp dataPlanes
       (arrow_defaults\<lparr>ao_color := C_green, ao_strokeWidth := 3, ao_label := (u ''reads data''), ao_labelWidth := 150,
        ao_labelDy := (- 60)\<rparr>)]) (
     unitB rowBoxes))))))"

definition aa_boundaries :: "(handle \<times> handle) build" where
  "aa_boundaries =
     bindB (draw_box (place ((item (u ''BOUNDARY 2 '' @ [0x2014] @ u '' network enforced:  TOOLS REACH DATA, NEVER MODELS'')
       (join [10]
       [u ''No MCP tool wraps a model invocation. If a tool needs model output it calls the router like any other caller, and that call is routed, priced and recorded.'',
        u ''This is what keeps the cost scoreboard a total rather than a sample: there is no side door through which an unmetered model call can be made.'']))
       \<lparr>st_stroke := Some C_red, st_background := Some C_bgRed, st_strokeWidth := Some 4, st_strokeStyle := Some (u ''dashed'')\<rparr>)
       aa_X0 aa_b2y aa_W None)) (\<lambda>b2.
     (let b1y = hd_y b2 + hd_height b2 + 60 in
     bindB (draw_box (place ((item (u ''BOUNDARY 1 '' @ [0x2014] @ u '' network enforced:  THE AGENT'' @ [39] @ u ''S MODEL ACCESS IS THE ROUTER'' @ [39] @ u ''S'')
       (join [10]
       [u ''Only the router-service identity holds '' @ [34] @ u ''Azure AI Developer'' @ [34] @ u '' on the Foundry project (apps/roles.tf). The lane services have no such assignment and no route to the Foundry data plane.'',
        u ''This is not a convention enforced by code review. It is the reason the cost ceiling is a control rather than a reporting feature: a ceiling services could bypass would be advisory.'']))
       \<lparr>st_stroke := Some C_red, st_background := Some C_bgRed, st_strokeWidth := Some 4, st_strokeStyle := Some (u ''dashed'')\<rparr>)
       aa_X0 b1y aa_W None)) (\<lambda>b1.
     unitB (b2, b1))))"

definition aa_chain :: "handle \<Rightarrow> handle \<Rightarrow> handle \<Rightarrow> rat \<Rightarrow> unit build" where
  "aa_chain agent b2 b1 chainY =
     bindB (box_columns aa_chainCols chainY aa_chainH aa_chainSpecs) (\<lambda>chain.
     seqB
     [draw_arrow (chain ! 0) (chain ! 1)
       (arrow_defaults\<lparr>ao_color := C_blue, ao_strokeWidth := 3\<rparr>),
      draw_arrow (chain ! 1) (chain ! 2)
       (arrow_defaults\<lparr>ao_color := C_green, ao_strokeWidth := 3\<rparr>),
      draw_arrow agent b1
       (arrow_defaults\<lparr>ao_color := C_violet, ao_strokeWidth := 3, ao_strokeStyle := (u ''dashed''),
        ao_sides := Some (SBottom, STop),
        ao_label := (u ''model invocation '' @ [0x2014] @ u '' crosses the boundary only via the router''),
        ao_labelWidth := 620, ao_labelAt := Some (aa_X0 + aa_W - 420, hd_y b2 + hd_height b2 + 30)\<rparr>),
      draw_arrow b1 (chain ! 0)
       (arrow_defaults\<lparr>ao_color := C_red, ao_strokeWidth := 4, ao_sides := Some (SBottom, STop)\<rparr>)])"

definition aa_determinism :: "rat \<Rightarrow> unit build" where
  "aa_determinism detY =
     thenB (draw_group ((group_at aa_X0 detY aa_W (82 + aa_detH + 30))
       \<lparr>gs_label := (u ''REPRODUCIBILITY '' @ [0x2014] @ u '' where the model stops and code starts''),
        gs_sublabel := (u ''The boundary that makes AC-6 (identical ranking for a fixed seed) an achievable claim.''),
        gs_stroke := C_blue, gs_background := C_white, gs_strokeWidth := 3\<rparr>)) (
     bindB (box_columns aa_detCols (detY + 82) aa_detH aa_detSpecs) (\<lambda>detBoxes.
     seqB
     [draw_arrow (detBoxes ! 0) (detBoxes ! 1)
       (arrow_defaults\<lparr>ao_color := C_blue, ao_strokeWidth := 3\<rparr>),
      draw_arrow (detBoxes ! 1) (detBoxes ! 2)
       (arrow_defaults\<lparr>ao_color := C_green, ao_strokeWidth := 3\<rparr>)]))"

definition aa_approval :: "rat \<Rightarrow> unit build" where
  "aa_approval hitlY =
     thenB (draw_group ((group_at aa_X0 hitlY aa_W (82 + aa_hitlH + 30))
       \<lparr>gs_label := (u ''PRINCIPLE I '' @ [0x2014] @ u '' HUMAN IN THE LOOP (NON-NEGOTIABLE)''),
        gs_sublabel := (u ''The agent may propose, rank, draft and evidence. It may not commit.''),
        gs_stroke := C_orange, gs_background := C_white, gs_strokeWidth := 4\<rparr>)) (
     bindB (box_columns aa_hitlCols (hitlY + 82) aa_hitlH aa_hitlSpecs) (\<lambda>hitlBoxes.
     seqB
     [draw_arrow (hitlBoxes ! 0) (hitlBoxes ! 1)
       (arrow_defaults\<lparr>ao_color := C_orange, ao_strokeWidth := 3\<rparr>),
      draw_arrow (hitlBoxes ! 1) (hitlBoxes ! 2)
       (arrow_defaults\<lparr>ao_color := C_orange, ao_strokeWidth := 3\<rparr>),
      draw_arrow (hitlBoxes ! 2) (hitlBoxes ! 3)
       (arrow_defaults\<lparr>ao_color := C_orange, ao_strokeWidth := 3\<rparr>)]))"

definition aa_failures :: "rat \<Rightarrow> unit build" where
  "aa_failures failY =
     thenB (draw_group ((group_at aa_X0 failY aa_W (82 + aa_failH + 30))
       \<lparr>gs_label := (u ''FAILURE MODES '' @ [0x2014] @ u '' each has a defined, demonstrable behaviour''),
        gs_sublabel := (u ''Every one of these is rehearsed. A failure with no defined behaviour is a failure discovered on stage.''),
        gs_stroke := C_ink, gs_background := C_white, gs_strokeWidth := 3\<rparr>)) (
     thenB (box_columns aa_failCols (failY + 82) aa_failH
       (map (spread (no_style\<lparr>st_stroke := Some C_ink, st_background := Some C_white\<rparr>)) aa_failSpecs)) (
     unitB ()))"

definition aa_body :: "unit build" where
  "aa_body =
     thenB (draw_header aa_X0 60 aa_W aa_title aa_subtitle) (
     bindB (aa_row) (\<lambda>rowBoxes.
     bindB (aa_boundaries) (\<lambda>(b2, b1).
     (let chainY = hd_y b1 + hd_height b1 + 60 in
     thenB (aa_chain (rowBoxes ! 1) b2 b1 chainY) (
     (let detY = chainY + aa_chainH + 70 in
     thenB (aa_determinism detY) (
     (let hitlY = detY + 82 + aa_detH + 30 + 70 in
     thenB (aa_approval hitlY) (
     (let failY = hitlY + 82 + aa_hitlH + 30 + 70 in
     thenB (aa_failures failY) (
     (let legendY = failY + 82 + aa_failH + 30 + 60 in
     thenB (draw_legend aa_X0 legendY 1240
       [LEGEND_CHOKEPOINT,
        swatch C_violet C_bgViolet (u ''Model reasoning '' @ [0x2014] @ u '' the non-deterministic part, deliberately fenced.''),
        LEGEND_PRIVATE,
        LEGEND_HUMAN,
        (swatch C_red C_bgRed (u ''Network-enforced boundary, or a refusal path.''))\<lparr>li_strokeStyle := Some (u ''dashed'')\<rparr>,
        LEGEND_ABSENT]
       legend_title) (
     thenB (draw_box (place ((item (u ''Why the router is not an agent'')
       (join [10]
       [u ''The exchange is deterministic code: policy evaluation, complexity scoring, tier selection. It is the component a compliance audience will interrogate line by line'',
        u ''and the assembly under a coverage gate. Making it an agent would mean explaining why the thing that enforces governance is itself non-deterministic.'',
        u ''It is a service, permanently. The same separation appears twice more: evaluate_best_execution_policy decides and the agent explains; the model scores alerts'',
        u ''and the service ranks them. In each case the model reasons and code decides what is permitted.'']))
       \<lparr>st_stroke := Some C_blue, st_background := Some C_white\<rparr>)
       (aa_X0 + 1240 + 60) legendY (aa_W - 1240 - 60) None)) (
     unitB ()))))))))))))))"

definition agentArchitecture :: "js_exn + scene" where
  "agentArchitecture = run_build (u ''03-agent-architecture'') 0x33e6f708 aa_body"

section \<open>The drawing is sound\<close>

lemma aa_lengths: "length aa_rowSpecs = 4" "length aa_chainSpecs = 3" "length aa_detSpecs = 3" "length aa_hitlSpecs = 4"
    "length aa_failSpecs = 4"
  by (simp_all add: aa_rowSpecs_def aa_chainSpecs_def aa_detSpecs_def aa_hitlSpecs_def aa_failSpecs_def)

lemma aa_columns: "length (ru_cols aa_cols4) = 4" "length (ru_cols aa_chainCols) = 3" "length (ru_cols aa_detCols) = 3"
    "length (ru_cols aa_hitlCols) = 4" "length (ru_cols aa_failCols) = 4"
  by (simp_all add: aa_cols4_def aa_chainCols_def aa_detCols_def aa_hitlCols_def aa_failCols_def)

lemma aa_row_sound: "sound H aa_row (\<lambda>hs. length hs = 4) holding"
  unfolding aa_row_def Let_def
  by (rule draw_rules | (auto simp: aa_lengths aa_columns in_row_length; fail))+

lemma aa_boundaries_sound: "sound H aa_boundaries (\<lambda>_. True) (\<lambda>(b2, b1). holding [b2, b1])"
  unfolding aa_boundaries_def by (rule draw_rules | (auto; fail))+

lemma aa_chain_sound:
  "{Holds (hd_id agent), Holds (hd_id b1)} \<subseteq> H \<Longrightarrow> sound H (aa_chain agent b2 b1 chainY) (\<lambda>_. True) (\<lambda>_. {})"
  unfolding aa_chain_def by (rule draw_rules | (auto simp: aa_lengths aa_columns in_row_length; fail))+

lemma aa_determinism_sound: "sound H (aa_determinism detY) (\<lambda>_. True) (\<lambda>_. {})"
  unfolding aa_determinism_def by (rule draw_rules | (auto simp: aa_lengths aa_columns in_row_length; fail))+

lemma aa_approval_sound: "sound H (aa_approval hitlY) (\<lambda>_. True) (\<lambda>_. {})"
  unfolding aa_approval_def by (rule draw_rules | (auto simp: aa_lengths aa_columns in_row_length; fail))+

lemma aa_failures_sound: "sound H (aa_failures failY) (\<lambda>_. True) (\<lambda>_. {})"
  unfolding aa_failures_def by (rule draw_rules | (auto simp: aa_lengths aa_columns in_row_length; fail))+

lemma aa_body_sound:
  "sound H aa_body (\<lambda>_. True) (\<lambda>_. {Shows aa_title 28, Shows aa_subtitle 20, Shows legend_title 20})"
  unfolding aa_body_def
  by (rule aa_row_sound aa_boundaries_sound aa_chain_sound aa_determinism_sound aa_approval_sound aa_failures_sound draw_rules
    | (auto simp: legend_title_def; fail))+

end
