(* ===== verification/UiScreenMap.thy ===== *)
theory UiScreenMap
  imports DiagramParts
begin

text \<open>
  The fourth diagram (\<open>uiScreenMap\<close> in \<open>scripts/diagrams/diagrams.mjs\<close>): the screens in one column per app
  role (the inner function \<open>placeColumn\<close>), the paths between them, the beats and the required view states.
\<close>

section \<open>Layout and content\<close>

definition us_title :: "jsstring" where
  "us_title =
    u ''04 '' @ [0xb7] @ u '' Scoreboard UI '' @ [0x2014] @ u '' twelve screens, grouped by app role''"

definition us_subtitle :: "jsstring" where
  "us_subtitle =
    u ''Conclusion: for the audience the UI is the system, and every beat of the demo has a screen that owns it '' @ [0x2014] @ u '' including the governance surface (/policy) that Beat 5 cannot happen without.''"

definition us_X0 :: rat where
  "us_X0 = 80"

definition us_W :: rat where
  "us_W = 2520"

definition us_topY :: rat where
  "us_topY = 240"

definition us_roleCols :: ruler where
  "us_roleCols = columns us_X0 3 ((us_W - 2 * 160) / 3) 160"

definition us_colW :: rat where
  "us_colW = col_width us_roleCols 0"

definition us_innerW :: rat where
  "us_innerW = us_colW - 60"

definition us_invokeScreens :: "spec list" where
  "us_invokeScreens =
    [((item (u ''1 '' @ [0xb7] @ u '' Request console   /'')
       (join [10]
       [u ''Beats 3 and 5. T-028.'',
        u ''Submits a business request: intent, cost ceiling,'',
        u ''data classification. Exposes classification as a'',
        u ''control '' @ [0x2014] @ u '' it is a property of the REQUEST, not a'',
        u ''routing preference, so it stays inside Principle IV.'']))
       \<lparr>st_stroke := Some C_blue, st_background := Some C_bgBlue\<rparr>),
     ((item (u ''9 '' @ [0xb7] @ u '' Research   /research   '' @ [0x2014] @ u '' WOW D'')
       (join [10]
       [u ''Beat 7. T-033.'',
        u ''Inline citations as clickable superscripts opening the'',
        u ''source chunk; coverage percentage in the header.'',
        u ''The unattributable-claims panel is ALWAYS present and'',
        u ''says '' @ [34] @ u ''no unattributable claims'' @ [34] @ u '' when empty '' @ [0x2014] @ u '' a panel'',
        u ''that only appears on failure teaches the audience it is'',
        u ''an error state rather than a control.'']))
       \<lparr>st_stroke := Some C_violet, st_background := Some C_bgViolet, st_strokeWidth := Some 4\<rparr>),
     ((item (u ''10 '' @ [0xb7] @ u '' Order routing   /orders'')
       (join [10]
       [u ''No beat of its own. T-034.'',
        u ''Every surface showing execution is labelled SIMULATED'',
        u ''on the record itself, not as a corner disclaimer.'']))
       \<lparr>st_stroke := Some C_blue, st_background := Some C_bgBlue\<rparr>)]"

definition us_readScreens :: "spec list" where
  "us_readScreens =
    [((item (u ''2 '' @ [0xb7] @ u '' Live scoreboard   /scoreboard'')
       (join [10]
       [u ''Beat 3. T-029.'',
        u ''5-second refresh; shows the timestamp of the data,'',
        u ''not a spinner. A stale number that admits it is stale'',
        u ''beats a fresh-looking lie.'']))
       \<lparr>st_stroke := Some C_blue, st_background := Some C_bgBlue\<rparr>),
     ((item (u ''3 '' @ [0xb7] @ u '' Cost comparison   /scoreboard/comparison   '' @ [0x2014] @ u '' WOW B'')
       (join [10]
       [u ''Beat 3. T-030.'',
        u ''ONE number dominates: percentage saved against an'',
        u ''all-premium baseline. Per-request tier, cost, latency'',
        u ''and rationale beneath it. The presenter drills a row'',
        u ''mid-sentence and reads the rationale aloud, so the'',
        u ''rationale must be a plain sentence naming the deciding'',
        u ''factor '' @ [0x2014] @ u '' not a JSON blob and not a score.'']))
       \<lparr>st_stroke := Some C_violet, st_background := Some C_bgViolet, st_strokeWidth := Some 4\<rparr>),
     ((item (u ''4 '' @ [0xb7] @ u '' Decision detail   /decisions/:id'')
       (join [10]
       [u ''Beats 3 and 8. T-029.'',
        u ''Complexity inputs, candidate tiers with per-candidate'',
        u ''rejection reasons, policy exclusions, outcome, rationale.'',
        u ''Every number on the scoreboard opens to this.'']))
       \<lparr>st_stroke := Some C_blue, st_background := Some C_bgBlue\<rparr>),
     ((item (u ''5 '' @ [0xb7] @ u '' Surveillance triage   /surveillance   '' @ [0x2014] @ u '' WOW C'')
       (join [10]
       [u ''Beat 4. T-031.'',
        u ''500+ alerts, virtualised list (500 DOM rows stutter on'',
        u ''projector hardware and the stutter reads as '' @ [34] @ u ''this does'',
        u ''not scale'' @ [34] @ u ''). Sorts default to model rank, because the'',
        u ''ranking IS the product. A visible seed indicator carries'',
        u ''the AC-6 reproducibility claim.'']))
       \<lparr>st_stroke := Some C_violet, st_background := Some C_bgViolet, st_strokeWidth := Some 4\<rparr>),
     ((item (u ''6 '' @ [0xb7] @ u '' Alert detail   /surveillance/:id'')
       (join [10]
       [u ''Beat 4. T-031.'',
        u ''Rationale plus assembled evidence. Proposing escalation'',
        u ''from here creates an approval, never an escalation.'']))
       \<lparr>st_stroke := Some C_blue, st_background := Some C_bgBlue\<rparr>),
     ((item (u ''11 '' @ [0xb7] @ u '' Audit reconstruction   /audit/:correlationId'')
       (join [10]
       [u ''Beat 8. T-020.'',
        u ''One query rebuilds the whole chain. The audience picks'',
        u ''the interaction '' @ [0x2014] @ u '' unrehearsed, or it is worth nothing.'']))
       \<lparr>st_stroke := Some C_green, st_background := Some C_bgGreen, st_strokeWidth := Some 3\<rparr>)]"

definition us_approverScreens :: "spec list" where
  "us_approverScreens =
    [((item (u ''7 '' @ [0xb7] @ u '' Approval queue   /approvals'')
       (join [10]
       [u ''Beat 6. T-032.'',
        u ''Pending proposals with their evidence packets, and'',
        u ''expired proposals showing that a timeout produced'',
        u ''no action at all.'']))
       \<lparr>st_stroke := Some C_orange, st_background := Some C_bgYellow\<rparr>),
     ((item (u ''8 '' @ [0xb7] @ u '' Approval detail   /approvals/:id'')
       (join [10]
       [u ''Beat 6. T-032.'',
        u ''The approve control renders DISABLED with the reason'',
        u ''stated when the viewer is the proposer '' @ [0x2014] @ u '' and the API'',
        u ''refuses the call independently. Unauthorised navigation'',
        u ''is hidden; unauthorised ACTIONS are visibly blocked.'',
        u ''Those are different on purpose: a hidden button leaves'',
        u ''nothing to demonstrate.'']))
       \<lparr>st_stroke := Some C_orange, st_background := Some C_bgYellow, st_strokeWidth := Some 4\<rparr>),
     ((item (u ''12 '' @ [0xb7] @ u '' Policy sets   /policy   '' @ [0x2014] @ u '' UNSCHEDULED'')
       (join [10]
       [u ''Beat 5. No task number: this screen does not exist in'',
        u ''the current task list, and Beat 5 cannot run without it.'',
        u ''The vendor toggle has to live in the product '' @ [0x2014] @ u '' doing it'',
        u ''in the Azure portal breaks the claim that governance is'',
        u ''a first-class surface. Read-mostly with a single vendor'',
        u ''toggle is enough.'']))
       \<lparr>st_stroke := Some C_red, st_background := Some C_bgRed, st_strokeWidth := Some 4\<rparr>)]"

definition us_beatCols :: ruler where
  "us_beatCols = columns (us_X0 + 40) 6 ((us_W - 80 - 5 * 40) / 6) 40"

definition us_beats :: "spec list" where
  "us_beats =
    [(item (u ''Beat 2'')
       (join [10]
       [u ''Private by construction.'',
        u ''No screen '' @ [0x2014] @ u '' it is a shell'',
        u ''and a CI job.''])),
     ((item (u ''Beat 3 '' @ [0x2014] @ u '' PRIMARY'')
       (join [10]
       [u ''Router economics.'',
        u ''Screens 1, 2, 3, 4.'']))
       \<lparr>st_stroke := Some C_violet, st_background := Some C_bgViolet\<rparr>),
     ((item (u ''Beat 4 '' @ [0x2014] @ u '' PRIMARY'')
       (join [10]
       [u ''Surveillance triage.'',
        u ''Screens 5, 6.'']))
       \<lparr>st_stroke := Some C_violet, st_background := Some C_bgViolet\<rparr>),
     ((item (u ''Beat 5'')
       (join [10]
       [u ''The model swap.'',
        u ''Screens 12 then 1.'',
        u ''Compress, never cut.'']))
       \<lparr>st_stroke := Some C_red, st_background := Some C_bgRed\<rparr>),
     ((item (u ''Beat 6'')
       (join [10]
       [u ''Human in the loop.'',
        u ''Screens 7, 8.'']))
       \<lparr>st_stroke := Some C_orange, st_background := Some C_bgYellow\<rparr>),
     ((item (u ''Beats 7 & 8'')
       (join [10]
       [u ''Attributed research (9),'',
        u ''then audit from an'',
        u ''unrehearsed pick (11).'']))
       \<lparr>st_stroke := Some C_green, st_background := Some C_bgGreen\<rparr>)]"

definition us_beatH :: rat where
  "us_beatH = rowHeight us_beats (col_width us_beatCols 0)"

definition us_stateCols :: ruler where
  "us_stateCols = columns (us_X0 + 40) 5 ((us_W - 80 - 4 * 40) / 5) 40"

definition us_states :: "spec list" where
  "us_states =
    [(item (u ''Loading'')
       (join [10]
       [u ''Skeleton matching the final'',
        u ''layout. No layout shift on'',
        u ''a projector.''])),
     (item (u ''Empty'')
       (join [10]
       [u ''Explains what would populate'',
        u ''it and how to trigger it.''])),
     (item (u ''Error'')
       (join [10]
       [u ''Names what failed and what'',
        u ''still works. Never a bare'',
        [34] @ u ''Something went wrong'' @ [34] @ u ''.''])),
     (item (u ''Partial'')
       (join [10]
       [u ''Some lanes returned, some did'',
        u ''not. Show what exists, mark'',
        u ''what is missing.''])),
     ((item (u ''Degraded'')
       (join [10]
       [u ''Fallback source or stale data,'',
        u ''labelled inline. A demo that'',
        u ''hides its own failure is one'',
        u ''bad question from collapse.'']))
       \<lparr>st_stroke := Some C_orange, st_background := Some C_bgYellow\<rparr>)]"

definition us_stateH :: rat where
  "us_stateH = rowHeight us_states (col_width us_stateCols 0)"

section \<open>Columns of screens\<close>

text \<open>The object \<open>placeColumn\<close> returns.\<close>

record screen_column =
  co_boxes :: "handle list"
  co_bottom :: rat
  co_group :: handle

text \<open>\<open>screens.map(...)\<close> with the running \<open>y\<close>: \<open>y += heights[i] + 40\<close> after each box.\<close>

fun us_screens :: "rat \<Rightarrow> (spec \<times> rat) list \<Rightarrow> rat \<Rightarrow> handle list build" where
  "us_screens x [] y = unitB []"
| "us_screens x ((s, h) # screens) y =
     bindB (draw_box (place s (x + 30) y us_innerW (Some h))) (\<lambda>b.
     bindB (us_screens x screens (y + (h + 40))) (\<lambda>bs.
     unitB (b # bs)))"

definition us_heights :: "spec list \<Rightarrow> rat list" where
  "us_heights screens = map (\<lambda>s. spec_measure s us_innerW) screens"

definition us_groupH :: "spec list \<Rightarrow> rat" where
  "us_groupH screens = 96 + foldl (\<lambda>a b. a + b + 40) 0 (us_heights screens) - 40 + 30"

definition placeColumn :: "nat \<Rightarrow> jsstring \<Rightarrow> jsstring \<Rightarrow> spec list \<Rightarrow> jsstring \<Rightarrow> screen_column build" where
  "placeColumn index roleTitle roleSub screens stroke =
     (case col_at us_roleCols index of
        None \<Rightarrow> throwB (no_column ''x'')
      | Some (x, _) \<Rightarrow>
          bindB (draw_group ((group_at x us_topY us_colW (us_groupH screens))
            \<lparr>gs_label := roleTitle, gs_sublabel := roleSub, gs_stroke := stroke, gs_background := C_white, gs_strokeWidth := 3\<rparr>)) (\<lambda>g.
          bindB (us_screens x (zip screens (us_heights screens)) (us_topY + 96)) (\<lambda>boxes.
          unitB \<lparr>co_boxes = boxes, co_bottom = us_topY + us_groupH screens, co_group = g\<rparr>)))"

definition us_columns :: "(screen_column \<times> screen_column \<times> screen_column) build" where
  "us_columns =
     bindB (placeColumn 0 (u ''Router.Invoke'')
       (u ''Service-to-service model access through the router. Application member type.'')
       us_invokeScreens C_blue) (\<lambda>invoke.
     bindB (placeColumn 1 (u ''Router.Read'')
       (u ''Read routing decisions and the scoreboard. User and Application.'')
       us_readScreens C_blue) (\<lambda>read.
     bindB (placeColumn 2 (u ''Approver'')
       (u ''Decide on pending proposals. Cannot approve own proposals. User only.'')
       us_approverScreens C_orange) (\<lambda>approver.
     unitB (invoke, read, approver))))"

definition us_bottom :: "screen_column \<Rightarrow> screen_column \<Rightarrow> screen_column \<Rightarrow> rat" where
  "us_bottom =
    (\<lambda>invoke read approver. max (co_bottom invoke) (max (co_bottom read) (co_bottom approver)))"

section \<open>Drawing\<close>

definition us_beat5Detour :: "screen_column \<Rightarrow> rat \<Rightarrow> rat" where
  "us_beat5Detour =
    (\<lambda>approver bottom. bottom - (hd_y ((co_boxes approver) ! 2) + hd_height ((co_boxes approver) ! 2)) + 70)"

definition us_arrows :: "screen_column \<Rightarrow> screen_column \<Rightarrow> screen_column \<Rightarrow> rat \<Rightarrow> unit build" where
  "us_arrows invoke read approver bottom =
     seqB
     [draw_arrow ((co_boxes read) ! 1) ((co_boxes read) ! 2)
       (arrow_defaults\<lparr>ao_color := C_blue, ao_strokeWidth := 3, ao_sides := Some (SLeft, SLeft), ao_elbow := Some ElbowH,
        ao_label := (join [10]
           [u ''drill a row'',
            u ''mid-sentence'']),
        ao_labelWidth := 140, ao_labelDx := (- 80)\<rparr>),
      draw_arrow ((co_boxes read) ! 3) ((co_boxes read) ! 4)
       (arrow_defaults\<lparr>ao_color := C_blue, ao_strokeWidth := 3, ao_sides := Some (SLeft, SLeft), ao_elbow := Some ElbowH,
        ao_label := (join [10]
           [u ''open the'',
            u ''top alert'']),
        ao_labelWidth := 140, ao_labelDx := (- 80)\<rparr>),
      draw_arrow ((co_boxes read) ! 4) ((co_boxes approver) ! 0)
       (arrow_defaults\<lparr>ao_color := C_orange, ao_strokeWidth := 4,
        ao_label := (join [10]
           [u ''propose'',
            u ''escalation '' @ [0x2192],
            u ''it does NOT'',
            u ''escalate'']),
        ao_labelWidth := 150\<rparr>),
      draw_arrow ((co_boxes approver) ! 0) ((co_boxes approver) ! 1)
       (arrow_defaults\<lparr>ao_color := C_orange, ao_strokeWidth := 3, ao_sides := Some (SRight, SRight),
        ao_elbow := Some ElbowH,
        ao_label := (join [10]
           [u ''open the'',
            u ''evidence packet'']),
        ao_labelWidth := 140, ao_labelDx := 80\<rparr>),
      draw_arrow ((co_boxes approver) ! 2) (co_group invoke)
       (arrow_defaults\<lparr>ao_color := C_red, ao_strokeWidth := 5, ao_sides := Some (SBottom, SBottom),
        ao_detour := Some (us_beat5Detour approver bottom),
        ao_label := (u ''BEAT 5: disable a vendor on 12 '' @ [0xb7] @ u '' Policy sets, then resubmit the IDENTICAL request on 1 '' @ [0xb7] @ u '' Request console.  No redeploy, no code change, no prompt change.''),
        ao_labelWidth := 1100, ao_labelAt := Some (us_X0 + us_W / 2, bottom + 100)\<rparr>),
      draw_arrow ((co_boxes read) ! 2) ((co_boxes read) ! 5)
       (arrow_defaults\<lparr>ao_color := C_green, ao_strokeWidth := 3, ao_sides := Some (SRight, SRight),
        ao_elbow := Some ElbowH, ao_label := (u ''correlationId''), ao_labelWidth := 140,
        ao_labelDx := 80\<rparr>)]"

definition us_beat_row :: "rat \<Rightarrow> unit build" where
  "us_beat_row beatY =
     thenB (draw_group ((group_at us_X0 beatY us_W (82 + us_beatH + 30))
       \<lparr>gs_label := (u ''DEMO BEAT '' @ [0x2192] @ u '' SCREEN''),
        gs_sublabel := (u ''Beats 3, 4 and 5 are independent: if a lane service is unhealthy, skip its beat and never debug live.''),
        gs_stroke := C_ink, gs_background := C_white, gs_strokeWidth := 3\<rparr>)) (
     thenB (box_columns us_beatCols (beatY + 82) us_beatH
       (map (spread (no_style\<lparr>st_stroke := Some C_ink, st_background := Some C_white\<rparr>)) us_beats)) (
     unitB ()))"

definition us_state_row :: "rat \<Rightarrow> unit build" where
  "us_state_row stateY =
     thenB (draw_group ((group_at us_X0 stateY us_W (82 + us_stateH + 30))
       \<lparr>gs_label := (u ''EVERY data view implements all five states''),
        gs_sublabel := (u ''The empty state nobody built is the one that renders during the live run.''),
        gs_stroke := C_ink, gs_background := C_white, gs_strokeWidth := 3\<rparr>)) (
     thenB (box_columns us_stateCols (stateY + 82) us_stateH
       (map (spread (no_style\<lparr>st_stroke := Some C_ink, st_background := Some C_white\<rparr>)) us_states)) (
     unitB ()))"

definition us_body :: "unit build" where
  "us_body =
     thenB (draw_header us_X0 60 us_W us_title us_subtitle) (
     bindB (us_columns) (\<lambda>(invoke, read, approver).
     (let bottom = us_bottom invoke read approver in
     thenB (us_arrows invoke read approver bottom) (
     (let beatY = bottom + 170 in
     thenB (us_beat_row beatY) (
     (let stateY = beatY + 82 + us_beatH + 30 + 70 in
     thenB (us_state_row stateY) (
     (let legendY = stateY + 82 + us_stateH + 30 + 60 in
     thenB (draw_legend us_X0 legendY 1180
       [swatch C_violet C_bgViolet (u ''Carries a wow moment. These three screens are the demo.''),
        LEGEND_HUMAN,
        swatch C_green C_bgGreen (u ''Evidence and audit surface '' @ [0x2014] @ u '' drillable to the record behind it.''),
        swatch C_blue C_bgBlue (u ''Supporting screen. Still drillable; nothing on screen is decorative.''),
        swatch C_red C_bgRed (u ''Required by a beat but NOT in the task list. Build it or lose Beat 5.'')]
       legend_title) (
     thenB (draw_box (place ((item (u ''Rules the whole UI obeys'')
       (join [10]
       [u ''The audience reads this from ten feet away: every screen has one number that is deliberately the largest thing on it.'',
        u ''Nothing may look rehearsed '' @ [0x2014] @ u '' no pre-baked screenshots, no seeded animations. If a value is on screen it came from the API just now.'',
        u ''Every claim is drillable: a number a presenter cannot open is a number the audience assumes is decorative.'',
        u ''Polling at 5s with refetchOnWindowFocus disabled, so a presenter alt-tabbing does not trigger a visible refetch mid-sentence.'',
        u ''Types are generated from contracts/*.md, never hand-written, because hand-written types drift and the drift surfaces during a demo.'']))
       \<lparr>st_stroke := Some C_blue, st_background := Some C_white\<rparr>)
       (us_X0 + 1180 + 60) legendY (us_W - 1180 - 60) None)) (
     unitB ())))))))))))"

definition uiScreenMap :: "js_exn + scene" where
  "uiScreenMap = run_build (u ''04-ui-screen-map'') 0x44081920 us_body"

section \<open>The drawing is sound\<close>

lemma us_lengths: "length us_invokeScreens = 3" "length us_readScreens = 6" "length us_approverScreens = 3"
    "length us_beats = 6" "length us_states = 5"
  by (simp_all add: us_invokeScreens_def us_readScreens_def us_approverScreens_def us_beats_def us_states_def)

lemma us_columns_lengths: "length (ru_cols us_roleCols) = 3" "length (ru_cols us_beatCols) = 6" "length (ru_cols us_stateCols) = 5"
  by (simp_all add: us_roleCols_def us_beatCols_def us_stateCols_def)

text \<open>The running \<open>y\<close> of the screens makes a stack with gap 40.\<close>

abbreviation fixed_items :: "(spec \<times> rat) list \<Rightarrow> (spec \<times> rat option) list" where
  "fixed_items \<equiv> map (\<lambda>(s, h). (s, Some h))"

lemma us_screens_sound:
  "sound H (us_screens x screens y) (\<lambda>hs. \<exists>y'. stacked (x + 30) us_innerW 40 y (fixed_items screens) hs y') holding"
proof (induction screens arbitrary: y H)
  case Nil
  then show ?case by (simp add: sound_unit)
next
  case (Cons it screens)
  obtain s h where it: "it = (s, h)" by fastforce
  show ?case
    unfolding it us_screens.simps
    by (rule sound_bind [OF sound_place], rule sound_bind [OF Cons.IH], rule sound_unit)
      (auto simp: dflt_def add.assoc dest: frame_eqD)
qed

text \<open>What \<open>placeColumn\<close> draws.\<close>

definition column_drawn :: "nat \<Rightarrow> spec list \<Rightarrow> screen_column \<Rightarrow> bool" where
  "column_drawn index screens c \<longleftrightarrow>
     frame (co_group c) = (col_x us_roleCols index, us_topY, us_colW, us_groupH screens)
     \<and> co_bottom c = us_topY + us_groupH screens
     \<and> (\<exists>y'. stacked (col_x us_roleCols index + 30) us_innerW 40 (us_topY + 96)
          (fixed_items (zip screens (us_heights screens))) (co_boxes c) y')"

lemma placeColumn_sound:
  assumes "index < 3"
  shows "sound H (placeColumn index roleTitle roleSub screens stroke) (column_drawn index screens)
    (\<lambda>c. holding (co_group c # co_boxes c))"
proof -
  have col: "col_at us_roleCols index = Some (col_x us_roleCols index, snd (ru_cols us_roleCols ! index))"
    using assms by (simp add: col_at_def col_x_def us_columns_lengths)
  show ?thesis
    unfolding placeColumn_def col option.case prod.case
    by (rule us_screens_sound draw_rules | (auto simp: column_drawn_def group_at_def; fail))+
qed

lemma column_length: "column_drawn i screens c \<Longrightarrow> length (co_boxes c) = length screens"
  by (auto simp: column_drawn_def us_heights_def dest!: stacked_length)

lemma us_columns_sound:
  "sound H us_columns
     (\<lambda>(invoke, read, approver). column_drawn 0 us_invokeScreens invoke \<and> column_drawn 1 us_readScreens read
        \<and> column_drawn 2 us_approverScreens approver)
     (\<lambda>(invoke, read, approver). holding (co_group invoke # co_boxes invoke @ co_boxes read @ co_boxes approver))"
  unfolding us_columns_def by (rule placeColumn_sound draw_rules | (auto; fail))+

lemma us_arrows_sound:
  assumes "\<And>h. h \<in> set (co_group invoke # co_boxes invoke @ co_boxes read @ co_boxes approver) \<Longrightarrow> Holds (hd_id h) \<in> H"
    and "length (co_boxes read) = 6" "length (co_boxes approver) = 3"
  shows "sound H (us_arrows invoke read approver bottom) (\<lambda>_. True) (\<lambda>_. {})"
  unfolding us_arrows_def by (rule draws | (simp add: assms; fail))+

lemma us_beat_row_sound: "sound H (us_beat_row beatY) (\<lambda>_. True) (\<lambda>_. {})"
  unfolding us_beat_row_def by (rule draw_rules | (simp add: us_lengths us_columns_lengths; fail))+

lemma us_state_row_sound: "sound H (us_state_row stateY) (\<lambda>_. True) (\<lambda>_. {})"
  unfolding us_state_row_def by (rule draw_rules | (simp add: us_lengths us_columns_lengths; fail))+

lemma sound_bind_triple:
  "sound H m V R \<Longrightarrow> (\<And>a b c. V (a, b, c) \<Longrightarrow> sound (H \<union> R (a, b, c)) (f a b c) V' R') \<Longrightarrow>
     sound H (bindB m (\<lambda>(a, b, c). f a b c)) V' R'"
  by (erule sound_bind) (auto split: prod.split)

lemma us_body_sound:
  "sound H us_body (\<lambda>_. True) (\<lambda>_. {Shows us_title 28, Shows us_subtitle 20, Shows legend_title 20})"
  unfolding us_body_def
  by (rule us_columns_sound us_arrows_sound us_beat_row_sound us_state_row_sound sound_bind_triple draw_rules
    | (auto simp: legend_title_def us_lengths column_length; fail))+

section \<open>The picture\<close>

lemma fixed_heights: "list_all (\<lambda>it. 0 \<le> item_height w it) (fixed_items (zip screens (us_heights screens)))"
  using order_trans [OF _ spec_measure_at_least]
  by (auto simp: list_all_iff item_height_def dflt_def set_zip us_heights_def)

lemma fixed_item_heights: "map (item_height w) (fixed_items (zip screens (us_heights screens))) = us_heights screens"
  by (auto simp: item_height_def dflt_def us_heights_def intro!: nth_equalityI)

text \<open>A column frames its screens: 30 at the sides and below, 40 between them.\<close>

definition framed :: "screen_column \<Rightarrow> bool" where
  "framed c \<longleftrightarrow> apart 40 (co_boxes c) \<and> co_bottom c = hd_y (co_group c) + hd_height (co_group c)
     \<and> list_all (\<lambda>h. inside h (co_group c) \<and> hd_x h = hd_x (co_group c) + 30
          \<and> hd_x h + hd_width h + 30 = hd_x (co_group c) + hd_width (co_group c)
          \<and> hd_y h + hd_height h + 30 \<le> co_bottom c) (co_boxes c)"

lemma column_framed:
  assumes "column_drawn i screens c"
  shows "framed c"
proof -
  from assms obtain y' where f: "frame (co_group c) = (col_x us_roleCols i, us_topY, us_colW, us_groupH screens)"
    and b: "co_bottom c = us_topY + us_groupH screens"
    and st: "stacked (col_x us_roleCols i + 30) us_innerW 40 (us_topY + 96)
      (fixed_items (zip screens (us_heights screens))) (co_boxes c) y'"
    by (auto simp: column_drawn_def)
  note g = frame_eqD [OF f]
  have y': "y' = co_bottom c + 10"
    using stacked_end [OF st] by (simp only: fixed_item_heights) (simp add: b us_groupH_def)
  have "hd_x h = col_x us_roleCols i + 30 \<and> hd_width h = us_innerW \<and> us_topY + 96 \<le> hd_y h \<and> hd_y h + hd_height h + 30 \<le> co_bottom c"
    if "h \<in> set (co_boxes c)" for h
    using stacked_member [OF st _ fixed_heights that] y' by simp
  moreover have "apart 40 (co_boxes c)"
    by (rule stacked_apart [OF st _ fixed_heights]) simp
  ultimately show ?thesis
    using g b by (fastforce simp: framed_def list_all_iff inside_def us_innerW_def)
qed


end
