(* ===== verification/SrcArchitecture.thy ===== *)
theory SrcArchitecture
  imports DiagramParts
begin

text \<open>
  The fifth diagram (\<open>srcArchitecture\<close> in \<open>scripts/diagrams/diagrams.mjs\<close>): the edge, the services, the
  domain assemblies, what is not implemented, and the tests.
\<close>

section \<open>Layout and content\<close>

definition sa_title :: "jsstring" where
  "sa_title =
    u ''05 '' @ [0xb7] @ u '' src/ code map '' @ [0x2014] @ u '' what is built, what is deliberately empty''"

definition sa_subtitle :: "jsstring" where
  "sa_subtitle =
    u ''Conclusion: the governed decision path is real, dependency-free, exhaustively tested code; the model invocation and the three lane services are NOT implemented, and nothing in the repository fakes them.''"

definition sa_X0 :: rat where
  "sa_X0 = 80"

definition sa_W :: rat where
  "sa_W = 2720"

definition sa_INNER_X :: rat where
  "sa_INNER_X = sa_X0 + 40"

definition sa_INNER_W :: rat where
  "sa_INNER_W = sa_W - 80"

definition sa_edgeY :: rat where
  "sa_edgeY = 210"

definition sa_edgeCols :: ruler where
  "sa_edgeCols = columns sa_INNER_X 2 ((sa_INNER_W - 40) / 2) 40"

definition sa_edgeItems :: "spec list" where
  "sa_edgeItems =
    [((item (u ''src/webui  '' @ [0xb7] @ u ''  Vite + React + TypeScript'')
       (join [10]
       [u ''api/client.ts + api/types.generated.ts '' @ [0x2014] @ u '' types are GENERATED from the'',
        u ''contracts by scripts/generate-api-types.mjs and drift-checked in CI.'',
        u ''shell/navigation.ts, ErrorBoundary.tsx, PlaceholderScreen.tsx'',
        u ''state/asyncState.ts + AsyncBoundary.tsx '' @ [0x2014] @ u '' the five required view states.'',
        u ''Screens are still PlaceholderScreen: the shell is real, the beats are not.'']))
       \<lparr>st_stroke := Some C_blue, st_background := Some C_bgBlue\<rparr>),
     ((item (u ''tools/Fcmr.CosmosProvision  '' @ [0xb7] @ u ''  console'')
       (join [10]
       [u ''Creates the six containers in the local Cosmos emulator, which Terraform'',
        u ''cannot reach. The duplication with infrastructure/cosmos.tf is deliberate'',
        u ''and guarded: scripts/policy-cosmos-containers-match.sh fails the build if'',
        u ''the two ever disagree about a name or a partition key.'']))
       \<lparr>st_stroke := Some C_ink, st_background := Some C_white\<rparr>)]"

definition sa_edgeH :: rat where
  "sa_edgeH = rowHeight sa_edgeItems (col_width sa_edgeCols 0)"

definition sa_svcY :: rat where
  "sa_svcY = sa_edgeY + sa_edgeH + 120"

definition sa_svcCols :: ruler where
  "sa_svcCols = columns sa_INNER_X 2 ((sa_INNER_W - 40) / 2) 40"

definition sa_svcItems :: "spec list" where
  "sa_svcItems =
    [((item (u ''src/router-service  '' @ [0xb7] @ u ''  the only path to a model'')
       (join [10]
       [u ''Routing/RouteRequestHandler.cs '' @ [0x2014] @ u '' POST /v1/route. Translates HTTP only.'',
        u ''Contracts/RouteRequestValidator.cs '' @ [0xb7] @ u '' Routing/RouteStatusMapper.cs'',
        u ''Configuration/ModelCatalog.cs + RouterOptions.cs'',
        u ''Security/RouterAuthorization.cs '' @ [0x2014] @ u '' Router.Invoke app role'',
        u ''Correlation/CorrelationIdMiddleware.cs '' @ [0x2014] @ u '' one id, end to end'',
        u ''Persistence/{RoutingDecisionStore, CosmosRoutingDecisionStore, CosmosClientFactory}.cs'',
        u ''Telemetry/TelemetryRegistration.cs '' @ [0xb7] @ u '' Health/DecisionStoreHealthCheck.cs'']))
       \<lparr>st_stroke := Some C_blue, st_background := Some C_bgBlue\<rparr>),
     ((item (u ''src/approvals-service  '' @ [0xb7] @ u ''  the human gate'')
       (join [10]
       [u ''Endpoints/ApprovalEndpoints.cs '' @ [0x2014] @ u '' propose '' @ [0xb7] @ u '' approve '' @ [0xb7] @ u '' reject '' @ [0xb7] @ u '' get.'',
        u ''Security/ApprovalsAuthorization.cs '' @ [0x2014] @ u '' Proposer and Approver app roles,'',
        u ''caller identity read from the token oid claim, never from the body (ADR-011).'',
        u ''Persistence/ApprovalStore.cs '' @ [0x2014] @ u '' IN-MEMORY today; Cosmos is T-014a.'',
        u ''Every refusal is audited too: '' @ [34] @ u ''someone tried to approve their own'',
        u ''proposal and was stopped'' @ [34] @ u '' is the record an auditor comes looking for.'']))
       \<lparr>st_stroke := Some C_orange, st_background := Some C_bgYellow\<rparr>)]"

definition sa_svcH :: rat where
  "sa_svcH = rowHeight sa_svcItems (col_width sa_svcCols 0)"

definition sa_domY :: rat where
  "sa_domY = sa_svcY + sa_svcH + 130"

definition sa_domCols :: ruler where
  "sa_domCols = columns (sa_INNER_X + 20) 3 ((sa_INNER_W - 40 - 2 * 40) / 3) 40"

definition sa_domItems :: "spec list" where
  "sa_domItems =
    [((item (u ''src/Fcmr.Router.Decisions'')
       (join [10]
       [u ''ZERO dependencies, by design.'',
        u ''PolicyGate.cs '' @ [0x2014] @ u '' runs FIRST'',
        u ''ComplexityScorer.cs '' @ [0x2014] @ u '' pure'',
        u ''TierSelector.cs '' @ [0xb7] @ u '' RoutingPlanner.cs'',
        u ''PolicySetRepository + Validation'',
        u ''RoutingDecision '' @ [0xb7] @ u '' ModelTier '' @ [0xb7] @ u '' ModelVendor'',
        [],
        u ''No ASP.NET, no Azure SDK, no clock.'',
        u ''That is what makes it exhaustively'',
        u ''testable '' @ [0x2014] @ u '' and it is coverage-gated'',
        u ''at 70%, checked by scripts/check-coverage.sh.'']))
       \<lparr>st_stroke := Some C_blue, st_background := Some C_bgBlue\<rparr>),
     ((item (u ''src/Fcmr.Approvals.Domain'')
       (join [10]
       [u ''ApprovalStateMachine.cs '' @ [0xb7] @ u '' Approval.cs'',
        u ''ApprovalState / Command / Refusal'',
        u ''EvidencePacket.cs '' @ [0xb7] @ u '' ExecutionGate.cs'',
        u ''ApprovalAuditEvent.cs'',
        [],
        u ''Nothing here can execute anything.'',
        u ''The strongest statement it can make'',
        u ''is an ExecutionGate '' @ [0x2014] @ u '' an authorisation,'',
        u ''not a receipt. Whatever acts must'',
        u ''present one (ADR-008).'']))
       \<lparr>st_stroke := Some C_orange, st_background := Some C_bgYellow\<rparr>),
     ((item (u ''src/Fcmr.Demo.Data'')
       (join [10]
       [u ''DemoDataGenerator.cs'',
        u ''DemoUniverse.cs '' @ [0xb7] @ u '' DemoRecords.cs'',
        u ''DeterministicRandom.cs'',
        [],
        u ''Synthetic only, seeded, committed.'',
        u ''The generated volume is gitignored,'',
        u ''so the repository carries the recipe'',
        u ''rather than the data (Principle VII).'',
        u ''No real counterparty exists anywhere.'']))
       \<lparr>st_stroke := Some C_green, st_background := Some C_bgGreen\<rparr>)]"

definition sa_domH :: rat where
  "sa_domH = rowHeight sa_domItems (col_width sa_domCols 0)"

definition sa_gapY :: rat where
  "sa_gapY = sa_domY + sa_domH + 150"

definition sa_gapCols :: ruler where
  "sa_gapCols = columns (sa_INNER_X + 20) 4 ((sa_INNER_W - 40 - 3 * 40) / 4) 40"

definition sa_gapItems :: "spec list" where
  "sa_gapItems =
    [(item (u ''src/research-service'')
       (join [10]
       [u ''README.md only.'',
        u ''No .csproj, no code.'',
        u ''Task T-023.''])),
     (item (u ''src/surveillance-service'')
       (join [10]
       [u ''README.md only.'',
        u ''No .csproj, no code.'',
        u ''Task T-024.''])),
     (item (u ''src/orderrouting-service'')
       (join [10]
       [u ''README.md only.'',
        u ''No .csproj, no code.'',
        u ''Task T-025.''])),
     (item (u ''Model invocation'')
       (join [10]
       [u ''RouteRequestHandler returns'',
        u ''InferenceState.NotInvoked.'',
        u ''No vendor is called yet.'',
        u ''ADR-007 forbids a canned'',
        u ''reply standing in for one.'']))]"

definition sa_gapH :: rat where
  "sa_gapH = rowHeight sa_gapItems (col_width sa_gapCols 0)"

definition sa_testY :: rat where
  "sa_testY = sa_gapY + sa_gapH + 150"

definition sa_testCols :: ruler where
  "sa_testCols = columns (sa_INNER_X + 20) 6 ((sa_INNER_W - 40 - 5 * 40) / 6) 40"

definition sa_testItems :: "spec list" where
  "sa_testItems =
    [(item (u ''Router.Decisions.Tests'')
       (join [10]
       [u ''The 70% gate.'',
        u ''Pure unit tests.''])),
     (item (u ''Approvals.Domain.Tests'')
       (join [10]
       [u ''State machine and'',
        u ''segregation of duties.''])),
     (item (u ''RouterService.Tests'')
       (join [10]
       [u ''Handler, validator,'',
        u ''status mapping.''])),
     (item (u ''Contract.Tests'')
       (join [10]
       [u ''Both APIs through'',
        u ''their published surface.''])),
     (item (u ''Persistence.Tests'')
       (join [10]
       [u ''Real Cosmos emulator.'',
        u ''Fails loudly, never skips.''])),
     (item (u ''Demo.Data.Tests'') (u ''Generator determinism.''))]"

definition sa_testH :: rat where
  "sa_testH = rowHeight sa_testItems (col_width sa_testCols 0)"

section \<open>Drawing\<close>

definition sa_edge :: "handle list build" where
  "sa_edge =
     box_row sa_edgeCols sa_edgeY (col_width sa_edgeCols 0) sa_edgeH sa_edgeItems"

definition sa_svc :: "handle list build" where
  "sa_svc =
     box_row sa_svcCols sa_svcY (col_width sa_svcCols 0) sa_svcH sa_svcItems"

definition sa_dom :: "handle list build" where
  "sa_dom =
     thenB (draw_group ((group_at sa_X0 (sa_domY - 84) sa_W (84 + sa_domH + 34))
       \<lparr>gs_label := (u ''DOMAIN ASSEMBLIES '' @ [0x2014] @ u '' the rules live here, never in an endpoint''),
        gs_sublabel := (u ''Handlers translate HTTP and nothing else. A rule reachable only through a controller is a rule that can only be tested through a socket.''),
        gs_stroke := C_ink, gs_background := C_white, gs_strokeWidth := 3\<rparr>)) (
     box_row sa_domCols sa_domY (col_width sa_domCols 0) sa_domH sa_domItems)"

definition sa_gap :: "handle list build" where
  "sa_gap =
     thenB (draw_group ((group_at sa_X0 (sa_gapY - 84) sa_W (84 + sa_gapH + 34))
       \<lparr>gs_label := (u ''NOT IMPLEMENTED '' @ [0x2014] @ u '' and drawn here so the gap is visible rather than assumed''),
        gs_sublabel := (u ''Awaiting the Azure subscription window. ADR-007: when a dependency is unreachable the system says which one and refuses '' @ [0x2014] @ u '' it never substitutes a recorded result.''),
        gs_stroke := C_red, gs_background := C_white, gs_strokeWidth := 3, gs_strokeStyle := (u ''dashed'')\<rparr>)) (
     box_row sa_gapCols sa_gapY (col_width sa_gapCols 0) sa_gapH
       (map (\<lambda>s. s\<lparr>st_stroke := Some C_red, st_background := Some C_white, st_strokeStyle := Some (u ''dashed'')\<rparr>) sa_gapItems))"

definition sa_test :: "handle list build" where
  "sa_test =
     thenB (draw_group ((group_at sa_X0 (sa_testY - 84) sa_W (84 + sa_testH + 34))
       \<lparr>gs_label := (u ''tests/ '' @ [0x2014] @ u '' six projects''),
        gs_sublabel := (u ''The persistence suite runs against a real Cosmos engine in Docker and fails with instructions when it is absent, rather than skipping green.''),
        gs_stroke := C_green, gs_background := C_bgGreen, gs_strokeWidth := 3\<rparr>)) (
     box_row sa_testCols sa_testY (col_width sa_testCols 0) sa_testH
       (map (\<lambda>s. s\<lparr>st_stroke := Some C_green, st_background := Some C_white, st_titleSize := Some 18\<rparr>) sa_testItems))"

definition sa_arrows :: "handle list \<Rightarrow> handle list \<Rightarrow> handle list \<Rightarrow> unit build" where
  "sa_arrows edge svc doms =
     seqB
     [draw_arrow (edge ! 0) (svc ! 0)
       (arrow_defaults\<lparr>ao_sides := Some (SBottom, STop),
        ao_label := (join [10]
           [u ''POST /v1/route'',
            u ''Entra token'']),
        ao_color := C_blue\<rparr>),
      draw_arrow (edge ! 0) (svc ! 1)
       (arrow_defaults\<lparr>ao_sides := Some (SBottom, STop), ao_elbow := Some ElbowH,
        ao_label := (join [10]
           [u ''propose / approve'',
            u ''two distinct identities'']),
        ao_color := C_orange,
        ao_labelAt := Some ((hd_cx (edge ! 0) + hd_cx (svc ! 1)) / 2, sa_edgeY + sa_edgeH + 62)\<rparr>),
      draw_arrow (svc ! 0) (doms ! 0)
       (arrow_defaults\<lparr>ao_sides := Some (SBottom, STop), ao_label := (u ''the whole decision''), ao_color := C_blue,
        ao_labelDy := (- 34)\<rparr>),
      draw_arrow (svc ! 1) (doms ! 1)
       (arrow_defaults\<lparr>ao_sides := Some (SBottom, STop), ao_label := (u ''the whole ruleset''), ao_color := C_orange,
        ao_labelDy := (- 34)\<rparr>)]"

definition sa_legendY :: rat where
  "sa_legendY = sa_testY + sa_testH + 110"

definition sa_body :: "unit build" where
  "sa_body =
     thenB (draw_header sa_X0 60 sa_W sa_title sa_subtitle) (
     bindB (sa_edge) (\<lambda>edge.
     bindB (sa_svc) (\<lambda>svc.
     bindB (sa_dom) (\<lambda>doms.
     thenB (sa_gap) (
     thenB (sa_test) (
     thenB (sa_arrows edge svc doms) (
     thenB (draw_legend sa_X0 sa_legendY 1260
       [LEGEND_CHOKEPOINT,
        LEGEND_HUMAN,
        swatch C_green C_bgGreen (u ''Synthetic data and the tests that prove the rest.''),
        (swatch C_red C_white (u ''NOT implemented. README only, or an explicit NotInvoked.''))\<lparr>li_strokeStyle := Some (u ''dashed'')\<rparr>]
       legend_title) (
     thenB (draw_box (place ((item (u ''How to read this repository in the right order'')
       (join [10]
       [u ''Start at src/Fcmr.Router.Decisions. It has no dependencies, it holds every routing rule, and it is the only assembly the demo'' @ [39] @ u ''s central claim actually rests on '' @ [0x2014] @ u '' governance decides, the application does not.'',
        u ''Then src/Fcmr.Approvals.Domain, which holds the human gate and, deliberately, no ability to act on it.'',
        u ''The services above them are thin on purpose: if you find a rule inside an endpoint, that is a defect, not a shortcut.'',
        u ''Everything in the dashed red band is absent, not hidden. The demo can currently prove its governance and its privacy; it cannot yet prove an end-to-end model call, and it does not pretend to.'']))
       \<lparr>st_stroke := Some C_blue, st_background := Some C_white\<rparr>)
       (sa_X0 + 1260 + 60) sa_legendY (sa_W - 1260 - 60) None)) (
     unitB ())))))))))"

definition srcArchitecture :: "js_exn + scene" where
  "srcArchitecture = run_build (u ''05-src-architecture'') 0x55d6e7f8 sa_body"

section \<open>The drawing is sound\<close>

lemma sa_lengths: "length sa_edgeItems = 2" "length sa_svcItems = 2" "length sa_domItems = 3" "length sa_gapItems = 4"
    "length sa_testItems = 6"
  by (simp_all add: sa_edgeItems_def sa_svcItems_def sa_domItems_def sa_gapItems_def sa_testItems_def)

lemma sa_columns: "length (ru_cols sa_edgeCols) = 2" "length (ru_cols sa_svcCols) = 2" "length (ru_cols sa_domCols) = 3"
    "length (ru_cols sa_gapCols) = 4" "length (ru_cols sa_testCols) = 6"
  by (simp_all add: sa_edgeCols_def sa_svcCols_def sa_domCols_def sa_gapCols_def sa_testCols_def)

lemma sa_rows_sound:
  "sound H sa_edge (\<lambda>hs. length hs = 2) holding" "sound H sa_svc (\<lambda>hs. length hs = 2) holding"
  "sound H sa_dom (\<lambda>hs. length hs = 3) holding" "sound H sa_gap (\<lambda>hs. length hs = 4) holding"
  "sound H sa_test (\<lambda>hs. length hs = 6) holding"
  unfolding sa_edge_def sa_svc_def sa_dom_def sa_gap_def sa_test_def
  by (rule sound_then sound_group sound_conseq [OF sound_box_row] | (simp add: sa_lengths sa_columns in_row_length; fail))+

lemma sa_arrows_sound:
  assumes "\<And>h. h \<in> set (edge @ svc @ doms) \<Longrightarrow> Holds (hd_id h) \<in> H"
    and "length edge = 2" "length svc = 2" "length doms = 3"
  shows "sound H (sa_arrows edge svc doms) (\<lambda>_. True) (\<lambda>_. {})"
  unfolding sa_arrows_def by (rule draws | (simp add: assms; fail))+

lemma sa_body_sound:
  "sound H sa_body (\<lambda>_. True) (\<lambda>_. {Shows sa_title 28, Shows sa_subtitle 20, Shows legend_title 20})"
  unfolding sa_body_def
  by (rule sa_rows_sound sa_arrows_sound draw_rules | (auto simp: legend_title_def; fail))+

end
