(* ===== verification/RenderSvg.thy ===== *)
theory RenderSvg
  imports SceneLaws
begin

text \<open>
  The SVG renderer (\<open>scripts/diagrams/render-svg.mjs\<close>): escaping, number formatting, one function per
  element type, the bounds, and \<open>renderSvg\<close>, which throws on an empty scene and on an element type it
  has no renderer for.  \<open>Math.hypot\<close>, \<open>Math.atan2\<close>, \<open>Math.cos\<close>, \<open>Math.sin\<close> and \<open>Math.PI\<close>, whose values
  the language leaves to the implementation, are the fields of an argument.
\<close>

record js_math =
  m_hypot :: "rat \<Rightarrow> rat \<Rightarrow> rat"
  m_atan2 :: "rat \<Rightarrow> rat \<Rightarrow> rat"
  m_cos :: "rat \<Rightarrow> rat"
  m_sin :: "rat \<Rightarrow> rat"
  m_PI :: rat

definition PADDING :: rat where "PADDING = 40"
definition ASCENT :: rat where "ASCENT = 8 / 10"
definition CORNER_RADIUS :: rat where "CORNER_RADIUS = 10"
definition ARROWHEAD_LENGTH :: rat where "ARROWHEAD_LENGTH = 16"
definition ARROWHEAD_ANGLE :: "js_math \<Rightarrow> rat" where "ARROWHEAD_ANGLE m = m_PI m / 7"

definition sq :: "string \<Rightarrow> jsstring" where
  "sq s = [39] @ u s @ [39]"

definition FONT_STACK :: "int \<Rightarrow> jsstring option" where
  "FONT_STACK f =
     (if f = FONT_hand then Some (u ''Excalifont, Virgil, '' @ sq ''Segoe UI'' @ u '', '' @ sq ''Helvetica Neue'' @ u '', Arial, sans-serif'')
      else if f = FONT_helvetica then Some (sq ''Helvetica Neue'' @ u '', Helvetica, Arial, '' @ sq ''Segoe UI'' @ u '', sans-serif'')
      else if f = FONT_mono then Some (u ''ui-monospace, '' @ sq ''Cascadia Mono'' @ u '', '' @ sq ''SF Mono'' @ u '', Menlo, Consolas, monospace'')
      else None)"

section \<open>Escaping and numbers\<close>

text \<open>\<open>s.replace(/c/g, t)\<close> for one code unit.\<close>

definition replace_char :: "jschar \<Rightarrow> jsstring \<Rightarrow> jsstring \<Rightarrow> jsstring" where
  "replace_char c t s = concat (map (\<lambda>x. if x = c then t else [x]) s)"

definition escapeXml :: "jsstring \<Rightarrow> jsstring" where
  "escapeXml s =
     replace_char 34 (u ''&quot;'') (replace_char 62 (u ''&gt;'') (replace_char 60 (u ''&lt;'')
       (replace_char 38 (u ''&amp;'') s)))"

definition num :: "rat \<Rightarrow> jsstring" where
  "num n = num_text (round2 n)"

text \<open>A double-quoted attribute, as the templates write it.\<close>

definition qattr :: "string \<Rightarrow> jsstring \<Rightarrow> jsstring" where
  "qattr k v = u k @ [61, 34] @ v @ [34]"

definition dashArray :: "jsstring \<Rightarrow> rat \<Rightarrow> jsstring option" where
  "dashArray strokeStyle strokeWidth =
     (if strokeStyle = u ''dashed'' then Some (num (strokeWidth * 4) @ [32] @ num (strokeWidth * 4))
      else if strokeStyle = u ''dotted'' then Some (num (strokeWidth * (1 / 2)) @ [32] @ num (strokeWidth * 3))
      else None)"

definition strokeAttrs :: "element \<Rightarrow> jsstring" where
  "strokeAttrs e = join [32]
     ([qattr ''stroke'' (escapeXml (el_strokeColor e)), qattr ''stroke-width'' (num (el_strokeWidth e))]
      @ (case dashArray (el_strokeStyle e) (el_strokeWidth e) of None \<Rightarrow> [] | Some d \<Rightarrow> [qattr ''stroke-dasharray'' d])
      @ [qattr ''stroke-linecap'' (u ''round''), qattr ''stroke-linejoin'' (u ''round'')])"

definition cornerRadius :: "element \<Rightarrow> rat" where
  "cornerRadius e =
     (case el_roundness e of None \<Rightarrow> 0
      | Some _ \<Rightarrow> min 32 (min (el_width e) (el_height e) * (1 / 4)))"

section \<open>Rectangles and text\<close>

definition renderRectangle :: "element \<Rightarrow> jsstring" where
  "renderRectangle e =
     (let fill = (if el_backgroundColor e = [] \<or> el_backgroundColor e = u ''transparent'' then u ''none''
            else el_backgroundColor e);
          r = cornerRadius e
      in u ''<rect '' @ qattr ''x'' (num (el_x e)) @ [32] @ qattr ''y'' (num (el_y e)) @ [32]
         @ qattr ''width'' (num (el_width e)) @ [32] @ qattr ''height'' (num (el_height e))
         @ (if r > 0 then [32] @ qattr ''rx'' (num r) @ [32] @ qattr ''ry'' (num r) else [])
         @ [32] @ qattr ''fill'' (escapeXml fill) @ [32] @ strokeAttrs e @ u '' />'')"

text \<open>One \<open>tspan\<close> per line; an empty line keeps its own.\<close>

definition tspans :: "rat \<Rightarrow> rat \<Rightarrow> rat \<Rightarrow> jsstring list \<Rightarrow> jsstring list" where
  "tspans x firstBaseline lineHeight lines =
     map (\<lambda>(i, line). u ''<tspan '' @ qattr ''x'' (num x) @ [32] @ qattr ''y'' (num (firstBaseline + of_nat i * lineHeight))
       @ u ''>'' @ escapeXml line @ u ''</tspan>'') (zip [0..<length lines] lines)"

definition text_anchor :: "element \<Rightarrow> text_part \<Rightarrow> string \<times> rat" where
  "text_anchor e t =
     (if tp_textAlign t = u ''center'' then (''middle'', el_x e + el_width e / 2)
      else if tp_textAlign t = u ''right'' then (''end'', el_x e + el_width e)
      else (''start'', el_x e))"

definition font_of :: "int option \<Rightarrow> jsstring" where
  "font_of f = (case Option.bind f FONT_STACK of Some s \<Rightarrow> s | None \<Rightarrow> the (FONT_STACK FONT_helvetica))"

text \<open>
  Without its text part every field read is \<open>undefined\<close>: the text is the word and the numbers are
  \<open>NaN\<close>.
\<close>

definition renderText :: "element \<Rightarrow> jsstring" where
  "renderText e =
     (case el_text e of
        None \<Rightarrow> u ''<text '' @ qattr ''font-family'' (escapeXml (font_of None)) @ [32] @ qattr ''font-size'' (u ''NaN'')
          @ [32] @ qattr ''fill'' (escapeXml (el_strokeColor e)) @ [32] @ qattr ''text-anchor'' (u ''start'') @ [32]
          @ qattr ''style'' (u ''white-space:pre'') @ u ''>'' @ u ''<tspan '' @ qattr ''x'' (num (el_x e)) @ [32]
          @ qattr ''y'' (u ''NaN'') @ u ''>undefined</tspan></text>''
      | Some t \<Rightarrow>
          (let lines = split_on 10 (tp_text t);
               lineHeight = tp_fontSize t * tp_lineHeight t;
               firstBaseline = el_y e + (lineHeight - tp_fontSize t) / 2 + tp_fontSize t * ASCENT;
               (anchor, x) = text_anchor e t
           in u ''<text '' @ qattr ''font-family'' (escapeXml (font_of (Some (tp_fontFamily t)))) @ [32]
              @ qattr ''font-size'' (num (tp_fontSize t)) @ [32] @ qattr ''fill'' (escapeXml (el_strokeColor e)) @ [32]
              @ qattr ''text-anchor'' (u anchor) @ [32] @ qattr ''style'' (u ''white-space:pre'') @ u ''>''
              @ concat (tspans x firstBaseline lineHeight lines) @ u ''</text>''))"

section \<open>Arrows\<close>

type_synonym point = "rat \<times> rat"

definition absolutePoints :: "element \<Rightarrow> arrow_part \<Rightarrow> point list" where
  "absolutePoints e a = map (\<lambda>(px, py). (el_x e + px, el_y e + py)) (ar_points a)"

definition pt :: "point \<Rightarrow> jsstring" where
  "pt p = num (fst p) @ [32] @ num (snd p)"

text \<open>The path commands of one interior corner.\<close>

definition corner :: "js_math \<Rightarrow> point \<Rightarrow> point \<Rightarrow> point \<Rightarrow> jsstring list" where
  "corner m prev cur nxt =
     (let inLen = m_hypot m (fst cur - fst prev) (snd cur - snd prev);
          outLen = m_hypot m (fst nxt - fst cur) (snd nxt - snd cur);
          r = min CORNER_RADIUS (min (inLen / 2) (outLen / 2)) in
      if r < 1 / 2 \<or> inLen = 0 \<or> outLen = 0 then [u ''L '' @ pt cur]
      else (let start = (fst cur + (fst prev - fst cur) / inLen * r, snd cur + (snd prev - snd cur) / inLen * r);
                stop = (fst cur + (fst nxt - fst cur) / outLen * r, snd cur + (snd nxt - snd cur) / outLen * r)
            in [u ''L '' @ pt start, u ''Q '' @ pt cur @ [32] @ pt stop]))"

text \<open>The loop over the interior points, then the last one.\<close>

fun path_rest :: "js_math \<Rightarrow> point \<Rightarrow> point list \<Rightarrow> jsstring list" where
  "path_rest m prev [] = []"
| "path_rest m prev [final] = [u ''L '' @ pt final]"
| "path_rest m prev (cur # nxt # ps) = corner m prev cur nxt @ path_rest m cur (nxt # ps)"

fun polylinePath :: "js_math \<Rightarrow> point list \<Rightarrow> jsstring" where
  "polylinePath m (p # q # ps) = join [32] ((u ''M '' @ pt p) # path_rest m p (q # ps))"
| "polylinePath m _ = []"

definition barb :: "js_math \<Rightarrow> point \<Rightarrow> rat \<Rightarrow> rat \<Rightarrow> point" where
  "barb m tip angle sign =
     (let a = angle + sign * (m_PI m - ARROWHEAD_ANGLE m) in
      (fst tip + m_cos m a * ARROWHEAD_LENGTH, snd tip + m_sin m a * ARROWHEAD_LENGTH))"

text \<open>The angle of finite coordinates is finite, so the guard on it never fires.\<close>

definition arrowhead :: "js_math \<Rightarrow> point \<Rightarrow> point \<Rightarrow> element \<Rightarrow> jsstring" where
  "arrowhead m tip from e =
     (let angle = m_atan2 m (snd tip - snd from) (fst tip - fst from);
          b1 = barb m tip angle 1; b2 = barb m tip angle (-1)
      in u ''<path '' @ qattr ''d'' (u ''M '' @ pt b1 @ u '' L '' @ pt tip @ u '' L '' @ pt b2) @ [32]
         @ qattr ''fill'' (u ''none'') @ [32] @ qattr ''stroke'' (escapeXml (el_strokeColor e)) @ [32]
         @ qattr ''stroke-width'' (num (el_strokeWidth e)) @ [32] @ qattr ''stroke-linecap'' (u ''round'') @ [32]
         @ qattr ''stroke-linejoin'' (u ''round'') @ u '' />'')"

definition renderArrow :: "js_math \<Rightarrow> element \<Rightarrow> js_exn + jsstring" where
  "renderArrow m e =
     (case el_arrow e of
        None \<Rightarrow> Inl (JsError (u ''Cannot read properties of undefined (reading '' @ sq ''map'' @ u '')''))
      | Some a \<Rightarrow>
          (let pts = absolutePoints e a in
           Inr (if length pts < 2 then []
             else u ''<path '' @ qattr ''d'' (polylinePath m pts) @ [32] @ qattr ''fill'' (u ''none'') @ [32]
               @ strokeAttrs e @ u '' />''
               @ (if ar_endArrowhead a = Some (u ''arrow'')
                  then arrowhead m (pts ! (length pts - 1)) (pts ! (length pts - 2)) e else [])
               @ (if ar_startArrowhead a = Some (u ''arrow'') then arrowhead m (pts ! 0) (pts ! 1) e else []))))"

definition unsupported :: "element \<Rightarrow> js_exn" where
  "unsupported e = JsError (u ''render-svg: unsupported element type '' @ [34] @ el_type e @ [34] @ u '' (id '' @ el_id e
     @ u ''). Add a renderer for it rather than letting the SVG silently omit part of the diagram.'')"

definition renderElement :: "js_math \<Rightarrow> element \<Rightarrow> js_exn + jsstring" where
  "renderElement m e =
     (if el_type e = u ''rectangle'' then Inr (renderRectangle e)
      else if el_type e = u ''text'' then Inr (renderText e)
      else if el_type e = u ''arrow'' \<or> el_type e = u ''line'' then renderArrow m e
      else Inl (unsupported e))"

section \<open>The document\<close>

text \<open>
  The running minima and maxima; \<open>None\<close> is the infinite value before the first finite coordinate.
  They become finite together, since an element that has an x has a y.
\<close>

type_synonym box4 = "rat \<times> rat \<times> rat \<times> rat"

fun widen :: "box4 option \<Rightarrow> rat list \<times> rat list \<Rightarrow> box4 option" where
  "widen b ([], _) = b"
| "widen b (_, []) = b"
| "widen None (x # xs, y # ys) =
     Some (foldl min x xs, foldl min y ys, foldl max x xs, foldl max y ys)"
| "widen (Some (a, b, c, d)) (x # xs, y # ys) =
     Some (min a (foldl min x xs), min b (foldl min y ys), max c (foldl max x xs), max d (foldl max y ys))"

definition svg_bounds :: "element list \<Rightarrow> box4 option" where
  "svg_bounds els = foldl (\<lambda>b e. widen b (el_xs e, el_ys e)) None els"

record document =
  doc_elements :: "(element \<times> bool) list"
  doc_viewBackgroundColor :: "jsstring option"

text \<open>\<open>Scene.toDocument\<close>: \<open>base\<close> writes \<open>isDeleted: false\<close> on every element.\<close>

definition toDocument :: "scene \<Rightarrow> document" where
  "toDocument s = \<lparr>doc_elements = map (\<lambda>e. (e, False)) (sc_elements s), doc_viewBackgroundColor = Some (u ''#ffffff'')\<rparr>"

text \<open>The view box \<open>(x, y, width, height)\<close> as text; unbounded when no element has a coordinate.\<close>

definition view_box :: "box4 option \<Rightarrow> jsstring \<times> jsstring \<times> jsstring \<times> jsstring" where
  "view_box b =
     (case b of None \<Rightarrow> (u ''Infinity'', u ''Infinity'', u ''-Infinity'', u ''-Infinity'')
      | Some (minX, minY, maxX, maxY) \<Rightarrow>
          (num (minX - PADDING), num (minY - PADDING), num (maxX - minX + PADDING * 2), num (maxY - minY + PADDING * 2)))"

definition svg_page :: "box4 option \<Rightarrow> jsstring \<Rightarrow> jsstring \<Rightarrow> jsstring \<Rightarrow> jsstring" where
  "svg_page b title background body =
     (case view_box b of (x, y, width, height) \<Rightarrow>
        u ''<svg '' @ qattr ''xmlns'' (u ''http://www.w3.org/2000/svg'') @ [32] @ qattr ''width'' width @ [32]
        @ qattr ''height'' height @ [32] @ qattr ''viewBox'' (x @ [32] @ y @ [32] @ width @ [32] @ height) @ u ''>'' @ [10]
        @ (if title = [] then [] else u ''<title>'' @ escapeXml title @ u ''</title>'' @ [10])
        @ u ''<rect '' @ qattr ''x'' x @ [32] @ qattr ''y'' y @ [32] @ qattr ''width'' width @ [32] @ qattr ''height'' height
        @ [32] @ qattr ''fill'' (escapeXml background) @ u '' />'' @ [10] @ body @ [10] @ u ''</svg>'' @ [10])"

definition live_elements :: "document \<Rightarrow> element list" where
  "live_elements doc = map fst (filter (\<lambda>(e, deleted). \<not> deleted) (doc_elements doc))"

definition renderSvg :: "js_math \<Rightarrow> document \<Rightarrow> jsstring \<Rightarrow> js_exn + jsstring" where
  "renderSvg m doc title =
     (let elements = live_elements doc in
      if elements = [] then Inl (JsError (u ''render-svg: scene has no elements''))
      else bindE (mapE (renderElement m) elements) (\<lambda>frags.
        Inr (svg_page (svg_bounds elements) title
          (case doc_viewBackgroundColor doc of Some c \<Rightarrow> c | None \<Rightarrow> u ''#ffffff'') (join [10] frags))))"

section \<open>Escaping\<close>

definition escape_char :: "jschar \<Rightarrow> jsstring" where
  "escape_char c =
     (if c = 38 then u ''&amp;'' else if c = 60 then u ''&lt;'' else if c = 62 then u ''&gt;''
      else if c = 34 then u ''&quot;'' else [c])"

lemma replace_char_concat: "replace_char c t (concat (map f s)) = concat (map (\<lambda>x. replace_char c t (f x)) s)"
  by (induction s) (auto simp: replace_char_def)

lemma escapeXml_single_pass: "escapeXml s = concat (map escape_char s)"
proof -
  have "escapeXml s = concat (map (\<lambda>x. replace_char 34 (u ''&quot;'') (replace_char 62 (u ''&gt;'')
      (replace_char 60 (u ''&lt;'') (if x = 38 then u ''&amp;'' else [x])))) s)"
    unfolding escapeXml_def replace_char_def [of 38] replace_char_concat ..
  moreover have "replace_char 34 (u ''&quot;'') (replace_char 62 (u ''&gt;'')
      (replace_char 60 (u ''&lt;'') (if x = 38 then u ''&amp;'' else [x]))) = escape_char x" for x
    by (simp add: replace_char_def escape_char_def u_def)
  ultimately show ?thesis by simp
qed

text \<open>What an XML reader makes of character data: the four entities, every other code unit itself.\<close>

function unescapeXml :: "jsstring \<Rightarrow> jsstring" where
  "unescapeXml s =
     (if s = [] then []
      else if prefix (u ''&amp;'') s then 38 # unescapeXml (drop 5 s)
      else if prefix (u ''&lt;'') s then 60 # unescapeXml (drop 4 s)
      else if prefix (u ''&gt;'') s then 62 # unescapeXml (drop 4 s)
      else if prefix (u ''&quot;'') s then 34 # unescapeXml (drop 6 s)
      else hd s # unescapeXml (tl s))"
  by pat_completeness auto
termination by (relation "measure length") auto

declare unescapeXml.simps [simp del]

lemma unescape_escape_char: "unescapeXml (escape_char c @ s) = c # unescapeXml s"
  by (subst unescapeXml.simps) (simp add: escape_char_def u_def)

text \<open>C39. Escaped text carries no markup of its own, and an XML reader gets back exactly the text that
  was escaped.\<close>

theorem escapeXml_roundtrip:
  "unescapeXml (escapeXml s) = s \<and> {34, 60, 62} \<inter> set (escapeXml s) = {}"
proof
  show "unescapeXml (escapeXml s) = s"
    unfolding escapeXml_single_pass
    by (induction s) (simp_all add: unescape_escape_char unescapeXml.simps [of "[]"])
  have "{34, 60, 62} \<inter> set (escape_char c) = {}" for c
    by (simp add: escape_char_def u_def)
  then show "{34, 60, 62} \<inter> set (escapeXml s) = {}"
    unfolding escapeXml_single_pass by (auto simp: disjoint_iff)
qed

section \<open>What is drawn\<close>

lemma u_nonempty_append: "c \<noteq> [] \<Longrightarrow> u c @ s \<noteq> []"
  by simp

lemma renderRectangle_drawn: "renderRectangle e \<noteq> []"
  by (simp add: renderRectangle_def Let_def)

lemma renderText_drawn: "renderText e \<noteq> []"
  by (simp add: renderText_def Let_def split: option.split prod.split)

text \<open>An element leaves no trace in the picture exactly when it is an arrow or line of fewer than
  two points, and rendering succeeds exactly for rectangles, texts, and arrows or lines that have
  points; any other type makes it fail.\<close>

theorem element_omitted_iff:
  "(renderElement m e = Inr [] \<longleftrightarrow>
      (el_type e = u ''arrow'' \<or> el_type e = u ''line'') \<and> (\<exists>a. el_arrow e = Some a \<and> length (ar_points a) < 2))
   \<and> ((\<exists>d. renderElement m e = Inr d) \<longleftrightarrow>
      el_type e = u ''rectangle'' \<or> el_type e = u ''text''
      \<or> (el_type e = u ''arrow'' \<or> el_type e = u ''line'') \<and> (\<exists>a. el_arrow e = Some a))"
  by (auto simp: renderElement_def renderArrow_def renderRectangle_drawn renderText_drawn absolutePoints_def Let_def
      split: option.split)

lemma well_shaped_drawn: "well_shaped e \<Longrightarrow> \<exists>d. renderElement m e = Inr d \<and> d \<noteq> []"
  by (auto simp: well_shaped_def renderElement_def renderArrow_def renderRectangle_drawn renderText_drawn
      absolutePoints_def Let_def)

lemma mapE_all: "\<forall>x \<in> set xs. \<exists>y. f x = Inr y \<and> P y \<Longrightarrow> \<exists>ys. mapE f xs = Inr ys \<and> length ys = length xs \<and> list_all P ys"
  by (induction xs) auto

section \<open>Bounds\<close>

lemma foldl_min_Min: "foldl min x xs = Min (set (x # xs))" for x :: rat
proof (induction xs arbitrary: x)
  case (Cons y ys)
  have "Min (set (min x y # ys)) = Min (set (x # y # ys))"
    by (cases "ys = []") (simp_all add: min.assoc)
  with Cons show ?case by simp
qed simp

lemma foldl_max_Max: "foldl max x xs = Max (set (x # xs))" for x :: rat
proof (induction xs arbitrary: x)
  case (Cons y ys)
  have "Max (set (max x y # ys)) = Max (set (x # y # ys))"
    by (cases "ys = []") (simp_all add: max.assoc)
  with Cons show ?case by simp
qed simp

text \<open>The extreme coordinates of non-empty lists.\<close>

definition extremes :: "rat list \<Rightarrow> rat list \<Rightarrow> box4" where
  "extremes xs ys = (Min (set xs), Min (set ys), Max (set xs), Max (set ys))"

lemma widen_None: "xs \<noteq> [] \<Longrightarrow> ys \<noteq> [] \<Longrightarrow> widen None (xs, ys) = Some (extremes xs ys)"
  by (cases xs; cases ys) (simp_all only: widen.simps extremes_def foldl_min_Min foldl_max_Max simp_thms list.simps)

lemma widen_Some:
  assumes "xs \<noteq> []" "ys \<noteq> []" "xs' \<noteq> []" "ys' \<noteq> []"
  shows "widen (Some (extremes xs ys)) (xs', ys') = Some (extremes (xs @ xs') (ys @ ys'))"
proof -
  have "Min (set (as @ bs)) = min (Min (set as)) (Min (set bs))" "Max (set (as @ bs)) = max (Max (set as)) (Max (set bs))"
    if "as \<noteq> []" "bs \<noteq> []" for as bs :: "rat list"
    using that by (simp_all add: Min_Un Max_Un)
  with assms show ?thesis
    by (cases xs'; cases ys') (simp_all only: widen.simps extremes_def foldl_min_Min foldl_max_Max simp_thms list.simps)
qed

lemma foldl_widen:
  assumes "xs \<noteq> []" "ys \<noteq> []" "\<forall>e \<in> set els. el_xs e \<noteq> [] \<and> el_ys e \<noteq> []"
  shows "foldl (\<lambda>b e. widen b (el_xs e, el_ys e)) (Some (extremes xs ys)) els
     = Some (extremes (xs @ concat (map el_xs els)) (ys @ concat (map el_ys els)))"
  using assms by (induction els arbitrary: xs ys) (simp_all add: widen_Some)

lemma svg_bounds_extremes:
  assumes "\<forall>e \<in> set els. el_xs e \<noteq> [] \<and> el_ys e \<noteq> []" "els \<noteq> []"
  shows "svg_bounds els = Some (extremes (concat (map el_xs els)) (concat (map el_ys els)))"
  using assms by (cases els) (simp_all add: svg_bounds_def widen_None foldl_widen)

lemma well_shaped_coords: "well_shaped e \<Longrightarrow> el_xs e \<noteq> [] \<and> el_ys e \<noteq> []"
  by (auto simp: well_shaped_def el_xs_def el_ys_def)

lemma built_well_shaped: "built s \<Longrightarrow> e \<in> set (sc_elements s) \<Longrightarrow> well_shaped e"
  by (auto dest!: built_consistent simp: consistent_def scene_wf_def)


lemma built_scenes_draw:
  assumes "built s" "sc_elements s \<noteq> []"
  shows "\<exists>svg. renderSvg m (toDocument s) title = Inr svg \<and> (\<exists>frags. mapE (renderElement m) (sc_elements s) = Inr frags
    \<and> length frags = length (sc_elements s) \<and> [] \<notin> set frags
    \<and> svg = svg_page (scene_bounds (sc_elements s)) title (u ''#ffffff'') (join [10] frags))"
proof -
  have live: "live_elements (toDocument s) = sc_elements s"
    by (simp add: live_elements_def toDocument_def filter_map o_def)
  obtain frags where f: "mapE (renderElement m) (sc_elements s) = Inr frags" "length frags = length (sc_elements s)"
      "list_all (\<lambda>d. d \<noteq> []) frags"
    using mapE_all [of "sc_elements s" "renderElement m" "\<lambda>d. d \<noteq> []"]
    by (metis assms(1) built_well_shaped well_shaped_drawn)
  have bs: "svg_bounds (sc_elements s) = scene_bounds (sc_elements s)"
    using assms svg_bounds_extremes [of "sc_elements s"]
    by (auto simp: scene_bounds_def extremes_def dest: built_well_shaped well_shaped_coords)
  have "renderSvg m (toDocument s) title = Inr (svg_page (scene_bounds (sc_elements s)) title (u ''#ffffff'') (join [10] frags))"
    using assms(2) f(1) by (simp add: renderSvg_def live bs) (simp add: toDocument_def)
  moreover have "[] \<notin> set frags"
    using f(3) by (auto simp: list_all_iff)
  ultimately show ?thesis
    using f(1,2) by blast
qed

text \<open>C22. Any scene drawn through the class renders, and every one of its elements has a non-empty
  fragment of its own in the picture, in drawing order: nothing is omitted.\<close>

theorem built_scenes_render:
  assumes "built s" "sc_elements s \<noteq> []"
  shows "\<exists>frags. mapE (renderElement m) (sc_elements s) = Inr frags \<and> length frags = length (sc_elements s)
    \<and> [] \<notin> set frags
    \<and> renderSvg m (toDocument s) title
        = Inr (svg_page (scene_bounds (sc_elements s)) title (u ''#ffffff'') (join [10] frags))"
  using built_scenes_draw [OF assms] by blast

text \<open>The standard library on segments parallel to an axis that point to the right.\<close>

definition axis_math :: js_math where
  "axis_math = \<lparr>m_hypot = (\<lambda>x y. \<bar>x\<bar> + \<bar>y\<bar>), m_atan2 = (\<lambda>y x. 0), m_cos = (\<lambda>a. 1), m_sin = (\<lambda>a. 0), m_PI = 355 / 113\<rparr>"

definition one_box :: scene where
  "one_box = snd (scene_box (box_titled (u ''webui'')) (new_scene [] 1))"

lemma one_box_built: "built one_box"
  unfolding one_box_def by (intro built.intros)

lemma one_box_elements: "sc_elements one_box \<noteq> []"
proof -
  obtain h s where b: "scene_box (box_titled (u ''webui'')) (new_scene [] 1) = (h, s)" by fastforce
  have "hd_id h \<in> set (ids s)"
    using scene_box_grows [OF consistent_wf [OF new_scene_consistent] b] by blast
  then show ?thesis by (auto simp: one_box_def b ids_def)
qed

theorem built_scenes_render_witness:
  "\<exists>frags. length frags = length (sc_elements one_box) \<and> [] \<notin> set frags
     \<and> renderSvg axis_math (toDocument one_box) (u ''System'')
        = Inr (svg_page (scene_bounds (sc_elements one_box)) (u ''System'') (u ''#ffffff'') (join [10] frags))"
  using built_scenes_render [OF one_box_built one_box_elements, of axis_math "u ''System''"] by blast


end
