(* ===== verification/Json.thy ===== *)
theory Json
  imports JsValue
begin

text \<open>
  \<open>JSON.stringify(value, null, 2)\<close> on the values of \<open>JsValue\<close>: quoting with the escapes of the standard
  (lone surrogates included), two spaces per level, \<open>undefined\<close> dropped from objects and written
  \<open>null\<close> in arrays.
\<close>

definition lower_hex :: "nat \<Rightarrow> jschar" where
  "lower_hex n = of_nat (if n < 10 then 48 + n else 87 + n)"

definition unicode_escape :: "jschar \<Rightarrow> jsstring" where
  "unicode_escape c = [92, 117] @ map (\<lambda>k. lower_hex (unat (drop_bit k c AND 15))) [12, 8, 4, 0]"

definition quote_char :: "jschar \<Rightarrow> jsstring" where
  "quote_char c =
     (if c = 8 then [92, 98] else if c = 9 then [92, 116] else if c = 10 then [92, 110] else if c = 12 then [92, 102]
      else if c = 13 then [92, 114] else if c = 34 then [92, 34] else if c = 92 then [92, 92]
      else if c < 32 then unicode_escape c else [c])"

fun quote_chars :: "jsstring \<Rightarrow> jsstring" where
  "quote_chars [] = []"
| "quote_chars [c] = (if high_surrogate c \<or> low_surrogate c then unicode_escape c else quote_char c)"
| "quote_chars (c # d # s) =
     (if high_surrogate c \<and> low_surrogate d then c # d # quote_chars s
      else (if high_surrogate c \<or> low_surrogate c then unicode_escape c else quote_char c) @ quote_chars (d # s))"

definition quote_json :: "jsstring \<Rightarrow> jsstring" where
  "quote_json s = [34] @ quote_chars s @ [34]"

definition indent :: "nat \<Rightarrow> jsstring" where
  "indent d = replicate (2 * d) 32"

text \<open>The items of an array or object between its brackets, one per line.\<close>

definition block :: "nat \<Rightarrow> jschar \<Rightarrow> jschar \<Rightarrow> jsstring list \<Rightarrow> jsstring" where
  "block d op cl items =
     (if items = [] then [op, cl]
      else [op, 10] @ join [44, 10] (map (\<lambda>i. indent (Suc d) @ i) items) @ [10] @ indent d @ [cl])"

fun stringify :: "nat \<Rightarrow> jsval \<Rightarrow> jsstring" where
  "stringify d JUndef = u ''null''"
| "stringify d JNull = u ''null''"
| "stringify d (JBool b) = (if b then u ''true'' else u ''false'')"
| "stringify d (JNum q) = num_text q"
| "stringify d (JStr s) = quote_json s"
| "stringify d (JArr vs) = block d 91 93 (map (stringify (Suc d)) vs)"
| "stringify d (JObj fs) = block d 123 125
     (concat (map (\<lambda>(k, v). if v = JUndef then [] else [quote_json k @ [58, 32] @ stringify (Suc d) v]) fs))"

definition obj :: "(string \<times> jsval) list \<Rightarrow> jsval" where
  "obj kvs = JObj (map (\<lambda>(k, v). (u k, v)) kvs)"

definition or_null :: "('a \<Rightarrow> jsval) \<Rightarrow> 'a option \<Rightarrow> jsval" where
  "or_null f x = (case x of None \<Rightarrow> JNull | Some v \<Rightarrow> f v)"

text \<open>\<open>padEnd\<close>, with spaces.\<close>

definition pad_right :: "nat \<Rightarrow> jsstring \<Rightarrow> jsstring" where
  "pad_right n s = s @ replicate (n - length s) 32"

lemma stringify_examples:
  "stringify 0 (obj [(''n'', JNum (5 / 2)), (''x'', JUndef)]) = u ''{'' @ [10] @ u ''  '' @ [34, 110, 34] @ u '': 2.5'' @ [10] @ u ''}''"
  "stringify 0 (JArr []) = u ''[]''" "quote_json [0xD800, 10] = [34, 92] @ u ''ud800'' @ [92, 110, 34]"
  by code_simp+

end
