(* ===== verification/GenerateDiagrams.thy ===== *)
theory GenerateDiagrams
  imports RenderSvg Json
begin

text \<open>
  Serialising a scene (\<open>Scene.toJSON\<close>) and the command that writes or checks the diagrams
  (\<open>scripts/diagrams/generate-diagrams.mjs\<close>).  The file system is a map from paths to contents;
  \<open>path.join\<close>, \<open>path.resolve\<close>, the SHA-256 digest, the writes the operating system refuses and the
  diagrams themselves are arguments.
\<close>

section \<open>Documents as JSON\<close>

definition binding_json :: "binding \<Rightarrow> jsval" where
  "binding_json b = obj [(''elementId'', JStr (bi_elementId b)), (''focus'', JNum 0), (''gap'', JNum (bi_gap b))]"

definition base_json :: "element \<Rightarrow> (string \<times> jsval) list" where
  "base_json e =
     [(''id'', JStr (el_id e)), (''type'', JStr (el_type e)), (''x'', JNum (el_x e)), (''y'', JNum (el_y e)),
      (''width'', JNum (el_width e)), (''height'', JNum (el_height e)), (''angle'', JNum 0),
      (''strokeColor'', JStr (el_strokeColor e)), (''backgroundColor'', JStr (el_backgroundColor e)),
      (''fillStyle'', JStr (el_fillStyle e)), (''strokeWidth'', JNum (el_strokeWidth e)),
      (''strokeStyle'', JStr (el_strokeStyle e)), (''roughness'', JNum (el_roughness e)), (''opacity'', JNum 100),
      (''groupIds'', JArr []), (''frameId'', JNull),
      (''roundness'', or_null (\<lambda>k. obj [(''type'', JNum (of_int k))]) (el_roundness e)),
      (''seed'', JNum (of_int (el_seed e))), (''versionNonce'', JNum (of_int (el_versionNonce e))),
      (''version'', JNum 1), (''isDeleted'', JBool False),
      (''boundElements'', JArr (map (\<lambda>b. obj [(''type'', JStr (bo_type b)), (''id'', JStr (bo_id b))]) (el_boundElements e))),
      (''updated'', JNum UPDATED), (''link'', JNull), (''locked'', JBool False)]"

definition text_json :: "text_part \<Rightarrow> (string \<times> jsval) list" where
  "text_json t =
     [(''text'', JStr (tp_text t)), (''originalText'', JStr (tp_originalText t)), (''fontSize'', JNum (tp_fontSize t)),
      (''fontFamily'', JNum (of_int (tp_fontFamily t))), (''textAlign'', JStr (tp_textAlign t)),
      (''verticalAlign'', JStr (tp_verticalAlign t)), (''containerId'', or_null JStr (tp_containerId t)),
      (''lineHeight'', JNum (tp_lineHeight t))]"

definition arrow_json :: "arrow_part \<Rightarrow> (string \<times> jsval) list" where
  "arrow_json a =
     [(''points'', JArr (map (\<lambda>(x, y). JArr [JNum x, JNum y]) (ar_points a))), (''lastCommittedPoint'', JNull),
      (''startBinding'', binding_json (ar_startBinding a)), (''endBinding'', binding_json (ar_endBinding a)),
      (''startArrowhead'', or_null JStr (ar_startArrowhead a)), (''endArrowhead'', or_null JStr (ar_endArrowhead a)),
      (''elbowed'', JBool False)]"

definition element_json :: "element \<Rightarrow> jsval" where
  "element_json e = obj (base_json e @ (case el_text e of None \<Rightarrow> [] | Some t \<Rightarrow> text_json t)
     @ (case el_arrow e of None \<Rightarrow> [] | Some a \<Rightarrow> arrow_json a))"

definition document_json :: "scene \<Rightarrow> jsval" where
  "document_json s = obj
     [(''type'', JStr (u ''excalidraw'')), (''version'', JNum 2),
      (''source'', JStr (u ''https://github.com/briandenicola/foundry-capital-markets-router'')),
      (''elements'', JArr (map element_json (sc_elements s))),
      (''appState'', obj [(''gridSize'', JNull), (''viewBackgroundColor'', JStr (u ''#ffffff''))]),
      (''files'', obj [])]"

definition toJSON :: "scene \<Rightarrow> jsstring" where
  "toJSON s = stringify 0 (document_json s) @ [10]"

section \<open>Arguments\<close>

record gen_args =
  ga_out :: jsstring
  ga_check :: bool
  ga_help :: bool

definition default_args :: gen_args where
  "default_args = \<lparr>ga_out = u ''docs/diagrams'', ga_check = False, ga_help = False\<rparr>"

fun parse_args :: "jsstring list \<Rightarrow> gen_args \<Rightarrow> js_exn + gen_args" where
  "parse_args [] args = Inr args"
| "parse_args (a # rest) args =
     (if a = u ''--out'' then
        (case rest of
           [] \<Rightarrow> Inl (JsError (u ''--out requires a directory argument''))
         | value # rest' \<Rightarrow>
             if value = [] \<or> startsWith value (u ''--'') then Inl (JsError (u ''--out requires a directory argument''))
             else parse_args rest' (args\<lparr>ga_out := value\<rparr>))
      else if a = u ''--check'' then parse_args rest (args\<lparr>ga_check := True\<rparr>)
      else if a = u ''--help'' \<or> a = u ''-h'' then parse_args rest (args\<lparr>ga_help := True\<rparr>)
      else Inl (JsError (u ''Unknown argument: '' @ a)))"

definition USAGE :: jsstring where
  "USAGE = u ''Usage: node generate-diagrams.mjs [--out <dir>] [--check]'' @ [10, 10]
     @ u ''  --out <dir>   Output directory (default: docs/diagrams)'' @ [10]
     @ u ''  --check       Verify on-disk files match the generator; exit 1 if not'' @ [10]
     @ u ''  -h, --help    Show this message'' @ [10]"

section \<open>Rendering\<close>

record diagram =
  di_file :: jsstring
  di_title :: "jsstring option"
  di_build :: "js_exn + scene"

record rendered =
  re_file :: jsstring
  re_svgFile :: jsstring
  re_json :: jsstring
  re_svg :: jsstring
  re_elementCount :: nat
  re_bounds :: "box4 option"
  re_hash :: jsstring
  re_svgHash :: jsstring

text \<open>\<open>file.replace(/\.excalidraw$/, '.svg')\<close>.\<close>

definition svg_name :: "jsstring \<Rightarrow> jsstring" where
  "svg_name file = (if endsWith file (u ''.excalidraw'') then take (length file - 11) file @ u ''.svg'' else file)"

record gen_env =
  ge_math :: js_math
  ge_sha256 :: "jsstring \<Rightarrow> jsstring"
  ge_resolve :: "jsstring \<Rightarrow> jsstring"
  ge_join :: "jsstring \<Rightarrow> jsstring \<Rightarrow> jsstring"
  ge_denied :: "jsstring \<Rightarrow> js_exn option"

definition render_one :: "gen_env \<Rightarrow> diagram \<Rightarrow> js_exn + rendered" where
  "render_one env d =
     bindE (di_build d) (\<lambda>s.
       let json = toJSON s in
       bindE (renderSvg (ge_math env) (toDocument s) (case di_title d of Some t \<Rightarrow> t | None \<Rightarrow> di_file d)) (\<lambda>svg.
         Inr \<lparr>re_file = di_file d, re_svgFile = svg_name (di_file d), re_json = json, re_svg = svg,
           re_elementCount = length (sc_elements s), re_bounds = scene_bounds (sc_elements s),
           re_hash = ge_sha256 env json, re_svgHash = ge_sha256 env svg\<rparr>))"

definition render :: "gen_env \<Rightarrow> diagram list \<Rightarrow> js_exn + rendered list" where
  "render env diagrams = mapE (render_one env) diagrams"

section \<open>Checking and writing\<close>

type_synonym fsys = "jsstring \<Rightarrow> jsstring option"

datatype emitted = Out jsstring | Err jsstring

text \<open>\<open>compare\<close>: what it prints and whether it counts a drift.\<close>

definition compare_file :: "gen_env \<Rightarrow> jsstring \<Rightarrow> fsys \<Rightarrow> jsstring \<Rightarrow> jsstring \<Rightarrow> jsstring \<Rightarrow> emitted \<times> bool" where
  "compare_file env outDir fs name expected hash =
     (let path = ge_join env outDir name in
      case fs path of
        None \<Rightarrow> (Err (u ''MISSING  '' @ path @ [10]), True)
      | Some onDisk \<Rightarrow>
          if onDisk = expected then (Out (u ''ok       '' @ pad_right 34 name @ [32] @ take 16 hash @ [10]), False)
          else (Err (u ''DRIFT    '' @ name @ [10] @ u ''  on disk:   '' @ ge_sha256 env onDisk @ [10]
                  @ u ''  generated: '' @ hash @ [10]), True))"

text \<open>The files of a diagram, in the order in which they are compared and written.\<close>

definition outputs_of :: "rendered \<Rightarrow> (jsstring \<times> jsstring \<times> jsstring) list" where
  "outputs_of d = [(re_file d, re_json d, re_hash d), (re_svgFile d, re_svg d, re_svgHash d)]"

definition check_run :: "gen_env \<Rightarrow> gen_args \<Rightarrow> jsstring \<Rightarrow> fsys \<Rightarrow> rendered list \<Rightarrow> int \<times> emitted list" where
  "check_run env args outDir fs rs =
     (let results = map (\<lambda>(name, expected, hash). compare_file env outDir fs name expected hash) (concat (map outputs_of rs));
          drift = length (filter snd results) in
      if drift > 0 then
        (1, map fst results @ [Err ([10] @ show_int (of_nat drift)
           @ u '' diagram(s) out of sync. Re-run: node generate-diagrams.mjs --out '' @ ga_out args @ [10])])
      else (0, map fst results @ [Out ([10] @ u ''All diagrams are in sync with the generator.'' @ [10])]))"

definition write_file :: "gen_env \<Rightarrow> jsstring \<Rightarrow> jsstring \<Rightarrow> fsys \<Rightarrow> js_exn + fsys" where
  "write_file env path content fs =
     (case ge_denied env path of Some e \<Rightarrow> Inl e | None \<Rightarrow> Inr (fs(path \<mapsto> content)))"

text \<open>The two lines printed for a written diagram.\<close>

definition wrote_lines :: "rendered \<Rightarrow> emitted list" where
  "wrote_lines d =
     (case re_bounds d of
        None \<Rightarrow> []
      | Some (minX, minY, maxX, maxY) \<Rightarrow>
          [Out (u ''wrote '' @ pad_right 34 (re_file d) @ [32] @ pad_left 4 32 (show_int (of_nat (re_elementCount d)))
             @ u '' elements  canvas '' @ show_int (math_round (maxX - minX)) @ u ''x'' @ show_int (math_round (maxY - minY))
             @ u '' (origin '' @ show_int (math_round minX) @ u '','' @ show_int (math_round minY) @ u '')  ''
             @ take 16 (re_hash d) @ [10]),
           Out (u ''      '' @ pad_right 34 (re_svgFile d) @ [32]
             @ pad_left 4 32 (show_int (math_round (of_nat (length (re_svg d)) / 1024)))
             @ u '' KB        svg                              '' @ take 16 (re_svgHash d) @ [10])])"

text \<open>The loop of \<open>main\<close> over the rendered diagrams: a refused write stops it after the writes before it.\<close>

fun write_all :: "gen_env \<Rightarrow> jsstring \<Rightarrow> rendered list \<Rightarrow> fsys \<Rightarrow> (js_exn option \<times> emitted list) \<times> fsys" where
  "write_all env outDir [] fs = ((None, []), fs)"
| "write_all env outDir (d # ds) fs =
     (case write_file env (ge_join env outDir (re_file d)) (re_json d) fs of
        Inl e \<Rightarrow> ((Some e, []), fs)
      | Inr fs1 \<Rightarrow>
          (case write_file env (ge_join env outDir (re_svgFile d)) (re_svg d) fs1 of
             Inl e \<Rightarrow> ((Some e, []), fs1)
           | Inr fs2 \<Rightarrow>
               (case write_all env outDir ds fs2 of
                  ((e, out), fs3) \<Rightarrow> ((e, wrote_lines d @ out), fs3))))"

text \<open>
  \<open>main\<close>: the exit code, what is printed, and the file system after it.  An exception nothing catches
  ends the process with code 1.
\<close>

definition uncaught :: "js_exn \<Rightarrow> emitted list" where
  "uncaught e = [Err (u ''Error: '' @ exn_text e)]"

definition generate_main :: "gen_env \<Rightarrow> diagram list \<Rightarrow> jsstring list \<Rightarrow> fsys \<Rightarrow> (int \<times> emitted list) \<times> fsys" where
  "generate_main env diagrams argv fs =
     (case parse_args argv default_args of
        Inl e \<Rightarrow> ((2, [Err (exn_text e @ [10, 10] @ USAGE)]), fs)
      | Inr args \<Rightarrow>
          if ga_help args then ((0, [Out USAGE]), fs)
          else (let outDir = ge_resolve env (ga_out args) in
            case render env diagrams of
              Inl e \<Rightarrow> ((1, uncaught e), fs)
            | Inr rs \<Rightarrow>
                if ga_check args then (check_run env args outDir fs rs, fs)
                else
                  (case ge_denied env outDir of
                     Some e \<Rightarrow> ((1, uncaught e), fs)
                   | None \<Rightarrow>
                       (case write_all env outDir rs fs of
                          ((Some e, out), fs') \<Rightarrow> ((1, out @ uncaught e), fs')
                        | ((None, out), fs') \<Rightarrow>
                            ((0, out @ [Out ([10] @ show_int (of_nat (length rs)) @ u '' diagrams written to '' @ outDir
                                @ u '' (.excalidraw source + .svg render)'' @ [10])]), fs')))))"

section \<open>Lemmas\<close>

lemma parse_args_check:
  "parse_args argv args0 = Inr args \<Longrightarrow> parse_args (argv @ [u ''--check'']) args0 = Inr (args\<lparr>ga_check := True\<rparr>)"
  by (induction argv args0 rule: parse_args.induct) (auto split: if_splits list.splits)

lemma parse_args_help:
  "parse_args argv args0 = Inr args \<Longrightarrow> ga_help args0 \<Longrightarrow> ga_help args"
  by (induction argv args0 rule: parse_args.induct) (auto split: if_splits list.splits)

lemma compare_file_in_sync: "\<not> snd (compare_file env outDir fs name expected hash) \<longleftrightarrow> fs (ge_join env outDir name) = Some expected"
  by (simp add: compare_file_def Let_def split: option.split)

text \<open>The paths and contents of a run.\<close>

definition contents :: "gen_env \<Rightarrow> jsstring \<Rightarrow> rendered list \<Rightarrow> (jsstring \<times> jsstring) list" where
  "contents env outDir rs = map (\<lambda>(name, content, hash). (ge_join env outDir name, content)) (concat (map outputs_of rs))"

definition in_sync :: "gen_env \<Rightarrow> jsstring \<Rightarrow> fsys \<Rightarrow> rendered list \<Rightarrow> bool" where
  "in_sync env outDir fs rs \<longleftrightarrow> (\<forall>(p, c) \<in> set (contents env outDir rs). fs p = Some c)"

lemma check_run_exit: "fst (check_run env args outDir fs rs) = (if in_sync env outDir fs rs then 0 else 1)"
proof -
  let ?out = "concat (map outputs_of rs)"
  let ?f = "\<lambda>(name, expected, hash). compare_file env outDir fs name expected hash"
  have "length (filter snd (map ?f ?out)) = 0 \<longleftrightarrow> (\<forall>x \<in> set ?out. \<not> snd (?f x))"
    by (simp add: filter_empty_conv)
  also have "\<dots> \<longleftrightarrow> in_sync env outDir fs rs"
    by (simp add: in_sync_def contents_def compare_file_in_sync split_beta)
  finally show ?thesis
    unfolding check_run_def Let_def by (simp split: if_split del: length_map)
qed

definition put_all :: "fsys \<Rightarrow> (jsstring \<times> jsstring) list \<Rightarrow> fsys" where
  "put_all fs kvs = fold (\<lambda>(p, c) f. f(p \<mapsto> c)) kvs fs"

lemma put_all_simps [simp]: "put_all fs [] = fs" "put_all fs ((p, c) # kvs) = put_all (fs(p \<mapsto> c)) kvs"
  by (simp_all add: put_all_def)

lemma put_all_other: "p \<notin> fst ` set kvs \<Longrightarrow> put_all fs kvs p = fs p"
  by (induction kvs arbitrary: fs) (auto simp: put_all_def)

lemma put_all_member: "distinct (map fst kvs) \<Longrightarrow> (p, c) \<in> set kvs \<Longrightarrow> put_all fs kvs p = Some c"
proof (induction kvs arbitrary: fs)
  case (Cons kv kvs)
  then show ?case by (cases kv) (auto simp: put_all_other)
qed simp

lemma contents_Cons: "contents env outDir (d # ds) =
    [(ge_join env outDir (re_file d), re_json d), (ge_join env outDir (re_svgFile d), re_svg d)] @ contents env outDir ds"
  by (simp add: contents_def outputs_of_def)

lemma write_all_contents:
  "write_all env outDir rs fs = ((None, out), fs') \<Longrightarrow> fs' = put_all fs (contents env outDir rs)"
proof (induction rs arbitrary: fs out)
  case Nil
  then show ?case by (simp add: contents_def)
next
  case (Cons d ds)
  then show ?case
    by (auto simp: contents_Cons write_file_def simp del: fun_upd_apply split: option.splits sum.splits prod.splits)
qed

lemma write_all_total: "(\<And>p. ge_denied env p = None) \<Longrightarrow> \<exists>out fs'. write_all env outDir rs fs = ((None, out), fs')"
proof (induction rs arbitrary: fs)
  case (Cons d ds)
  let ?fs = "fs(ge_join env outDir (re_file d) \<mapsto> re_json d, ge_join env outDir (re_svgFile d) \<mapsto> re_svg d)"
  obtain out fs' where "write_all env outDir ds ?fs = ((None, out), fs')"
    using Cons by blast
  with Cons.prems show ?case by (simp add: write_file_def del: fun_upd_apply)
qed simp

lemma render_names: "render env diagrams = Inr rs \<Longrightarrow>
    map (\<lambda>d. [re_file d, re_svgFile d]) rs = map (\<lambda>d. [di_file d, svg_name (di_file d)]) diagrams"
  unfolding render_def
  by (induction diagrams arbitrary: rs) (auto simp: bindE_Inr_iff render_one_def Let_def)

lemma contents_paths: "map fst (contents env outDir rs) = map (ge_join env outDir) (concat (map (\<lambda>d. [re_file d, re_svgFile d]) rs))"
  by (induction rs) (simp_all add: contents_Cons, simp add: contents_def)

section \<open>Properties\<close>

text \<open>Checking changes nothing on disk, and ends with code 0 exactly when both files of every diagram
  are there with the generated contents; otherwise with code 1.\<close>

theorem check_mode_exit:
  assumes "parse_args argv default_args = Inr args" "ga_check args" "\<not> ga_help args" "render env diagrams = Inr rs"
  shows "snd (generate_main env diagrams argv fs) = fs
    \<and> fst (fst (generate_main env diagrams argv fs)) =
        (if \<forall>r \<in> set rs. fs (ge_join env (ge_resolve env (ga_out args)) (re_file r)) = Some (re_json r)
              \<and> fs (ge_join env (ge_resolve env (ga_out args)) (re_svgFile r)) = Some (re_svg r)
         then 0 else 1)"
proof -
  have "in_sync env outDir fs rs \<longleftrightarrow>
      (\<forall>r \<in> set rs. fs (ge_join env outDir (re_file r)) = Some (re_json r) \<and> fs (ge_join env outDir (re_svgFile r)) = Some (re_svg r))"
    for outDir
    by (induction rs) (simp_all add: in_sync_def contents_Cons, simp add: contents_def)
  with assms show ?thesis
    by (simp add: generate_main_def check_run_exit)
qed

lemma check_after_write:
  assumes args: "parse_args argv default_args = Inr args" "\<not> ga_help args" "\<not> ga_check args"
    and run: "generate_main env diagrams argv fs = ((0, out), fs')"
    and paths: "distinct (map (ge_join env (ge_resolve env (ga_out args)))
          (concat (map (\<lambda>d. [di_file d, svg_name (di_file d)]) diagrams)))"
  shows "fst (fst (generate_main env diagrams (argv @ [u ''--check'']) fs')) = 0"
proof -
  let ?dir = "ge_resolve env (ga_out args)"
  from args run obtain rs o' where rs: "render env diagrams = Inr rs" and w: "write_all env ?dir rs fs = ((None, o'), fs')"
    by (auto simp: generate_main_def Let_def split: sum.splits option.splits prod.splits)
  have d: "distinct (map fst (contents env ?dir rs))"
    unfolding contents_paths render_names [OF rs] by (rule paths)
  have "in_sync env ?dir fs' rs"
    unfolding in_sync_def write_all_contents [OF w] using put_all_member [OF d] by blast
  then have "fst (check_run env (args\<lparr>ga_check := True\<rparr>) ?dir fs' rs) = 0"
    by (simp add: check_run_exit)
  then show ?thesis
    using parse_args_check [OF args(1)] args(2) rs by (simp add: generate_main_def)
qed

text \<open>After a run that wrote the diagrams, checking with the same arguments and \<open>--check\<close> ends with
  code 0, provided the output paths differ from each other.\<close>

theorem check_passes_after_write:
  assumes args: "parse_args argv default_args = Inr args" "\<not> ga_help args" "\<not> ga_check args"
    and run: "generate_main env diagrams argv fs = ((0, out), fs')"
    and paths: "distinct (map (ge_join env (ge_resolve env (ga_out args)))
          (concat (map (\<lambda>d. [di_file d, svg_name (di_file d)]) diagrams)))"
  shows "fst (fst (generate_main env diagrams (argv @ [u ''--check'']) fs')) = 0"
  using assms by (rule check_after_write)

text \<open>An environment in which every write succeeds, and one diagram.\<close>

definition plain_env :: gen_env where
  "plain_env = \<lparr>ge_math = axis_math, ge_sha256 = id, ge_resolve = id, ge_join = (\<lambda>d n. d @ [47] @ n), ge_denied = (\<lambda>_. None)\<rparr>"

definition one_diagram :: "diagram list" where
  "one_diagram = [\<lparr>di_file = u ''01.excalidraw'', di_title = None, di_build = Inr one_box\<rparr>]"

lemma one_diagram_renders: "\<exists>r. render plain_env one_diagram = Inr [r] \<and> re_file r = u ''01.excalidraw'' \<and> re_svgFile r = u ''01.svg''"
proof -
  obtain svg where "renderSvg axis_math (toDocument one_box) (u ''01.excalidraw'') = Inr svg"
    using built_scenes_draw [OF one_box_built one_box_elements] by blast
  then show ?thesis
    by (simp add: render_def render_one_def one_diagram_def plain_env_def Let_def svg_name_def endsWith_def u_def suffix_def)
qed

lemma one_diagram_write: "\<exists>out fs'. generate_main plain_env one_diagram [] fs = ((0, out), fs')"
proof -
  obtain r where r: "render plain_env one_diagram = Inr [r]" using one_diagram_renders by blast
  obtain out fs' where "write_all plain_env (u ''docs/diagrams'') [r] fs = ((None, out), fs')"
    using write_all_total [of plain_env] by (fastforce simp: plain_env_def)
  moreover have "ge_resolve plain_env d = d" "ge_denied plain_env d = None" for d
    by (simp_all add: plain_env_def)
  ultimately show ?thesis
    by (simp add: generate_main_def default_args_def r)
qed

theorem check_passes_after_write_witness:
  "\<exists>out fs'. generate_main plain_env one_diagram [] (\<lambda>_. None) = ((0, out), fs')
     \<and> fst (fst (generate_main plain_env one_diagram [u ''--check''] fs')) = 0"
proof -
  obtain out fs' where run: "generate_main plain_env one_diagram [] (\<lambda>_. None) = ((0, out), fs')"
    using one_diagram_write by blast
  have d: "distinct (map (ge_join plain_env (ge_resolve plain_env (ga_out default_args)))
      (concat (map (\<lambda>d. [di_file d, svg_name (di_file d)]) one_diagram)))"
    by (simp add: one_diagram_def plain_env_def svg_name_def endsWith_def u_def suffix_def default_args_def)
  have p: "parse_args [] default_args = Inr default_args" "\<not> ga_help default_args" "\<not> ga_check default_args"
    by (simp_all add: default_args_def)
  show ?thesis
    using run check_passes_after_write [OF p run d] by simp
qed

theorem check_mode_exit_witness:
  "fst (fst (generate_main plain_env one_diagram [u ''--check''] (\<lambda>_. None))) = 1
   \<and> snd (generate_main plain_env one_diagram [u ''--check''] (\<lambda>_. None)) = (\<lambda>_. None)"
proof -
  obtain r where r: "render plain_env one_diagram = Inr [r]" using one_diagram_renders by blast
  have p: "parse_args [u ''--check''] default_args = Inr (default_args\<lparr>ga_check := True\<rparr>)"
    by (simp add: u_def)
  show ?thesis
    using check_mode_exit [OF p _ _ r, of "\<lambda>_. None"] by (simp add: default_args_def)
qed

end
