(* ===== verification/DocumentSchema.thy ===== *)
theory DocumentSchema
  imports GenerateDiagrams
begin

text \<open>
  The checks of the validator on the properties of an element as JSON carries them (the loop of numeric
  sanity in \<open>scripts/diagrams/validate.mjs\<close>), on an object as its list of properties.  The rest of the
  validator works on typed elements (theory \<open>Validate\<close>); here, what the serialiser writes for a typed
  element has every property the loop asks for.
\<close>

datatype schema_error =
    NonFinite string
  | NotFixedUpdated
  | MissingProperty string

text \<open>Numbers that come from JSON are finite.\<close>

fun isFinitePositive :: "jsval \<Rightarrow> bool" where
  "isFinitePositive (JNum q) = True"
| "isFinitePositive _ = False"

text \<open>\<open>k in e\<close>.\<close>

definition has_property :: "(jsstring \<times> jsval) list \<Rightarrow> string \<Rightarrow> bool" where
  "has_property fs k \<longleftrightarrow> map_of fs (u k) \<noteq> None"

definition REQUIRED_PROPERTIES :: "string list" where
  "REQUIRED_PROPERTIES =
    [''id'', ''type'', ''angle'', ''strokeColor'', ''backgroundColor'', ''fillStyle'', ''strokeWidth'',
     ''strokeStyle'', ''roughness'', ''opacity'', ''groupIds'', ''frameId'', ''seed'', ''versionNonce'',
     ''version'', ''isDeleted'', ''boundElements'', ''updated'', ''locked'']"

definition schema_errors :: "(jsstring \<times> jsval) list \<Rightarrow> schema_error list" where
  "schema_errors e =
     map NonFinite (filter (\<lambda>k. \<not> isFinitePositive (lookup_prop e (u k))) [''x'', ''y'', ''width'', ''height''])
     @ (if lookup_prop e (u ''updated'') \<noteq> JNum 1 then [NotFixedUpdated] else [])
     @ map MissingProperty (filter (\<lambda>k. \<not> has_property e k) REQUIRED_PROPERTIES)
     @ (if has_property e ''roundness'' then [] else [MissingProperty ''roundness''])
     @ (if has_property e ''link'' then [] else [MissingProperty ''link''])"

text \<open>Properties written first are the ones read.\<close>

lemma map_of_append_known: "map_of xs k = Some v \<Longrightarrow> map_of (xs @ ys) k = Some v"
  by simp

lemma map_of_u: "map_of (map (\<lambda>(k, v). (u k, v)) fs) (u k) = map_of fs k"
  by (induction fs) auto

lemma obj_fields: "element_json e = JObj (map (\<lambda>(k, v). (u k, v))
    (base_json e @ (case el_text e of None \<Rightarrow> [] | Some t \<Rightarrow> text_json t) @ (case el_arrow e of None \<Rightarrow> [] | Some a \<Rightarrow> arrow_json a)))"
  by (simp add: element_json_def obj_def)

lemma base_fields:
  "map_of (base_json e) ''x'' = Some (JNum (el_x e))" "map_of (base_json e) ''y'' = Some (JNum (el_y e))"
  "map_of (base_json e) ''width'' = Some (JNum (el_width e))" "map_of (base_json e) ''height'' = Some (JNum (el_height e))"
  "map_of (base_json e) ''updated'' = Some (JNum 1)"
  "list_all (\<lambda>k. map_of (base_json e) k \<noteq> None) (''roundness'' # ''link'' # REQUIRED_PROPERTIES)"
  by (simp_all add: base_json_def UPDATED_def REQUIRED_PROPERTIES_def)

text \<open>The schema checks pass on everything the serialiser writes.\<close>

lemma written_elements_meet_schema: "\<exists>fs. element_json e = JObj fs \<and> schema_errors fs = []"
proof -
  let ?fs = "base_json e @ (case el_text e of None \<Rightarrow> [] | Some t \<Rightarrow> text_json t) @ (case el_arrow e of None \<Rightarrow> [] | Some a \<Rightarrow> arrow_json a)"
  have known: "map_of (map (\<lambda>(k, v). (u k, v)) ?fs) (u k) = Some v" if "map_of (base_json e) k = Some v" for k v
    unfolding map_of_u using that by (rule map_of_append_known)
  have has: "has_property (map (\<lambda>(k, v). (u k, v)) ?fs) k" if "map_of (base_json e) k \<noteq> None" for k
    using that known unfolding has_property_def by fastforce
  have "filter (\<lambda>k. \<not> has_property (map (\<lambda>(k, v). (u k, v)) ?fs) k) REQUIRED_PROPERTIES = []"
      "has_property (map (\<lambda>(k, v). (u k, v)) ?fs) ''roundness''" "has_property (map (\<lambda>(k, v). (u k, v)) ?fs) ''link''"
    using base_fields(6) [of e] has by (auto simp only: filter_empty_conv list_all_iff list.set not_not insert_iff)
  moreover have "lookup_prop (map (\<lambda>(k, v). (u k, v)) ?fs) (u k) = v" if "map_of (base_json e) k = Some v" for k v
    using known [OF that] by (simp add: lookup_prop_def)
  note base_fields(1-5) [THEN this]
  ultimately have "schema_errors (map (\<lambda>(k, v). (u k, v)) ?fs) = []"
    by (simp only: schema_errors_def filter.simps isFinitePositive.simps not_True_eq_False if_False if_True list.map append_Nil
        simp_thms)
  with obj_fields show ?thesis by blast
qed

end
