(* ===== verification/Validate.thy ===== *)
theory Validate
  imports SceneLaws
begin

text \<open>
  The structural validator of generated diagrams (\<open>scripts/diagrams/validate.mjs\<close>) over documents whose
  elements have the properties \<open>Scene\<close> gives them: the checks for an absent key or a coordinate that
  is not a number, which only a file written by something else can fail, have no counterpart.  An
  arrow without its arrow part has no points and no bindings; a text without its text part makes the
  validator throw.  A message is a constructor that carries the values it prints.
\<close>

definition MIN_BODY_FONT :: rat where "MIN_BODY_FONT = 16"
definition MIN_SIBLING_GAP :: rat where "MIN_SIBLING_GAP = 40"

datatype binding_side = StartBinding | EndBinding

datatype verror =
    NegativeSize jsstring rat rat
  | NoContainer jsstring jsstring
  | NoBindingTarget jsstring binding_side jsstring
  | FewPoints jsstring
  | TextNotListed jsstring jsstring
  | ArrowNotListed jsstring jsstring binding_side
  | NoBoundElement jsstring jsstring
  | LeafOverlap jsstring jsstring
  | FreeTextOverflow jsstring jsstring
  | StraddlesGroup jsstring jsstring
  | BoundTextTooWide jsstring jsstring
  | BoundTextTooTall jsstring jsstring
  | FreeTextTooWide jsstring
  | WouldRewrap jsstring
  | SmallFont jsstring rat
  | WrongLineHeight jsstring rat
  | NoTitle
  | NoSubtitle
  | NoLegend

datatype vwarning =
    NoBinding jsstring binding_side
  | CloseSiblings jsstring jsstring rat

section \<open>Geometry\<close>

definition el_overlaps :: "element \<Rightarrow> element \<Rightarrow> bool" where
  "el_overlaps a b \<longleftrightarrow>
     el_x a < el_x b + el_width b \<and> el_x b < el_x a + el_width a
     \<and> el_y a < el_y b + el_height b \<and> el_y b < el_y a + el_height a"

definition el_contains :: "element \<Rightarrow> element \<Rightarrow> bool" where
  "el_contains outer inner \<longleftrightarrow>
     el_x outer \<le> el_x inner \<and> el_y outer \<le> el_y inner
     \<and> el_x outer + el_width outer \<ge> el_x inner + el_width inner
     \<and> el_y outer + el_height outer \<ge> el_y inner + el_height inner
     \<and> (el_width outer > el_width inner \<or> el_height outer > el_height inner)"

section \<open>References\<close>

text \<open>\<open>new Map(els.map((e) => [e.id, e]))\<close>: the last element with an id wins.\<close>

definition by_id :: "element list \<Rightarrow> jsstring \<Rightarrow> element option" where
  "by_id els = map_of (rev (map (\<lambda>e. (el_id e, e)) els))"

definition is_type :: "string \<Rightarrow> element \<Rightarrow> bool" where
  "is_type t e \<longleftrightarrow> el_type e = u t"

definition container_id :: "element \<Rightarrow> jsstring option" where
  "container_id e = (case el_text e of None \<Rightarrow> None | Some t \<Rightarrow> tp_containerId t)"

text \<open>\<open>e.containerId\<close> in a condition: a container id that is present and not empty.\<close>

definition truthy_container :: "element \<Rightarrow> jsstring option" where
  "truthy_container e = (case container_id e of None \<Rightarrow> None | Some c \<Rightarrow> if c = [] then None else Some c)"

definition binding_of :: "binding_side \<Rightarrow> element \<Rightarrow> binding option" where
  "binding_of side e = (case el_arrow e of None \<Rightarrow> None
     | Some a \<Rightarrow> Some (case side of StartBinding \<Rightarrow> ar_startBinding a | EndBinding \<Rightarrow> ar_endBinding a))"

definition size_errors :: "element \<Rightarrow> verror list" where
  "size_errors e = (if el_width e < 0 \<or> el_height e < 0 then [NegativeSize (el_id e) (el_width e) (el_height e)] else [])"

definition container_errors :: "element list \<Rightarrow> element \<Rightarrow> verror list" where
  "container_errors els e =
     (if \<not> is_type ''text'' e then []
      else (case container_id e of None \<Rightarrow> []
        | Some c \<Rightarrow> if by_id els c = None then [NoContainer (el_id e) c] else []))"

definition binding_errors :: "element list \<Rightarrow> element \<Rightarrow> verror list" where
  "binding_errors els e =
     (if \<not> is_type ''arrow'' e then []
      else concat (map (\<lambda>side. case binding_of side e of None \<Rightarrow> []
             | Some b \<Rightarrow> if by_id els (bi_elementId b) = None then [NoBindingTarget (el_id e) side (bi_elementId b)] else [])
             [StartBinding, EndBinding])
        @ (if (case el_arrow e of None \<Rightarrow> True | Some a \<Rightarrow> length (ar_points a) < 2) then [FewPoints (el_id e)] else []))"

definition binding_warnings :: "element \<Rightarrow> vwarning list" where
  "binding_warnings e =
     (if \<not> is_type ''arrow'' e then []
      else concat (map (\<lambda>side. if binding_of side e = None then [NoBinding (el_id e) side] else []) [StartBinding, EndBinding]))"

definition is_listed :: "element list \<Rightarrow> jsstring \<Rightarrow> string \<Rightarrow> jsstring \<Rightarrow> bool" where
  "is_listed els container kind i =
     (case by_id els container of None \<Rightarrow> False
      | Some c \<Rightarrow> list_ex (\<lambda>b. bo_id b = i \<and> bo_type b = u kind) (el_boundElements c))"

definition listing_errors :: "element list \<Rightarrow> element \<Rightarrow> verror list" where
  "listing_errors els e =
     (if is_type ''text'' e
      then (case truthy_container e of None \<Rightarrow> []
        | Some c \<Rightarrow> if is_listed els c ''text'' (el_id e) then [] else [TextNotListed c (el_id e)]) else [])
     @ (if is_type ''arrow'' e
        then concat (map (\<lambda>side. case binding_of side e of None \<Rightarrow> []
          | Some b \<Rightarrow> if is_listed els (bi_elementId b) ''arrow'' (el_id e) then []
              else [ArrowNotListed (bi_elementId b) (el_id e) side]) [StartBinding, EndBinding]) else [])"

definition bound_errors :: "element list \<Rightarrow> element \<Rightarrow> verror list" where
  "bound_errors els e = concat (map (\<lambda>b. if by_id els (bo_id b) = None then [NoBoundElement (el_id e) (bo_id b)] else [])
     (el_boundElements e))"

section \<open>Layout\<close>

definition rects :: "element list \<Rightarrow> element list" where
  "rects els = filter (is_type ''rectangle'') els"

text \<open>The ids of rectangles that contain another rectangle; no rectangle contains itself.\<close>

definition containers_set :: "element list \<Rightarrow> jsstring list" where
  "containers_set els = map el_id (filter (\<lambda>a. list_ex (el_contains a) (rects els)) (rects els))"

definition leaves :: "element list \<Rightarrow> element list" where
  "leaves els = filter (\<lambda>r. el_id r \<notin> set (containers_set els)) (rects els)"

definition container_rects :: "element list \<Rightarrow> element list" where
  "container_rects els = filter (\<lambda>r. el_id r \<in> set (containers_set els)) (rects els)"

fun pairs :: "'a list \<Rightarrow> ('a \<times> 'a) list" where
  "pairs [] = []"
| "pairs (x # xs) = map (Pair x) xs @ pairs xs"

definition overlap_errors :: "element list \<Rightarrow> verror list" where
  "overlap_errors els = concat (map (\<lambda>(a, b). if el_overlaps a b then [LeafOverlap (el_id a) (el_id b)] else [])
     (pairs (leaves els)))"

definition sibling_gap :: "element \<Rightarrow> element \<Rightarrow> rat" where
  "sibling_gap a b =
     max (max (el_x a - (el_x b + el_width b)) (el_x b - (el_x a + el_width a)))
         (max (el_y a - (el_y b + el_height b)) (el_y b - (el_y a + el_height a)))"

definition is_swatch :: "element \<Rightarrow> bool" where
  "is_swatch r \<longleftrightarrow> el_width r \<le> 32 \<and> el_height r \<le> 32"

definition sibling_warnings :: "element list \<Rightarrow> vwarning list" where
  "sibling_warnings els = concat (map (\<lambda>(a, b).
     let gap = sibling_gap a b;
         bandX = el_x a < el_x b + el_width b \<and> el_x b < el_x a + el_width a;
         bandY = el_y a < el_y b + el_height b \<and> el_y b < el_y a + el_height a in
     if \<not> el_overlaps a b \<and> gap < MIN_SIBLING_GAP - 1 / 2 \<and> gap \<ge> 0 \<and> (bandX \<or> bandY)
        \<and> \<not> is_swatch a \<and> \<not> is_swatch b
     then [CloseSiblings (el_id a) (el_id b) gap] else []) (pairs (leaves els)))"

definition text_lines :: "text_part \<Rightarrow> jsstring list" where
  "text_lines t = split_on 10 (tp_text t)"

text \<open>Free text that starts inside a leaf must not run over its bottom.\<close>

definition overflow_errors :: "element list \<Rightarrow> element \<Rightarrow> verror list" where
  "overflow_errors els e =
     (case el_text e of
        None \<Rightarrow> []
      | Some t \<Rightarrow>
          if \<not> is_type ''text'' e \<or> truthy_container e \<noteq> None then []
          else concat (map (\<lambda>r.
            let insideX = el_x e \<ge> el_x r - 1 \<and> el_x e + el_width e \<le> el_x r + el_width r + 1;
                startsInside = el_y e \<ge> el_y r - 1 \<and> el_y e \<le> el_y r + el_height r;
                th = of_nat (length (text_lines t)) * tp_fontSize t * LINE_HEIGHT in
            if insideX \<and> startsInside \<and> el_y e + th > el_y r + el_height r + 1
            then [FreeTextOverflow (el_id e) (el_id r)] else []) (leaves els)))"

definition straddle_errors :: "element list \<Rightarrow> verror list" where
  "straddle_errors els = concat (map (\<lambda>leaf. concat (map (\<lambda>c.
     if el_overlaps leaf c \<and> \<not> el_contains c leaf then [StraddlesGroup (el_id leaf) (el_id c)] else [])
     (container_rects els))) (leaves els))"

definition longest_line :: "text_part \<Rightarrow> rat" where
  "longest_line t = foldl (\<lambda>m l. max m (of_nat (length l) * charWidth (tp_fontSize t) (tp_fontFamily t))) 0 (text_lines t)"

definition fit_errors :: "element list \<Rightarrow> element \<Rightarrow> text_part \<Rightarrow> verror list" where
  "fit_errors els e t =
     (case truthy_container e of
        Some ci \<Rightarrow>
          (case by_id els ci of
             None \<Rightarrow> []
           | Some c \<Rightarrow>
               if is_type ''arrow'' c then []
               else (if longest_line t > el_width c - 2 * BOX_PAD + 1 / 2 then [BoundTextTooWide (el_id e) (el_id c)] else [])
                 @ (if of_nat (length (text_lines t)) * tp_fontSize t * LINE_HEIGHT > el_height c - 8
                    then [BoundTextTooTall (el_id e) (el_id c)] else []))
      | None \<Rightarrow> if longest_line t > el_width e + 1 / 2 then [FreeTextTooWide (el_id e)] else [])"

definition text_errors :: "element list \<Rightarrow> element \<Rightarrow> verror list" where
  "text_errors els e =
     (case el_text e of
        None \<Rightarrow> []
      | Some t \<Rightarrow>
          if \<not> is_type ''text'' e then []
          else fit_errors els e t
            @ (if length (wrapText (tp_text t) (tp_fontSize t) (el_width e) (tp_fontFamily t)) > length (text_lines t)
               then [WouldRewrap (el_id e)] else [])
            @ (if tp_fontSize t < MIN_BODY_FONT then [SmallFont (el_id e) (tp_fontSize t)] else [])
            @ (if tp_lineHeight t \<noteq> LINE_HEIGHT then [WrongLineHeight (el_id e) (tp_lineHeight t)] else []))"

definition some_text :: "(text_part \<Rightarrow> bool) \<Rightarrow> element list \<Rightarrow> bool" where
  "some_text P els \<longleftrightarrow> list_ex (\<lambda>e. is_type ''text'' e \<and> (case el_text e of None \<Rightarrow> False | Some t \<Rightarrow> P t)) els"

definition diagram_errors :: "element list \<Rightarrow> verror list" where
  "diagram_errors els =
     (if some_text (\<lambda>t. tp_fontSize t \<ge> 28) els then [] else [NoTitle])
     @ (if some_text (\<lambda>t. str_includes (tp_originalText t) (u ''Conclusion:'')) els then [] else [NoSubtitle])
     @ (if some_text (\<lambda>t. startsWith (tp_originalText t) (u ''Legend'')) els then [] else [NoLegend])"

definition validate :: "element list \<Rightarrow> js_exn + verror list \<times> vwarning list" where
  "validate els =
     (if list_ex (\<lambda>e. is_type ''text'' e \<and> el_text e = None) els
      then Inl (JsError (u ''Cannot read properties of undefined (reading '' @ [39] @ u ''split'' @ [39] @ u '')''))
      else Inr
        (concat (map size_errors els)
         @ concat (map (container_errors els) els)
         @ concat (map (binding_errors els) els)
         @ concat (map (listing_errors els) els)
         @ concat (map (bound_errors els) els)
         @ overlap_errors els
         @ concat (map (overflow_errors els) els)
         @ straddle_errors els
         @ concat (map (text_errors els) els)
         @ diagram_errors els,
         concat (map binding_warnings els) @ sibling_warnings els))"

text \<open>
  \<open>main\<close>: the exit code over the files of a directory, in sorted order, each parsed (\<open>None\<close> when it is
  not JSON).  A text without its text part ends the run with an exception.
\<close>

definition validate_main :: "(jsstring \<times> element list option) list \<Rightarrow> js_exn + int" where
  "validate_main files =
     (if files = [] then Inr 1
      else bindE (mapE (\<lambda>(name, doc). case doc of
               None \<Rightarrow> Inr True
             | Some els \<Rightarrow> bindE (validate els) (\<lambda>(errors, warnings). Inr (errors \<noteq> []))) files)
        (\<lambda>failures. Inr (if length (filter id failures) = 0 then 0 else 1)))"

section \<open>Lemmas\<close>

fun reference_error :: "verror \<Rightarrow> bool" where
  "reference_error (NoContainer _ _) = True"
| "reference_error (NoBindingTarget _ _ _) = True"
| "reference_error (FewPoints _) = True"
| "reference_error (TextNotListed _ _) = True"
| "reference_error (ArrowNotListed _ _ _) = True"
| "reference_error (NoBoundElement _ _) = True"
| "reference_error (WrongLineHeight _ _) = True"
| "reference_error _ = False"

lemma by_id_scene:
  assumes "distinct (map el_id els)" "e \<in> set els"
  shows "by_id els (el_id e) = Some e"
proof -
  have "distinct (map fst (rev (map (\<lambda>e. (el_id e, e)) els)))"
    using assms(1) by (simp add: rev_map [symmetric] comp_def)
  moreover have "(el_id e, e) \<in> set (rev (map (\<lambda>e. (el_id e, e)) els))"
    using assms(2) by simp
  ultimately show ?thesis
    unfolding by_id_def by (rule map_of_is_SomeI)
qed

lemma by_id_known: "by_id els i \<noteq> None \<longleftrightarrow> i \<in> el_id ` set els"
  by (auto simp: by_id_def map_of_eq_None_iff image_iff)

lemma by_id_member: "by_id els i = Some e \<Longrightarrow> e \<in> set els \<and> el_id e = i"
  by (auto simp: by_id_def dest!: map_of_SomeD)

lemma listed_is_listed:
  assumes "scene_wf s" "(c, \<lparr>bo_type = u kind, bo_id = i\<rparr>) \<in> listed s"
  shows "is_listed (sc_elements s) c kind i"
proof -
  from assms(2) obtain e where e: "e \<in> set (sc_elements s)" "c = el_id e"
      "\<lparr>bo_type = u kind, bo_id = i\<rparr> \<in> set (el_boundElements e)"
    by (auto simp: listed_def)
  have "by_id (sc_elements s) c = Some e"
    using assms(1) by_id_scene [OF _ e(1)] by (simp add: scene_wf_def ids_def e(2))
  with e(3) show ?thesis
    by (auto simp: is_listed_def list_ex_iff intro: bexI [rotated])
qed

lemma linked_known:
  assumes "consistent s" "(c, b) \<in> links s"
  shows "by_id (sc_elements s) c \<noteq> None \<and> (c, b) \<in> listed s"
proof -
  have l: "(c, b) \<in> listed s" using assms by (auto simp: consistent_def)
  then have "c \<in> el_id ` set (sc_elements s)" by (auto simp: listed_def)
  with l show ?thesis by (simp only: by_id_known simp_thms)
qed

lemma text_link:
  "e \<in> set (sc_elements s) \<Longrightarrow> container_id e = Some c \<Longrightarrow> (c, text_bound (el_id e)) \<in> links s"
  by (force simp: links_def element_links_def container_id_def split: option.splits)

lemma arrow_link:
  "e \<in> set (sc_elements s) \<Longrightarrow> binding_of side e = Some b \<Longrightarrow> (bi_elementId b, arrow_bound (el_id e)) \<in> links s"
  by (cases side) (force simp: links_def element_links_def binding_of_def split: option.splits)+

lemma no_container_errors:
  assumes s: "consistent s" and e: "e \<in> set (sc_elements s)"
  shows "container_errors (sc_elements s) e = []"
  using linked_known [OF s text_link [OF e]] by (auto simp: container_errors_def split: option.splits)

lemma well_shaped_element:
  assumes s: "consistent s" and e: "e \<in> set (sc_elements s)"
  shows "well_shaped e"
  using s e by (simp add: consistent_def scene_wf_def)

lemma no_binding_errors:
  assumes s: "consistent s" and e: "e \<in> set (sc_elements s)"
  shows "binding_errors (sc_elements s) e = []"
proof -
  have "by_id (sc_elements s) (bi_elementId b) \<noteq> None" if "binding_of side e = Some b" for side b
    using linked_known [OF s arrow_link [OF e that]] by blast
  moreover have "is_type ''arrow'' e \<Longrightarrow> \<exists>a. el_arrow e = Some a \<and> 2 \<le> length (ar_points a)"
    using well_shaped_element [OF s e] by (auto simp: well_shaped_def is_type_def)
  ultimately show ?thesis
    by (fastforce simp: binding_errors_def split: option.splits)
qed

lemma no_binding_warnings:
  assumes s: "consistent s" and e: "e \<in> set (sc_elements s)"
  shows "binding_warnings e = []"
  using well_shaped_element [OF s e] by (auto simp: binding_warnings_def binding_of_def well_shaped_def is_type_def)

lemma no_listing_errors:
  assumes s: "consistent s" and e: "e \<in> set (sc_elements s)"
  shows "listing_errors (sc_elements s) e = []"
proof -
  have wf: "scene_wf s" using s by (rule consistent_wf)
  have "is_listed (sc_elements s) c ''text'' (el_id e)" if "truthy_container e = Some c" for c
  proof -
    from that have "container_id e = Some c"
      by (auto simp: truthy_container_def split: option.splits if_splits)
    from linked_known [OF s text_link [OF e this]] show ?thesis
      using listed_is_listed [OF wf, of c "''text''"] by (simp add: text_bound_def)
  qed
  moreover have "is_listed (sc_elements s) (bi_elementId b) ''arrow'' (el_id e)" if "binding_of side e = Some b" for side b
    using linked_known [OF s arrow_link [OF e that]] listed_is_listed [OF wf, of "bi_elementId b" "''arrow''"]
    by (simp add: arrow_bound_def)
  ultimately show ?thesis
    by (auto simp: listing_errors_def split: option.splits)
qed

lemma no_bound_errors:
  assumes s: "consistent s" and e: "e \<in> set (sc_elements s)"
  shows "bound_errors (sc_elements s) e = []"
proof -
  have "by_id (sc_elements s) (bo_id b) \<noteq> None" if "b \<in> set (el_boundElements e)" for b
  proof -
    have "(el_id e, b) \<in> listed s" using that e by (auto simp: listed_def)
    then have "bo_id b \<in> el_id ` set (sc_elements s)"
      using s by (fastforce simp: consistent_def ids_def)
    then show ?thesis by (simp only: by_id_known)
  qed
  then show ?thesis by (fastforce simp: bound_errors_def)
qed

lemma text_errors_layout:
  assumes s: "consistent s" and e: "e \<in> set (sc_elements s)"
  shows "x \<in> set (text_errors (sc_elements s) e) \<Longrightarrow> \<not> reference_error x"
  using well_shaped_element [OF s e]
  by (auto simp: text_errors_def fit_errors_def well_shaped_def is_type_def split: option.splits if_splits)

lemma text_has_part:
  assumes s: "consistent s" and e: "e \<in> set (sc_elements s)"
  shows "is_type ''text'' e \<Longrightarrow> el_text e \<noteq> None"
  using well_shaped_element [OF s e] by (auto simp: well_shaped_def is_type_def)

lemma layout_errors:
  "x \<in> set (size_errors e) \<Longrightarrow> \<not> reference_error x" "x \<in> set (overlap_errors els) \<Longrightarrow> \<not> reference_error x"
  "x \<in> set (overflow_errors els e) \<Longrightarrow> \<not> reference_error x" "x \<in> set (straddle_errors els) \<Longrightarrow> \<not> reference_error x"
  "x \<in> set (diagram_errors els) \<Longrightarrow> \<not> reference_error x"
  by (auto simp: size_errors_def overlap_errors_def overflow_errors_def straddle_errors_def diagram_errors_def
      Let_def split: option.splits if_splits prod.splits)

fun diagram_level :: "verror \<Rightarrow> bool" where
  "diagram_level NoTitle = True"
| "diagram_level NoSubtitle = True"
| "diagram_level NoLegend = True"
| "diagram_level _ = False"

lemma element_level:
  "x \<in> set (size_errors e) \<Longrightarrow> \<not> diagram_level x" "x \<in> set (overlap_errors els) \<Longrightarrow> \<not> diagram_level x"
  "x \<in> set (overflow_errors els e) \<Longrightarrow> \<not> diagram_level x" "x \<in> set (straddle_errors els) \<Longrightarrow> \<not> diagram_level x"
  "x \<in> set (text_errors els e) \<Longrightarrow> \<not> diagram_level x"
  by (auto simp: size_errors_def overlap_errors_def overflow_errors_def straddle_errors_def text_errors_def fit_errors_def
      Let_def split: option.splits if_splits prod.splits)

lemma sibling_warnings_kind: "NoBinding i side \<notin> set (sibling_warnings els)"
  by (auto simp: sibling_warnings_def Let_def split: if_splits)

section \<open>Fitting text\<close>

lemma charWidth_pos: "0 < fs \<Longrightarrow> 0 < charWidth fs ff"
  by (auto simp: charWidth_def CHAR_RATIO_def split: option.splits)

lemma foldl_max_le: "m \<le> b \<Longrightarrow> \<forall>x \<in> set xs. f x \<le> b \<Longrightarrow> foldl (\<lambda>m x. max m (f x)) m xs \<le> (b :: rat)"
  by (induction xs arbitrary: m) auto

lemma wrapped_lines: "text_lines t = wrapText c fs w ff" if "tp_text t = join [10] (wrapText c fs w ff)"
proof -
  have "\<forall>l \<in> set (wrapText c fs w ff). 10 \<notin> set l"
    using wrapText_good [of w fs ff c] by (auto simp: list_all_iff good_line_def)
  then show ?thesis
    using that wrapText_not_Nil by (simp add: text_lines_def split_on_join)
qed

lemma wrapped_longest:
  assumes "tp_text t = join [10] (wrapText c (tp_fontSize t) w (tp_fontFamily t))"
    and "0 < tp_fontSize t" "charWidth (tp_fontSize t) (tp_fontFamily t) \<le> w"
  shows "longest_line t \<le> w"
proof -
  have "0 \<le> w" using charWidth_pos [OF assms(2)] assms(3) by (meson less_imp_le order_trans)
  moreover have "of_nat (length l) * charWidth (tp_fontSize t) (tp_fontFamily t) \<le> w"
    if "l \<in> set (wrapText c (tp_fontSize t) w (tp_fontFamily t))" for l
    using that wrapText_good [of w "tp_fontSize t" "tp_fontFamily t" c]
      measureLine_fits [OF _ charWidth_pos [OF assms(2)] assms(3), of l]
    by (simp add: list_all_iff good_line_def measureLine_def)
  ultimately show ?thesis
    unfolding longest_line_def wrapped_lines [OF assms(1)] by (intro foldl_max_le) auto
qed

lemma last_updated_base: "last (sc_elements (update_last f (base ty i x y w h p s))) = f (last (sc_elements (base ty i x y w h p s)))"
  by (simp add: update_last_def)

lemma last_base:
  "el_type (last (sc_elements (base ty i x y w h p s))) = u ty"
  "el_width (last (sc_elements (base ty i x y w h p s))) = round2 w"
  "el_y (last (sc_elements (base ty i x y w h p s))) = round2 y"
  by (simp_all add: base_def Let_def split_beta)

lemma scene_text_part:
  assumes "scene_text c o' s = (e, s')" "to_width o' = Some w"
  shows "el_type e = u ''text'' \<and> el_width e = round2 w \<and> (\<exists>t. el_text e = Some t
    \<and> tp_text t = join [10] (wrapText c (to_fontSize o') w (to_fontFamily o'))
    \<and> tp_fontSize t = to_fontSize o' \<and> tp_fontFamily t = to_fontFamily o'
    \<and> tp_containerId t = None \<and> tp_lineHeight t = LINE_HEIGHT)"
proof -
  from assms(1) have e: "e = fst (scene_text c o' s)" by simp
  show ?thesis
    unfolding e scene_text_def Let_def textBlockSize_def assms(2) option.case prod.case split_beta fst_conv
      last_updated_base
    by (simp add: last_base dflt_def)
qed

lemma arrow_id_fresh:
  assumes "scene_wf s" "scene_arrow f t ao s = Inr (i, s')"
  shows "i \<notin> set (ids s)"
proof -
  obtain a x y w h p c o' where eq: "scene_arrow f t ao s =
       (let i = make_id ''arr'' (sc_idCounter s + 1);
            s3 = set_arrow a (fresh_base ''arrow'' ''arr'' x y w h p s) in
        bindE (push_bound (hd_id f) (arrow_bound i) s3) (\<lambda>s4.
        bindE (push_bound (hd_id t) (arrow_bound i) s4) (\<lambda>s5.
          if ao_label ao = [] then Inr (i, s5) else Inr (i, snd (scene_text c o' s5)))))"
    using scene_arrow_steps [of f t ao s] by (elim exE conjE) (rule that)
  from assms(2) [unfolded eq Let_def] have "i = make_id ''arr'' (sc_idCounter s + 1)"
    by (auto simp: bindE_Inr_iff split: if_splits)
  with fresh_not_used [OF assms(1) dash_free(4)] show ?thesis by simp
qed

section \<open>Properties\<close>

text \<open>On a scene built with the class only the layout checks are left.\<close>

lemma built_validates:
  assumes "built s"
  shows "validate (sc_elements s) = Inr
      (concat (map size_errors (sc_elements s)) @ overlap_errors (sc_elements s)
        @ concat (map (overflow_errors (sc_elements s)) (sc_elements s)) @ straddle_errors (sc_elements s)
        @ concat (map (text_errors (sc_elements s)) (sc_elements s)) @ diagram_errors (sc_elements s),
       sibling_warnings (sc_elements s))"
proof -
  let ?els = "sc_elements s"
  have c: "consistent s" using assms by (rule built_consistent)
  have none: "concat (map (container_errors ?els) ?els) = []" "concat (map (binding_errors ?els) ?els) = []"
    "concat (map (listing_errors ?els) ?els) = []" "concat (map (bound_errors ?els) ?els) = []"
    "concat (map binding_warnings ?els) = []"
    using no_container_errors [OF c] no_binding_errors [OF c] no_listing_errors [OF c] no_bound_errors [OF c]
      no_binding_warnings [OF c] by auto
  have "\<not> list_ex (\<lambda>e. is_type ''text'' e \<and> el_text e = None) ?els"
    using text_has_part [OF c] by (auto simp: list_ex_iff)
  then show ?thesis
    by (simp only: validate_def if_False none append_Nil)
qed

lemma built_layout_only:
  assumes "built s"
  shows "\<exists>errors warnings. validate (sc_elements s) = Inr (errors, warnings)
    \<and> (\<forall>x \<in> set errors. \<not> reference_error x) \<and> (\<forall>i side. NoBinding i side \<notin> set warnings)
    \<and> (\<forall>x \<in> set errors. diagram_level x \<longrightarrow> x \<in> set (diagram_errors (sc_elements s)))"
  unfolding built_validates [OF assms] using text_errors_layout [OF built_consistent [OF assms]]
  by (auto simp: sibling_warnings_kind dest: layout_errors element_level)

text \<open>C2. Whatever a program draws through the \<open>Scene\<close> class, the validator finds no reference error in
  the document: it does not throw, every container, arrow end and bound element it names exists,
  every bound text and arrow is listed by the element it is bound to, every arrow has two points and
  both bindings, and line heights are the estimator's.  Only layout can fail.\<close>

theorem built_scenes_have_sound_references:
  assumes "built s"
  shows "\<exists>errors warnings. validate (sc_elements s) = Inr (errors, warnings)
    \<and> (\<forall>x \<in> set errors. \<not> reference_error x) \<and> (\<forall>i side. NoBinding i side \<notin> set warnings)"
  using built_layout_only [OF assms] by blast

theorem built_scenes_have_sound_references_witness:
  "\<exists>errors warnings. validate (sc_elements (snd (scene_box (box_titled (u ''webui'')) (new_scene [] 1)))) = Inr (errors, warnings)
    \<and> (\<forall>x \<in> set errors. \<not> reference_error x)"
  using built_scenes_have_sound_references [OF built.add_box [OF built.new], of "box_titled (u ''webui'')" "[]" 1] by blast

text \<open>C34. An arrow can only throw on a box the scene does not hold: between two elements of a scene the
  class built, \<open>arrow\<close> always draws, and both ends list the new arrow.\<close>

theorem arrow_between_known_boxes:
  assumes "built s" "hd_id f \<in> set (ids s)" "hd_id t \<in> set (ids s)"
  shows "\<exists>i s'. scene_arrow f t ao s = Inr (i, s') \<and> built s' \<and> i \<notin> set (ids s)
    \<and> is_listed (sc_elements s') (hd_id f) ''arrow'' i \<and> is_listed (sc_elements s') (hd_id t) ''arrow'' i"
proof -
  have wf: "scene_wf s" using assms(1) by (intro consistent_wf built_consistent)
  from scene_arrow_works [OF wf assms(2,3)] obtain i s' where ar: "scene_arrow f t ao s = Inr (i, s')"
    by blast
  have l: "(hd_id f, arrow_bound i) \<in> listed s'" "(hd_id t, arrow_bound i) \<in> listed s'" and wf': "scene_wf s'"
    using scene_arrow_grows [OF wf ar] by (auto simp: grows_def Let_def)
  show ?thesis
    using ar built.add_arrow [OF assms(1) ar] arrow_id_fresh [OF wf ar]
      listed_is_listed [OF wf', of _ "''arrow''" i] l
    by (auto simp: arrow_bound_def)
qed

theorem arrow_between_known_boxes_witness:
  "\<exists>h s s'. scene_box (box_titled (u ''router'')) (new_scene [] 1) = (h, s)
     \<and> (\<exists>i. scene_arrow h h arrow_defaults s = Inr (i, s') \<and> i \<notin> set (ids s))"
proof -
  obtain h s where b: "scene_box (box_titled (u ''router'')) (new_scene [] 1) = (h, s)" by fastforce
  have "built s" using built.add_box [OF built.new, of "box_titled (u ''router'')" "[]" 1] b by simp
  moreover have "hd_id h \<in> set (ids s)"
    using scene_box_grows [OF consistent_wf [OF new_scene_consistent] b] by blast
  ultimately show ?thesis
    using arrow_between_known_boxes [of s h h arrow_defaults] b by blast
qed

text \<open>C29. Text the class draws at a declared width of whole hundredths that holds a character passes every
  text check of the validator, whatever it says: no line is wider than the width, and wrapping the
  wrapped text again gives the same lines.\<close>

theorem drawn_text_fits:
  assumes "scene_text c o' s = (e, s')" and "to_width o' = Some w" and "round2 w = w"
    and "MIN_BODY_FONT \<le> to_fontSize o'" and "charWidth (to_fontSize o') (to_fontFamily o') \<le> w"
  shows "text_errors els e = []"
proof -
  from scene_text_part [OF assms(1,2)] obtain t where ty: "el_type e = u ''text''" and w: "el_width e = w"
    and t: "el_text e = Some t" "tp_text t = join [10] (wrapText c (to_fontSize o') w (to_fontFamily o'))"
      "tp_fontSize t = to_fontSize o'" "tp_fontFamily t = to_fontFamily o'" "tp_containerId t = None"
      "tp_lineHeight t = LINE_HEIGHT"
    using assms(3) by auto
  have fs: "0 < tp_fontSize t" using assms(4) t(3) by (simp add: MIN_BODY_FONT_def)
  have "longest_line t \<le> w"
    by (rule wrapped_longest) (use t fs assms(5) in simp_all)
  moreover have "wrapText (tp_text t) (tp_fontSize t) w (tp_fontFamily t) = text_lines t"
    unfolding wrapped_lines [OF t(2)] using wrapText_rejoin [OF wrapText_not_Nil wrapText_good] t by simp
  moreover have "truthy_container e = None"
    by (simp add: truthy_container_def container_id_def t)
  ultimately show ?thesis
    using assms(4) ty by (simp add: text_errors_def fit_errors_def is_type_def t w)
qed

theorem drawn_text_fits_witness:
  "text_errors [] (fst (scene_text (u ''a governed no'') ((text_at 0 0)\<lparr>to_width := Some 40\<rparr>) (new_scene [] 1))) = []"
proof -
  let ?o = "(text_at 0 0)\<lparr>to_width := Some 40\<rparr>"
  obtain e s' where e: "scene_text (u ''a governed no'') ?o (new_scene [] 1) = (e, s')" by fastforce
  have "round2 40 = 40" "MIN_BODY_FONT \<le> to_fontSize ?o" "charWidth (to_fontSize ?o) (to_fontFamily ?o) \<le> 40"
    by code_simp+
  from drawn_text_fits [OF e _ this] show ?thesis by (simp add: e)
qed

text \<open>C23. Wrapping never widens a line past the character limit, loses nothing but spaces and line
  breaks, and is stable: text that has been wrapped and joined is wrapped to the same lines.\<close>

theorem wrap_is_sound:
  "(\<forall>l \<in> set (wrapText t fs w ff). length l \<le> max_chars w fs ff \<and> (l = [] \<or> hd l \<noteq> 32))
   \<and> concat (map unspaced (wrapText t fs w ff)) = unspaced t
   \<and> wrapText (join [10] (wrapText t fs w ff)) fs w ff = wrapText t fs w ff"
  using wrapText_good [of w fs ff t] wrapText_unspaced [of t fs w ff]
    wrapText_rejoin [OF wrapText_not_Nil wrapText_good, of t fs w ff]
  by (auto simp: list_all_iff good_line_def)

theorem wrap_is_sound_witness:
  "length (hd (wrapText (u ''governed exchange'') 16 80 2)) \<le> max_chars 80 16 2"
  using wrap_is_sound [of "u ''governed exchange''" 16 80 2] wrapText_not_Nil by (meson hd_in_set)

lemma wrap_paragraph_space: "wrap_paragraph n (32 # p) = wrap_paragraph n p"
  by (cases "p = []") (simp_all add: wrap_paragraph_def Let_def)

text \<open>Indentation is lost: spaces at the start of a paragraph never reach the wrapped text, so an
  indented line of code in a box is drawn like one that is not indented.\<close>

theorem wrap_drops_indentation:
  assumes "10 \<notin> set l"
  shows "wrapText (replicate k 32 @ l) fs w ff = wrapText l fs w ff"
proof -
  have "wrap_paragraph n (replicate k 32 @ l) = wrap_paragraph n l" for n
    by (induction k) (simp_all add: wrap_paragraph_space)
  with assms show ?thesis
    by (simp add: wrapText_def split_on_no_sep)
qed

theorem wrap_drops_indentation_witness:
  "wrapText (u ''  lane: Research'') 16 400 3 = wrapText (u ''lane: Research'') 16 400 3"
proof -
  have "u ''  lane: Research'' = replicate 2 32 @ u ''lane: Research''" "10 \<notin> set (u ''lane: Research'')"
    by code_simp+
  then show ?thesis
    using wrap_drops_indentation [of "u ''lane: Research''" 2 16 400 3] by simp
qed

text \<open>The validator's exit code is honest: over a directory of well-formed documents it is 0 exactly
  when there is a diagram and every file parses and has no error.\<close>

theorem exit_code_zero_iff:
  "validate_main files = Inr 0 \<longleftrightarrow>
     files \<noteq> [] \<and> (\<forall>(name, doc) \<in> set files. \<exists>els warnings. doc = Some els \<and> validate els = Inr ([], warnings))"
proof -
  let ?f = "\<lambda>(name :: jsstring, doc). case doc of
      None \<Rightarrow> Inr True | Some els \<Rightarrow> bindE (validate els) (\<lambda>(errors, warnings). Inr (errors \<noteq> []))"
  have f: "?f x = Inr False \<longleftrightarrow> (case x of (name, doc) \<Rightarrow> \<exists>els warnings. doc = Some els \<and> validate els = Inr ([], warnings))" for x
    by (cases x) (auto simp: bindE_Inr_iff split: option.splits)
  have m: "(\<exists>bs. mapE ?f xs = Inr bs \<and> filter id bs = []) \<longleftrightarrow> (\<forall>x \<in> set xs. ?f x = Inr False)" for xs
  proof (induction xs)
    case (Cons x xs)
    show ?case
      using Cons by (cases "?f x"; cases "mapE ?f xs") (auto simp: bindE_Inr_iff)
  qed simp
  have "validate_main files = Inr 0 \<longleftrightarrow> files \<noteq> [] \<and> (\<exists>bs. mapE ?f files = Inr bs \<and> filter id bs = [])"
    by (auto simp: validate_main_def bindE_Inr_iff split: if_splits)
  then show ?thesis
    unfolding m f by (simp add: case_prod_beta)
qed

lemma set_pairs: "(a, b) \<in> set (pairs xs) \<longleftrightarrow> (\<exists>i j. i < j \<and> j < length xs \<and> a = xs ! i \<and> b = xs ! j)"
proof (induction xs)
  case (Cons x xs)
  show ?case
  proof
    assume "(a, b) \<in> set (pairs (x # xs))"
    then consider "a = x" "b \<in> set xs" | "(a, b) \<in> set (pairs xs)" by auto
    then show "\<exists>i j. i < j \<and> j < length (x # xs) \<and> a = (x # xs) ! i \<and> b = (x # xs) ! j"
    proof cases
      case 1
      then obtain j where "j < length xs" "b = xs ! j" by (metis in_set_conv_nth)
      with 1 show ?thesis by (intro exI [of _ 0] exI [of _ "Suc j"]) simp
    next
      case 2
      with Cons.IH obtain i j where "i < j" "j < length xs" "a = xs ! i" "b = xs ! j" by blast
      then show ?thesis by (intro exI [of _ "Suc i"] exI [of _ "Suc j"]) simp
    qed
  next
    assume "\<exists>i j. i < j \<and> j < length (x # xs) \<and> a = (x # xs) ! i \<and> b = (x # xs) ! j"
    then obtain i j where ij: "i < j" "j < length (x # xs)" "a = (x # xs) ! i" "b = (x # xs) ! j" by blast
    then obtain j' where j: "j = Suc j'" by (cases j) simp_all
    show "(a, b) \<in> set (pairs (x # xs))"
    proof (cases i)
      case 0
      with ij j show ?thesis by simp
    next
      case (Suc i')
      with ij j have "i' < j' \<and> j' < length xs \<and> a = xs ! i' \<and> b = xs ! j'" by simp
      with Cons.IH show ?thesis by auto
    qed
  qed
qed simp

lemma is_listed_member:
  "is_listed els c kind i \<Longrightarrow> \<exists>r. by_id els c = Some r \<and> \<lparr>bo_type = u kind, bo_id = i\<rparr> \<in> set (el_boundElements r)"
proof -
  assume "is_listed els c kind i"
  then obtain r b where r: "by_id els c = Some r" and b: "b \<in> set (el_boundElements r)" "bo_id b = i" "bo_type b = u kind"
    by (auto simp: is_listed_def list_ex_iff split: option.splits)
  from b(2,3) have "b = \<lparr>bo_type = u kind, bo_id = i\<rparr>" by (cases b) auto
  with r b(1) show ?thesis by blast
qed


definition passing_document :: "element list" where
  "passing_document =
     [\<lparr>el_id = u ''txt-001'', el_type = u ''text'', el_x = 0, el_y = 0, el_width = 385, el_height = 35,
       el_strokeColor = C_ink, el_backgroundColor = C_transparent, el_fillStyle = u ''solid'', el_strokeWidth = 2,
       el_strokeStyle = u ''solid'', el_roughness = 0, el_roundness = None, el_seed = 1, el_versionNonce = 2,
       el_boundElements = [],
       el_text = Some \<lparr>tp_text = u ''Legend Conclusion:'', tp_originalText = u ''Legend Conclusion:'', tp_fontSize = 28,
         tp_fontFamily = FONT_helvetica, tp_textAlign = u ''left'', tp_verticalAlign = u ''top'', tp_containerId = None,
         tp_lineHeight = LINE_HEIGHT\<rparr>,
       el_arrow = None\<rparr>]"

lemma passing_document_layout:
  "size_errors (hd passing_document) = []" "overlap_errors passing_document = []" "straddle_errors passing_document = []"
  "overflow_errors passing_document (hd passing_document) = []" "sibling_warnings passing_document = []"
  "container_errors passing_document (hd passing_document) = []" "binding_errors passing_document (hd passing_document) = []"
  "binding_warnings (hd passing_document) = []" "bound_errors passing_document (hd passing_document) = []"
  "listing_errors passing_document (hd passing_document) = []" "diagram_errors passing_document = []"
  by (simp_all add: passing_document_def size_errors_def overlap_errors_def straddle_errors_def overflow_errors_def
      sibling_warnings_def container_errors_def binding_errors_def binding_warnings_def bound_errors_def
      listing_errors_def diagram_errors_def some_text_def is_type_def rects_def containers_set_def leaves_def
      container_rects_def js_defs truthy_container_def container_id_def)

lemma passing_document_texts: "text_errors passing_document (hd passing_document) = []"
  by (simp add: passing_document_def text_errors_def fit_errors_def is_type_def truthy_container_def container_id_def
      longest_line_def text_lines_def wrapText_def wrap_paragraph_def max_chars_def charWidth_def CHAR_RATIO_def
      FONT_helvetica_def measureLine_def MIN_BODY_FONT_def LINE_HEIGHT_def Let_def js_defs)

lemma passing_document_validates: "validate passing_document = Inr ([], [])"
proof -
  have p: "map f passing_document = [f (hd passing_document)]" for f :: "element \<Rightarrow> 'b list"
    by (simp add: passing_document_def)
  have "\<not> list_ex (\<lambda>e. is_type ''text'' e \<and> el_text e = None) passing_document"
    by (simp add: passing_document_def)
  then show ?thesis
    by (simp add: validate_def p passing_document_layout passing_document_texts)
qed


theorem exit_code_zero_iff_witness:
  "validate_main [(u ''01-system.excalidraw'', Some passing_document)] = Inr 0"
  using exit_code_zero_iff [of "[(u ''01-system.excalidraw'', Some passing_document)]"]
  by (simp add: passing_document_validates)

end
