(* ===== verification/Diagrams.thy ===== *)
theory Diagrams
  imports PlatformTopology RequestFlow AgentArchitecture UiScreenMap SrcArchitecture DocumentSchema Validate
begin

text \<open>
  The list \<open>DIAGRAMS\<close> that \<open>scripts/diagrams/diagrams.mjs\<close> exports, and what the generator, the validator
  and the renderer make of it: every diagram builds, has its title, conclusion and legend, and a run of the
  generator on the list succeeds and is in sync with itself.
\<close>

definition entry :: "string \<Rightarrow> js_exn + scene \<Rightarrow> diagram" where
  "entry name build = \<lparr>di_file = u name, di_title = None, di_build = build\<rparr>"

definition DIAGRAMS :: "diagram list" where
  "DIAGRAMS =
    [entry ''01-platform-topology.excalidraw'' platformTopology,
     entry ''02-request-decision-flow.excalidraw'' requestDecisionFlow,
     entry ''03-agent-architecture.excalidraw'' agentArchitecture,
     entry ''04-ui-screen-map.excalidraw'' uiScreenMap,
     entry ''05-src-architecture.excalidraw'' srcArchitecture]"

section \<open>Each diagram builds\<close>

lemma shows_some_text: "knows s (Shows t fs) \<Longrightarrow> (\<And>p. tp_originalText p = t \<Longrightarrow> tp_fontSize p = fs \<Longrightarrow> P p) \<Longrightarrow> some_text P (sc_elements s)"
  by (fastforce simp: some_text_def list_ex_iff is_type_def shows_text_def)

lemma starts_includes: "startsWith s t \<Longrightarrow> str_includes s t"
  by (simp add: str_includes_sublist startsWith_def)

definition well_built :: "diagram \<Rightarrow> scene \<Rightarrow> bool" where
  "well_built d s \<longleftrightarrow> di_build d = Inr s \<and> built s \<and> sc_elements s \<noteq> [] \<and> di_file d = sc_name s @ u ''.excalidraw''
     \<and> diagram_errors (sc_elements s) = []"

lemma run_well_built:
  assumes m: "\<And>H. sound H m (\<lambda>_. True) (\<lambda>_. {Shows title 28, Shows subtitle 20, Shows legend_title 20})"
    and st: "startsWith subtitle (u ''Conclusion:'')"
    and d: "di_build d = run_build name seed m" "di_file d = name @ u ''.excalidraw''"
  shows "\<exists>s. well_built d s"
proof -
  obtain s where s: "run_build name seed m = Inr s" "built s" "sc_name s = name"
    and k: "knows s (Shows title 28)" "knows s (Shows subtitle 20)" "knows s (Shows legend_title 20)"
    using run_build_sound [OF m] by (metis insertCI)
  have "startsWith legend_title (u ''Legend'')"
    by (simp add: legend_title_def startsWith_def u_def)
  then have "diagram_errors (sc_elements s) = []"
    using shows_some_text [OF k(1), of "\<lambda>t. 28 \<le> tp_fontSize t"] starts_includes [OF st]
      shows_some_text [OF k(2), of "\<lambda>t. str_includes (tp_originalText t) (u ''Conclusion:'')"]
      shows_some_text [OF k(3), of "\<lambda>t. startsWith (tp_originalText t) (u ''Legend'')"]
    by (simp add: diagram_errors_def)
  moreover have "sc_elements s \<noteq> []"
    using k(1) by auto
  ultimately show ?thesis
    using s d unfolding well_built_def by auto
qed

lemma diagrams_well_built: "d \<in> set DIAGRAMS \<Longrightarrow> \<exists>s. well_built d s"
proof -
  have f: "di_build (entry name b) = b" "di_file (entry name b) = u name" for name b
    by (simp_all add: entry_def)
  have 1: "\<exists>s. well_built (entry ''01-platform-topology.excalidraw'' platformTopology) s"
    by (rule run_well_built [OF pt_body_sound, where name = "u ''01-platform-topology''" and seed = "0x11a2b3c4"])
      (simp_all add: f platformTopology_def pt_subtitle_def startsWith_def u_def)
  have 2: "\<exists>s. well_built (entry ''02-request-decision-flow.excalidraw'' requestDecisionFlow) s"
    by (rule run_well_built [OF rf_body_sound, where name = "u ''02-request-decision-flow''" and seed = "0x22c4d5e6"])
      (simp_all add: f requestDecisionFlow_def rf_subtitle_def startsWith_def u_def)
  have 3: "\<exists>s. well_built (entry ''03-agent-architecture.excalidraw'' agentArchitecture) s"
    by (rule run_well_built [OF aa_body_sound, where name = "u ''03-agent-architecture''" and seed = "0x33e6f708"])
      (simp_all add: f agentArchitecture_def aa_subtitle_def startsWith_def u_def)
  have 4: "\<exists>s. well_built (entry ''04-ui-screen-map.excalidraw'' uiScreenMap) s"
    by (rule run_well_built [OF us_body_sound, where name = "u ''04-ui-screen-map''" and seed = "0x44081920"])
      (simp_all add: f uiScreenMap_def us_subtitle_def startsWith_def u_def)
  have 5: "\<exists>s. well_built (entry ''05-src-architecture.excalidraw'' srcArchitecture) s"
    by (rule run_well_built [OF sa_body_sound, where name = "u ''05-src-architecture''" and seed = "0x55d6e7f8"])
      (simp_all add: f srcArchitecture_def sa_subtitle_def startsWith_def u_def)
  show "d \<in> set DIAGRAMS \<Longrightarrow> \<exists>s. well_built d s"
    using 1 2 3 4 5 by (auto simp: DIAGRAMS_def)
qed

section \<open>Running the generator\<close>

lemma well_built_renders:
  assumes "well_built d s"
  shows "\<exists>r. render_one env d = Inr r"
proof -
  obtain svg where "renderSvg (ge_math env) (toDocument s) (case di_title d of Some t \<Rightarrow> t | None \<Rightarrow> di_file d) = Inr svg"
    using built_scenes_draw assms unfolding well_built_def by meson
  then show ?thesis
    using assms by (simp add: render_one_def well_built_def bindE_def Let_def)
qed

lemma diagrams_render: "\<exists>rs. render env DIAGRAMS = Inr rs"
proof -
  have "\<exists>rs. mapE (render_one env) ds = Inr rs" if "set ds \<subseteq> set DIAGRAMS" for ds
    using that
  proof (induction ds)
    case (Cons d ds)
    then obtain r rs where "render_one env d = Inr r" "mapE (render_one env) ds = Inr rs"
      using diagrams_well_built well_built_renders by (metis insert_subset list.simps(15))
    then show ?case by (simp add: bindE_def)
  qed simp
  then show ?thesis by (simp add: render_def)
qed

lemma diagrams_write:
  assumes "\<And>p. ge_denied env p = None"
  shows "\<exists>out fs'. generate_main env DIAGRAMS [] fs = ((0, out), fs')"
proof -
  obtain rs where r: "render env DIAGRAMS = Inr rs" using diagrams_render by blast
  obtain out fs' where "write_all env (ge_resolve env (ga_out default_args)) rs fs = ((None, out), fs')"
    using write_all_total [OF assms] by blast
  then show ?thesis
    by (simp add: generate_main_def r Let_def assms) (simp add: default_args_def)
qed

text \<open>The ten files of a run.\<close>

definition output_names :: "jsstring list" where
  "output_names = concat (map (\<lambda>d. [di_file d, svg_name (di_file d)]) DIAGRAMS)"

lemma output_names_distinct: "distinct output_names"
proof -
  have eq: "output_names = map u
    [''01-platform-topology.excalidraw'', ''01-platform-topology.svg'', ''02-request-decision-flow.excalidraw'',
     ''02-request-decision-flow.svg'', ''03-agent-architecture.excalidraw'', ''03-agent-architecture.svg'',
     ''04-ui-screen-map.excalidraw'', ''04-ui-screen-map.svg'', ''05-src-architecture.excalidraw'', ''05-src-architecture.svg'']"
    by (simp add: output_names_def DIAGRAMS_def entry_def svg_name_def endsWith_def u_def suffix_def)
  show ?thesis unfolding eq by simp
qed

section \<open>Properties\<close>

text \<open>C4. Every diagram the program exports builds: none of its calls throws, the scene is one drawn through
  the class and carries the name of its file, and the validator finds in it no reference error, no arrow
  without a binding, no missing title, conclusion or legend, and, in the JSON written for it, no element
  that fails the schema checks.\<close>

theorem every_diagram_builds:
  "list_all (\<lambda>d. \<exists>s errors warnings. di_build d = Inr s \<and> di_file d = sc_name s @ u ''.excalidraw''
      \<and> validate (sc_elements s) = Inr (errors, warnings)
      \<and> list_all (\<lambda>x. \<not> reference_error x \<and> \<not> diagram_level x) errors
      \<and> (\<forall>i side. NoBinding i side \<notin> set warnings)
      \<and> list_all (\<lambda>e. \<exists>fs. element_json e = JObj fs \<and> schema_errors fs = []) (sc_elements s)) DIAGRAMS"
proof -
  have "\<exists>s errors warnings. di_build d = Inr s \<and> di_file d = sc_name s @ u ''.excalidraw''
      \<and> validate (sc_elements s) = Inr (errors, warnings)
      \<and> list_all (\<lambda>x. \<not> reference_error x \<and> \<not> diagram_level x) errors
      \<and> (\<forall>i side. NoBinding i side \<notin> set warnings)
      \<and> list_all (\<lambda>e. \<exists>fs. element_json e = JObj fs \<and> schema_errors fs = []) (sc_elements s)" if d: "d \<in> set DIAGRAMS" for d
  proof -
    obtain s where s: "well_built d s" using diagrams_well_built [OF d] by blast
    then obtain errors warnings where "validate (sc_elements s) = Inr (errors, warnings)"
      and "\<forall>x \<in> set errors. \<not> reference_error x" "\<forall>i side. NoBinding i side \<notin> set warnings"
      and "\<forall>x \<in> set errors. diagram_level x \<longrightarrow> x \<in> set (diagram_errors (sc_elements s))"
      using built_layout_only unfolding well_built_def by metis
    with s show ?thesis
      unfolding well_built_def using written_elements_meet_schema
      by - (rule exI [of _ s], rule exI [of _ errors], rule exI [of _ warnings], auto simp: list_all_iff)
  qed
  then show ?thesis by (simp add: list_all_iff)
qed



end
