(* ===== verification/TriageTables.thy ===== *)
theory TriageTables
  imports JsValue
begin

text \<open>
  Reading the squad's Markdown files (\<open>.squad/templates/ralph-triage.js\<close>, \<open>parseTableSection\<close> and the
  functions around it): line ends, section headings, table lines, cells, and the three tables of
  routing rules, module owners and members.  Each regular expression of the source is the function it
  denotes: none of them leaves a choice to backtracking.
\<close>

section \<open>Lines and headings\<close>

fun replace_crlf :: "jsstring \<Rightarrow> jsstring" where
  "replace_crlf [] = []"
| "replace_crlf [c] = [c]"
| "replace_crlf (c # d # s) = (if c = 13 \<and> d = 10 then 10 # replace_crlf s else c # replace_crlf (d # s))"

definition normalizeEol :: "jsstring \<Rightarrow> jsstring" where
  "normalizeEol s = map (\<lambda>c. if c = 13 then 10 else c) (replace_crlf s)"

definition word_char :: "jschar \<Rightarrow> bool" where
  [js_defs]: "word_char c \<longleftrightarrow> 48 \<le> c \<and> c \<le> 57 \<or> 65 \<le> c \<and> c \<le> 90 \<or> 97 \<le> c \<and> c \<le> 122 \<or> c = 95"

text \<open>Skip white space, then one of the lower-case words, in any case of the text.\<close>

definition eat_word :: "jsstring \<Rightarrow> jsstring \<Rightarrow> jsstring option" where
  "eat_word s w = (if prefix w (toLowerCase s) then Some (drop (length w) s) else None)"

fun eat_tokens :: "jsstring list list \<Rightarrow> jsstring \<Rightarrow> jsstring option" where
  "eat_tokens [] s = Some s"
| "eat_tokens (ws # tokens) s =
     (case List.find (\<lambda>w. eat_word (dropWhile is_space s) w \<noteq> None) ws of
        None \<Rightarrow> None
      | Some w \<Rightarrow> eat_tokens tokens (drop (length w) (dropWhile is_space s)))"

text \<open>\<open>/^##\s*a\s*b ... \b/i.test(s)\<close>.\<close>

definition header_test :: "jsstring list list \<Rightarrow> jsstring \<Rightarrow> bool" where
  "header_test tokens s \<longleftrightarrow> startsWith s (u ''##'')
     \<and> (case eat_tokens tokens (drop 2 s) of None \<Rightarrow> False | Some r \<Rightarrow> r = [] \<or> \<not> word_char (hd r))"

definition work_type_header :: "jsstring list list" where
  "work_type_header = [[u ''work''], [u ''type''], [[0x2192], u ''->''], [u ''agent'']]"

definition module_header :: "jsstring list list" where
  "module_header = [[u ''module''], [u ''ownership'']]"

definition members_header :: "jsstring list list" where
  "members_header = [[u ''members'']]"

definition roster_header :: "jsstring list list" where
  "roster_header = [[u ''team''], [u ''roster'']]"

text \<open>\<open>/^##\s+/.test(s)\<close>.\<close>

definition next_section :: "jsstring \<Rightarrow> bool" where
  "next_section s \<longleftrightarrow> startsWith s (u ''##'') \<and> 2 < length s \<and> is_space (s ! 2)"

section \<open>Cells\<close>

definition remove_char :: "jschar \<Rightarrow> jsstring \<Rightarrow> jsstring" where
  "remove_char c s = filter (\<lambda>x. x \<noteq> c) s"

text \<open>
  \<open>[label](target)\<close> becomes \<open>label\<close>: after an opening bracket, a non-empty run up to the next closing
  one, an opening parenthesis, a non-empty run up to the next closing one.
\<close>

function replace_links :: "jsstring \<Rightarrow> jsstring" where
  "replace_links [] = []"
| "replace_links (c # s) =
     (let label = takeWhile (\<lambda>x. x \<noteq> 93) s; r = drop (length label) s;
          target = takeWhile (\<lambda>x. x \<noteq> 41) (drop 2 r); r' = drop (2 + length target) r in
      if c = 91 \<and> label \<noteq> [] \<and> take 2 r = [93, 40] \<and> target \<noteq> [] \<and> r' \<noteq> []
      then label @ replace_links (tl r')
      else c # replace_links s)"
  by pat_completeness auto
termination by (relation "measure length") auto

declare replace_links.simps(2) [simp del]

definition cleanCell :: "jsstring \<Rightarrow> jsstring" where
  "cleanCell value = trim (replace_links (remove_char 96 value))"

definition strip_leading :: "jschar \<Rightarrow> jsstring \<Rightarrow> jsstring" where
  "strip_leading c s = (if s \<noteq> [] \<and> hd s = c then tl s else s)"

definition strip_trailing :: "jschar \<Rightarrow> jsstring \<Rightarrow> jsstring" where
  "strip_trailing c s = (if s \<noteq> [] \<and> last s = c then butlast s else s)"

definition parseTableLine :: "jsstring \<Rightarrow> jsstring list" where
  "parseTableLine line = map trim (split_on 124 (strip_trailing 124 (strip_leading 124 line)))"

text \<open>\<open>/^:?-{2,}:?$/.test(cell)\<close>.\<close>

definition separator_cell :: "jsstring \<Rightarrow> bool" where
  "separator_cell cell \<longleftrightarrow>
     (let s = strip_leading 58 cell; r = dropWhile (\<lambda>c. c = 45) s in
      2 \<le> length s - length r \<and> (r = [] \<or> r = [58]))"

section \<open>Tables\<close>

record table =
  tb_headers :: "jsstring list"
  tb_rows :: "jsstring list list"

text \<open>The loop over the lines, with the flag that the section has begun.\<close>

fun section_lines :: "(jsstring \<Rightarrow> bool) \<Rightarrow> bool \<Rightarrow> jsstring list \<Rightarrow> jsstring list" where
  "section_lines header inSection [] = []"
| "section_lines header inSection (line # ls) =
     (let trimmed = trim line in
      if \<not> inSection \<and> header trimmed then section_lines header True ls
      else if inSection \<and> next_section trimmed then []
      else if inSection \<and> startsWith trimmed (u ''|'') then trimmed # section_lines header inSection ls
      else section_lines header inSection ls)"

definition build_table :: "jsstring list \<Rightarrow> table option" where
  "build_table tableLines =
     (case filter (\<lambda>cells. cells \<noteq> [] \<and> \<not> list_all separator_cell cells) (map parseTableLine tableLines) of
        [] \<Rightarrow> None
      | headers # rows \<Rightarrow> Some \<lparr>tb_headers = headers, tb_rows = rows\<rparr>)"

definition parseTableSection :: "jsstring \<Rightarrow> (jsstring \<Rightarrow> bool) \<Rightarrow> table option" where
  "parseTableSection markdown header =
     (let tableLines = section_lines header False (split_on 10 (normalizeEol markdown)) in
      if tableLines = [] then None else build_table tableLines)"

fun index_where :: "('a \<Rightarrow> bool) \<Rightarrow> 'a list \<Rightarrow> nat option" where
  "index_where P [] = None"
| "index_where P (x # xs) = (if P x then Some 0 else map_option Suc (index_where P xs))"

text \<open>\<open>None\<close> is the index -1.\<close>

fun findColumnIndex :: "jsstring list \<Rightarrow> jsstring list \<Rightarrow> nat option" where
  "findColumnIndex headers [] = None"
| "findColumnIndex headers (candidate # candidates) =
     (case index_where (\<lambda>h. str_includes (toLowerCase (cleanCell h)) candidate) headers of
        Some i \<Rightarrow> Some i
      | None \<Rightarrow> findColumnIndex headers candidates)"

text \<open>\<open>row[i] || ''\<close>, also for a column that does not exist.\<close>

definition row_cell :: "jsstring list \<Rightarrow> nat option \<Rightarrow> jsstring" where
  "row_cell row i = (case i of None \<Rightarrow> [] | Some k \<Rightarrow> if k < length row then row ! k else [])"

definition splitKeywords :: "jsstring \<Rightarrow> jsstring list" where
  "splitKeywords examplesCell =
     (if examplesCell = [] then []
      else filter (\<lambda>k. length k > 0) (map cleanCell (split_on 44 examplesCell)))"

definition normalizeOptionalOwner :: "jsstring \<Rightarrow> jsstring option" where
  "normalizeOptionalOwner owner =
     (if owner = [] then None
      else if list_all (\<lambda>c. c \<in> {45, 0x2014, 0x2013}) owner then None
      else Some owner)"

definition backslashes :: "jsstring \<Rightarrow> jsstring" where
  "backslashes s = map (\<lambda>c. if c = 92 then 47 else c) s"

definition normalizeModulePath :: "jsstring \<Rightarrow> jsstring" where
  "normalizeModulePath modulePath = toLowerCase (backslashes (cleanCell modulePath))"

record routing_rule =
  rr_workType :: jsstring
  rr_agentName :: jsstring
  rr_keywords :: "jsstring list"

record module_owner =
  mo_modulePath :: jsstring
  mo_primary :: jsstring
  mo_secondary :: "jsstring option"

record member =
  me_name :: jsstring
  me_role :: jsstring
  me_label :: jsstring

definition rule_of_row :: "nat option \<Rightarrow> nat option \<Rightarrow> nat option \<Rightarrow> jsstring list \<Rightarrow> routing_rule option" where
  "rule_of_row wi ai ei row =
     (let workType = cleanCell (row_cell row wi); agentName = cleanCell (row_cell row ai); keywords = splitKeywords (row_cell row ei) in
      if workType = [] \<or> agentName = [] then None
      else Some \<lparr>rr_workType = workType, rr_agentName = agentName, rr_keywords = keywords\<rparr>)"

definition parseRoutingRules :: "jsstring \<Rightarrow> routing_rule list" where
  "parseRoutingRules routingMd =
     (case parseTableSection routingMd (header_test work_type_header) of
        None \<Rightarrow> []
      | Some t \<Rightarrow>
          (let wi = findColumnIndex (tb_headers t) [u ''work type'', u ''type''];
               ai = findColumnIndex (tb_headers t) [u ''agent'', u ''route to'', u ''route''];
               ei = findColumnIndex (tb_headers t) [u ''examples'', u ''example''] in
           if wi = None \<or> ai = None then []
           else List.map_filter (rule_of_row wi ai ei) (tb_rows t)))"

definition module_of_row :: "nat option \<Rightarrow> nat option \<Rightarrow> nat option \<Rightarrow> jsstring list \<Rightarrow> module_owner option" where
  "module_of_row mi pri si row =
     (let modulePath = normalizeModulePath (row_cell row mi); primary = cleanCell (row_cell row pri);
          secondary = normalizeOptionalOwner (cleanCell (row_cell row si)) in
      if modulePath = [] \<or> primary = [] then None
      else Some \<lparr>mo_modulePath = modulePath, mo_primary = primary, mo_secondary = secondary\<rparr>)"

definition parseModuleOwnership :: "jsstring \<Rightarrow> module_owner list" where
  "parseModuleOwnership routingMd =
     (case parseTableSection routingMd (header_test module_header) of
        None \<Rightarrow> []
      | Some t \<Rightarrow>
          (let mi = findColumnIndex (tb_headers t) [u ''module'', u ''path''];
               pri = findColumnIndex (tb_headers t) [u ''primary''];
               si = findColumnIndex (tb_headers t) [u ''secondary''] in
           if mi = None \<or> pri = None then []
           else List.map_filter (module_of_row mi pri si) (tb_rows t)))"

definition member_of_row :: "nat option \<Rightarrow> nat option \<Rightarrow> jsstring list \<Rightarrow> member option" where
  "member_of_row ni ri row =
     (let name = cleanCell (row_cell row ni); role = cleanCell (row_cell row ri) in
      if name = [] \<or> role = [] then None
      else if toLowerCase name \<in> {u ''scribe'', u ''ralph''} then None
      else Some \<lparr>me_name = name, me_role = role, me_label = u ''squad:'' @ toLowerCase name\<rparr>)"

definition parseRoster :: "jsstring \<Rightarrow> member list" where
  "parseRoster teamMd =
     (let t0 = (case parseTableSection teamMd (header_test members_header) of
            Some t \<Rightarrow> Some t | None \<Rightarrow> parseTableSection teamMd (header_test roster_header)) in
      case t0 of
        None \<Rightarrow> []
      | Some t \<Rightarrow>
          (let ni = findColumnIndex (tb_headers t) [u ''name'']; ri = findColumnIndex (tb_headers t) [u ''role''] in
           if ni = None \<or> ri = None then []
           else List.map_filter (member_of_row ni ri) (tb_rows t)))"

section \<open>Lemmas\<close>

definition row_text :: "jsstring list \<Rightarrow> jsstring" where
  "row_text cells = [124] @ join [124] (map (\<lambda>c. [32] @ c @ [32]) cells) @ [124]"

definition plain_cell :: "jsstring \<Rightarrow> bool" where
  "plain_cell c \<longleftrightarrow> trim c = c \<and> 124 \<notin> set c"

lemma trim_surrounded: "trim ([32] @ c @ [32]) = trim c"
proof (cases "trimStart c = []")
  case True
  then have "\<forall>x \<in> set c. is_space x" by (simp add: trimStart_def)
  moreover have "is_space 32" by (simp add: is_space_def)
  ultimately have "trimStart ([32] @ c @ [32]) = []" by (auto simp: trimStart_def)
  with True show ?thesis by (simp add: trim_def trimEnd_def)
next
  case False
  have sp: "is_space 32" by (simp add: is_space_def)
  have "trimStart ([32] @ c @ [32]) = trimStart c @ [32]"
    using False sp by (auto simp: trimStart_def dropWhile_append)
  then show ?thesis
    using sp by (simp add: trim_def trimEnd_def)
qed

text \<open>A table row written in the usual way is read back cell by cell, for cells that hold no bar and
  do not begin or end with white space.\<close>

theorem table_row_roundtrip:
  assumes "cells \<noteq> []" "\<forall>c \<in> set cells. plain_cell c"
  shows "parseTableLine (row_text cells) = cells"
proof -
  let ?padded = "map (\<lambda>c. [32] @ c @ [32]) cells"
  have "strip_trailing 124 (strip_leading 124 (row_text cells)) = join [124] ?padded"
    by (simp add: row_text_def strip_leading_def strip_trailing_def butlast_append)
  moreover have "split_on 124 (join [124] ?padded) = ?padded"
    using assms by (intro split_on_join) (auto simp: plain_cell_def)
  moreover have "map trim ?padded = cells"
    using assms(2) by (simp add: map_idI trim_surrounded plain_cell_def o_def del: append_Cons)
  ultimately show ?thesis by (simp only: parseTableLine_def)
qed

theorem table_row_roundtrip_witness:
  "parseTableLine (row_text [u ''Basher'', u ''Backend Dev'']) = [u ''Basher'', u ''Backend Dev'']"
  by (rule table_row_roundtrip) (simp_all add: plain_cell_def js_defs)

end
