(* ===== verification/TriageIssue.thy ===== *)
theory TriageIssue
  imports TriageTables
begin

text \<open>
  Assigning an issue (\<open>.squad/templates/ralph-triage.js\<close>, \<open>triageIssue\<close> and the searches it calls):
  the owner of the longest module path mentioned, the routing rule with the best score, a keyword of a
  role, and the lead.
\<close>

section \<open>Names\<close>

text \<open>\<open>replace(/\s+/g, ' ')\<close>; the flag says that the run before was already written.\<close>

fun collapse_spaces :: "bool \<Rightarrow> jsstring \<Rightarrow> jsstring" where
  "collapse_spaces b [] = []"
| "collapse_spaces b (c # s) =
     (if is_space c then (if b then collapse_spaces True s else 32 # collapse_spaces True s)
      else c # collapse_spaces False s)"

definition name_char :: "jschar \<Rightarrow> bool" where
  [js_defs]: "name_char c \<longleftrightarrow> word_char c \<or> c = 64 \<or> is_space c \<or> c = 45"

definition normalizeName :: "jsstring \<Rightarrow> jsstring" where
  "normalizeName value = trim (collapse_spaces False (filter name_char (toLowerCase (cleanCell value))))"

definition normalizeTextForPathMatch :: "jsstring \<Rightarrow> jsstring" where
  "normalizeTextForPathMatch text' = remove_char 96 (backslashes text')"

definition overlap :: "jsstring \<Rightarrow> jsstring \<Rightarrow> bool" where
  "overlap a b \<longleftrightarrow> str_includes a b \<or> str_includes b a"

definition first_of :: "'a option \<Rightarrow> 'a option \<Rightarrow> 'a option" where
  "first_of x y = (case x of None \<Rightarrow> y | Some v \<Rightarrow> Some v)"

definition findMember :: "jsstring \<Rightarrow> member list \<Rightarrow> member option" where
  "findMember target roster =
     (let t = normalizeName target in
      if t = [] then None
      else first_of (List.find (\<lambda>m. normalizeName (me_name m) = t) roster)
          (first_of (List.find (\<lambda>m. normalizeName (me_role m) = t) roster)
            (first_of (List.find (\<lambda>m. overlap t (normalizeName (me_name m))) roster)
              (List.find (\<lambda>m. overlap t (normalizeName (me_role m))) roster))))"

section \<open>Searches\<close>

text \<open>The loop state: the best module and its length, -1 before the first.\<close>

definition module_step :: "jsstring \<Rightarrow> module_owner option \<times> int \<Rightarrow> module_owner \<Rightarrow> module_owner option \<times> int" where
  "module_step issueText st m =
     (let modulePath = normalizeModulePath (mo_modulePath m) in
      if modulePath = [] then st
      else if \<not> str_includes issueText modulePath then st
      else if int (length modulePath) > snd st then (Some m, int (length modulePath))
      else st)"

definition findBestModuleMatch :: "jsstring \<Rightarrow> module_owner list \<Rightarrow> module_owner option" where
  "findBestModuleMatch issueText modules = fst (foldl (module_step issueText) (None, -1) modules)"

definition matched_keywords :: "jsstring \<Rightarrow> routing_rule \<Rightarrow> jsstring list" where
  "matched_keywords issueText r =
     filter (\<lambda>k. length k > 0 \<and> str_includes issueText k) (map toLowerCase (rr_keywords r))"

definition rule_score :: "jsstring list \<Rightarrow> nat" where
  "rule_score matched = length matched * 100 + sum_list (map length matched)"

definition rule_step ::
  "jsstring \<Rightarrow> (routing_rule \<times> jsstring list) option \<times> nat \<Rightarrow> routing_rule \<Rightarrow> (routing_rule \<times> jsstring list) option \<times> nat" where
  "rule_step issueText st r =
     (let matched = matched_keywords issueText r in
      if matched = [] then st
      else if rule_score matched > snd st then (Some (r, matched), rule_score matched)
      else st)"

definition findBestRuleMatch :: "jsstring \<Rightarrow> routing_rule list \<Rightarrow> (routing_rule \<times> jsstring list) option" where
  "findBestRuleMatch issueText rules = fst (foldl (rule_step issueText) (None, 0) rules)"

definition mentions :: "jsstring \<Rightarrow> string list \<Rightarrow> bool" where
  "mentions s ws \<longleftrightarrow> list_ex (\<lambda>w. str_includes s (u w)) ws"

definition role_keyword_reason :: "jsstring \<Rightarrow> member \<Rightarrow> jsstring option" where
  "role_keyword_reason issueText m =
     (let role = toLowerCase (me_role m) in
      if mentions role [''frontend'', ''ui''] \<and> mentions issueText [''ui'', ''frontend'', ''css'']
      then Some (u ''Matched frontend/UI role keywords'')
      else if mentions role [''backend'', ''api'', ''server''] \<and> mentions issueText [''api'', ''backend'', ''database'']
      then Some (u ''Matched backend/API role keywords'')
      else if mentions role [''test'', ''qa''] \<and> mentions issueText [''test'', ''bug'', ''fix'']
      then Some (u ''Matched testing/QA role keywords'')
      else None)"

fun findRoleKeywordMatch :: "jsstring \<Rightarrow> member list \<Rightarrow> (member \<times> jsstring) option" where
  "findRoleKeywordMatch issueText [] = None"
| "findRoleKeywordMatch issueText (m # roster) =
     (case role_keyword_reason issueText m of
        Some reason \<Rightarrow> Some (m, reason)
      | None \<Rightarrow> findRoleKeywordMatch issueText roster)"

definition findLeadFallback :: "member list \<Rightarrow> member option" where
  "findLeadFallback roster =
     List.find (\<lambda>m. mentions (toLowerCase (me_role m)) [''lead'', ''architect'']) roster"

section \<open>Triage\<close>

datatype triage_source = ModuleOwnership | RoutingRule | RoleKeyword | LeadFallback
datatype confidence = High | Medium | Low

fun source_text :: "triage_source \<Rightarrow> jsstring" where
  "source_text ModuleOwnership = u ''module-ownership''"
| "source_text RoutingRule = u ''routing-rule''"
| "source_text RoleKeyword = u ''role-keyword''"
| "source_text LeadFallback = u ''lead-fallback''"

record triage =
  tg_agent :: member
  tg_reason :: jsstring
  tg_source :: triage_source
  tg_confidence :: confidence

record issue =
  is_title :: jsstring
  is_body :: jsstring

definition owner_reason :: "module_owner \<Rightarrow> string \<Rightarrow> jsstring \<Rightarrow> jsstring" where
  "owner_reason m kind owner =
     u ''Matched module path '' @ [34] @ mo_modulePath m @ [34] @ u '' to '' @ u kind @ u '' owner '' @ [34] @ owner @ [34]"

definition lead_triage :: "member list \<Rightarrow> triage option" where
  "lead_triage roster =
     (case findLeadFallback roster of
        None \<Rightarrow> None
      | Some m \<Rightarrow> Some \<lparr>tg_agent = m,
          tg_reason = u ''No module, routing, or role keyword match '' @ [0x2014] @ u '' routed to Lead/Architect'',
          tg_source = LeadFallback, tg_confidence = Low\<rparr>)"

definition role_or_lead :: "jsstring \<Rightarrow> member list \<Rightarrow> triage option" where
  "role_or_lead issueText roster =
     (case findRoleKeywordMatch issueText roster of
        Some (m, reason) \<Rightarrow> Some \<lparr>tg_agent = m, tg_reason = reason, tg_source = RoleKeyword, tg_confidence = Medium\<rparr>
      | None \<Rightarrow> lead_triage roster)"

definition rule_or_below :: "jsstring \<Rightarrow> routing_rule list \<Rightarrow> member list \<Rightarrow> triage option" where
  "rule_or_below issueText rules roster =
     (case findBestRuleMatch issueText rules of
        None \<Rightarrow> role_or_lead issueText roster
      | Some (r, matched) \<Rightarrow>
          (case findMember (rr_agentName r) roster of
             None \<Rightarrow> role_or_lead issueText roster
           | Some m \<Rightarrow> Some \<lparr>tg_agent = m,
               tg_reason = u ''Matched routing keyword(s): '' @ join (u '', '') matched,
               tg_source = RoutingRule, tg_confidence = (if length matched \<ge> 2 then High else Medium)\<rparr>))"

definition issue_text :: "issue \<Rightarrow> jsstring" where
  "issue_text i = toLowerCase (is_title i @ [10] @ is_body i)"

definition triageIssue :: "issue \<Rightarrow> routing_rule list \<Rightarrow> module_owner list \<Rightarrow> member list \<Rightarrow> triage option" where
  "triageIssue i rules modules roster =
     (let issueText = issue_text i; below = rule_or_below issueText rules roster in
      case findBestModuleMatch (normalizeTextForPathMatch issueText) modules of
        None \<Rightarrow> below
      | Some m \<Rightarrow>
          (case findMember (mo_primary m) roster of
             Some a \<Rightarrow> Some \<lparr>tg_agent = a, tg_reason = owner_reason m ''primary'' (mo_primary m),
               tg_source = ModuleOwnership, tg_confidence = High\<rparr>
           | None \<Rightarrow>
               (case mo_secondary m of
                  None \<Rightarrow> below
                | Some owner \<Rightarrow>
                    if owner = [] then below
                    else (case findMember owner roster of
                      Some a \<Rightarrow> Some \<lparr>tg_agent = a, tg_reason = owner_reason m ''secondary'' owner,
                        tg_source = ModuleOwnership, tg_confidence = Medium\<rparr>
                    | None \<Rightarrow> below))))"

section \<open>The best of a list\<close>

text \<open>
  Both searches keep the first element of the highest score among those that qualify.  \<open>best_from\<close> is
  that search, for a score above the starting one.
\<close>

definition best_step :: "('a \<Rightarrow> bool) \<Rightarrow> ('a \<Rightarrow> 'n :: linorder) \<Rightarrow> 'a option \<times> 'n \<Rightarrow> 'a \<Rightarrow> 'a option \<times> 'n" where
  "best_step P score st x = (if P x \<and> score x > snd st then (Some x, score x) else st)"

definition first_best :: "('a \<Rightarrow> bool) \<Rightarrow> ('a \<Rightarrow> 'n :: linorder) \<Rightarrow> 'a list \<Rightarrow> 'a \<Rightarrow> bool" where
  "first_best P score xs x \<longleftrightarrow>
     (\<exists>before after. xs = before @ x # after \<and> P x
        \<and> (\<forall>y \<in> set before. P y \<longrightarrow> score y < score x) \<and> (\<forall>y \<in> set after. P y \<longrightarrow> score y \<le> score x))"

locale best_search =
  fixes qualifies :: "'a \<Rightarrow> bool" and score :: "'a \<Rightarrow> 'n :: linorder" and low :: 'n
  assumes above: "qualifies x \<Longrightarrow> low < score x"
begin

definition search_outcome :: "'a list \<Rightarrow> 'a option \<times> 'n \<Rightarrow> bool" where
  "search_outcome xs st \<longleftrightarrow>
     (case st of (None, n) \<Rightarrow> n = low \<and> (\<forall>x \<in> set xs. \<not> qualifies x)
      | (Some x, n) \<Rightarrow> n = score x \<and> first_best qualifies score xs x)"

lemma outcome_step:
  assumes "search_outcome ys st"
  shows "search_outcome (ys @ [y]) (best_step qualifies score st y)"
proof (cases st)
  case (Pair best n)
  show ?thesis
  proof (cases best)
    case None
    with assms Pair have "n = low" "\<forall>x \<in> set ys. \<not> qualifies x" by (auto simp: search_outcome_def)
    moreover from this have "first_best qualifies score (ys @ [y]) y" if "qualifies y"
      unfolding first_best_def using that by (intro exI [of _ ys] exI [of _ "[]"]) auto
    ultimately show ?thesis
      using Pair None above [of y] by (auto simp: search_outcome_def best_step_def)
  next
    case (Some x)
    with assms Pair obtain before after where x: "n = score x" "qualifies x" "ys = before @ x # after"
        "\<forall>y \<in> set before. qualifies y \<longrightarrow> score y < score x" "\<forall>y \<in> set after. qualifies y \<longrightarrow> score y \<le> score x"
      by (auto simp: search_outcome_def first_best_def)
    show ?thesis
    proof (cases "qualifies y \<and> score y > n")
      case True
      then have "first_best qualifies score (ys @ [y]) y"
        unfolding first_best_def using x by (intro exI [of _ ys] exI [of _ "[]"]) (auto intro: le_less_trans less_trans)
      with True Pair Some show ?thesis by (simp add: search_outcome_def best_step_def)
    next
      case False
      then have "first_best qualifies score (ys @ [y]) x"
        unfolding first_best_def using x by (intro exI [of _ before] exI [of _ "after @ [y]"]) auto
      with False Pair Some x(1) show ?thesis by (auto simp: search_outcome_def best_step_def)
    qed
  qed
qed

lemma outcome_fold: "search_outcome xs (foldl (best_step qualifies score) (None, low) xs)"
proof (induction xs rule: rev_induct)
  case Nil
  show ?case by (simp add: search_outcome_def)
next
  case (snoc y ys)
  from outcome_step [OF this] show ?case by simp
qed

lemma search_cases:
  "case fst (foldl (best_step qualifies score) (None, low) xs) of
     None \<Rightarrow> \<forall>x \<in> set xs. \<not> qualifies x
   | Some x \<Rightarrow> first_best qualifies score xs x"
  using outcome_fold [of xs] by (auto simp: search_outcome_def split: prod.splits option.splits)

end

lemma first_best_member: "first_best P score xs x \<Longrightarrow> x \<in> set xs \<and> P x"
  by (auto simp: first_best_def)

definition module_mentioned :: "jsstring \<Rightarrow> module_owner \<Rightarrow> bool" where
  "module_mentioned issueText m \<longleftrightarrow>
     normalizeModulePath (mo_modulePath m) \<noteq> [] \<and> str_includes issueText (normalizeModulePath (mo_modulePath m))"

definition path_length :: "module_owner \<Rightarrow> int" where
  "path_length m = int (length (normalizeModulePath (mo_modulePath m)))"

lemma module_step_best: "module_step issueText = best_step (module_mentioned issueText) path_length"
  by (intro ext) (simp add: module_step_def best_step_def module_mentioned_def path_length_def Let_def)

interpretation modules: best_search "module_mentioned issueText" path_length "-1"
  for issueText by unfold_locales (simp add: path_length_def)

lemma findBestModuleMatch_cases:
  "case findBestModuleMatch issueText ms of
     None \<Rightarrow> \<forall>m \<in> set ms. \<not> module_mentioned issueText m
   | Some m \<Rightarrow> first_best (module_mentioned issueText) path_length ms m"
  using modules.search_cases [of ms issueText] by (simp add: findBestModuleMatch_def module_step_best)

definition keyword_score :: "jsstring \<Rightarrow> routing_rule \<Rightarrow> nat" where
  "keyword_score issueText r = rule_score (matched_keywords issueText r)"

definition rule_mentioned :: "jsstring \<Rightarrow> routing_rule \<Rightarrow> bool" where
  "rule_mentioned issueText r \<longleftrightarrow> matched_keywords issueText r \<noteq> []"

interpretation rules: best_search "rule_mentioned issueText" "keyword_score issueText" 0
  for issueText by unfold_locales (simp add: rule_mentioned_def keyword_score_def rule_score_def)

lemma rule_fold_best:
  "foldl (rule_step issueText) (map_option (\<lambda>r. (r, matched_keywords issueText r)) b, n) rules =
     (case foldl (best_step (rule_mentioned issueText) (keyword_score issueText)) (b, n) rules of
        (b', n') \<Rightarrow> (map_option (\<lambda>r. (r, matched_keywords issueText r)) b', n'))"
proof (induction rules arbitrary: b n)
  case (Cons r rules)
  show ?case
    using Cons [of "Some r" "keyword_score issueText r"] Cons [of b n]
    by (simp add: rule_step_def best_step_def rule_mentioned_def keyword_score_def Let_def)
qed simp

lemma findBestRuleMatch_cases:
  "case findBestRuleMatch issueText rs of
     None \<Rightarrow> \<forall>r \<in> set rs. \<not> rule_mentioned issueText r
   | Some (r, matched) \<Rightarrow> first_best (rule_mentioned issueText) (keyword_score issueText) rs r
        \<and> matched = matched_keywords issueText r"
  using rules.search_cases [of rs issueText] rule_fold_best [of issueText None 0 rs]
  by (auto simp: findBestRuleMatch_def split: prod.splits option.splits)

section \<open>Properties\<close>

lemma first_of_Some: "first_of x y = Some v \<Longrightarrow> x = Some v \<or> y = Some v"
  by (cases x) (auto simp: first_of_def)

lemma find_member: "List.find P xs = Some x \<Longrightarrow> x \<in> set xs \<and> P x"
  by (auto simp: find_Some_iff)

lemma findMember_roster: "findMember target roster = Some m \<Longrightarrow> m \<in> set roster"
  unfolding findMember_def Let_def by (auto split: if_splits dest!: first_of_Some find_member)

lemma findRoleKeywordMatch_roster:
  "findRoleKeywordMatch text' roster = Some (m, reason) \<Longrightarrow> m \<in> set roster \<and> role_keyword_reason text' m = Some reason"
  by (induction roster) (auto split: option.splits)

lemma findLeadFallback_roster: "findLeadFallback roster = Some m \<Longrightarrow> m \<in> set roster"
  unfolding findLeadFallback_def by (auto dest: find_member)

text \<open>The five ways to an assignment, each on its own.\<close>

definition by_module :: "string \<Rightarrow> confidence \<Rightarrow> (module_owner \<Rightarrow> jsstring option) \<Rightarrow> issue \<Rightarrow> module_owner list \<Rightarrow> member list \<Rightarrow> triage option" where
  "by_module kind c owner i modules roster =
     Option.bind (findBestModuleMatch (normalizeTextForPathMatch (issue_text i)) modules) (\<lambda>m.
       Option.bind (owner m) (\<lambda>name. map_option (\<lambda>a. \<lparr>tg_agent = a, tg_reason = owner_reason m kind name,
         tg_source = ModuleOwnership, tg_confidence = c\<rparr>) (findMember name roster)))"

definition by_rule :: "issue \<Rightarrow> routing_rule list \<Rightarrow> member list \<Rightarrow> triage option" where
  "by_rule i rules roster =
     Option.bind (findBestRuleMatch (issue_text i) rules) (\<lambda>(r, matched).
       map_option (\<lambda>a. \<lparr>tg_agent = a, tg_reason = u ''Matched routing keyword(s): '' @ join (u '', '') matched,
         tg_source = RoutingRule, tg_confidence = (if length matched \<ge> 2 then High else Medium)\<rparr>) (findMember (rr_agentName r) roster))"

definition by_role :: "issue \<Rightarrow> member list \<Rightarrow> triage option" where
  "by_role i roster = map_option (\<lambda>(a, reason). \<lparr>tg_agent = a, tg_reason = reason, tg_source = RoleKeyword, tg_confidence = Medium\<rparr>)
     (findRoleKeywordMatch (issue_text i) roster)"

fun first_some :: "'a option list \<Rightarrow> 'a option" where
  "first_some [] = None"
| "first_some (x # xs) = first_of x (first_some xs)"

definition nonempty :: "jsstring option \<Rightarrow> jsstring option" where
  "nonempty x = (if x = Some [] then None else x)"

lemma findMember_Nil: "findMember [] roster = None"
  by (simp add: findMember_def normalizeName_def cleanCell_def remove_char_def toLowerCase_def)

lemma rule_or_below_first:
  "rule_or_below (issue_text i) rules roster = first_some [by_rule i rules roster, by_role i roster, lead_triage roster]"
  by (auto simp: rule_or_below_def role_or_lead_def by_rule_def by_role_def first_of_def lead_triage_def split: option.split)

lemma triage_first:
  "triageIssue i rules modules roster = first_some
     [by_module ''primary'' High (\<lambda>m. Some (mo_primary m)) i modules roster,
      by_module ''secondary'' Medium (\<lambda>m. nonempty (mo_secondary m)) i modules roster,
      by_rule i rules roster, by_role i roster, lead_triage roster]"
  using rule_or_below_first [of i rules roster]
  by (simp add: triageIssue_def Let_def by_module_def first_of_def nonempty_def split: option.split)

lemma triage_agent_on_roster: "triageIssue i rules modules roster = Some t \<Longrightarrow> tg_agent t \<in> set roster"
  unfolding triage_first
  by (auto simp: by_module_def by_rule_def by_role_def lead_triage_def bind_eq_Some_conv split: option.splits prod.splits
      dest!: first_of_Some findMember_roster findRoleKeywordMatch_roster findLeadFallback_roster)

text \<open>C11. An issue goes to the first of these that yields a member: the primary owner of the longest
  module path it mentions, that module's secondary owner, the agent of the best routing rule, the
  first member one of whose role keywords it uses, the lead.  Whoever is chosen is on the roster.\<close>

theorem triage_precedence:
  "triageIssue i rules modules roster = first_some
     [by_module ''primary'' High (\<lambda>m. Some (mo_primary m)) i modules roster,
      by_module ''secondary'' Medium (\<lambda>m. nonempty (mo_secondary m)) i modules roster,
      by_rule i rules roster, by_role i roster, lead_triage roster]
   \<and> {tg_agent t |t. triageIssue i rules modules roster = Some t} \<subseteq> set roster"
  using triage_first triage_agent_on_roster by fast

text \<open>C37. The module found is the first of the longest paths the text mentions; the rule found is the first
  of the highest scores, and comes with exactly its keywords that occur in the text.\<close>

theorem best_matches_are_best:
  assumes "findBestModuleMatch text' modules = Some m" "findBestRuleMatch text' rules = Some (r, matched)"
  shows "first_best (module_mentioned text') path_length modules m
    \<and> first_best (rule_mentioned text') (keyword_score text') rules r
    \<and> set matched = {k \<in> set (map toLowerCase (rr_keywords r)). k \<noteq> [] \<and> str_includes text' k}"
  using assms findBestModuleMatch_cases [of modules text'] findBestRuleMatch_cases [of rules text']
  by (auto simp: matched_keywords_def)

definition two_modules :: "module_owner list" where
  "two_modules = [\<lparr>mo_modulePath = u ''a'', mo_primary = u ''Rusty'', mo_secondary = None\<rparr>,
     \<lparr>mo_modulePath = u ''a/b'', mo_primary = u ''Basher'', mo_secondary = None\<rparr>]"

definition one_rule :: "routing_rule list" where
  "one_rule = [\<lparr>rr_workType = u ''api'', rr_agentName = u ''Rusty'', rr_keywords = [u ''b'', u ''x'']\<rparr>]"

lemma two_modules_match: "findBestModuleMatch (u ''a/b'') two_modules = Some (two_modules ! 1)"
  by code_simp

lemma one_rule_match: "findBestRuleMatch (u ''a/b'') one_rule = Some (one_rule ! 0, [u ''b''])"
  by code_simp

theorem best_matches_are_best_witness:
  "first_best (module_mentioned (u ''a/b'')) path_length two_modules (two_modules ! 1)"
  using best_matches_are_best [OF two_modules_match one_rule_match] by blast

text \<open>A member whose name has no letter, digit or sign that normalisation keeps is found for every
  target that no name and no role equals, whoever the target names in part.\<close>

theorem unspellable_name_takes_all:
  assumes "normalizeName (me_name m) = []" "normalizeName target \<noteq> []"
    and "\<forall>a \<in> set (m # roster). normalizeName (me_name a) \<noteq> normalizeName target \<and> normalizeName (me_role a) \<noteq> normalizeName target"
  shows "findMember target (m # roster) = Some m"
proof -
  have "List.find (\<lambda>a. normalizeName (me_name a) = normalizeName target) (m # roster) = None"
    "List.find (\<lambda>a. normalizeName (me_role a) = normalizeName target) (m # roster) = None"
    using assms(3) by (auto simp: find_None_iff)
  moreover have "overlap (normalizeName target) (normalizeName (me_name m))"
    by (simp add: overlap_def assms(1))
  ultimately show ?thesis
    using assms(2) by (simp only: findMember_def Let_def first_of_def option.case if_False) simp
qed

definition sample_roster :: "member list" where
  "sample_roster = [\<lparr>me_name = [0x674E], me_role = u ''QA'', me_label = u ''squad:'' @ [0x674E]\<rparr>,
     \<lparr>me_name = u ''Rusty Ryan'', me_role = u ''Lead'', me_label = u ''squad:rusty ryan''\<rparr>]"

lemma sample_names:
  "normalizeName [0x674E] = []" "normalizeName (u ''Rusty'') = u ''rusty''" "normalizeName (u ''Rusty Ryan'') = u ''rusty ryan''"
  "normalizeName (u ''QA'') = u ''qa''" "normalizeName (u ''Lead'') = u ''lead''"
  by code_simp+

theorem unspellable_name_takes_all_witness:
  "findMember (u ''Rusty'') sample_roster = Some (sample_roster ! 0)"
  using unspellable_name_takes_all [of "sample_roster ! 0" "u ''Rusty''" "[sample_roster ! 1]"]
  by (simp add: sample_roster_def sample_names eq_commute [of "[]"])

text \<open>The keyword \<open>ui\<close> occurs in \<open>build\<close>: a failing build goes to a front-end role, not to a test role.\<close>

lemma build_is_read_as_ui:
  assumes "str_includes text' (u ''build'')" "str_includes (toLowerCase (me_role m)) (u ''frontend'')"
  shows "findRoleKeywordMatch text' (m # roster) = Some (m, u ''Matched frontend/UI role keywords'')"
proof -
  have "str_includes (u ''build'') (u ''ui'')" by (simp add: u_def)
  then have "str_includes text' (u ''ui'')" using assms(1) by (rule str_includes_trans [rotated])
  then show ?thesis using assms(2) by (simp add: role_keyword_reason_def mentions_def)
qed

end
