(* ===== verification/TriageRun.thy ===== *)
theory TriageRun
  imports TriageIssue Json
begin

text \<open>
  The triage command (\<open>.squad/templates/ralph-triage.js\<close>): arguments, the remote URL, GitHub's answers,
  the loop over pages, which issues are untriaged, and \<open>main\<close>.  The process environment, Git, the
  HTTPS transport, \<open>path\<close>, the URL parser and the file system are arguments.
\<close>

section \<open>Arguments and remote\<close>

datatype cli = Help | Args "jsstring option" "jsstring option"

text \<open>\<open>None\<close> is the \<open>undefined\<close> of a flag without its value.\<close>

fun parse_triage_args :: "jsstring list \<Rightarrow> jsstring option \<Rightarrow> jsstring option \<Rightarrow> js_exn + cli" where
  "parse_triage_args [] squadDir output' =
     (if squadDir \<in> {None, Some []} then Inl (JsError (u ''--squad-dir requires a value''))
      else if output' \<in> {None, Some []} then Inl (JsError (u ''--output requires a value''))
      else Inr (Args squadDir output'))"
| "parse_triage_args (arg # rest) squadDir output' =
     (if arg = u ''--squad-dir'' then
        (case rest of [] \<Rightarrow> parse_triage_args [] None output' | v # rest' \<Rightarrow> parse_triage_args rest' (Some v) output')
      else if arg = u ''--output'' then
        (case rest of [] \<Rightarrow> parse_triage_args [] squadDir None | v # rest' \<Rightarrow> parse_triage_args rest' squadDir (Some v))
      else if arg = u ''--help'' \<or> arg = u ''-h'' then Inr Help
      else Inl (JsError (u ''Unknown argument: '' @ arg)))"

definition usage_text :: jsstring where
  "usage_text = u ''Usage: node .squad/templates/ralph-triage.js --squad-dir .squad --output triage-results.json''"

definition line_end :: "jschar \<Rightarrow> bool" where
  "line_end c \<longleftrightarrow> c \<in> {10, 13, 0x2028, 0x2029}"

text \<open>\<open>/^git@[^:]+:([^/]+)\/(.+?)(?:\.git)?$/\<close>: the lazy group takes as little as lets the rest match.\<close>

definition ssh_match :: "jsstring \<Rightarrow> (jsstring \<times> jsstring) option" where
  "ssh_match s =
     (if \<not> startsWith s (u ''git@'') then None
      else (let r = drop 4 s; host = takeWhile (\<lambda>c. c \<noteq> 58) r; r1 = drop (length host) r;
                r2 = tl r1; owner = takeWhile (\<lambda>c. c \<noteq> 47) r2; r3 = drop (length owner) r2;
                name = tl r3; short = take (length name - 4) name in
        if host = [] \<or> r1 = [] \<or> owner = [] \<or> r3 = [] \<or> name = [] then None
        else if endsWith name (u ''.git'') \<and> short \<noteq> [] \<and> \<not> list_ex line_end short then Some (owner, short)
        else if \<not> list_ex line_end name then Some (owner, name)
        else None))"

definition strip_git :: "jsstring \<Rightarrow> jsstring" where
  "strip_git s = (if endsWith s (u ''.git'') then take (length s - 4) s else s)"

definition parseOwnerRepoFromRemote :: "(jsstring \<Rightarrow> js_exn + jsstring) \<Rightarrow> jsstring \<Rightarrow> js_exn + jsstring \<times> jsstring" where
  "parseOwnerRepoFromRemote url_pathname remoteUrl =
     (let fail = Inl (JsError (u ''Unable to parse owner/repo from remote URL: '' @ remoteUrl)) in
      case ssh_match remoteUrl of
        Some (owner, repo) \<Rightarrow> Inr (owner, repo)
      | None \<Rightarrow>
          if startsWith remoteUrl (u ''http://'') \<or> startsWith remoteUrl (u ''https://'') \<or> startsWith remoteUrl (u ''ssh://'')
          then bindE (url_pathname remoteUrl) (\<lambda>pathname.
            (let parts = split_on 47 (strip_git (dropWhile (\<lambda>c. c = 47) pathname)) in
             if length parts \<ge> 2 then Inr (parts ! 0, parts ! 1) else fail))
          else fail)"

section \<open>GitHub\<close>

record gh_request =
  gq_hostname :: jsstring
  gq_method :: jsstring
  gq_path :: jsstring
  gq_headers :: "(jsstring \<times> jsstring) list"

text \<open>An answer: the status, the body, and what \<open>JSON.parse\<close> makes of it (or the message it throws).\<close>

record gh_response =
  gr_statusCode :: "int option"
  gr_body :: jsstring
  gr_json :: "jsstring + jsval"

definition gh_request_for :: "jsstring \<Rightarrow> jsstring \<Rightarrow> gh_request" where
  "gh_request_for pathname token =
     \<lparr>gq_hostname = u ''api.github.com'', gq_method = u ''GET'', gq_path = pathname,
      gq_headers = [(u ''Accept'', u ''application/vnd.github+json''), (u ''Authorization'', u ''Bearer '' @ token),
        (u ''User-Agent'', u ''squad-ralph-triage''), (u ''X-GitHub-Api-Version'', u ''2022-11-28'')]\<rparr>"

definition githubRequestJson :: "(gh_request \<Rightarrow> js_exn + gh_response) \<Rightarrow> jsstring \<Rightarrow> jsstring \<Rightarrow> js_exn + jsval" where
  "githubRequestJson https pathname token =
     bindE (https (gh_request_for pathname token)) (\<lambda>res.
       (let status = (case gr_statusCode res of None \<Rightarrow> 500 | Some c \<Rightarrow> if c = 0 then 500 else c) in
        if status \<ge> 400 then
          Inl (JsError (u ''GitHub API '' @ (case gr_statusCode res of None \<Rightarrow> u ''undefined'' | Some c \<Rightarrow> show_int c)
             @ u '': '' @ gr_body res))
        else (case gr_json res of
            Inl msg \<Rightarrow> Inl (JsError (u ''Failed to parse GitHub response: '' @ msg))
          | Inr v \<Rightarrow> Inr v)))"

definition issues_path :: "jsstring \<Rightarrow> jsstring \<Rightarrow> nat \<Rightarrow> jsstring" where
  "issues_path owner repo page =
     u ''/repos/'' @ owner @ u ''/'' @ repo @ u ''/issues?state=open&labels=squad&per_page=100&page='' @ show_int (of_nat page)"

text \<open>The \<open>for (;;)\<close> over pages; it need not end, and then has no result.\<close>

partial_function (option) fetch_pages :: "(nat \<Rightarrow> js_exn + jsval) \<Rightarrow> nat \<Rightarrow> jsval list \<Rightarrow> (js_exn + jsval list) option" where
  "fetch_pages get page acc =
     (case get page of
        Inl e \<Rightarrow> Some (Inl e)
      | Inr v \<Rightarrow>
          (case v of
             JArr issues \<Rightarrow>
               if issues = [] then Some (Inr acc)
               else if length issues < 100 then Some (Inr (acc @ issues))
               else fetch_pages get (Suc page) (acc @ issues)
           | _ \<Rightarrow> Some (Inr acc)))"

definition fetchSquadIssues ::
  "(gh_request \<Rightarrow> js_exn + gh_response) \<Rightarrow> jsstring \<Rightarrow> jsstring \<Rightarrow> jsstring \<Rightarrow> (js_exn + jsval list) option" where
  "fetchSquadIssues https owner repo token =
     fetch_pages (\<lambda>page. githubRequestJson https (issues_path owner repo page) token) 1 []"

section \<open>Untriaged issues\<close>

definition label_matches :: "jsstring \<Rightarrow> jsval \<Rightarrow> js_exn + bool" where
  "label_matches target label =
     (if \<not> truthy label then Inr False
      else bindE (case label of JStr s \<Rightarrow> Inr label | _ \<Rightarrow> get_prop label ''name'') (\<lambda>name.
        Inr (case name of JStr s \<Rightarrow> toLowerCase s = target | _ \<Rightarrow> False)))"

text \<open>\<open>some\<close> stops at the first match.\<close>

fun someE :: "('a \<Rightarrow> js_exn + bool) \<Rightarrow> 'a list \<Rightarrow> js_exn + bool" where
  "someE P [] = Inr False"
| "someE P (x # xs) = bindE (P x) (\<lambda>b. if b then Inr True else someE P xs)"

fun filterE :: "('a \<Rightarrow> js_exn + bool) \<Rightarrow> 'a list \<Rightarrow> js_exn + 'a list" where
  "filterE P [] = Inr []"
| "filterE P (x # xs) = bindE (P x) (\<lambda>b. bindE (filterE P xs) (\<lambda>ys. Inr (if b then x # ys else ys)))"

definition issueHasLabel :: "jsval \<Rightarrow> jsstring \<Rightarrow> js_exn + bool" where
  "issueHasLabel issue labelName =
     bindE (get_prop issue ''labels'') (\<lambda>labels.
     bindE (as_array (if truthy labels then labels else JArr [])) (\<lambda>ls.
       someE (label_matches (toLowerCase labelName)) ls))"

definition isUntriagedIssue :: "jsval \<Rightarrow> jsstring list \<Rightarrow> js_exn + bool" where
  "isUntriagedIssue issue memberLabels =
     bindE (get_prop issue ''pull_request'') (\<lambda>pr.
       if truthy pr then Inr False
       else bindE (issueHasLabel issue (u ''squad'')) (\<lambda>squad.
         if \<not> squad then Inr False
         else bindE (someE (issueHasLabel issue) memberLabels) (\<lambda>assigned. Inr (\<not> assigned))))"

section \<open>The command\<close>

record triage_result =
  tr_issueNumber :: jsval
  tr_assignTo :: jsstring
  tr_label :: jsstring
  tr_reason :: jsstring
  tr_source :: jsstring

definition or_empty :: "jsval \<Rightarrow> jsstring" where
  "or_empty v = (if truthy v then val_text v else [])"

definition result_of :: "routing_rule list \<Rightarrow> module_owner list \<Rightarrow> member list \<Rightarrow> jsval \<Rightarrow> js_exn + triage_result option" where
  "result_of rules modules roster issue =
     bindE (get_prop issue ''number'') (\<lambda>number.
     bindE (get_prop issue ''title'') (\<lambda>title.
     bindE (get_prop issue ''body'') (\<lambda>body.
       Inr (map_option (\<lambda>t. \<lparr>tr_issueNumber = number, tr_assignTo = me_name (tg_agent t), tr_label = me_label (tg_agent t),
              tr_reason = tg_reason t, tr_source = source_text (tg_source t)\<rparr>)
          (triageIssue \<lparr>is_title = or_empty title, is_body = or_empty body\<rparr> rules modules roster)))))"

definition triage_all :: "routing_rule list \<Rightarrow> module_owner list \<Rightarrow> member list \<Rightarrow> jsval list \<Rightarrow> js_exn + triage_result list" where
  "triage_all rules modules roster issues =
     bindE (filterE (\<lambda>issue. isUntriagedIssue issue (map me_label roster)) issues) (\<lambda>untriaged.
     bindE (mapE (result_of rules modules roster) untriaged) (\<lambda>results. Inr (List.map_filter id results)))"

definition result_json :: "triage_result \<Rightarrow> jsval" where
  "result_json r = obj [(''issueNumber'', tr_issueNumber r), (''assignTo'', JStr (tr_assignTo r)), (''label'', JStr (tr_label r)),
     (''reason'', JStr (tr_reason r)), (''source'', JStr (tr_source r))]"

record triage_env =
  te_token :: "jsstring option"
  te_resolve :: "jsstring \<Rightarrow> jsstring"
  te_join :: "jsstring \<Rightarrow> jsstring \<Rightarrow> jsstring"
  te_remote :: "js_exn + jsstring"
  te_pathname :: "jsstring \<Rightarrow> js_exn + jsstring"
  te_https :: "gh_request \<Rightarrow> js_exn + gh_response"
  te_denied :: "jsstring \<Rightarrow> js_exn option"

type_synonym files = "jsstring \<Rightarrow> jsstring option"

definition read_file :: "files \<Rightarrow> jsstring \<Rightarrow> js_exn + jsstring" where
  "read_file fs path =
     (case fs path of
        Some s \<Rightarrow> Inr s
      | None \<Rightarrow> Inl (JsError (u ''ENOENT: no such file or directory, open '' @ [39] @ path @ [39])))"

text \<open>What \<open>main\<close> does after parsing: the triaged results, or nothing when the fetch does not end.\<close>

definition triage_results :: "triage_env \<Rightarrow> files \<Rightarrow> jsstring \<Rightarrow> (js_exn + triage_result list) option" where
  "triage_results env fs squadDir =
     (case bindE (case te_token env of None \<Rightarrow> Inl (JsError (u ''GITHUB_TOKEN is required''))
             | Some t \<Rightarrow> if t = [] then Inl (JsError (u ''GITHUB_TOKEN is required'')) else Inr t) (\<lambda>token.
           bindE (read_file fs (te_join env (te_resolve env squadDir) (u ''team.md''))) (\<lambda>teamMd.
           bindE (read_file fs (te_join env (te_resolve env squadDir) (u ''routing.md''))) (\<lambda>routingMd.
           bindE (bindE (te_remote env) (\<lambda>remote. parseOwnerRepoFromRemote (te_pathname env) (trim remote)))
             (\<lambda>(owner, repo). Inr (token, teamMd, routingMd, owner, repo))))) of
        Inl e \<Rightarrow> Some (Inl e)
      | Inr (token, teamMd, routingMd, owner, repo) \<Rightarrow>
          map_option (\<lambda>fetched. bindE fetched
              (triage_all (parseRoutingRules routingMd) (parseModuleOwnership routingMd) (parseRoster teamMd)))
            (fetchSquadIssues (te_https env) owner repo token))"

text \<open>The exit code, the message on the error stream, and the files after the run.\<close>

definition failed :: "files \<Rightarrow> js_exn \<Rightarrow> (int \<times> jsstring) \<times> files" where
  "failed fs e = ((1, exn_text e), fs)"

definition triage_main :: "triage_env \<Rightarrow> jsstring list \<Rightarrow> files \<Rightarrow> ((int \<times> jsstring) \<times> files) option" where
  "triage_main env argv fs =
     (case parse_triage_args argv (Some (u ''.squad'')) (Some (u ''triage-results.json'')) of
        Inl e \<Rightarrow> Some (failed fs e)
      | Inr Help \<Rightarrow> Some ((0, usage_text), fs)
      | Inr (Args squadDir output') \<Rightarrow>
          map_option (\<lambda>r. case r of
              Inl e \<Rightarrow> failed fs e
            | Inr results \<Rightarrow>
                (let outputPath = te_resolve env (the output') in
                 case te_denied env outputPath of
                   Some e \<Rightarrow> failed fs e
                 | None \<Rightarrow> ((0, []), fs(outputPath \<mapsto> stringify 0 (JArr (map result_json results)) @ [10]))))
            (triage_results env fs (the squadDir)))"

section \<open>Paging\<close>

definition full_page :: "js_exn + jsval \<Rightarrow> jsval list \<Rightarrow> bool" where
  "full_page r issues \<longleftrightarrow> r = Inr (JArr issues) \<and> 100 \<le> length issues"

lemma fetch_full: "full_page (get page) issues \<Longrightarrow> fetch_pages get page acc = fetch_pages get (Suc page) (acc @ issues)"
  by (subst fetch_pages.simps) (auto simp: full_page_def)

lemma fetch_short: "get page = Inr (JArr issues) \<Longrightarrow> length issues < 100 \<Longrightarrow> fetch_pages get page acc = Some (Inr (acc @ issues))"
  by (subst fetch_pages.simps) simp

lemma fetch_stops: "\<nexists>issues. full_page (get page) issues \<Longrightarrow> fetch_pages get page acc \<noteq> None"
  by (subst fetch_pages.simps) (auto simp: full_page_def not_le split: sum.splits jsval.splits)

lemma fetch_some_page:
  assumes "fetch_pages get page acc = Some r"
  shows "\<exists>i. \<nexists>issues. full_page (get (page + i)) issues"
proof (rule fetch_pages.raw_induct [OF _ assms, of "\<lambda>get page acc r. \<exists>i. \<nexists>issues. full_page (get (page + i)) issues"])
  show "\<exists>i. \<nexists>issues. full_page (get (page + i)) issues"
    if IH: "\<And>get page acc r. fetch get page acc = Some r \<Longrightarrow> \<exists>i. \<nexists>issues. full_page (get (page + i)) issues"
      and body: "(case get page of Inl e \<Rightarrow> Some (Inl e)
        | Inr v \<Rightarrow> (case v of
            JArr issues \<Rightarrow> if issues = [] then Some (Inr acc) else if length issues < 100 then Some (Inr (acc @ issues))
              else fetch get (Suc page) (acc @ issues)
          | _ \<Rightarrow> Some (Inr acc))) = Some r"
    for fetch and get :: "nat \<Rightarrow> js_exn + jsval" and page acc r
  proof (cases "\<exists>issues. full_page (get page) issues")
    case True
    then obtain issues where "full_page (get page) issues" by blast
    then have "get page = Inr (JArr issues)" "issues \<noteq> []" "\<not> length issues < 100"
      by (auto simp: full_page_def)
    with body have "fetch get (Suc page) (acc @ issues) = Some r" by simp
    from IH [OF this] obtain i where "\<nexists>issues. full_page (get (Suc page + i)) issues" by blast
    then show ?thesis by (intro exI [of _ "Suc i"]) simp
  next
    case False
    then show ?thesis by (intro exI [of _ 0]) simp
  qed
qed

lemma fetch_reaches:
  "\<nexists>issues. full_page (get (page + i)) issues \<Longrightarrow> fetch_pages get page acc \<noteq> None"
proof (induction i arbitrary: page acc)
  case 0
  then show ?case using fetch_stops [of get page] by simp
next
  case (Suc i)
  show ?case
  proof (cases "\<exists>issues. full_page (get page) issues")
    case True
    then show ?thesis using Suc.IH [of "Suc page"] Suc.prems by (auto simp: fetch_full)
  next
    case False
    then show ?thesis by (rule fetch_stops)
  qed
qed

text \<open>C26. The loop over pages fails to end exactly when every page from the first on is a full one:
  nothing else bounds it.\<close>

theorem fetch_ends_iff:
  "fetch_pages get page acc = None \<longleftrightarrow> (\<forall>i. \<exists>issues. full_page (get (page + i)) issues)"
  using fetch_some_page [of get page acc] fetch_reaches [of get page] by (metis not_None_eq)

text \<open>C27. When full pages are followed by a short one, the loop ends after it and returns all of their
  issues in order.\<close>

theorem fetch_returns_every_page:
  assumes "\<forall>i < length pages. full_page (get (page + i)) (pages ! i)"
    and "get (page + length pages) = Inr (JArr final)" "length final < 100"
  shows "fetch_pages get page acc = Some (Inr (acc @ concat pages @ final))"
  using assms
proof (induction pages arbitrary: page acc)
  case Nil
  then show ?case by (simp add: fetch_short)
next
  case (Cons p ps)
  then have "full_page (get page) p" by force
  moreover have "\<forall>i < length ps. full_page (get (Suc page + i)) (ps ! i)"
    using Cons.prems(1) by force
  ultimately show ?case
    using Cons.IH [of "Suc page" "acc @ p"] Cons.prems(2,3) by (simp add: fetch_full)
qed

theorem fetch_returns_every_page_witness:
  "fetch_pages (\<lambda>p. Inr (JArr (replicate (if p = 1 then 100 else 7) JNull))) 1 [] = Some (Inr (replicate 107 JNull))"
  using fetch_returns_every_page [of "[replicate 100 JNull]" "\<lambda>p. Inr (JArr (replicate (if p = 1 then 100 else 7) JNull))" 1
      "replicate 7 JNull" "[]"]
  by (simp add: full_page_def replicate_add [symmetric])

section \<open>Labels\<close>

definition matches :: "jsstring \<Rightarrow> jsval \<Rightarrow> bool" where
  "matches target label \<longleftrightarrow> label_matches target label = Inr True"

lemma label_matches_total: "label_matches target label = Inr (matches target label)"
  by (cases label) (auto simp: label_matches_def matches_def split: jsval.split)

lemma someE_total: "(\<And>x. x \<in> set xs \<Longrightarrow> P x = Inr (Q x)) \<Longrightarrow> someE P xs = Inr (list_ex Q xs)"
  by (induction xs) auto

lemma someE_False: "someE P xs = Inr False \<Longrightarrow> x \<in> set xs \<Longrightarrow> P x = Inr False"
  by (induction xs) (auto simp: bindE_Inr_iff split: if_splits)

text \<open>The issue with a label added at the end of its labels.\<close>

definition add_label :: "jsstring \<Rightarrow> jsval \<Rightarrow> jsval" where
  "add_label l issue =
     (case issue of
        JObj fs \<Rightarrow> JObj ((u ''labels'', JArr ((case lookup_prop fs (u ''labels'') of JArr ls \<Rightarrow> ls | _ \<Rightarrow> [])
          @ [obj [(''name'', JStr l)]])) # fs)
      | _ \<Rightarrow> issue)"

lemma lookup_prop_Cons: "lookup_prop ((k, v) # fs) k' = (if k = k' then v else lookup_prop fs k')"
  by (simp add: lookup_prop_def)

lemma issueHasLabel_labels:
  "get_prop issue ''labels'' = Inr (JArr ls) \<Longrightarrow> issueHasLabel issue l = Inr (list_ex (matches (toLowerCase l)) ls)"
  by (simp add: issueHasLabel_def someE_total label_matches_total)

lemma untriaged_shape:
  assumes "isUntriagedIssue issue labels = Inr True"
  obtains fs ls where "issue = JObj fs" "lookup_prop fs (u ''labels'') = JArr ls" "list_ex (matches (u ''squad'')) ls"
    "\<not> truthy (lookup_prop fs (u ''pull_request''))"
proof -
  from assms have h: "issueHasLabel issue (u ''squad'') = Inr True"
    by (auto simp: isUntriagedIssue_def bindE_Inr_iff split: if_splits)
  then obtain v where v: "get_prop issue ''labels'' = Inr v" and t: "truthy v"
    by (cases "get_prop issue ''labels''") (auto simp: issueHasLabel_def split: if_splits)
  from h v t obtain ls where ls: "v = JArr ls"
    by (cases v) (auto simp: issueHasLabel_def)
  have "\<exists>fs. issue = JObj fs"
    using v t ls by (cases issue) (auto split: if_splits)
  then obtain fs where fs: "issue = JObj fs" by blast
  show thesis
  proof (rule that)
    show "issue = JObj fs" by (rule fs)
    show l: "lookup_prop fs (u ''labels'') = JArr ls" using v ls fs by simp
    have "toLowerCase (u ''squad'') = u ''squad''" by (simp add: js_defs)
    then show "list_ex (matches (u ''squad'')) ls"
      using h issueHasLabel_labels [of issue ls "u ''squad''"] v ls by simp
    show "\<not> truthy (lookup_prop fs (u ''pull_request''))"
      using assms fs by (auto simp: isUntriagedIssue_def split: if_splits)
  qed
qed

lemma labelled_is_triaged:
  assumes u: "isUntriagedIssue issue labels = Inr True" and l: "l \<in> set labels"
  shows "isUntriagedIssue (add_label l issue) labels = Inr False"
proof -
  from u obtain fs ls where i: "issue = JObj fs" "lookup_prop fs (u ''labels'') = JArr ls"
      "list_ex (matches (u ''squad'')) ls" "\<not> truthy (lookup_prop fs (u ''pull_request''))"
    by (rule untriaged_shape)
  let ?new = "obj [(''name'', JStr l)]"
  have labels: "get_prop (add_label l issue) ''labels'' = Inr (JArr (ls @ [?new]))"
    by (simp add: add_label_def i lookup_prop_Cons)
  note has = issueHasLabel_labels [OF labels]
  have pr: "get_prop (add_label l issue) ''pull_request'' = Inr (lookup_prop fs (u ''pull_request''))"
    by (simp add: add_label_def i lookup_prop_Cons)
  have new: "matches (toLowerCase l) ?new"
    by (simp add: matches_def label_matches_def obj_def lookup_prop_def)
  have "list_ex (\<lambda>x. list_ex (matches (toLowerCase x)) (ls @ [?new])) labels"
    using l new by (auto simp: list_ex_iff)
  then have "someE (issueHasLabel (add_label l issue)) labels = Inr True"
    by (subst someE_total [OF has]) simp
  moreover have "toLowerCase (u ''squad'') = u ''squad''" by (simp add: js_defs)
  then have "issueHasLabel (add_label l issue) (u ''squad'') = Inr True"
    using i(3) by (simp add: has)
  ultimately show ?thesis
    using i(4) by (simp add: isUntriagedIssue_def pr)
qed

lemma mapE_member: "mapE f xs = Inr ys \<Longrightarrow> y \<in> set ys \<Longrightarrow> \<exists>x \<in> set xs. f x = Inr y"
  by (induction xs arbitrary: ys) (auto simp: bindE_Inr_iff)

lemma filterE_set: "filterE P xs = Inr ys \<Longrightarrow> y \<in> set ys \<Longrightarrow> y \<in> set xs \<and> P y = Inr True"
  by (induction xs arbitrary: ys) (auto simp: bindE_Inr_iff split: if_splits)

text \<open>C16. Every result assigns an untriaged issue of the fetched ones to a member of the roster with that
  member's label, and once the issue carries that label it is no longer untriaged.\<close>

theorem results_settle_untriaged_issues:
  assumes "triage_all rules modules roster issues = Inr results" "r \<in> set results"
  shows "\<exists>issue \<in> set issues. \<exists>m \<in> set roster.
      get_prop issue ''number'' = Inr (tr_issueNumber r) \<and> tr_assignTo r = me_name m \<and> tr_label r = me_label m
      \<and> isUntriagedIssue issue (map me_label roster) = Inr True
      \<and> isUntriagedIssue (add_label (tr_label r) issue) (map me_label roster) = Inr False"
proof -
  from assms obtain untriaged rs where f: "filterE (\<lambda>issue. isUntriagedIssue issue (map me_label roster)) issues = Inr untriaged"
    and m: "mapE (result_of rules modules roster) untriaged = Inr rs" and r: "results = List.map_filter id rs"
    by (auto simp: triage_all_def bindE_Inr_iff)
  from assms(2) r have "Some r \<in> set rs" by (auto simp: List.map_filter_def)
  then obtain issue where i: "issue \<in> set untriaged" "result_of rules modules roster issue = Inr (Some r)"
    using mapE_member [OF m] by blast
  from filterE_set [OF f i(1)] have un: "issue \<in> set issues" "isUntriagedIssue issue (map me_label roster) = Inr True" by simp_all
  from i(2) obtain t j where t: "triageIssue j rules modules roster = Some t" "get_prop issue ''number'' = Inr (tr_issueNumber r)"
      "tr_assignTo r = me_name (tg_agent t)" "tr_label r = me_label (tg_agent t)"
    by (auto simp: result_of_def bindE_Inr_iff)
  have "tg_agent t \<in> set roster" by (rule triage_agent_on_roster [OF t(1)])
  with un t labelled_is_triaged [OF un(2), of "me_label (tg_agent t)"] show ?thesis by auto
qed

definition open_issue :: jsval where
  "open_issue = obj [(''number'', JNum 7), (''title'', JStr (u ''t'')), (''labels'', JArr [JStr (u ''squad'')])]"

definition lead_only :: "member list" where
  "lead_only = [\<lparr>me_name = u ''Rusty'', me_role = u ''Lead'', me_label = u ''squad:rusty''\<rparr>]"

lemma lead_only_takes:
  "triage_all [] [] lead_only [open_issue] = Inr [\<lparr>tr_issueNumber = JNum 7, tr_assignTo = u ''Rusty'', tr_label = u ''squad:rusty'',
     tr_reason = u ''No module, routing, or role keyword match '' @ [0x2014] @ u '' routed to Lead/Architect'', tr_source = u ''lead-fallback''\<rparr>]"
  by code_simp

theorem results_settle_untriaged_issues_witness:
  "isUntriagedIssue (add_label (u ''squad:rusty'') open_issue) [u ''squad:rusty''] = Inr False"
  using results_settle_untriaged_issues [OF lead_only_takes list.set_intros(1)] by (simp add: lead_only_def)

end
