(* ===== verification/BootstrapRepo.thy ===== *)
theory BootstrapRepo
  imports JsValue "HOL-Library.List_Lexorder" "HOL-Library.AList"
begin

text \<open>
  The scaffold builder (\<open>scripts/bootstrap-repo.mjs\<close>) without its payload: reading the payload out of
  the script's own text, splitting it into files, refusing unsafe paths, and writing files under the
  root directory.  The Node modules \<open>path\<close> and \<open>fs\<close> are arguments; a write the operating system refuses ends
  the run.
\<close>

section \<open>Arguments\<close>

record bootstrap_opts =
  bs_dryRun :: bool
  bs_force :: bool
  bs_root :: "jsstring option"
  bs_list :: bool
  bs_help :: bool

definition default_opts :: bootstrap_opts where
  "default_opts = \<lparr>bs_dryRun = False, bs_force = False, bs_root = None, bs_list = False, bs_help = False\<rparr>"

text \<open>\<open>fail\<close> ends the process; it is the left side, with the message.\<close>

fun parse_bootstrap_args :: "jsstring list \<Rightarrow> bootstrap_opts \<Rightarrow> jsstring + bootstrap_opts" where
  "parse_bootstrap_args [] opts = Inr opts"
| "parse_bootstrap_args (a # rest) opts =
     (if a = u ''--dry-run'' then parse_bootstrap_args rest (opts\<lparr>bs_dryRun := True\<rparr>)
      else if a = u ''--force'' then parse_bootstrap_args rest (opts\<lparr>bs_force := True\<rparr>)
      else if a = u ''--list'' then parse_bootstrap_args rest (opts\<lparr>bs_list := True\<rparr>)
      else if a = u ''--help'' \<or> a = u ''-h'' then parse_bootstrap_args rest (opts\<lparr>bs_help := True\<rparr>)
      else if a = u ''--root'' then
        (case rest of
           [] \<Rightarrow> Inl (u ''--root requires a directory argument'')
         | r # rest' \<Rightarrow> if r = [] then Inl (u ''--root requires a directory argument'')
             else parse_bootstrap_args rest' (opts\<lparr>bs_root := Some r\<rparr>))
      else Inl (u ''Unknown argument: '' @ a))"

section \<open>The payload\<close>

definition OPEN :: jsstring where "OPEN = u ''/*__SCAFFOLD_PAYLOAD_BEGIN__''"
definition CLOSE :: jsstring where "CLOSE = u ''__SCAFFOLD_PAYLOAD_END__*/''"

text \<open>\<open>lastIndexOf\<close>; \<open>None\<close> is -1.\<close>

fun last_index :: "jsstring \<Rightarrow> jsstring \<Rightarrow> nat option" where
  "last_index [] t = (if t = [] then Some 0 else None)"
| "last_index (c # s) t =
     (case last_index s t of Some i \<Rightarrow> Some (Suc i) | None \<Rightarrow> if prefix t (c # s) then Some 0 else None)"

definition loadPayload :: "jsstring \<Rightarrow> jsstring + jsstring" where
  "loadPayload src =
     (case (last_index src OPEN, last_index src CLOSE) of
        (Some start, Some stop) \<Rightarrow>
          if stop < start then Inl (u ''embedded payload markers not found or malformed'')
          else Inr (drop (start + length OPEN) (take stop src))
      | _ \<Rightarrow> Inl (u ''embedded payload markers not found or malformed''))"

text \<open>\<open>/^===== FILE: (.+?) =====$/\<close>: the name is everything between, and holds no line terminator.\<close>

definition SEP_exec :: "jsstring \<Rightarrow> jsstring option" where
  "SEP_exec line =
     (let name = take (length line - 18) (drop 12 line) in
      if startsWith line (u ''===== FILE: '') \<and> endsWith line (u '' ====='') \<and> 18 < length line
         \<and> \<not> list_ex (\<lambda>c. c \<in> {10, 13, 0x2028, 0x2029}) name
      then Some name else None)"

type_synonym file_map = "(jsstring \<times> jsstring) list"

record parse_state =
  ps_files :: file_map
  ps_current :: "jsstring option"
  ps_buf :: "jsstring list"

text \<open>\<open>files.set\<close> keeps the place of a key that is already there; an empty name is falsy.\<close>

definition flush :: "parse_state \<Rightarrow> file_map" where
  "flush st =
     (case ps_current st of
        None \<Rightarrow> ps_files st
      | Some name \<Rightarrow> if name = [] then ps_files st else AList.update name (join [10] (ps_buf st)) (ps_files st))"

definition parse_line :: "parse_state \<Rightarrow> jsstring \<Rightarrow> parse_state" where
  "parse_line st line =
     (case SEP_exec line of
        Some name \<Rightarrow> \<lparr>ps_files = flush st, ps_current = Some (trim name), ps_buf = []\<rparr>
      | None \<Rightarrow> if ps_current st \<in> {None, Some []} then st else st\<lparr>ps_buf := ps_buf st @ [line]\<rparr>)"

definition parse_start :: parse_state where
  "parse_start = \<lparr>ps_files = [], ps_current = None, ps_buf = []\<rparr>"

text \<open>Segments between slashes and backslashes.\<close>

definition path_segments :: "jsstring \<Rightarrow> jsstring list" where
  "path_segments p = concat (map (split_on 92) (split_on 47 p))"

definition unsafe_path :: "(jsstring \<Rightarrow> bool) \<Rightarrow> jsstring \<Rightarrow> bool" where
  "unsafe_path isAbsolute p \<longleftrightarrow> isAbsolute p \<or> u ''..'' \<in> set (path_segments p)"

definition parseFiles :: "(jsstring \<Rightarrow> bool) \<Rightarrow> jsstring \<Rightarrow> jsstring + file_map" where
  "parseFiles isAbsolute payload =
     (let files = flush (foldl parse_line parse_start (split_on 10 payload)) in
      case List.find (unsafe_path isAbsolute) (map fst files) of
        Some p \<Rightarrow> Inl (u ''refusing unsafe payload path: '' @ p)
      | None \<Rightarrow> Inr files)"

section \<open>Contents\<close>

definition GLOBSTAR_TOKEN :: jsstring where "GLOBSTAR_TOKEN = u ''@@GLOBSTAR@@''"
definition CMTEND_TOKEN :: jsstring where "CMTEND_TOKEN = u ''@@CMTEND@@''"

text \<open>\<open>split(token).join(t)\<close>: the leftmost occurrences, which do not overlap, are replaced.\<close>

function replace_all :: "jsstring \<Rightarrow> jsstring \<Rightarrow> jsstring \<Rightarrow> jsstring" where
  "replace_all token t [] = []"
| "replace_all token t (c # s) =
     (if token \<noteq> [] \<and> prefix token (c # s) then t @ replace_all token t (drop (length token) (c # s))
      else c # replace_all token t s)"
  by pat_completeness auto
termination
  by (relation "measure (\<lambda>(token, t, s). length s)") (auto simp: neq_Nil_conv)

declare replace_all.simps(2) [simp del]

definition restore_tokens :: "jsstring \<Rightarrow> jsstring" where
  "restore_tokens s = replace_all CMTEND_TOKEN (u ''*/'') (replace_all GLOBSTAR_TOKEN (u ''**'') s)"

definition normaliseContent :: "jsstring \<Rightarrow> jsstring" where
  "normaliseContent s =
     (let trimmed = trimEnd (dropWhile (\<lambda>c. c = 10) (restore_tokens s)) in
      if length trimmed > 0 then trimmed @ [10] else [])"

section \<open>Writing\<close>

record disk =
  dk_files :: "jsstring \<Rightarrow> jsstring option"
  dk_executable :: "jsstring set"

record bootstrap_env =
  be_resolve :: "jsstring \<Rightarrow> jsstring \<Rightarrow> jsstring"
  be_isAbsolute :: "jsstring \<Rightarrow> bool"
  be_sep :: jsstring
  be_cwd :: jsstring
  be_scriptParent :: jsstring
  be_denied :: "jsstring \<Rightarrow> jsstring option"

definition resolveRoot :: "bootstrap_env \<Rightarrow> bootstrap_opts \<Rightarrow> jsstring" where
  "resolveRoot env opts = be_resolve env (be_cwd env) (case bs_root opts of Some r \<Rightarrow> r | None \<Rightarrow> be_scriptParent env)"

definition bounded :: "bootstrap_env \<Rightarrow> jsstring \<Rightarrow> jsstring \<Rightarrow> bool" where
  "bounded env dir target \<longleftrightarrow> target = dir \<or> startsWith target (dir @ be_sep env)"

definition safeJoin :: "bootstrap_env \<Rightarrow> jsstring \<Rightarrow> jsstring \<Rightarrow> jsstring + jsstring" where
  "safeJoin env dir rel =
     (let target = be_resolve env dir rel in
      if bounded env dir target then Inr target
      else Inl (u ''refusing to write outside repo root: '' @ rel))"

record tally =
  ta_created :: "jsstring list"
  ta_overwritten :: "jsstring list"
  ta_skipped :: "jsstring list"

definition write_target :: "bootstrap_opts \<Rightarrow> jsstring \<Rightarrow> jsstring \<Rightarrow> jsstring \<Rightarrow> disk \<Rightarrow> disk" where
  "write_target opts rel target content d =
     (if bs_dryRun opts then d
      else d\<lparr>dk_files := (dk_files d)(target \<mapsto> normaliseContent content),
             dk_executable := (if endsWith rel (u ''.sh'') then insert target (dk_executable d) else dk_executable d)\<rparr>)"

text \<open>One turn of the loop over the sorted names.\<close>

definition install :: "bootstrap_env \<Rightarrow> bootstrap_opts \<Rightarrow> jsstring \<Rightarrow> file_map \<Rightarrow> jsstring \<Rightarrow> tally \<times> disk \<Rightarrow> jsstring + tally \<times> disk" where
  "install env opts dir files rel st =
     (case st of (t, d) \<Rightarrow>
        (case safeJoin env dir rel of
           Inl e \<Rightarrow> Inl e
         | Inr target \<Rightarrow>
             (let present = (dk_files d target \<noteq> None) in
              if present \<and> \<not> bs_force opts then Inr (t\<lparr>ta_skipped := ta_skipped t @ [rel]\<rparr>, d)
              else (case (if bs_dryRun opts then None else be_denied env target) of
                Some e \<Rightarrow> Inl e
              | None \<Rightarrow>
                  (let d' = write_target opts rel target (the (map_of files rel)) d in
                   Inr (if present then t\<lparr>ta_overwritten := ta_overwritten t @ [rel]\<rparr>
                        else t\<lparr>ta_created := ta_created t @ [rel]\<rparr>, d'))))))"

text \<open>The loop: when a turn fails, the message and the disk as the turns before left it.\<close>

fun install_all ::
  "bootstrap_env \<Rightarrow> bootstrap_opts \<Rightarrow> jsstring \<Rightarrow> file_map \<Rightarrow> jsstring list \<Rightarrow> tally \<times> disk \<Rightarrow> (jsstring option \<times> tally) \<times> disk" where
  "install_all env opts dir files [] (t, d) = ((None, t), d)"
| "install_all env opts dir files (rel # rels) (t, d) =
     (case install env opts dir files rel (t, d) of
        Inl e \<Rightarrow> ((Some e, t), d)
      | Inr st \<Rightarrow> install_all env opts dir files rels st)"

definition empty_tally :: tally where
  "empty_tally = \<lparr>ta_created = [], ta_overwritten = [], ta_skipped = []\<rparr>"

section \<open>What is printed\<close>

definition usage_lines :: "jsstring list" where
  "usage_lines =
     [u ''bootstrap-repo.mjs '' @ [0x2014] @ u '' scaffold builder for foundry-capital-markets-router'', [],
      u ''Usage: node scripts/bootstrap-repo.mjs [options]'', [],
      u ''  --dry-run   Report what would happen; write nothing'',
      u ''  --force     Overwrite existing files'',
      u ''  --root DIR  Repo root to write into (default: parent of this script dir)'',
      u ''  --list      Print the embedded file inventory and exit'',
      u ''  --help      Show this help'', []]"

definition inventory_text :: "file_map \<Rightarrow> jsstring" where
  "inventory_text files = concat (map (\<lambda>p. p @ [10]) (sort (map fst files)))
     @ [10] @ show_int (of_nat (length files)) @ u '' files embedded.'' @ [10]"

definition heading :: "bootstrap_opts \<Rightarrow> jsstring \<Rightarrow> file_map \<Rightarrow> jsstring" where
  "heading opts dir files =
     u ''repo root : '' @ dir @ [10]
     @ u ''mode      : '' @ (if bs_dryRun opts then u ''DRY RUN (no writes)'' else u ''WRITE'')
       @ (if bs_force opts then u '' --force'' else []) @ [10]
     @ u ''files     : '' @ show_int (of_nat (length files)) @ [10, 10]"

definition report :: "string \<Rightarrow> jsstring list \<Rightarrow> string \<Rightarrow> jsstring" where
  "report label items mark =
     (if items = [] then []
      else u label @ u '' ('' @ show_int (of_nat (length items)) @ u '')'' @ [10]
        @ concat (map (\<lambda>p. u ''  '' @ u mark @ u '' '' @ p @ [10]) items) @ [10])"

definition next_commands :: "jsstring list" where
  "next_commands =
     [[], u ''Next commands:'', [],
      u ''  git init && git add -A && git commit -m '' @ [34] @ u ''chore: scaffold repository'' @ [34],
      u ''  cp .env.example .env          # then edit: subscription, region, tenant'',
      u ''  node scripts/diagrams/generate-diagrams.mjs   # architecture diagrams (generated, not drawn)'',
      u ''  task --list                   # review available tasks'',
      u ''  task lint:policy              # verify the no-public-endpoint policy gate passes'',
      u ''  terraform -chdir=infrastructure init'',
      u ''  task cloud:up                 # stand up the private Azure platform'', [],
      u ''Then open .github/copilot-instructions.md and specs/001-router-core/spec.md'',
      u ''and drive implementation from specs/001-router-core/tasks.md.'', []]"

definition closing :: "bootstrap_opts \<Rightarrow> tally \<Rightarrow> jsstring" where
  "closing opts t =
     report ''CREATED'' (ta_created t) ''+'' @ report ''OVERWRITTEN'' (ta_overwritten t) ''~''
     @ report ''SKIPPED (exists; pass --force to replace)'' (ta_skipped t) ''=''
     @ u ''summary: '' @ show_int (of_nat (length (ta_created t))) @ u '' created, ''
       @ show_int (of_nat (length (ta_overwritten t))) @ u '' overwritten, ''
       @ show_int (of_nat (length (ta_skipped t))) @ u '' skipped'' @ [10]
     @ (if bs_dryRun opts then [10] @ u ''Dry run only. Nothing was written. Re-run without --dry-run to apply.'' @ [10]
        else join [10] next_commands)"

text \<open>\<open>main\<close>: the exit code, the standard output, the error output, and the disk.\<close>

record run_result =
  rr_exit :: int
  rr_out :: jsstring
  rr_err :: jsstring

definition printed :: "jsstring \<Rightarrow> run_result" where
  "printed out = \<lparr>rr_exit = 0, rr_out = out, rr_err = []\<rparr>"

definition failure :: "jsstring \<Rightarrow> jsstring \<Rightarrow> run_result" where
  "failure out msg = \<lparr>rr_exit = 1, rr_out = out, rr_err = u ''error: '' @ msg @ [10]\<rparr>"

definition bootstrap_main :: "bootstrap_env \<Rightarrow> jsstring \<Rightarrow> jsstring list \<Rightarrow> disk \<Rightarrow> run_result \<times> disk" where
  "bootstrap_main env self argv d =
     (case parse_bootstrap_args argv default_opts of
        Inl e \<Rightarrow> (failure [] e, d)
      | Inr opts \<Rightarrow>
          if bs_help opts then (printed (join [10] usage_lines), d)
          else (case loadPayload self of
            Inl e \<Rightarrow> (failure [] e, d)
          | Inr payload \<Rightarrow>
              (case parseFiles (be_isAbsolute env) payload of
                 Inl e \<Rightarrow> (failure [] e, d)
               | Inr files \<Rightarrow>
                   if bs_list opts then (printed (inventory_text files), d)
                   else (let dir = resolveRoot env opts; start = heading opts dir files in
                     case install_all env opts dir files (sort (map fst files)) (empty_tally, d) of
                       ((Some e, t), d') \<Rightarrow> (failure start e, d')
                     | ((None, t), d') \<Rightarrow> (printed (start @ closing opts t), d')))))"

section \<open>Lemmas on writing\<close>

lemma safeJoin_bounded: "safeJoin env dir rel = Inr target \<Longrightarrow> bounded env dir target"
  by (auto simp: safeJoin_def Let_def split: if_splits)

lemma install_cases:
  assumes "install env opts dir files rel (t, d) = Inr (t', d')"
  obtains (skip) target where "safeJoin env dir rel = Inr target" "dk_files d target \<noteq> None" "\<not> bs_force opts"
      "t' = t\<lparr>ta_skipped := ta_skipped t @ [rel]\<rparr>" "d' = d"
    | (put) target where "safeJoin env dir rel = Inr target" "dk_files d target = None \<or> bs_force opts"
      "d' = write_target opts rel target (the (map_of files rel)) d"
proof -
  from assms obtain target where j: "safeJoin env dir rel = Inr target"
    by (auto simp: install_def split: sum.splits)
  show thesis
  proof (cases "dk_files d target \<noteq> None \<and> \<not> bs_force opts")
    case True
    then show thesis using assms j by (intro skip [of target]) (simp_all add: install_def Let_def)
  next
    case False
    have "d' = write_target opts rel target (the (map_of files rel)) d"
      using assms j False by (auto simp: install_def Let_def split: option.splits if_splits)
    then show thesis using j False by (intro put [of target]) auto
  qed
qed

lemma write_target_files:
  "dk_files (write_target opts rel target c d) =
     (if bs_dryRun opts then dk_files d else (dk_files d)(target \<mapsto> normaliseContent c))"
  by (simp add: write_target_def)

text \<open>What a path must satisfy for the run to change it.\<close>

definition may_change :: "bootstrap_env \<Rightarrow> bootstrap_opts \<Rightarrow> jsstring \<Rightarrow> disk \<Rightarrow> jsstring \<Rightarrow> bool" where
  "may_change env opts dir d p \<longleftrightarrow>
     \<not> bs_dryRun opts \<and> bounded env dir p \<and> (dk_files d p = None \<or> bs_force opts)"

lemma install_change:
  "install env opts dir files rel (t, d) = Inr (t', d') \<Longrightarrow> dk_files d' p \<noteq> dk_files d p \<Longrightarrow> may_change env opts dir d p"
  by (erule install_cases) (auto simp: write_target_files may_change_def dest: safeJoin_bounded split: if_splits)

lemma install_all_change:
  "install_all env opts dir files rels (t, d) = ((e, t'), d') \<Longrightarrow> dk_files d' p \<noteq> dk_files d p \<Longrightarrow> may_change env opts dir d p"
proof (induction rels arbitrary: t d)
  case (Cons rel rels)
  show ?case
  proof (cases "install env opts dir files rel (t, d)")
    case (Inr st)
    obtain t1 d1 where st: "st = (t1, d1)" by (cases st)
    show ?thesis
    proof (cases "dk_files d1 p = dk_files d p")
      case True
      with Cons.IH [of t1 d1] Cons.prems Inr st show ?thesis by (simp add: may_change_def)
    next
      case False
      then show ?thesis using install_change Inr st by blast
    qed
  qed (use Cons.prems in auto)
qed simp

lemma install_present:
  "install env opts dir files rel (t, d) = Inr (t', d') \<Longrightarrow> dk_files d p \<noteq> None \<Longrightarrow> dk_files d' p \<noteq> None"
  by (erule install_cases) (auto simp: write_target_files)

lemma install_target:
  "install env opts dir files rel (t, d) = Inr (t', d') \<Longrightarrow> \<not> bs_dryRun opts \<Longrightarrow>
     \<exists>target. safeJoin env dir rel = Inr target \<and> dk_files d' target \<noteq> None"
  by (erule install_cases) (auto simp: write_target_files)

lemma install_all_present:
  "install_all env opts dir files rels (t, d) = ((None, t'), d') \<Longrightarrow> dk_files d p \<noteq> None \<Longrightarrow> dk_files d' p \<noteq> None"
proof (induction rels arbitrary: t d)
  case (Cons rel rels)
  then show ?case
    by (cases "install env opts dir files rel (t, d)") (auto dest: install_present)
qed simp

lemma install_all_targets:
  "install_all env opts dir files rels (t, d) = ((None, t'), d') \<Longrightarrow> \<not> bs_dryRun opts \<Longrightarrow>
     \<forall>rel \<in> set rels. \<exists>target. safeJoin env dir rel = Inr target \<and> dk_files d' target \<noteq> None"
proof (induction rels arbitrary: t d)
  case (Cons rel rels)
  from Cons.prems obtain t1 d1 where i: "install env opts dir files rel (t, d) = Inr (t1, d1)"
    by (cases "install env opts dir files rel (t, d)") auto
  with Cons.prems have rest: "install_all env opts dir files rels (t1, d1) = ((None, t'), d')" by simp
  have "\<exists>target. safeJoin env dir rel = Inr target \<and> dk_files d' target \<noteq> None"
    using install_target [OF i Cons.prems(2)] install_all_present [OF rest] by blast
  then show ?case using Cons.IH [OF rest Cons.prems(2)] by simp
qed simp

lemma install_all_skip:
  "\<not> bs_force opts \<Longrightarrow> \<forall>rel \<in> set rels. \<exists>target. safeJoin env dir rel = Inr target \<and> dk_files d target \<noteq> None \<Longrightarrow>
     install_all env opts dir files rels (t, d) = ((None, t\<lparr>ta_skipped := ta_skipped t @ rels\<rparr>), d)"
proof (induction rels arbitrary: t)
  case (Cons rel rels)
  then have "install env opts dir files rel (t, d) = Inr (t\<lparr>ta_skipped := ta_skipped t @ [rel]\<rparr>, d)"
    by (auto simp: install_def Let_def)
  with Cons show ?case by simp
qed simp

section \<open>Lemmas on the payload\<close>

definition separator_line :: "jsstring \<Rightarrow> jsstring" where
  "separator_line name = u ''===== FILE: '' @ name @ u '' =====''"

definition payload_lines :: "file_map \<Rightarrow> jsstring list" where
  "payload_lines files = [] # concat (map (\<lambda>(n, c). separator_line n # split_on 10 c) files)"

definition plain_name :: "jsstring \<Rightarrow> bool" where
  "plain_name n \<longleftrightarrow> n \<noteq> [] \<and> trim n = n \<and> \<not> list_ex (\<lambda>c. c \<in> {10, 13, 0x2028, 0x2029}) n"

definition plain_file :: "jsstring \<times> jsstring \<Rightarrow> bool" where
  "plain_file nc \<longleftrightarrow> plain_name (fst nc) \<and> (\<forall>l \<in> set (split_on 10 (snd nc)). SEP_exec l = None)"

lemma SEP_exec_separator: "plain_name n \<Longrightarrow> SEP_exec (separator_line n) = Some n"
  by (simp add: SEP_exec_def separator_line_def plain_name_def startsWith_def endsWith_def Let_def suffix_def)

lemma parse_body:
  "\<forall>l \<in> set ls. SEP_exec l = None \<Longrightarrow> ps_current st = Some n \<Longrightarrow> n \<noteq> [] \<Longrightarrow>
     foldl parse_line st ls = st\<lparr>ps_buf := ps_buf st @ ls\<rparr>"
  by (induction ls arbitrary: st) (auto simp: parse_line_def)

lemma parse_block:
  assumes "plain_file (n, c)"
  shows "foldl parse_line st (separator_line n # split_on 10 c) = \<lparr>ps_files = flush st, ps_current = Some n, ps_buf = split_on 10 c\<rparr>"
  using assms parse_body [of "split_on 10 c" "\<lparr>ps_files = flush st, ps_current = Some n, ps_buf = []\<rparr>" n]
  by (simp add: plain_file_def parse_line_def [of st] SEP_exec_separator) (simp add: plain_name_def)

lemma AList_update_new: "k \<notin> fst ` set kvs \<Longrightarrow> AList.update k v kvs = kvs @ [(k, v)]"
  by (induction kvs) auto

lemma parse_blocks:
  "list_all plain_file files \<Longrightarrow> distinct (map fst (flush st @ files)) \<Longrightarrow>
     flush (foldl parse_line st (concat (map (\<lambda>(n, c). separator_line n # split_on 10 c) files))) = flush st @ files"
proof (induction files arbitrary: st)
  case (Cons nc files)
  obtain n c where nc: "nc = (n, c)" by (cases nc)
  let ?st = "\<lparr>ps_files = flush st, ps_current = Some n, ps_buf = split_on 10 c\<rparr>"
  from Cons.prems nc have p: "plain_file (n, c)" "n \<noteq> []" by (auto simp: plain_file_def plain_name_def)
  have "flush ?st = flush st @ [(n, c)]"
    using p(2) Cons.prems(2) nc by (simp add: flush_def [of ?st] AList_update_new)
  moreover have "foldl parse_line st (concat (map (\<lambda>(n, c). separator_line n # split_on 10 c) (nc # files)))
      = foldl parse_line ?st (concat (map (\<lambda>(n, c). separator_line n # split_on 10 c) files))"
    using parse_block [OF p(1), of st] by (simp add: nc del: foldl_Cons) simp
  ultimately show ?case
    using Cons.IH [of ?st] Cons.prems nc by simp
qed simp

lemma payload_roundtrip_files:
  assumes "list_all plain_file files" "distinct (map fst files)" "\<forall>n \<in> set (map fst files). \<not> unsafe_path isAbsolute n"
  shows "parseFiles isAbsolute (join [10] (payload_lines files)) = Inr files"
proof -
  have "10 \<notin> set n \<and> (\<forall>l \<in> set (split_on 10 c). 10 \<notin> set l)" if "(n, c) \<in> set files" for n c
    using assms(1) that by (auto simp: list_all_iff list_ex_iff plain_file_def plain_name_def dest!: bspec split_on_pieces)
  then have "\<forall>l \<in> set (payload_lines files). 10 \<notin> set l"
    by (fastforce simp: payload_lines_def separator_line_def u_def)
  then have split: "split_on 10 (join [10] (payload_lines files)) = payload_lines files"
    by (intro split_on_join) (simp add: payload_lines_def)
  have first: "parse_line parse_start [] = parse_start" "flush parse_start = []"
    by (simp_all add: parse_line_def SEP_exec_def parse_start_def flush_def)
  have "flush (foldl parse_line parse_start (payload_lines files)) = files"
    using parse_blocks [of files parse_start] assms(1,2) by (simp add: payload_lines_def first)
  moreover have "List.find (unsafe_path isAbsolute) (map fst files) = None"
    using assms(3) by (auto simp: find_None_iff)
  ultimately show ?thesis by (simp add: parseFiles_def split Let_def)
qed

section \<open>Contents and the root\<close>

text \<open>Written content is empty, or begins with no line feed and ends with exactly one, after a character
  that is not white space.\<close>

lemma normaliseContent_shape:
  "normaliseContent s = [] \<or>
     (\<exists>t. normaliseContent s = t @ [10] \<and> t \<noteq> [] \<and> hd t \<noteq> 10 \<and> \<not> is_space (last t))"
proof -
  let ?r = "dropWhile (\<lambda>c. c = 10) (restore_tokens s)"
  let ?t = "trimEnd ?r"
  have "hd ?t \<noteq> 10 \<and> \<not> is_space (last ?t)" if "?t \<noteq> []"
  proof
    obtain r where r: "?r = ?t @ r" using trimEnd_prefix [of ?r] by (auto simp: prefix_def)
    with that have "hd ?t = hd ?r" "?r \<noteq> []" by (metis hd_append2, metis append_is_Nil_conv)
    then show "hd ?t \<noteq> 10" using hd_dropWhile [of "\<lambda>c. c = 10" "restore_tokens s"] by simp
    have "dropWhile is_space (rev ?r) \<noteq> []" using that by (simp add: trimEnd_def)
    then have "\<not> is_space (hd (dropWhile is_space (rev ?r)))" by (rule hd_dropWhile)
    then show "\<not> is_space (last ?t)" using that by (simp add: trimEnd_def last_rev)
  qed
  then show ?thesis by (auto simp: normaliseContent_def Let_def)
qed

text \<open>In the root of the file system the bound is two separators, and every file is refused.\<close>

lemma filesystem_root_refused:
  "be_sep env = [47] \<Longrightarrow> be_resolve env [47] rel = 47 # c # p \<Longrightarrow> c \<noteq> 47 \<Longrightarrow>
     safeJoin env [47] rel = Inl (u ''refusing to write outside repo root: '' @ rel)"
  by (simp add: safeJoin_def bounded_def startsWith_def)

section \<open>Properties\<close>

text \<open>C17. A path whose contents a run changes lies in the root directory, was absent before unless
  \<open>--force\<close> was given, and a dry run changes none.\<close>

theorem bootstrap_writes_are_confined:
  assumes "parse_bootstrap_args argv default_opts = Inr opts"
    and "bootstrap_main env self argv d = (r, d')" "dk_files d' p \<noteq> dk_files d p"
  shows "\<not> bs_dryRun opts \<and> (p = resolveRoot env opts \<or> prefix (resolveRoot env opts @ be_sep env) p)
    \<and> (dk_files d p = None \<or> bs_force opts)"
proof -
  from assms obtain files e t where
    "install_all env opts (resolveRoot env opts) files (sort (map fst files)) (empty_tally, d) = ((e, t), d')"
    by (auto simp: bootstrap_main_def Let_def split: sum.splits if_splits prod.splits option.splits)
  from install_all_change [OF this assms(3)] show ?thesis by (simp add: may_change_def bounded_def startsWith_def)
qed

text \<open>After a run that wrote everything, the same run without \<open>--force\<close> skips every file of the payload
  and leaves the disk as it is.\<close>

theorem second_run_skips_everything:
  assumes opts: "parse_bootstrap_args argv default_opts = Inr opts" "\<not> bs_dryRun opts" "\<not> bs_force opts" "\<not> bs_help opts" "\<not> bs_list opts"
    and payload: "loadPayload self = Inr payload" "parseFiles (be_isAbsolute env) payload = Inr files"
    and run: "bootstrap_main env self argv d = (r, d')" "rr_exit r = 0"
  shows "bootstrap_main env self argv d' = (printed (heading opts (resolveRoot env opts) files
      @ closing opts (empty_tally\<lparr>ta_skipped := sort (map fst files)\<rparr>)), d')"
proof -
  let ?dir = "resolveRoot env opts"
  from opts payload run obtain t where
    "install_all env opts ?dir files (sort (map fst files)) (empty_tally, d) = ((None, t), d')"
    by (auto simp: bootstrap_main_def failure_def Let_def split: prod.splits option.splits)
  from install_all_skip [OF opts(3) install_all_targets [OF this opts(2)]]
  have "install_all env opts ?dir files (sort (map fst files)) (empty_tally, d')
      = ((None, empty_tally\<lparr>ta_skipped := sort (map fst files)\<rparr>), d')"
    by (simp add: empty_tally_def)
  with opts payload show ?thesis by (simp add: bootstrap_main_def)
qed

text \<open>Files written into a payload with separator lines are read back, names, contents and order, when the
  names are distinct, trimmed and safe and no line of a content looks like a separator.\<close>

theorem payload_roundtrip:
  assumes "list_all plain_file files" "distinct (map fst files)" "\<forall>n \<in> set (map fst files). \<not> unsafe_path isAbsolute n"
  shows "parseFiles isAbsolute (join [10] (payload_lines files)) = Inr files"
  using assms by (rule payload_roundtrip_files)

text \<open>A payload of one file, and a disk without files.\<close>

definition sample_files :: file_map where
  "sample_files = [(u ''a'', u ''x'')]"

definition sample_payload :: jsstring where
  "sample_payload = join [10] (payload_lines sample_files)"

definition sample_env :: bootstrap_env where
  "sample_env = \<lparr>be_resolve = (\<lambda>d r. d @ [47] @ r), be_isAbsolute = (\<lambda>p. startsWith p [47]), be_sep = [47], be_cwd = u ''/w'',
     be_scriptParent = u ''r'', be_denied = (\<lambda>_. None)\<rparr>"

definition empty_disk :: disk where
  "empty_disk = \<lparr>dk_files = (\<lambda>_. None), dk_executable = {}\<rparr>"

lemma sample_files_plain: "list_all plain_file sample_files" "\<forall>n \<in> set (map fst sample_files). \<not> unsafe_path (\<lambda>p. startsWith p [47]) n"
  by (simp_all add: sample_files_def plain_file_def plain_name_def SEP_exec_def unsafe_path_def path_segments_def js_defs)

theorem payload_roundtrip_witness:
  "parseFiles (\<lambda>p. startsWith p [47]) sample_payload = Inr sample_files"
  unfolding sample_payload_def
  by (rule payload_roundtrip [OF sample_files_plain(1) _ sample_files_plain(2)]) (simp add: sample_files_def)

lemma sample_payload_files: "parseFiles (be_isAbsolute sample_env) sample_payload = Inr sample_files"
  by code_simp

lemma sample_payload_loads: "loadPayload (OPEN @ sample_payload @ CLOSE) = Inr sample_payload"
  by code_simp

lemma sample_run: "\<exists>out. bootstrap_main sample_env (OPEN @ sample_payload @ CLOSE) [] empty_disk =
     (printed out, empty_disk\<lparr>dk_files := (\<lambda>_. None)(u ''/w/r/a'' \<mapsto> normaliseContent (u ''x''))\<rparr>)"
proof -
  have "\<exists>t. install_all sample_env default_opts (resolveRoot sample_env default_opts) sample_files (sort (map fst sample_files)) (empty_tally, empty_disk)
      = ((None, t), empty_disk\<lparr>dk_files := (\<lambda>_. None)(u ''/w/r/a'' \<mapsto> normaliseContent (u ''x''))\<rparr>)"
    by (simp add: default_opts_def sample_files_def sample_env_def install_def safeJoin_def bounded_def resolveRoot_def
      empty_disk_def write_target_def empty_tally_def u_def startsWith_def endsWith_def suffix_def)
  then show ?thesis
    by (auto simp: bootstrap_main_def sample_payload_loads sample_payload_files Let_def) (simp_all add: default_opts_def)
qed

theorem bootstrap_writes_are_confined_witness:
  "prefix (resolveRoot sample_env default_opts @ be_sep sample_env) (u ''/w/r/a'')"
proof -
  obtain out where run: "bootstrap_main sample_env (OPEN @ sample_payload @ CLOSE) [] empty_disk =
     (printed out, empty_disk\<lparr>dk_files := (\<lambda>_. None)(u ''/w/r/a'' \<mapsto> normaliseContent (u ''x''))\<rparr>)"
    using sample_run by blast
  show ?thesis
    using bootstrap_writes_are_confined [of "[]" default_opts, OF _ run, of "u ''/w/r/a''"]
    by (simp add: empty_disk_def) (simp add: resolveRoot_def sample_env_def default_opts_def u_def)
qed

theorem second_run_skips_everything_witness:
  "\<exists>d. bootstrap_main sample_env (OPEN @ sample_payload @ CLOSE) [] d
     = (printed (heading default_opts (resolveRoot sample_env default_opts) sample_files
         @ closing default_opts (empty_tally\<lparr>ta_skipped := sort (map fst sample_files)\<rparr>)), d)"
proof -
  obtain out d where run: "bootstrap_main sample_env (OPEN @ sample_payload @ CLOSE) [] empty_disk = (printed out, d)"
    using sample_run by blast
  show ?thesis
    using second_run_skips_everything [OF _ _ _ _ _ sample_payload_loads sample_payload_files run, of default_opts]
    by (fastforce simp: default_opts_def printed_def)
qed

end
