(* ===== verification/BootstrapRun.thy ===== *)
theory BootstrapRun
  imports BootstrapRepo
begin

text \<open>
  A run of the scaffold builder from the script's text to the disk: the payload is found between its
  markers, read, and every file is written, left or counted as the options and the disk say.
\<close>

section \<open>The markers\<close>

lemma last_index_absent: "\<not> sublist t s \<Longrightarrow> last_index s t = None"
  by (induction s) (auto simp: sublist_Cons_right)

text \<open>An occurrence after which there is no other is the last.\<close>

lemma last_index_found:
  "t \<noteq> [] \<Longrightarrow> \<not> sublist t (tl (t @ s)) \<Longrightarrow> last_index (r @ t @ s) t = Some (length r)"
proof (induction r)
  case Nil
  obtain c l where cl: "t @ s = c # l" using Nil(1) by (cases "t @ s") auto
  then have "prefix t (c # l)" by (metis prefixI)
  then show ?case using Nil(2) cl by (simp add: last_index_absent)
qed simp

lemma payload_loads:
  assumes "\<not> sublist OPEN (tl (OPEN @ payload @ CLOSE @ rest))" "\<not> sublist CLOSE (tl (CLOSE @ rest))"
  shows "loadPayload (code @ OPEN @ payload @ CLOSE @ rest) = Inr payload"
proof -
  have "OPEN \<noteq> []" "CLOSE \<noteq> []" by (simp_all add: OPEN_def CLOSE_def u_def)
  then show ?thesis
    using last_index_found [of OPEN "payload @ CLOSE @ rest" code] last_index_found [of CLOSE rest "code @ OPEN @ payload"] assms
    by (simp add: loadPayload_def)
qed

section \<open>The turns of the loop\<close>

text \<open>The files a run writes: those it may not skip, when it is no dry run.\<close>

definition writes :: "bootstrap_opts \<Rightarrow> (jsstring \<Rightarrow> jsstring) \<Rightarrow> disk \<Rightarrow> jsstring \<Rightarrow> bool" where
  "writes opts target d rel \<longleftrightarrow> \<not> bs_dryRun opts \<and> (dk_files d (target rel) = None \<or> bs_force opts)"

definition counts :: "bootstrap_opts \<Rightarrow> (jsstring \<Rightarrow> jsstring) \<Rightarrow> disk \<Rightarrow> jsstring list \<Rightarrow> tally" where
  "counts opts target d rels =
     \<lparr>ta_created = filter (\<lambda>r. dk_files d (target r) = None) rels,
      ta_overwritten = filter (\<lambda>r. dk_files d (target r) \<noteq> None \<and> bs_force opts) rels,
      ta_skipped = filter (\<lambda>r. dk_files d (target r) \<noteq> None \<and> \<not> bs_force opts) rels\<rparr>"

definition add_tally :: "tally \<Rightarrow> tally \<Rightarrow> tally" where
  "add_tally t t' = \<lparr>ta_created = ta_created t @ ta_created t', ta_overwritten = ta_overwritten t @ ta_overwritten t',
     ta_skipped = ta_skipped t @ ta_skipped t'\<rparr>"

text \<open>What the disk is after the files \<open>rels\<close>.\<close>

definition installed :: "bootstrap_opts \<Rightarrow> (jsstring \<Rightarrow> jsstring) \<Rightarrow> file_map \<Rightarrow> jsstring list \<Rightarrow> disk \<Rightarrow> disk \<Rightarrow> bool" where
  "installed opts target files rels d d' \<longleftrightarrow>
     (\<forall>r \<in> set rels. dk_files d' (target r) =
        (if writes opts target d r then Some (normaliseContent (the (map_of files r))) else dk_files d (target r)))
     \<and> (\<forall>p. p \<notin> target ` set rels \<longrightarrow> dk_files d' p = dk_files d p)
     \<and> dk_executable d' = dk_executable d \<union> target ` {r \<in> set rels. writes opts target d r \<and> endsWith r (u ''.sh'')}"

lemma install_turn:
  assumes "bounded env dir (be_resolve env dir rel)" "be_denied env (be_resolve env dir rel) = None"
  shows "\<exists>d'. install env opts dir files rel (t, d) = Inr (add_tally t (counts opts (be_resolve env dir) d [rel]), d')
    \<and> installed opts (be_resolve env dir) files [rel] d d'"
  using assms
  by (auto simp: install_def safeJoin_def Let_def add_tally_def counts_def installed_def writes_def write_target_def)

lemma install_all_turns:
  assumes "\<forall>r \<in> set rels. bounded env dir (be_resolve env dir r) \<and> be_denied env (be_resolve env dir r) = None"
    and "distinct (map (be_resolve env dir) rels)"
  shows "\<exists>d'. install_all env opts dir files rels (t, d) = ((None, add_tally t (counts opts (be_resolve env dir) d rels)), d')
    \<and> installed opts (be_resolve env dir) files rels d d'"
  using assms
proof (induction rels arbitrary: t d)
  case Nil
  show ?case by (simp add: add_tally_def counts_def installed_def)
next
  case (Cons rel rels)
  let ?target = "be_resolve env dir"
  obtain d1 where d1: "install env opts dir files rel (t, d) = Inr (add_tally t (counts opts ?target d [rel]), d1)"
    "installed opts ?target files [rel] d d1"
    using install_turn [of env dir rel opts files t d] Cons.prems(1) by auto
  obtain d2 where d2: "install_all env opts dir files rels (add_tally t (counts opts ?target d [rel]), d1) =
      ((None, add_tally (add_tally t (counts opts ?target d [rel])) (counts opts ?target d1 rels)), d2)"
    "installed opts ?target files rels d1 d2"
    using Cons.IH [of "add_tally t (counts opts ?target d [rel])" d1] Cons.prems by auto
  have same: "dk_files d1 (?target r) = dk_files d (?target r)" if "r \<in> set rels" for r
  proof -
    have "?target r \<noteq> ?target rel" using that Cons.prems(2) by (auto simp: image_iff)
    then show ?thesis using d1(2) by (simp add: installed_def)
  qed
  then have w: "writes opts ?target d1 r = writes opts ?target d r" if "r \<in> set rels" for r
    using that by (simp add: writes_def)
  have "counts opts ?target d1 rels = counts opts ?target d rels"
    using same by (auto simp: counts_def intro!: filter_cong)
  then have "add_tally (add_tally t (counts opts ?target d [rel])) (counts opts ?target d1 rels) = add_tally t (counts opts ?target d (rel # rels))"
    by (simp add: add_tally_def counts_def)
  moreover have "installed opts ?target files (rel # rels) d d2"
  proof -
    have "?target rel \<notin> ?target ` set rels" using Cons.prems(2) by simp
    moreover have "{r \<in> set rels. writes opts ?target d1 r \<and> endsWith r (u ''.sh'')} = {r \<in> set rels. writes opts ?target d r \<and> endsWith r (u ''.sh'')}"
      using w by auto
    ultimately show ?thesis
      using d1(2) d2(2) w same by (auto simp: installed_def)
  qed
  ultimately show ?case using d1(1) d2(1) by auto
qed

section \<open>Property\<close>

text \<open>C15. A run installs its payload: with files written between the last two markers, targets that are
  distinct, in the root and not refused by the system, it ends with code 0 and prints the files it created,
  overwrote and skipped; afterwards every file that was absent, and with \<open>--force\<close> every file, holds the
  payload's normalised content and is executable when it is a script, and everything else on the disk is as
  before; a dry run prints the same and leaves the disk alone.\<close>

theorem run_installs_the_payload:
  assumes opts: "parse_bootstrap_args argv default_opts = Inr opts" "\<not> bs_help opts" "\<not> bs_list opts"
    and self: "self = code @ OPEN @ join [10] (payload_lines files) @ CLOSE @ rest"
    and markers: "\<not> sublist OPEN (tl (OPEN @ join [10] (payload_lines files) @ CLOSE @ rest))" "\<not> sublist CLOSE (tl (CLOSE @ rest))"
    and files: "list_all plain_file files" "distinct (map fst files)" "\<forall>n \<in> set (map fst files). \<not> unsafe_path (be_isAbsolute env) n"
    and target: "target = be_resolve env (resolveRoot env opts)" "inj_on target (set (map fst files))"
      "\<forall>n \<in> set (map fst files). bounded env (resolveRoot env opts) (target n) \<and> be_denied env (target n) = None"
  shows "\<exists>d'. bootstrap_main env self argv d =
      (printed (heading opts (resolveRoot env opts) files @ closing opts (counts opts target d (sort (map fst files)))), d')
    \<and> (\<forall>(n, c) \<in> set files. dk_files d' (target n) =
        (if \<not> bs_dryRun opts \<and> (dk_files d (target n) = None \<or> bs_force opts) then Some (normaliseContent c) else dk_files d (target n)))
    \<and> (\<forall>p. p \<notin> target ` fst ` set files \<longrightarrow> dk_files d' p = dk_files d p)
    \<and> dk_executable d' = dk_executable d \<union> target ` {n \<in> fst ` set files. writes opts target d n \<and> endsWith n (u ''.sh'')}"
proof -
  let ?rels = "sort (map fst files)"
  have "distinct (map target ?rels)"
    using files(2) target(2) by (simp add: distinct_map)
  then obtain d' where run: "install_all env opts (resolveRoot env opts) files ?rels (empty_tally, d) =
      ((None, add_tally empty_tally (counts opts target d ?rels)), d')" "installed opts target files ?rels d d'"
    using install_all_turns [of ?rels env "resolveRoot env opts" opts files empty_tally d] target(1,3) by auto
  have "add_tally empty_tally (counts opts target d ?rels) = counts opts target d ?rels"
    by (simp add: add_tally_def empty_tally_def counts_def)
  then have "bootstrap_main env self argv d =
      (printed (heading opts (resolveRoot env opts) files @ closing opts (counts opts target d ?rels)), d')"
    using opts run(1) payload_loads [OF markers, of code] payload_roundtrip_files [OF files]
    by (simp add: bootstrap_main_def self)
  moreover have "map_of files n = Some c" if "(n, c) \<in> set files" for n c
    using files(2) that by simp
  ultimately show ?thesis
    using run(2) by (intro exI [of _ d']) (auto simp: installed_def writes_def)
qed

lemma sample_markers:
  "\<not> sublist OPEN (tl (OPEN @ join [10] (payload_lines sample_files) @ CLOSE @ []))" "\<not> sublist CLOSE (tl (CLOSE @ []))"
  by code_simp+

theorem run_installs_the_payload_witness:
  "\<exists>d' out. bootstrap_main sample_env (OPEN @ join [10] (payload_lines sample_files) @ CLOSE) [] empty_disk = (printed out, d')
    \<and> dk_files d' (u ''/w/r/a'') = Some (normaliseContent (u ''x''))"
proof -
  have root: "resolveRoot sample_env default_opts = u ''/w/r''" "be_resolve sample_env (u ''/w/r'') n = u ''/w/r'' @ [47] @ n" for n
    by (simp_all add: resolveRoot_def sample_env_def default_opts_def u_def)
  have "inj_on (be_resolve sample_env (resolveRoot sample_env default_opts)) (set (map fst sample_files))"
    "\<forall>n \<in> set (map fst sample_files). bounded sample_env (resolveRoot sample_env default_opts)
       (be_resolve sample_env (resolveRoot sample_env default_opts) n)
       \<and> be_denied sample_env (be_resolve sample_env (resolveRoot sample_env default_opts) n) = None"
    by (simp_all add: sample_files_def root) (simp add: bounded_def startsWith_def sample_env_def)
  moreover have "parse_bootstrap_args [] default_opts = Inr default_opts" "\<not> bs_help default_opts" "\<not> bs_list default_opts"
    "distinct (map fst sample_files)" "\<forall>n \<in> set (map fst sample_files). \<not> unsafe_path (be_isAbsolute sample_env) n"
    using sample_files_plain(2) by (simp_all add: default_opts_def sample_files_def sample_env_def)
  moreover have "OPEN @ join [10] (payload_lines sample_files) @ CLOSE = [] @ OPEN @ join [10] (payload_lines sample_files) @ CLOSE @ []"
    by simp
  ultimately obtain d' where run: "bootstrap_main sample_env (OPEN @ join [10] (payload_lines sample_files) @ CLOSE) [] empty_disk =
      (printed (heading default_opts (resolveRoot sample_env default_opts) sample_files
         @ closing default_opts (counts default_opts (be_resolve sample_env (resolveRoot sample_env default_opts)) empty_disk
             (sort (map fst sample_files)))), d')"
    "\<forall>(n, c) \<in> set sample_files. dk_files d' (be_resolve sample_env (resolveRoot sample_env default_opts) n) =
       (if \<not> bs_dryRun default_opts \<and> (dk_files empty_disk (be_resolve sample_env (resolveRoot sample_env default_opts) n) = None
            \<or> bs_force default_opts)
        then Some (normaliseContent c)
        else dk_files empty_disk (be_resolve sample_env (resolveRoot sample_env default_opts) n))"
    using run_installs_the_payload [OF _ _ _ _ sample_markers sample_files_plain(1) _ _ refl, where d = empty_disk] by blast
  have "dk_files d' (u ''/w/r/a'') = Some (normaliseContent (u ''x''))"
    using run(2) by (simp add: sample_files_def root empty_disk_def) (simp add: default_opts_def u_def)
  with run(1) show ?thesis by blast
qed

end
