(* ===== verification/ApiTypes.thy ===== *)
theory ApiTypes
  imports TriageTables "HOL-Library.AList"
begin

text \<open>
  The generator of the client's wire types (\<open>scripts/generate-api-types.mjs\<close>): the C# sources are
  scanned for enums and records, C# types are mapped to TypeScript, and the exported ones are printed.
  Each regular expression is a function from the text at a position to what it captures and the text
  after the match; \<open>scan\<close> is the loop over \<open>exec\<close> with the global flag.  The directories, the output
  path and the file system are arguments.
\<close>

section \<open>Exported names\<close>

definition EXPORTED_RECORDS :: "jsstring list" where
  "EXPORTED_RECORDS = map u [''RoutingDecision'', ''TierCandidate'', ''PolicyExclusion'', ''PolicySet'', ''PolicySetFieldChange'',
     ''ApprovalResponse'', ''EvidencePacket'', ''EvidenceSource'', ''ProposedAction'', ''RoutingDecisionSummary'', ''ApprovalRefusal'',
     ''RouteProposal'', ''VenueEvaluation'', ''VenueQuote'', ''CostBreakdown'', ''SimulatedExecution'', ''PolicyBreach'']"

definition EXPORTED_ENUMS :: "jsstring list" where
  "EXPORTED_ENUMS = map u [''ModelTier'', ''RoutingOutcome'', ''ModelVendor'', ''ServingMode'', ''DataClassification'',
     ''PolicyExclusionKind'', ''ApprovalState'', ''ApprovalRefusalKind'', ''Lane'', ''OrderSide'', ''VenueType'', ''PolicyBoundary'',
     ''ExecutionRefusalReason'']"

definition PRIMITIVES :: "jsstring \<Rightarrow> jsstring option" where
  "PRIMITIVES = map_of (map (\<lambda>(k, v). (u k, u v))
     [(''string'', ''string''), (''int'', ''number''), (''double'', ''number''), (''decimal'', ''number''), (''bool'', ''boolean''),
      (''DateTimeOffset'', ''string'')])"

definition sourceDirs :: "jsstring list" where
  "sourceDirs = map u [''Fcmr.Router.Decisions'', ''Fcmr.Approvals.Domain'', ''Fcmr.OrderRouting.Domain'', ''Contracts'']"

text \<open>\<open>readSources\<close>: the names and contents of each directory in the order it lists them.\<close>

definition readSources :: "(jsstring \<times> jsstring) list list \<Rightarrow> jsstring" where
  "readSources dirs = join [10] (map snd (filter (\<lambda>(f, _). endsWith f (u ''.cs'')) (concat dirs)))"

definition stripComments :: "jsstring \<Rightarrow> jsstring" where
  "stripComments src = join [10] (filter (\<lambda>line. \<not> startsWith (trim line) (u ''//'')) (split_on 10 src))"

section \<open>Scanning\<close>

text \<open>A match consumes at least its first character, so the guard always holds.\<close>

function scan :: "(jsstring \<Rightarrow> ('a \<times> jsstring) option) \<Rightarrow> jsstring \<Rightarrow> 'a list" where
  "scan m s =
     (case m s of
        Some (x, r) \<Rightarrow> if length r < length s then x # scan m r else []
      | None \<Rightarrow> if s = [] then [] else scan m (tl s))"
  by pat_completeness auto
termination by (relation "measure (\<lambda>(m, s). length s)") auto

declare scan.simps [simp del]

definition eat :: "jsstring \<Rightarrow> jsstring \<Rightarrow> jsstring option" where
  "eat t s = (if prefix t s then Some (drop (length t) s) else None)"

definition spaces :: "jsstring \<Rightarrow> jsstring" where
  "spaces s = dropWhile is_space s"

text \<open>\<open>\w+\<close>: the word and the text after it.\<close>

definition eat_name :: "jsstring \<Rightarrow> (jsstring \<times> jsstring) option" where
  "eat_name s = (let w = takeWhile word_char s in if w = [] then None else Some (w, dropWhile word_char s))"

definition enum_match :: "jsstring \<Rightarrow> ((jsstring \<times> jsstring) \<times> jsstring) option" where
  "enum_match s =
     Option.bind (eat (u ''public enum '') s) (\<lambda>r.
     Option.bind (eat_name r) (\<lambda>(name, r).
     Option.bind (eat (u ''{'') (spaces r)) (\<lambda>r.
       (let body = takeWhile (\<lambda>c. c \<noteq> 125) r; r' = drop (length body) r in
        if r' = [] then None else Some ((name, body), tl r')))))"

definition all_word :: "jsstring \<Rightarrow> bool" where
  "all_word s \<longleftrightarrow> s \<noteq> [] \<and> list_all word_char s"

definition enum_members :: "jsstring \<Rightarrow> jsstring list" where
  "enum_members body = filter all_word (map (\<lambda>v. trim (hd (split_on 61 (trim v)))) (split_on 44 body))"

definition parseEnums :: "jsstring \<Rightarrow> (jsstring \<times> jsstring list) list" where
  "parseEnums src = foldl (\<lambda>enums (name, body). AList.update name (enum_members body) enums) [] (scan enum_match src)"

text \<open>The text before the first occurrence of \<open>t\<close>, and the text after it.\<close>

fun up_to :: "jsstring \<Rightarrow> jsstring \<Rightarrow> (jsstring \<times> jsstring) option" where
  "up_to t [] = (if t = [] then Some ([], []) else None)"
| "up_to t (c # s) =
     (if prefix t (c # s) then Some ([], drop (length t) (c # s))
      else map_option (\<lambda>(a, r). (c # a, r)) (up_to t s))"

definition record_match :: "jsstring \<Rightarrow> ((jsstring \<times> jsstring) \<times> jsstring) option" where
  "record_match s =
     Option.bind (eat (u ''public sealed record '') s) (\<lambda>r.
     Option.bind (eat_name r) (\<lambda>(name, r).
     Option.bind (eat (u ''{'') (spaces r)) (\<lambda>r.
     Option.bind (up_to [10, 125] r) (\<lambda>(body, r'). Some ((name, body), r')))))"

definition type_char :: "jschar \<Rightarrow> bool" where
  "type_char c \<longleftrightarrow> word_char c \<or> c \<in> {60, 62, 44, 46, 63} \<or> is_space c"

text \<open>\<open>([\w<>,.?\s]+?)\<close> followed by the rest of the expression: the shortest type that lets it match.\<close>

fun lazy_type :: "(jsstring \<Rightarrow> ('a \<times> jsstring) option) \<Rightarrow> jsstring \<Rightarrow> jsstring \<Rightarrow> ((jsstring \<times> 'a) \<times> jsstring) option" where
  "lazy_type rest acc [] = (if acc = [] then None else map_option (\<lambda>(x, r). ((acc, x), r)) (rest []))"
| "lazy_type rest acc (c # s) =
     (case (if acc = [] then None else rest (c # s)) of
        Some (x, r) \<Rightarrow> Some ((acc, x), r)
      | None \<Rightarrow> if type_char c then lazy_type rest (acc @ [c]) s else None)"

text \<open>\<open>\s+(\w+)\s*\<close> and then an opening brace with \<open>get;\<close>, or the arrow of a computed property.\<close>

definition named_then :: "(jsstring \<Rightarrow> jsstring option) \<Rightarrow> jsstring \<Rightarrow> (jsstring \<times> jsstring) option" where
  "named_then tail s =
     (if s = [] \<or> \<not> is_space (hd s) then None
      else Option.bind (eat_name (spaces s)) (\<lambda>(name, r). map_option (Pair name) (tail (spaces r))))"

definition getter :: "jsstring \<Rightarrow> jsstring option" where
  "getter s = Option.bind (eat (u ''{'') s) (\<lambda>r. eat (u ''get;'') (spaces r))"

record ts_prop =
  pp_name :: jsstring
  pp_required :: bool
  pp_csharpType :: jsstring

definition prop_match :: "jsstring \<Rightarrow> (ts_prop \<times> jsstring) option" where
  "prop_match s =
     Option.bind (eat (u ''public '') s) (\<lambda>r.
       (let made = (\<lambda>req. map_option (\<lambda>((type, name), r'). (\<lparr>pp_name = name, pp_required = req, pp_csharpType = trim type\<rparr>, r'))) in
        case Option.bind (eat (u ''required '') r) (\<lambda>r1. made True (lazy_type (named_then getter) [] r1)) of
          Some x \<Rightarrow> Some x
        | None \<Rightarrow> made False (lazy_type (named_then getter) [] r)))"

definition computed_match :: "jsstring \<Rightarrow> (ts_prop \<times> jsstring) option" where
  "computed_match s =
     Option.bind (eat (u ''public '') s) (\<lambda>r.
       map_option (\<lambda>((type, name), r'). (\<lparr>pp_name = name, pp_required = True, pp_csharpType = trim type\<rparr>, r'))
         (lazy_type (named_then (eat (u ''=>''))) [] r))"

definition add_computed :: "ts_prop list \<Rightarrow> ts_prop \<Rightarrow> ts_prop list" where
  "add_computed props p = (if pp_name p \<in> pp_name ` set props then props else props @ [p])"

definition record_props :: "jsstring \<Rightarrow> ts_prop list" where
  "record_props body = foldl add_computed (scan prop_match body) (scan computed_match body)"

definition parseRecords :: "jsstring \<Rightarrow> (jsstring \<times> ts_prop list) list" where
  "parseRecords src = foldl (\<lambda>records (name, body). AList.update name (record_props body) records) [] (scan record_match src)"

section \<open>Types\<close>

definition no_line_end :: "jsstring \<Rightarrow> bool" where
  "no_line_end s \<longleftrightarrow> \<not> list_ex (\<lambda>c. c \<in> {10, 13, 0x2028, 0x2029}) s"

text \<open>What stands between an opening \<open>head<\<close> and the final \<open>>\<close>.\<close>

definition generic_arg :: "string \<Rightarrow> jsstring \<Rightarrow> jsstring option" where
  "generic_arg head t =
     (let p = u head @ [60]; arg = take (length t - length p - 1) (drop (length p) t) in
      if prefix p t \<and> suffix [62] t \<and> length p + 1 < length t then Some arg else None)"

definition list_arg :: "string \<Rightarrow> jsstring \<Rightarrow> jsstring option" where
  "list_arg head t = (case generic_arg head t of Some a \<Rightarrow> if no_line_end a then Some a else None | None \<Rightarrow> None)"

text \<open>\<open>\s*(.+)\<close> up to the end: the white space gives back its last character when nothing else is left.\<close>

definition dict_value :: "jsstring \<Rightarrow> jsstring option" where
  "dict_value rest =
     (let r = spaces rest; v = (if r = [] \<and> rest \<noteq> [] then [last rest] else r) in
      if v \<noteq> [] \<and> no_line_end v then Some v else None)"

text \<open>The first comma that leaves a key before it and a value after it.\<close>

fun dict_split :: "jsstring \<Rightarrow> jsstring \<Rightarrow> (jsstring \<times> jsstring) option" where
  "dict_split key [] = None"
| "dict_split key (c # s) =
     (case (if c = 44 \<and> key \<noteq> [] \<and> no_line_end key then dict_value s else None) of
        Some v \<Rightarrow> Some (key, v)
      | None \<Rightarrow> dict_split (key @ [c]) s)"

definition strip_nullable :: "jsstring \<Rightarrow> jsstring" where
  "strip_nullable csharpType =
     (let t = trim csharpType in if suffix [63] t then trim (butlast t) else t)"

definition is_nullable :: "jsstring \<Rightarrow> bool" where
  "is_nullable csharpType = suffix [63] (trim csharpType)"

definition list_element :: "jsstring \<Rightarrow> jsstring option" where
  "list_element t = (case list_arg ''IReadOnlyList'' t of Some a \<Rightarrow> Some a | None \<Rightarrow> list_arg ''IReadOnlySet'' t)"

definition dict_arg :: "jsstring \<Rightarrow> (jsstring \<times> jsstring) option" where
  "dict_arg t = Option.bind (generic_arg ''IReadOnlyDictionary'' t) (dict_split [])"

lemma trim_length: "length (trim s) \<le> length s"
  using trim_sublist [of s] by (rule sublist_length_le)

lemma strip_nullable_length: "length (strip_nullable s) \<le> length s"
  using trim_length [of s] trim_length [of "butlast (trim s)"] by (auto simp: strip_nullable_def Let_def)

lemma generic_arg_length: "generic_arg h t = Some a \<Longrightarrow> length a < length t"
  by (auto simp: generic_arg_def Let_def split: if_splits)

lemma list_element_length: "list_element t = Some a \<Longrightarrow> length a < length t"
  by (auto simp: list_element_def list_arg_def split: option.splits if_splits dest: generic_arg_length)

lemma dict_value_length: "dict_value s = Some v \<Longrightarrow> length v \<le> length s"
  using length_dropWhile_le [of is_space s]
  by (auto simp: dict_value_def spaces_def Let_def neq_Nil_conv split: if_splits)

lemma dict_split_length: "dict_split key s = Some (k, v) \<Longrightarrow> length k \<le> length key + length s \<and> length v \<le> length s"
proof (induction s arbitrary: key)
  case (Cons c s)
  show ?case
  proof (cases "if c = 44 \<and> key \<noteq> [] \<and> no_line_end key then dict_value s else None")
    case None
    with Cons.prems have "dict_split (key @ [c]) s = Some (k, v)" by simp
    from Cons.IH [OF this] show ?thesis by simp
  next
    case (Some w)
    with Cons.prems show ?thesis by (auto dest: dict_value_length split: if_splits)
  qed
qed simp

lemma dict_arg_length: "dict_arg t = Some (k, v) \<Longrightarrow> length k < length t \<and> length v < length t"
  by (auto simp: dict_arg_def bind_eq_Some_conv dest!: generic_arg_length dict_split_length)

lemma list_element_strip: "list_element (strip_nullable s) = Some a \<Longrightarrow> length a < length s"
  using list_element_length [of "strip_nullable s" a] strip_nullable_length [of s] by simp

lemma dict_arg_strip: "dict_arg (strip_nullable s) = Some (k, v) \<Longrightarrow> length k < length s \<and> length v < length s"
  using dict_arg_length [of "strip_nullable s" k v] strip_nullable_length [of s] by auto

text \<open>
  \<open>mapType(t, enums).ts\<close>; the enums do not change it.  The table of primitives is read by own keys; no
  C# type in the sources is named like a member of every JavaScript object.
\<close>

function mapType :: "jsstring \<Rightarrow> jsstring" where
  "mapType csharpType =
     (let t = strip_nullable csharpType in
      case list_element t of
        Some a \<Rightarrow> mapType a @ u ''[]''
      | None \<Rightarrow>
          (case dict_arg t of
             Some (k, v) \<Rightarrow> u ''Partial<Record<'' @ mapType k @ u '', '' @ mapType v @ u ''>>''
           | None \<Rightarrow> (case PRIMITIVES t of Some p \<Rightarrow> p | None \<Rightarrow> t)))"
  by pat_completeness auto
termination by (relation "measure length") (auto dest: list_element_strip dict_arg_strip)

declare mapType.simps [simp del]

definition camel :: "jsstring \<Rightarrow> jsstring" where
  "camel name = toLowerCase (take 1 name) @ drop 1 name"

section \<open>Printing\<close>

definition enum_lines :: "jsstring \<Rightarrow> jsstring list \<Rightarrow> jsstring list" where
  "enum_lines name members =
     [u ''export type '' @ name @ u '' ='',
      join [10] (map (\<lambda>v. u ''  | '' @ [39] @ v @ [39]) members) @ u '';'',
      [],
      u ''export const '' @ name @ u ''Values: readonly '' @ name @ u ''[] = ['',
      join [10] (map (\<lambda>v. u ''  '' @ [39] @ v @ [39, 44]) members),
      u ''] as const;'',
      []]"

definition prop_line :: "ts_prop \<Rightarrow> jsstring" where
  "prop_line p =
     (let nullable = is_nullable (pp_csharpType p); optional = (nullable \<or> \<not> pp_required p) in
      u ''  '' @ camel (pp_name p) @ (if optional then u ''?'' else []) @ u '': '' @ mapType (pp_csharpType p)
      @ (if nullable then u '' | null'' else []) @ u '';'')"

definition record_lines :: "jsstring \<Rightarrow> ts_prop list \<Rightarrow> jsstring list" where
  "record_lines name props = [u ''export interface '' @ name @ u '' {''] @ map prop_line props @ [u ''}'', []]"

definition header_lines :: "jsstring list" where
  "header_lines = [u ''// GENERATED FILE -- DO NOT EDIT.'', u ''//'']
     @ map (\<lambda>d. u ''// Source: src/'' @ d @ u ''/*.cs'') sourceDirs
     @ [u ''// Regenerate: node scripts/generate-api-types.mjs'',
        u ''// CI asserts this file is in sync via: node scripts/generate-api-types.mjs --check'', []]"

definition missing :: "(jsstring \<times> 'a) list \<Rightarrow> jsstring list \<Rightarrow> jsstring list" where
  "missing kvs names = filter (\<lambda>n. map_of kvs n = None) names"

definition generate :: "(jsstring \<times> jsstring) list list \<Rightarrow> js_exn + jsstring" where
  "generate dirs =
     (let src = stripComments (readSources dirs); enums = parseEnums src; records = parseRecords src;
          missingEnums = missing enums EXPORTED_ENUMS; missingRecords = missing records EXPORTED_RECORDS in
      if missingEnums \<noteq> [] \<or> missingRecords \<noteq> [] then
        Inl (JsError (u ''Expected types were not found in the C# source: '' @ join (u '', '') (missingEnums @ missingRecords)
          @ u ''. Either the type was renamed or the parser needs updating.''))
      else Inr (join [10] (header_lines
          @ concat (map (\<lambda>name. enum_lines name (the (map_of enums name))) EXPORTED_ENUMS)
          @ concat (map (\<lambda>name. record_lines name (the (map_of records name))) EXPORTED_RECORDS))))"

text \<open>\<open>main\<close>: the exit code and the files after it; an exception nothing catches ends with code 1.\<close>

definition api_types_main ::
  "(jsstring \<times> jsstring) list list \<Rightarrow> jsstring \<Rightarrow> jsstring list \<Rightarrow> (jsstring \<Rightarrow> jsstring option) \<Rightarrow> int \<times> (jsstring \<Rightarrow> jsstring option)" where
  "api_types_main dirs outputPath argv fs =
     (case generate dirs of
        Inl e \<Rightarrow> (1, fs)
      | Inr generated \<Rightarrow>
          if u ''--check'' \<in> set argv then (if fs outputPath = Some generated then 0 else 1, fs)
          else (0, fs(outputPath \<mapsto> generated)))"

section \<open>Lemmas\<close>

lemma eat_append: "eat t (t @ s) = Some s"
  by (simp add: eat_def)

lemma word_not_space: "word_char c \<Longrightarrow> \<not> is_space c"
  by (auto simp: word_char_def is_space_def word_le_nat_alt word_less_nat_alt unat_word_ariths)

lemma eat_name_append: "all_word w \<Longrightarrow> \<not> word_char c \<Longrightarrow> eat_name (w @ c # s) = Some (w, c # s)"
  by (auto simp: eat_name_def all_word_def list_all_iff)

lemma all_word_trim: "all_word w \<Longrightarrow> trim w = w"
proof -
  assume w: "all_word w"
  then have "w \<noteq> []" "\<not> is_space (hd w)" "\<not> is_space (last w)"
    by (auto simp: all_word_def list_all_iff dest: word_not_space)
  then have "trimStart w = w" "dropWhile is_space (rev w) = rev w"
    by (simp_all add: trimStart_def dropWhile_eq_self_iff hd_rev)
  then show ?thesis by (simp add: trim_def trimEnd_def)
qed

lemma word_not_in: "all_word w \<Longrightarrow> \<not> word_char c \<Longrightarrow> c \<notin> set w"
  by (auto simp: all_word_def list_all_iff)

lemma trim_leading: "list_all is_space s \<Longrightarrow> trim (s @ t) = trim t"
  by (auto simp: trim_def trimStart_def list_all_iff dropWhile_append3 dropWhile_append)

lemma record_example:
  "parseRecords (u ''public sealed record R'' @ [10, 123, 10] @ u ''  public required string? A { get; init; }'' @ [10]
     @ u ''  public int B => 1;'' @ [10, 125]) =
   [(u ''R'', [\<lparr>pp_name = u ''A'', pp_required = True, pp_csharpType = u ''string?''\<rparr>,
               \<lparr>pp_name = u ''B'', pp_required = True, pp_csharpType = u ''int''\<rparr>])]"
  by code_simp

lemma mapType_examples:
  "mapType (u ''IReadOnlyDictionary<Lane, IReadOnlyList<string>>?'') = u ''Partial<Record<Lane, string[]>>''"
  by code_simp

section \<open>Properties\<close>

text \<open>Generation fails exactly when an exported name is missing from what was parsed.\<close>

lemma generate_fails_iff:
  "(\<exists>e. generate dirs = Inl e) \<longleftrightarrow>
     (\<exists>n \<in> set EXPORTED_ENUMS. n \<notin> fst ` set (parseEnums (stripComments (readSources dirs))))
     \<or> (\<exists>n \<in> set EXPORTED_RECORDS. n \<notin> fst ` set (parseRecords (stripComments (readSources dirs))))"
  by (auto simp: generate_def Let_def missing_def filter_empty_conv map_of_eq_None_iff)

text \<open>That the elements of a list may be null is lost: the TypeScript type of a list is the same whether
  its element type is nullable or not, although the wire carries the nulls.\<close>

theorem element_nullability_is_lost:
  assumes "trim t = t" "t \<noteq> []" "no_line_end t" "\<not> is_nullable t"
  shows "mapType (u ''IReadOnlyList<'' @ t @ u ''?>'') = mapType (u ''IReadOnlyList<'' @ t @ u ''>'')"
proof -
  have element: "mapType (u ''IReadOnlyList<'' @ a @ u ''>'') = mapType a @ u ''[]''" if "a \<noteq> []" "no_line_end a" for a
  proof -
    let ?t = "u ''IReadOnlyList<'' @ a @ u ''>''"
    have "trim ?t = ?t"
      by (simp add: trim_def trimStart_def trimEnd_def u_def is_space_def)
    then have "strip_nullable ?t = ?t"
      by (simp add: strip_nullable_def suffix_def u_def)
    moreover have "list_element ?t = Some a"
      using that by (simp add: list_element_def list_arg_def generic_arg_def Let_def u_def suffix_def)
    ultimately show ?thesis by (subst mapType.simps) (simp add: Let_def)
  qed
  have "trim (t @ [63]) = t @ [63]"
  proof -
    have "\<not> is_space (hd t)" using trim_no_space_ends(1) [of t] assms(1,2) by simp
    then show ?thesis using assms(2)
      by (cases t) (auto simp: trim_def trimStart_def trimEnd_def is_space_def)
  qed
  then have "strip_nullable (t @ [63]) = t"
    using assms(1) by (simp add: strip_nullable_def suffix_def)
  moreover have "strip_nullable t = t"
    using assms(1,4) by (simp add: strip_nullable_def is_nullable_def)
  ultimately have "mapType (t @ [63]) = mapType t"
    by (simp add: mapType.simps [of "t @ [63]"] mapType.simps [of t])
  moreover have "no_line_end (t @ [63])" using assms(3) by (simp add: no_line_end_def)
  ultimately show ?thesis
    using element [of t] element [of "t @ [63]"] assms(2,3) by (simp add: u_def)
qed

theorem element_nullability_is_lost_witness:
  "mapType (u ''IReadOnlyList<string?>'') = mapType (u ''IReadOnlyList<string>'')"
  using element_nullability_is_lost [of "u ''string''"]
  by (simp add: js_defs no_line_end_def is_nullable_def suffix_def)

end
