(* ===== verification/CsharpSources.thy ===== *)
theory CsharpSources
  imports ApiTypes "HOL-Library.Multiset"
begin

text \<open>
  What the generator of the client's types reads back from C# sources laid out as the repository lays
  them out: enums with one member per line, records whose members are stored or computed properties,
  among blank lines, initialisers, other text and comments.  The layout is a datatype with a function to its
  text; scanning that text passes over everything but the declarations.
\<close>

section \<open>The layout\<close>

datatype member =
    Stored bool jsstring jsstring jsstring
  | Computed jsstring jsstring jsstring

fun member_tail :: "member \<Rightarrow> jsstring" where
  "member_tail (Stored required type name init) =
     (if required then u ''required '' else []) @ type @ 32 # name @ u '' { get; init; }'' @ init"
| "member_tail (Computed type name body) = type @ 32 # name @ u '' => '' @ body"

text \<open>Lines that follow a member: blank ones, the rest of an initialiser, members that are not public.\<close>

definition lines_text :: "jsstring list \<Rightarrow> jsstring" where
  "lines_text ls = concat (map (\<lambda>l. 10 # l) ls)"

definition first_line :: "member \<Rightarrow> jsstring" where
  "first_line m = 10 # u ''    '' @ u ''public '' @ member_tail m"

definition member_text :: "member \<times> jsstring list \<Rightarrow> jsstring" where
  "member_text p = first_line (fst p) @ lines_text (snd p)"

fun member_prop :: "member \<Rightarrow> ts_prop" where
  "member_prop (Stored required type name init) = \<lparr>pp_name = name, pp_required = required, pp_csharpType = type\<rparr>"
| "member_prop (Computed type name body) = \<lparr>pp_name = name, pp_required = True, pp_csharpType = type\<rparr>"

fun is_stored :: "member \<Rightarrow> bool" where
  "is_stored (Stored _ _ _ _) = True"
| "is_stored (Computed _ _ _) = False"

text \<open>A type: trimmed text of type characters whose first word is no modifier.\<close>

definition csharp_type :: "jsstring \<Rightarrow> bool" where
  "csharp_type t \<longleftrightarrow> t \<noteq> [] \<and> list_all type_char t \<and> \<not> is_space (hd t) \<and> \<not> is_space (last t)
     \<and> takeWhile word_char t \<notin> {u ''required'', u ''enum'', u ''sealed''}"

text \<open>Text in which the word that starts a declaration does not occur.\<close>

definition silent :: "jsstring \<Rightarrow> bool" where
  "silent t \<longleftrightarrow> \<not> sublist (u ''public '') t"

fun member_ok :: "member \<Rightarrow> bool" where
  "member_ok (Stored required type name init) \<longleftrightarrow> csharp_type type \<and> all_word name"
| "member_ok (Computed type name body) \<longleftrightarrow> csharp_type type \<and> all_word name"

definition tail_ok :: "member \<Rightarrow> bool" where
  "tail_ok m \<longleftrightarrow> member_ok m \<and> silent (member_tail m) \<and> 10 \<notin> set (member_tail m)"

definition plain_line :: "jsstring \<Rightarrow> bool" where
  "plain_line l \<longleftrightarrow> silent l \<and> 10 \<notin> set l \<and> \<not> prefix [125] l"

definition line_ok :: "member \<times> jsstring list \<Rightarrow> bool" where
  "line_ok p \<longleftrightarrow> tail_ok (fst p) \<and> list_all plain_line (snd p)"

definition csharp_record :: "jsstring \<Rightarrow> (member \<times> jsstring list) list \<Rightarrow> jsstring" where
  "csharp_record name members =
     u ''public '' @ u ''sealed record '' @ name @ [10, 123] @ concat (map member_text members) @ [10, 125]"

text \<open>A member of an enum: blank lines before it, its name and perhaps its value.\<close>

type_synonym enum_entry = "nat \<times> jsstring \<times> jsstring option"

fun entry_text :: "enum_entry \<Rightarrow> jsstring" where
  "entry_text (blanks, name, value) =
     replicate blanks 10 @ 10 # u ''    '' @ name @ (case value of None \<Rightarrow> [] | Some v \<Rightarrow> u '' = '' @ v)"

fun entry_ok :: "enum_entry \<Rightarrow> bool" where
  "entry_ok (blanks, name, value) \<longleftrightarrow> all_word name \<and> (\<forall>v. value = Some v \<longrightarrow> all_word v)
     \<and> silent (entry_text (blanks, name, value))"

definition enum_body :: "enum_entry list \<Rightarrow> jsstring" where
  "enum_body entries = concat (map (\<lambda>e. entry_text e @ [44]) entries) @ [10]"

definition csharp_enum :: "jsstring \<Rightarrow> enum_entry list \<Rightarrow> jsstring" where
  "csharp_enum name entries = u ''public '' @ u ''enum '' @ name @ [10, 123] @ enum_body entries @ [125]"

section \<open>Scanning\<close>

lemma scan_hit: "m s = Some (x, r) \<Longrightarrow> length r < length s \<Longrightarrow> scan m s = x # scan m r"
  by (simp add: scan.simps [of m s])

lemma scan_miss: "m (c # s) = None \<Longrightarrow> scan m (c # s) = scan m s"
  by (simp add: scan.simps [of m "c # s"])

text \<open>A scanner that matches only where a given text starts.\<close>

definition starts_at :: "jsstring \<Rightarrow> (jsstring \<Rightarrow> ('a \<times> jsstring) option) \<Rightarrow> bool" where
  "starts_at w m \<longleftrightarrow> (\<forall>s. \<not> prefix w s \<longrightarrow> m s = None)"

abbreviation at_public :: "(jsstring \<Rightarrow> ('a \<times> jsstring) option) \<Rightarrow> bool" where
  "at_public \<equiv> starts_at (u ''public '')"

lemma match_starts: "starts_at (u ''public enum '') enum_match" "starts_at (u ''public sealed record '') record_match"
  by (simp_all add: starts_at_def enum_match_def record_match_def eat_def)

lemma at_public_matchers: "at_public enum_match" "at_public record_match" "at_public prop_match" "at_public computed_match"
proof -
  have longer: "prefix (u ''public '') s" if "prefix (u ''public '' @ t) s" for s t
    using that by (rule append_prefixD)
  show "at_public enum_match" "at_public record_match" "at_public prop_match" "at_public computed_match"
    using longer [of "u ''enum ''"] longer [of "u ''sealed record ''"]
    by (auto simp: starts_at_def enum_match_def record_match_def prop_match_def computed_match_def eat_def u_def)
qed

lemma scan_quiet:
  assumes "at_public m" "112 \<notin> set t"
  shows "scan m (t @ s) = scan m s"
  using assms(2)
proof (induction t)
  case (Cons c t)
  then have "m (c # t @ s) = None"
    using assms(1) by (auto simp: starts_at_def u_def)
  then show ?case using Cons by (simp add: scan_miss)
qed simp

text \<open>Text in which \<open>w\<close> does not occur is passed over to the end of its line.\<close>

lemma scan_clear:
  assumes "starts_at w m" "10 \<notin> set w" "\<not> sublist w t" "s = [] \<or> hd s = 10"
  shows "scan m (t @ s) = scan m s"
  using assms(3)
proof (induction t)
  case (Cons c t)
  have "\<not> prefix w (c # t @ s)"
  proof
    assume p: "prefix w (c # t @ s)"
    have "prefix w (c # t)"
    proof (rule ccontr)
      assume n: "\<not> prefix w (c # t)"
      have "prefix w ((c # t) @ s)" using p by simp
      with n obtain z where z: "w = (c # t) @ z" "prefix z s"
        unfolding prefix_append by blast
      with n have "z \<noteq> []" by auto
      with z have "s \<noteq> []" "hd s \<in> set w" by (auto simp: prefix_def neq_Nil_conv)
      then show False using assms(2,4) by auto
    qed
    with Cons.prems show False by (auto simp: sublist_Cons_right)
  qed
  then have "m (c # t @ s) = None" using assms(1) by (auto simp: starts_at_def)
  moreover have "\<not> sublist w t" using Cons.prems by (auto simp: sublist_Cons_right)
  ultimately show ?case using Cons.IH by (simp add: scan_miss)
qed simp

lemma scan_silent:
  assumes "at_public m" "silent t" "s = [] \<or> hd s = 10"
  shows "scan m (t @ s) = scan m s"
  using assms by (intro scan_clear [of "u ''public ''"]) (simp_all add: silent_def, simp add: u_def)

lemma scan_lines:
  assumes "at_public m" "list_all silent ls" "s = [] \<or> hd s = 10"
  shows "scan m (lines_text ls @ s) = scan m s"
  using assms(2)
proof (induction ls)
  case (Cons l ls)
  have "lines_text ls @ s = [] \<or> hd (lines_text ls @ s) = 10"
    using assms(3) by (cases ls) (simp_all add: lines_text_def)
  from scan_silent [OF assms(1) _ this, of l] have "scan m (l @ lines_text ls @ s) = scan m (lines_text ls @ s)"
    using Cons.prems by simp
  then show ?case using Cons scan_quiet [OF assms(1), of "[10]"] by (simp add: lines_text_def)
qed (simp add: lines_text_def)

text \<open>A declaration the scanner does not match is passed over to the end of its line.\<close>

lemma scan_declaration:
  assumes "at_public m" "m (u ''public '' @ t @ s) = None" "silent t" "s = [] \<or> hd s = 10"
  shows "scan m (u ''public '' @ t @ s) = scan m s"
proof -
  have "scan m (u ''public '' @ t @ s) = scan m (u ''ublic '' @ t @ s)"
    using assms(2) by (simp add: u_def scan_miss)
  also have "\<dots> = scan m s"
    using scan_quiet [OF assms(1), of "u ''ublic ''" "t @ s"] scan_silent [OF assms(1,3,4)] by (simp add: u_def)
  finally show ?thesis .
qed

section \<open>Types, names and tails\<close>

lemma type_char_tests: "\<not> type_char 123" "\<not> type_char 61" "\<not> is_space 123" "\<not> is_space 61" "\<not> word_char 123" "\<not> word_char 61"
  "is_space 32" "\<not> word_char 32" "type_char 32"
  by (simp_all add: type_char_def word_char_def is_space_def)

lemma word_type_char: "word_char c \<Longrightarrow> type_char c"
  by (simp add: type_char_def)

text \<open>What remains of a text of type characters after white space, or after a word, and the character that ends it.\<close>

lemma rest_of_type:
  assumes "\<not> type_char c"
  shows "\<exists>y. dropWhile P (x @ c # s) = y @ c # s \<and> set y \<subseteq> set x \<or> P c"
proof (cases "P c")
  case False
  then have "dropWhile P (x @ c # s) = dropWhile P x @ c # s"
    by (induction x) auto
  then show ?thesis by (metis set_dropWhileD subsetI)
qed simp

text \<open>A tail that starts with a character no type has is not found inside a type.\<close>

definition starts_with :: "jschar \<Rightarrow> (jsstring \<Rightarrow> jsstring option) \<Rightarrow> bool" where
  "starts_with b tail \<longleftrightarrow> (\<forall>y. tail y \<noteq> None \<longrightarrow> y \<noteq> [] \<and> hd y = b)"

lemma tails_start: "starts_with 123 getter" "starts_with 61 (eat (u ''=>''))"
  by (auto simp: starts_with_def getter_def eat_def u_def bind_eq_Some_conv prefix_def split: if_splits)

lemma named_then_None:
  assumes "starts_with b tail" "\<not> type_char b" "\<not> type_char c" "b \<noteq> c" "list_all type_char x"
  shows "named_then tail (x @ c # s) = None"
proof -
  have nc: "\<not> is_space c" "\<not> word_char c" using assms(3) by (auto simp: type_char_def)
  have "tail (spaces (dropWhile word_char (spaces (x @ c # s)))) = None"
  proof -
    obtain y where y: "spaces (x @ c # s) = y @ c # s" "set y \<subseteq> set x"
      using rest_of_type [OF assms(3), of is_space x s] nc by (auto simp: spaces_def)
    obtain z where z: "dropWhile word_char (y @ c # s) = z @ c # s" "set z \<subseteq> set y"
      using rest_of_type [OF assms(3), of word_char y s] nc by auto
    obtain w where w: "spaces (z @ c # s) = w @ c # s" "set w \<subseteq> set z"
      using rest_of_type [OF assms(3), of is_space z s] nc by (auto simp: spaces_def)
    have "hd (w @ c # s) \<noteq> b"
    proof (cases w)
      case (Cons a v)
      then have "type_char a" using assms(5) y(2) z(2) w(2) by (auto simp: list_all_iff)
      then show ?thesis using assms(2) Cons by auto
    qed (use assms(4) in simp)
    then show ?thesis
      using assms(1) by (auto simp: starts_with_def y(1) z(1) w(1))
  qed
  then show ?thesis
    by (auto simp: named_then_def eat_name_def Let_def bind_eq_None_conv split: if_splits option.splits)
qed

lemma lazy_type_None:
  assumes "\<not> type_char c" "list_all type_char t" "\<And>x. list_all type_char x \<Longrightarrow> rest (x @ c # s) = None"
  shows "lazy_type rest acc (t @ c # s) = None"
  using assms(2)
proof (induction t arbitrary: acc)
  case Nil
  then show ?case using assms(1) assms(3) [of "[]"] by simp
next
  case (Cons a t)
  then show ?case using assms(3) [of "a # t"] by simp
qed

text \<open>The type, when nothing matches before its end.\<close>

lemma lazy_type_Some:
  assumes "list_all type_char t" "acc @ t \<noteq> []" "rest s = Some (x, r)"
    and "\<And>p q. t = p @ q \<Longrightarrow> q \<noteq> [] \<Longrightarrow> rest (q @ s) = None"
  shows "lazy_type rest acc (t @ s) = Some ((acc @ t, x), r)"
  using assms(1,2,4)
proof (induction t arbitrary: acc)
  case Nil
  then show ?case using assms(3) by (cases s) simp_all
next
  case (Cons a t)
  have "rest ((a # t) @ s) = None" by (rule Cons.prems(3) [of "[]"]) simp_all
  moreover have "lazy_type rest (acc @ [a]) (t @ s) = Some (((acc @ [a]) @ t, x), r)"
    using Cons.prems(1,3) by (intro Cons.IH) (simp, simp, metis append_Cons)
  ultimately show ?case using Cons.prems(1) by (cases "acc = []") auto
qed

lemma dropWhile_last: "q \<noteq> [] \<Longrightarrow> \<not> P (last q) \<Longrightarrow> dropWhile P (q @ s) = dropWhile P q @ s \<and> dropWhile P q \<noteq> [] \<and> last (dropWhile P q) = last q"
  by (induction q) auto

lemma named_then_inside:
  assumes "starts_with b tail" "\<not> type_char b" "list_all type_char q" "q \<noteq> []" "\<not> is_space (last q)" "all_word name"
  shows "named_then tail (q @ 32 # name @ s) = None"
proof -
  let ?r = "32 # name @ s"
  obtain x where x: "spaces (q @ ?r) = x @ ?r" "x \<noteq> []" "last x = last q" "set x \<subseteq> set q"
    using dropWhile_last [where P = is_space, OF assms(4,5), of ?r] by (auto simp: spaces_def dest: set_dropWhileD)
  have hd: "hd y \<noteq> b" if "y \<noteq> []" "type_char (hd y)" for y using that assms(2) by auto
  have "tail (spaces (dropWhile word_char (x @ ?r))) = None"
  proof (cases "list_all word_char x")
    case True
    then have "dropWhile word_char (x @ ?r) = ?r"
      by (simp add: list_all_iff type_char_tests dropWhile_append3)
    moreover have "\<not> is_space (hd name)" "name \<noteq> []" "type_char (hd name)"
      using assms(6) word_not_space word_type_char by (auto simp: all_word_def list_all_iff)
    then have "spaces ?r = name @ s" "hd (name @ s) \<noteq> b"
      using hd [of "name @ s"] by (cases name; simp add: spaces_def type_char_tests)+
    ultimately show ?thesis using assms(1) by (auto simp: starts_with_def)
  next
    case False
    then have y: "dropWhile word_char (x @ ?r) = dropWhile word_char x @ ?r" "dropWhile word_char x \<noteq> []"
      by (induction x) auto
    then have "last (dropWhile word_char x) = last q" using x(3) by (metis dropWhile_eq_drop last_drop drop_eq_Nil not_le)
    then have "spaces (dropWhile word_char x @ ?r) = spaces (dropWhile word_char x) @ ?r" "spaces (dropWhile word_char x) \<noteq> []"
      using dropWhile_last [OF y(2), of is_space ?r] assms(5) by (simp_all add: spaces_def)
    moreover have "set (spaces (dropWhile word_char x)) \<subseteq> set q"
      using x(4) by (auto simp: spaces_def dest!: set_dropWhileD)
    ultimately have "hd (spaces (dropWhile word_char x @ ?r)) \<noteq> b"
      using hd [of "spaces (dropWhile word_char x)"] assms(3)
      by (metis hd_append2 hd_in_set list_all_iff subsetD)
    then show ?thesis using assms(1) by (auto simp: starts_with_def y(1))
  qed
  then show ?thesis
    by (auto simp: named_then_def eat_name_def Let_def x(1) split: if_splits)
qed

lemma named_then_hit:
  assumes "all_word name" "tail (spaces (32 # s)) = Some r"
  shows "named_then tail (32 # name @ 32 # s) = Some (name, r)"
proof -
  have "\<not> is_space (hd name)" "name \<noteq> []"
    using assms(1) word_not_space by (auto simp: all_word_def list_all_iff)
  then have "spaces (32 # name @ 32 # s) = name @ 32 # s"
    by (cases name) (simp_all add: spaces_def type_char_tests)
  with assms show ?thesis
    by (simp add: named_then_def eat_name_append type_char_tests)
qed

lemma lazy_type_member:
  assumes "starts_with b tail" "\<not> type_char b" "csharp_type type" "all_word name" "tail (spaces (32 # s)) = Some r"
  shows "lazy_type (named_then tail) [] (type @ 32 # name @ 32 # s) = Some ((type, name), r)"
proof -
  have "lazy_type (named_then tail) [] (type @ (32 # name @ 32 # s)) = Some (([] @ type, name), r)"
  proof (rule lazy_type_Some)
    show "named_then tail (32 # name @ 32 # s) = Some (name, r)"
      using assms(4,5) by (rule named_then_hit)
    show "named_then tail (q @ 32 # name @ 32 # s) = None" if "type = p @ q" "q \<noteq> []" for p q
      using that assms(1-4) by (intro named_then_inside) (auto simp: csharp_type_def)
  qed (use assms(3) in \<open>auto simp: csharp_type_def\<close>)
  then show ?thesis by simp
qed

lemma trim_type: "csharp_type t \<Longrightarrow> trim t = t"
proof -
  assume "csharp_type t"
  then have "dropWhile is_space t = t" "dropWhile is_space (rev t) = rev t"
    by (simp_all add: csharp_type_def dropWhile_eq_self_iff hd_rev)
  then show ?thesis by (simp add: trim_def trimStart_def trimEnd_def)
qed

lemma first_word:
  assumes "prefix (w @ [32]) (t @ 32 # s)" "all_word w"
  shows "takeWhile word_char t = w"
proof -
  have "takeWhile word_char (w @ 32 # x) = w" for x
    using assms(2) by (subst takeWhile_append2) (auto simp: all_word_def list_all_iff type_char_tests)
  moreover have "takeWhile word_char (t @ 32 # s) = takeWhile word_char t"
    by (induction t) (simp_all add: type_char_tests)
  ultimately show ?thesis using assms(1) by (auto simp: prefix_def)
qed

section \<open>Members\<close>

lemma modifiers: "all_word (u ''required'')" "all_word (u ''enum'')" "all_word (u ''sealed'')"
  by (simp_all add: all_word_def word_char_def u_def)

lemma not_required:
  assumes "csharp_type t"
  shows "eat (u ''required '') (t @ 32 # s) = None"
proof -
  have "\<not> prefix (u ''required'' @ [32]) (t @ 32 # s)"
    using assms first_word [OF _ modifiers(1), of t s] by (auto simp: csharp_type_def)
  then show ?thesis by (simp add: eat_def u_def)
qed

lemma member_line_chars:
  assumes "csharp_type t" "all_word name"
  shows "list_all type_char (t @ 32 # name @ [32])"
  using assms word_type_char by (auto simp: csharp_type_def all_word_def list_all_iff type_char_tests)

lemma prop_stored:
  assumes "csharp_type type" "all_word name"
  shows "prop_match (u ''public '' @ member_tail (Stored required type name init) @ s) =
    Some (member_prop (Stored required type name init), u '' init; }'' @ init @ s)"
proof -
  have "getter (spaces (32 # u ''{ get;'' @ u '' init; }'' @ init @ s)) = Some (u '' init; }'' @ init @ s)"
    by (simp add: getter_def spaces_def eat_def is_space_def u_def)
  then have l: "lazy_type (named_then getter) [] (type @ 32 # name @ 32 # u ''{ get;'' @ u '' init; }'' @ init @ s) =
      Some ((type, name), u '' init; }'' @ init @ s)"
    using tails_start(1) type_char_tests(1) assms by (rule lazy_type_member [rotated 4])
  have t: "member_tail (Stored required type name init) @ s =
      (if required then u ''required '' else []) @ type @ 32 # name @ 32 # u ''{ get;'' @ u '' init; }'' @ init @ s"
    by (simp add: u_def)
  show ?thesis
  proof (cases required)
    case True
    then show ?thesis
      unfolding prop_match_def eat_append t by (simp add: eat_append l trim_type [OF assms(1)] Let_def)
  next
    case False
    then show ?thesis
      unfolding prop_match_def eat_append t using not_required [OF assms(1)]
      by (simp add: l trim_type [OF assms(1)] Let_def)
  qed
qed

lemma computed_hit:
  assumes "csharp_type type" "all_word name"
  shows "computed_match (u ''public '' @ member_tail (Computed type name body) @ s) =
    Some (member_prop (Computed type name body), 32 # body @ s)"
proof -
  have "eat (u ''=>'') (spaces (32 # u ''=>'' @ 32 # body @ s)) = Some (32 # body @ s)"
    by (simp add: spaces_def eat_def is_space_def u_def)
  then have l: "lazy_type (named_then (eat (u ''=>''))) [] (type @ 32 # name @ 32 # u ''=>'' @ 32 # body @ s) =
      Some ((type, name), 32 # body @ s)"
    using tails_start(2) type_char_tests(2) assms by (rule lazy_type_member [rotated 4])
  have t: "member_tail (Computed type name body) @ s = type @ 32 # name @ 32 # u ''=>'' @ 32 # body @ s"
    by (simp add: u_def)
  show ?thesis
    unfolding computed_match_def eat_append t by (simp add: l trim_type [OF assms(1)])
qed

lemma prop_computed:
  assumes "csharp_type type" "all_word name"
  shows "prop_match (u ''public '' @ member_tail (Computed type name body) @ s) = None"
proof -
  have t: "member_tail (Computed type name body) @ s = (type @ 32 # name @ [32]) @ 61 # 62 # 32 # body @ s"
    by (simp add: u_def)
  have "lazy_type (named_then getter) [] ((type @ 32 # name @ [32]) @ 61 # 62 # 32 # body @ s) = None"
    using member_line_chars [OF assms] tails_start(1) type_char_tests
    by (intro lazy_type_None named_then_None [where b = 123]) auto
  moreover have "eat (u ''required '') ((type @ 32 # name @ [32]) @ 61 # 62 # 32 # body @ s) = None"
    using not_required [OF assms(1)] by simp
  ultimately show ?thesis
    unfolding prop_match_def eat_append t by (simp add: Let_def)
qed

lemma computed_stored:
  assumes "csharp_type type" "all_word name"
  shows "computed_match (u ''public '' @ member_tail (Stored required type name init) @ s) = None"
proof -
  let ?x = "(if required then u ''required '' else []) @ type @ 32 # name @ [32]"
  have "list_all type_char (u ''required '')"
    by (simp add: type_char_def word_char_def is_space_def u_def)
  then have "list_all type_char ?x"
    using member_line_chars [OF assms] by simp
  then have "lazy_type (named_then (eat (u ''=>''))) [] (?x @ 123 # u '' get; init; }'' @ init @ s) = None"
    using tails_start(2) type_char_tests by (intro lazy_type_None named_then_None [where b = 61]) auto
  moreover have "member_tail (Stored required type name init) @ s = ?x @ 123 # u '' get; init; }'' @ init @ s"
    by (simp add: u_def)
  ultimately show ?thesis
    unfolding computed_match_def eat_append by simp
qed

section \<open>Bodies of records\<close>

lemma tail_of_line: "silent (s @ t) \<Longrightarrow> silent t"
  unfolding silent_def by (meson sublist_append_leftI sublist_order.order_trans)

lemma scan_newline: "at_public m \<Longrightarrow> scan m (10 # u ''    '' @ s) = scan m s"
  using scan_quiet [of m "10 # u ''    ''" s] by (simp add: u_def)

lemma scan_props_line:
  assumes "tail_ok m" "s = [] \<or> hd s = 10"
  shows "scan prop_match (first_line m @ s) = (if is_stored m then [member_prop m] else []) @ scan prop_match s"
proof (cases m)
  case (Stored required type name init)
  with assms(1) have c: "csharp_type type" "all_word name" "silent (member_tail m)" by (simp_all add: tail_ok_def)
  note hit = prop_stored [OF c(1,2), of required init s]
  have "scan prop_match (u ''public '' @ member_tail m @ s) = member_prop m # scan prop_match (u '' init; }'' @ init @ s)"
    by (rule scan_hit) (use hit Stored in \<open>simp_all add: u_def\<close>)
  also have "scan prop_match (u '' init; }'' @ init @ s) = scan prop_match (init @ s)"
    by (rule scan_quiet) (simp_all add: at_public_matchers, simp add: u_def)
  also have "\<dots> = scan prop_match s"
  proof (rule scan_silent [OF at_public_matchers(3) _ assms(2)])
    have "silent (((if required then u ''required '' else []) @ type @ 32 # name @ u '' { get; init; }'') @ init)"
      using c(3) Stored by simp
    then show "silent init" by (rule tail_of_line)
  qed
  finally show ?thesis
    using Stored by (simp add: first_line_def scan_newline at_public_matchers)
next
  case (Computed type name body)
  with assms(1) have c: "csharp_type type" "all_word name" "silent (member_tail m)" by (simp_all add: tail_ok_def)
  from scan_declaration [OF at_public_matchers(3) _ c(3) assms(2)] prop_computed [OF c(1,2), of body s] Computed
  have "scan prop_match (u ''public '' @ member_tail m @ s) = scan prop_match s" by simp
  then show ?thesis
    using Computed by (simp add: first_line_def scan_newline at_public_matchers)
qed

lemma scan_computed_line:
  assumes "tail_ok m" "s = [] \<or> hd s = 10"
  shows "scan computed_match (first_line m @ s) = (if is_stored m then [] else [member_prop m]) @ scan computed_match s"
proof (cases m)
  case (Stored required type name init)
  with assms(1) have c: "csharp_type type" "all_word name" "silent (member_tail m)" by (simp_all add: tail_ok_def)
  from scan_declaration [OF at_public_matchers(4) _ c(3) assms(2)] computed_stored [OF c(1,2), of required init s] Stored
  have "scan computed_match (u ''public '' @ member_tail m @ s) = scan computed_match s" by simp
  then show ?thesis
    using Stored by (simp add: first_line_def scan_newline at_public_matchers)
next
  case (Computed type name body)
  with assms(1) have c: "csharp_type type" "all_word name" "silent (member_tail m)" by (simp_all add: tail_ok_def)
  note hit = computed_hit [OF c(1,2), of body s]
  have "scan computed_match (u ''public '' @ member_tail m @ s) = member_prop m # scan computed_match (32 # body @ s)"
    by (rule scan_hit) (use hit Computed in \<open>simp_all add: u_def\<close>)
  moreover have "scan computed_match ((32 # body) @ s) = scan computed_match s"
  proof (rule scan_silent [OF at_public_matchers(4) _ assms(2)])
    have "silent ((type @ 32 # name @ u '' =>'') @ 32 # body)" using c(3) Computed by (simp add: u_def)
    then show "silent (32 # body)" by (rule tail_of_line)
  qed
  ultimately show ?thesis
    using Computed by (simp add: first_line_def scan_newline at_public_matchers)
qed

lemma lines_start: "s = [] \<or> hd s = 10 \<Longrightarrow> lines_text ls @ s = [] \<or> hd (lines_text ls @ s) = 10"
  by (cases ls) (simp_all add: lines_text_def)

lemma members_start: "s = [] \<or> hd s = 10 \<Longrightarrow> concat (map member_text ms) @ s = [] \<or> hd (concat (map member_text ms) @ s) = 10"
  by (cases ms) (simp_all add: member_text_def first_line_def)

text \<open>A scanner that passes over the lines between the members reads the members one by one.\<close>

lemma scan_members:
  assumes "at_public m" "list_all line_ok ms" "s = [] \<or> hd s = 10"
    and "\<And>x s. tail_ok x \<Longrightarrow> s = [] \<or> hd s = 10 \<Longrightarrow> scan m (first_line x @ s) = found x @ scan m s"
  shows "scan m (concat (map member_text ms) @ s) = concat (map (found \<circ> fst) ms) @ scan m s"
  using assms(2)
proof (induction ms)
  case (Cons p ms)
  then have ok: "line_ok p" "list_all line_ok ms" by simp_all
  then have p: "tail_ok (fst p)" "list_all silent (snd p)" by (auto simp: line_ok_def plain_line_def list_all_iff)
  have start: "concat (map member_text ms) @ s = [] \<or> hd (concat (map member_text ms) @ s) = 10"
    using assms(3) by (rule members_start)
  have "scan m (member_text p @ concat (map member_text ms) @ s) = found (fst p) @ scan m (concat (map member_text ms) @ s)"
    using assms(4) [OF p(1) lines_start [OF start]] scan_lines [OF assms(1) p(2) start] by (simp add: member_text_def [of p])
  then show ?case using Cons.IH ok(2) by simp
qed simp

text \<open>The stored properties in their order, then the computed ones.\<close>

definition record_members :: "(member \<times> jsstring list) list \<Rightarrow> ts_prop list" where
  "record_members ms = map member_prop (filter is_stored (map fst ms)) @ map member_prop (filter (\<lambda>m. \<not> is_stored m) (map fst ms))"

lemma scan_bodies:
  assumes "list_all line_ok ms"
  shows "scan prop_match (concat (map member_text ms)) = map member_prop (filter is_stored (map fst ms))"
    and "scan computed_match (concat (map member_text ms)) = map member_prop (filter (\<lambda>m. \<not> is_stored m) (map fst ms))"
proof -
  have nil: "scan prop_match [] = []" "scan computed_match [] = []"
    by (simp_all add: scan.simps prop_match_def computed_match_def eat_def u_def)
  have "scan prop_match (concat (map member_text ms) @ []) =
      concat (map ((\<lambda>m. if is_stored m then [member_prop m] else []) \<circ> fst) ms) @ scan prop_match []"
    using assms by (intro scan_members at_public_matchers scan_props_line) simp_all
  moreover have "scan computed_match (concat (map member_text ms) @ []) =
      concat (map ((\<lambda>m. if is_stored m then [] else [member_prop m]) \<circ> fst) ms) @ scan computed_match []"
    using assms by (intro scan_members at_public_matchers scan_computed_line) simp_all
  moreover have "concat (map ((\<lambda>m. if is_stored m then [member_prop m] else []) \<circ> fst) ms) = map member_prop (filter is_stored (map fst ms))"
    "concat (map ((\<lambda>m. if is_stored m then [] else [member_prop m]) \<circ> fst) ms) = map member_prop (filter (\<lambda>m. \<not> is_stored m) (map fst ms))"
    by (induction ms) auto
  ultimately show "scan prop_match (concat (map member_text ms)) = map member_prop (filter is_stored (map fst ms))"
    "scan computed_match (concat (map member_text ms)) = map member_prop (filter (\<lambda>m. \<not> is_stored m) (map fst ms))"
    by (simp_all add: nil)
qed

lemma add_computed_distinct: "distinct (map pp_name (xs @ ys)) \<Longrightarrow> foldl add_computed xs ys = xs @ ys"
proof (induction ys arbitrary: xs)
  case (Cons y ys)
  then have "add_computed xs y = xs @ [y]" by (auto simp: add_computed_def)
  with Cons.prems Cons.IH [of "xs @ [y]"] show ?case by simp
qed simp

lemma record_props_read:
  assumes "list_all line_ok ms" "distinct (map (\<lambda>p. pp_name (member_prop (fst p))) ms)"
  shows "record_props (concat (map member_text ms)) = record_members ms"
proof -
  have "mset (record_members ms) = mset (map (member_prop \<circ> fst) ms)"
    unfolding record_members_def by (induction ms) auto
  then have "mset (map pp_name (record_members ms)) = mset (map (\<lambda>p. pp_name (member_prop (fst p))) ms)"
    by (simp add: image_mset.compositionality comp_def)
  then have "distinct (map pp_name (record_members ms))"
    using assms(2) mset_eq_imp_distinct_iff by blast
  then show ?thesis
    by (simp add: record_props_def scan_bodies [OF assms(1)] add_computed_distinct record_members_def)
qed

section \<open>Declarations\<close>

datatype csharp_decl =
    CsEnum jsstring "enum_entry list"
  | CsRecord jsstring "(member \<times> jsstring list) list"

fun decl_text :: "csharp_decl \<Rightarrow> jsstring" where
  "decl_text (CsEnum name entries) = csharp_enum name entries"
| "decl_text (CsRecord name members) = csharp_record name members"

fun decl_ok :: "csharp_decl \<Rightarrow> bool" where
  "decl_ok (CsEnum name entries) \<longleftrightarrow> all_word name \<and> list_all entry_ok entries"
| "decl_ok (CsRecord name members) \<longleftrightarrow> all_word name \<and> list_all line_ok members
     \<and> distinct (map (\<lambda>p. pp_name (member_prop (fst p))) members)"

text \<open>A source: declarations on lines of their own, each after other text, and the text after the last.\<close>

definition csharp_source :: "(jsstring \<times> csharp_decl) list \<Rightarrow> jsstring \<Rightarrow> jsstring" where
  "csharp_source pieces trailer = concat (map (\<lambda>(gap, d). 10 # gap @ 10 # decl_text d) pieces) @ 10 # trailer"

text \<open>Text that declares no enum and no sealed record.\<close>

definition undeclared :: "jsstring \<Rightarrow> bool" where
  "undeclared t \<longleftrightarrow> \<not> sublist (u ''public enum '') t \<and> \<not> sublist (u ''public sealed record '') t"

text \<open>The declared enums and records; of those with one name the last counts, at the place of the first.\<close>

definition enums_of :: "csharp_decl list \<Rightarrow> (jsstring \<times> jsstring list) list" where
  "enums_of ds = concat (map (\<lambda>d. case d of CsEnum n es \<Rightarrow> [(n, map (\<lambda>(_, name, _). name) es)] | CsRecord _ _ \<Rightarrow> []) ds)"

definition records_of :: "csharp_decl list \<Rightarrow> (jsstring \<times> ts_prop list) list" where
  "records_of ds = concat (map (\<lambda>d. case d of CsEnum _ _ \<Rightarrow> [] | CsRecord n ms \<Rightarrow> [(n, record_members ms)]) ds)"

definition last_wins :: "(jsstring \<times> 'a) list \<Rightarrow> (jsstring \<times> 'a) list" where
  "last_wins xs = foldl (\<lambda>m (n, v). AList.update n v m) [] xs"

lemma entry_reads:
  assumes "entry_ok e"
  shows "trim (hd (split_on 61 (trim (entry_text e)))) = fst (snd e)" "44 \<notin> set (entry_text e)" "125 \<notin> set (entry_text e)"
proof -
  obtain k n val where e: "e = (k, n, val)" by (cases e)
  define v where "v = (case val of None \<Rightarrow> [] | Some x \<Rightarrow> u '' = '' @ x)"
  have n: "all_word n" "\<And>x. val = Some x \<Longrightarrow> all_word x" using assms e by auto
  have t: "entry_text e = (replicate k 10 @ 10 # u ''    '') @ n @ v" by (simp add: e v_def)
  have "list_all is_space (replicate k 10 @ 10 # u ''    '')" by (auto simp: list_all_iff is_space_def u_def)
  from trim_leading [OF this, of "n @ v"] have tr: "trim (entry_text e) = trim (n @ v)" by (simp add: t)
  have no61: "61 \<notin> set n" using n(1) by (rule word_not_in) (simp add: word_char_def)
  show "trim (hd (split_on 61 (trim (entry_text e)))) = fst (snd e)"
  proof (cases val)
    case None
    then show ?thesis unfolding tr using n(1) no61 by (simp add: v_def e all_word_trim split_on_no_sep)
  next
    case (Some x)
    have "trim (n @ u '' = '' @ x) = n @ u '' = '' @ x"
    proof -
      have "n \<noteq> []" "\<not> is_space (hd n)" "x \<noteq> []" "\<not> is_space (last x)"
        using n Some by (auto simp: all_word_def list_all_iff dest: word_not_space)
      then have "dropWhile is_space (n @ u '' = '' @ x) = n @ u '' = '' @ x"
        "dropWhile is_space (rev (n @ u '' = '' @ x)) = rev (n @ u '' = '' @ x)"
        unfolding dropWhile_eq_self_iff hd_rev by simp_all
      then show ?thesis by (simp add: trim_def trimStart_def trimEnd_def)
    qed
    moreover have "hd (split_on 61 ((n @ [32]) @ 61 # 32 # x)) = n @ [32]"
      using no61 by (subst split_on_append) simp_all
    moreover have "trim (n @ [32]) = n"
    proof -
      have h: "n \<noteq> []" "\<not> is_space (hd n)" using n(1) by (auto simp: all_word_def list_all_iff dest: word_not_space)
      then have "dropWhile is_space (n @ [32]) = n @ [32]" "dropWhile is_space n = n"
        unfolding dropWhile_eq_self_iff by simp_all
      then show ?thesis using all_word_trim [OF n(1)] by (simp add: trim_def trimStart_def trimEnd_def type_char_tests)
    qed
    ultimately show ?thesis unfolding tr by (simp add: v_def e Some u_def)
  qed
  have "c \<notin> set (entry_text e)" if "c = 44 \<or> c = 125" for c
  proof -
    have c: "\<not> word_char c" "c \<noteq> 10" "c \<notin> set (u ''    '')" "c \<notin> set (u '' = '')" using that by (auto simp: word_char_def u_def)
    show ?thesis using c n word_not_in [OF _ c(1)] by (auto simp: e split: option.splits)
  qed
  then show "44 \<notin> set (entry_text e)" "125 \<notin> set (entry_text e)" by auto
qed

lemma enum_members_text:
  assumes "list_all entry_ok es"
  shows "enum_members (enum_body es) = map (\<lambda>(_, name, _). name) es"
proof -
  have split: "split_on 44 (enum_body es) = map entry_text es @ [[10]]"
    using assms by (induction es) (auto simp: enum_body_def split_on_append entry_reads)
  have "map (\<lambda>v. trim (hd (split_on 61 (trim v)))) (map entry_text es) = map (\<lambda>e. fst (snd e)) es"
    using assms by (induction es) (simp_all add: entry_reads)
  moreover have "trim [10] = []" by (simp add: trim_def trimStart_def trimEnd_def is_space_def)
  moreover have "filter all_word (map (\<lambda>e. fst (snd e)) es) = map (\<lambda>e. fst (snd e)) es"
    using assms by (induction es) auto
  ultimately show ?thesis
    by (simp add: enum_members_def split all_word_def [of "[]"] case_prod_beta del: map_map)
qed

lemma enum_match_text:
  assumes "all_word name" "list_all entry_ok es"
  shows "enum_match (csharp_enum name es @ s) = Some ((name, enum_body es), s)"
proof -
  let ?body = "enum_body es"
  have b: "125 \<notin> set ?body"
    using assms(2) by (induction es) (auto simp: enum_body_def entry_reads)
  have text': "csharp_enum name es @ s = u ''public enum '' @ name @ 10 # (u ''{'' @ ?body @ 125 # s)"
    by (simp add: csharp_enum_def u_def)
  have "eat_name (name @ 10 # (u ''{'' @ ?body @ 125 # s)) = Some (name, 10 # (u ''{'' @ ?body @ 125 # s))"
    using assms(1) by (rule eat_name_append) (simp add: word_char_def)
  moreover have "spaces (10 # (u ''{'' @ ?body @ 125 # s)) = u ''{'' @ ?body @ 125 # s"
    by (simp add: spaces_def is_space_def u_def)
  moreover have "takeWhile (\<lambda>c. c \<noteq> 125) (?body @ 125 # s) = ?body"
    using b by (subst takeWhile_append2) auto
  ultimately show ?thesis
    unfolding text' enum_match_def eat_append by (simp add: eat_append Let_def del: append_assoc)
qed

lemma silent_no_space: "silent a \<Longrightarrow> 32 \<notin> set b \<Longrightarrow> silent (a @ b)"
proof -
  assume a: "silent a" and b: "32 \<notin> set b"
  have False if s: "sublist (u ''public '') (a @ b)"
  proof -
    have n: "\<not> sublist (u ''public '') b"
      using b set_mono_sublist [of "u ''public ''" b] by (auto simp: u_def)
    have "False" if "u ''public '' = x @ y" "suffix x a" "prefix y b" for x y
    proof (cases "y = []")
      case True
      then have "sublist (u ''public '') a" using that(1,2) by auto
      with a show False by (simp add: silent_def)
    next
      case False
      then have "last (u ''public '') \<in> set y" unfolding that(1) by simp
      then show False using that(3) b by (auto simp: u_def prefix_def)
    qed
    with s n a show False by (auto simp: sublist_append silent_def)
  qed
  then show "silent (a @ b)" by (auto simp: silent_def)
qed

lemma word_no_space: "all_word w \<Longrightarrow> 32 \<notin> set w"
  by (rule word_not_in) (simp_all add: type_char_tests)

lemma headers_silent: "all_word name \<Longrightarrow> silent (u ''sealed record '' @ name)" "all_word name \<Longrightarrow> silent (u ''enum '' @ name)"
proof -
  have "silent (u ''sealed record '')" "silent (u ''enum '')"
    by (simp_all add: silent_def sublist_Cons_right u_def)
  then show "all_word name \<Longrightarrow> silent (u ''sealed record '' @ name)" "all_word name \<Longrightarrow> silent (u ''enum '' @ name)"
    using silent_no_space [OF _ word_no_space] by auto
qed

text \<open>No line of a body starts with the brace that ends it.\<close>

lemma up_to_line:
  assumes "10 \<notin> set l" "\<not> prefix [125] (l @ r)"
  shows "up_to [10, 125] (10 # l @ r) = map_option (\<lambda>(a, q). (10 # l @ a, q)) (up_to [10, 125] r)"
proof -
  have "up_to [10, 125] (l @ r) = map_option (\<lambda>(a, q). (l @ a, q)) (up_to [10, 125] r)"
    using assms(1) by (induction l) (auto simp: option.map_comp comp_def split_def option.map_ident)
  then show ?thesis using assms(2) by (auto simp: option.map_comp comp_def split_def)
qed

lemma up_to_lines:
  "list_all plain_line ls \<Longrightarrow> s = [] \<or> hd s = 10 \<Longrightarrow>
    up_to [10, 125] (lines_text ls @ s) = map_option (\<lambda>(a, q). (lines_text ls @ a, q)) (up_to [10, 125] s)"
proof (induction ls)
  case (Cons l ls)
  then have "10 \<notin> set l" "\<not> prefix [125] (l @ lines_text ls @ s)"
    using lines_start [OF Cons.prems(2), of ls] by (cases l; auto simp: plain_line_def prefix_def)+
  from up_to_line [OF this] show ?case using Cons
    by (simp add: lines_text_def [of "l # ls"] flip: lines_text_def) (simp add: option.map_comp comp_def split_def)
qed (simp add: lines_text_def option.map_id)

lemma up_to_body:
  assumes "list_all line_ok ms"
  shows "up_to [10, 125] (concat (map member_text ms) @ 10 # 125 # s) = Some (concat (map member_text ms), s)"
  using assms
proof (induction ms)
  case (Cons p ms)
  let ?r = "concat (map member_text ms) @ 10 # 125 # s"
  have p: "10 \<notin> set (u ''    '' @ u ''public '' @ member_tail (fst p))" "list_all plain_line (snd p)"
    using Cons.prems by (simp_all add: line_ok_def tail_ok_def u_def)
  have start: "?r = [] \<or> hd ?r = 10" by (rule members_start) simp
  have "up_to [10, 125] (first_line (fst p) @ lines_text (snd p) @ ?r) =
      map_option (\<lambda>(a, q). (first_line (fst p) @ a, q)) (up_to [10, 125] (lines_text (snd p) @ ?r))"
    using up_to_line [OF p(1), of "lines_text (snd p) @ ?r"] by (simp add: first_line_def u_def)
  also have "up_to [10, 125] (lines_text (snd p) @ ?r) = map_option (\<lambda>(a, q). (lines_text (snd p) @ a, q)) (up_to [10, 125] ?r)"
    using p(2) start by (rule up_to_lines)
  also have "up_to [10, 125] ?r = Some (concat (map member_text ms), s)"
    using Cons by simp
  finally show ?case by (simp add: member_text_def [of p])
qed simp

lemma record_match_text:
  assumes "all_word name" "list_all line_ok ms"
  shows "record_match (csharp_record name ms @ s) = Some ((name, concat (map member_text ms)), s)"
proof -
  let ?body = "concat (map member_text ms)"
  have t: "csharp_record name ms @ s = u ''public sealed record '' @ name @ 10 # (u ''{'' @ ?body @ 10 # 125 # s)"
    by (simp add: csharp_record_def u_def)
  have "eat_name (name @ 10 # (u ''{'' @ ?body @ 10 # 125 # s)) = Some (name, 10 # (u ''{'' @ ?body @ 10 # 125 # s))"
    using assms(1) by (rule eat_name_append) (simp add: word_char_def)
  moreover have "spaces (10 # (u ''{'' @ ?body @ 10 # 125 # s)) = u ''{'' @ ?body @ 10 # 125 # s"
    by (simp add: spaces_def is_space_def u_def)
  ultimately show ?thesis
    unfolding t record_match_def eat_append using up_to_body [OF assms(2)] by (simp add: eat_append del: append_assoc)
qed

lemma not_modifier:
  assumes "csharp_type t" "w \<in> {u ''required'', u ''enum'', u ''sealed''}"
  shows "\<not> prefix (w @ [32]) (t @ 32 # s)"
  using assms modifiers first_word [of w t s] by (auto simp: csharp_type_def)

lemma no_declaration_in_member:
  assumes "member_ok m"
  shows "enum_match (u ''public '' @ member_tail m @ s) = None"
proof -
  have "\<not> prefix (u ''enum'' @ [32]) (member_tail m @ s)"
  proof (cases m)
    case (Stored required type name)
    show ?thesis
    proof (cases required)
      case False
      then show ?thesis using Stored assms not_modifier [of type "u ''enum''"] by simp
    qed (simp add: Stored u_def)
  next
    case (Computed type name body)
    then show ?thesis using assms not_modifier [of type "u ''enum''"] by simp
  qed
  then show ?thesis by (simp add: enum_match_def eat_def u_def)
qed

lemma scan_enum_line:
  assumes "tail_ok m" "s = [] \<or> hd s = 10"
  shows "scan enum_match (first_line m @ s) = [] @ scan enum_match s"
proof -
  have m: "member_ok m" "silent (member_tail m)" using assms(1) by (simp_all add: tail_ok_def)
  from scan_declaration [OF at_public_matchers(1) no_declaration_in_member [OF m(1)] m(2) assms(2)]
  show ?thesis by (simp add: first_line_def scan_newline at_public_matchers)
qed

lemma scan_entries:
  "list_all entry_ok es \<Longrightarrow> scan record_match (enum_body es @ 125 # s) = scan record_match s"
proof (induction es)
  case Nil
  show ?case using scan_quiet [OF at_public_matchers(2), of "[10, 125]" s] by (simp add: enum_body_def)
next
  case (Cons e es)
  let ?t = "enum_body es @ 125 # s"
  have start: "?t = [] \<or> hd ?t = 10"
  proof (cases es)
    case (Cons a list)
    then show ?thesis by (cases a; cases "fst a") (simp_all add: enum_body_def)
  qed (simp add: enum_body_def)
  have "silent (entry_text e)" using Cons.prems by (cases e) simp
  then have "silent (entry_text e @ [44])" by (rule silent_no_space) simp
  then have "scan record_match ((entry_text e @ [44]) @ ?t) = scan record_match ?t"
    using start by (intro scan_silent at_public_matchers)
  then show ?case using Cons by (simp add: enum_body_def)
qed

lemma scan_decl:
  assumes "decl_ok d" "s = [] \<or> hd s = 10"
  shows "scan enum_match (decl_text d @ s) = (case d of CsEnum n es \<Rightarrow> [(n, enum_body es)] | CsRecord _ _ \<Rightarrow> []) @ scan enum_match s"
    and "scan record_match (decl_text d @ s) =
      (case d of CsEnum _ _ \<Rightarrow> [] | CsRecord n ms \<Rightarrow> [(n, concat (map member_text ms))]) @ scan record_match s"
proof -
  have open_brace: "scan m (10 # 123 # r) = scan m r" and close: "scan m (10 # 125 # r) = scan m r" if "at_public m" for r and m :: "jsstring \<Rightarrow> ('b \<times> jsstring) option"
    using scan_quiet [OF that, of "[10, 123]" r] scan_quiet [OF that, of "[10, 125]" r] by simp_all
  show "scan enum_match (decl_text d @ s) = (case d of CsEnum n es \<Rightarrow> [(n, enum_body es)] | CsRecord _ _ \<Rightarrow> []) @ scan enum_match s"
  proof (cases d)
    case (CsEnum n es)
    then have "enum_match (decl_text d @ s) = Some ((n, enum_body es), s)"
      using enum_match_text assms(1) by simp
    then have "scan enum_match (decl_text d @ s) = (n, enum_body es) # scan enum_match s"
      by (rule scan_hit) (simp add: CsEnum csharp_enum_def u_def)
    then show ?thesis using CsEnum by simp
  next
    case (CsRecord n ms)
    let ?r = "10 # 123 # concat (map member_text ms) @ 10 # 125 # s"
    have ok: "all_word n" "list_all line_ok ms" using CsRecord assms(1) by simp_all
    have "scan enum_match (u ''public '' @ (u ''sealed record '' @ n) @ ?r) = scan enum_match ?r"
      by (rule scan_declaration [OF at_public_matchers(1) _ headers_silent(1) [OF ok(1)]])
        (simp_all add: enum_match_def eat_def u_def)
    also have "\<dots> = scan enum_match s"
      using scan_members [OF at_public_matchers(1) ok(2) _ scan_enum_line, of "10 # 125 # s"]
      by (simp add: open_brace close at_public_matchers comp_def)
    finally show ?thesis using CsRecord by (simp add: csharp_record_def)
  qed
  show "scan record_match (decl_text d @ s) =
      (case d of CsEnum _ _ \<Rightarrow> [] | CsRecord n ms \<Rightarrow> [(n, concat (map member_text ms))]) @ scan record_match s"
  proof (cases d)
    case (CsEnum n es)
    have ok: "all_word n" "list_all entry_ok es" using CsEnum assms(1) by simp_all
    have "scan record_match (u ''public '' @ (u ''enum '' @ n) @ 10 # 123 # enum_body es @ 125 # s) =
        scan record_match (10 # 123 # enum_body es @ 125 # s)"
      by (rule scan_declaration [OF at_public_matchers(2) _ headers_silent(2) [OF ok(1)]])
        (simp_all add: record_match_def eat_def u_def)
    also have "\<dots> = scan record_match s" using ok(2) by (simp add: open_brace at_public_matchers scan_entries)
    finally show ?thesis using CsEnum by (simp add: csharp_enum_def u_def)
  next
    case (CsRecord n ms)
    then have "record_match (decl_text d @ s) = Some ((n, concat (map member_text ms)), s)"
      using record_match_text assms(1) by simp
    then have "scan record_match (decl_text d @ s) = (n, concat (map member_text ms)) # scan record_match s"
      by (rule scan_hit) (simp add: CsRecord csharp_record_def u_def)
    then show ?thesis using CsRecord by simp
  qed
qed

lemma pieces_start: "csharp_source pieces trailer = [] \<or> hd (csharp_source pieces trailer) = 10"
  by (cases pieces) (auto simp: csharp_source_def)

lemma scan_source:
  assumes "starts_at w m" "10 \<notin> set w" "m [] = None" "\<not> sublist w trailer"
    and "\<And>s. scan m (10 # s) = scan m s"
    and "\<And>d s. d \<in> set (map snd pieces) \<Longrightarrow> s = [] \<or> hd s = 10 \<Longrightarrow> scan m (decl_text d @ s) = found d @ scan m s"
    and "list_all (\<lambda>gap. \<not> sublist w gap) (map fst pieces)"
  shows "scan m (csharp_source pieces trailer) = concat (map (\<lambda>p. found (snd p)) pieces)"
  using assms(6,7)
proof (induction pieces)
  case Nil
  have "scan m (10 # trailer) = scan m (trailer @ [])" by (simp add: assms(5))
  also have "\<dots> = scan m []" by (rule scan_clear [OF assms(1,2,4)]) simp
  also have "\<dots> = []" by (simp add: scan.simps [of m] assms(3))
  finally show ?case by (simp add: csharp_source_def)
next
  case (Cons p pieces)
  obtain gap d where p: "p = (gap, d)" by (cases p)
  let ?s = "csharp_source pieces trailer"
  have "scan m (csharp_source (p # pieces) trailer) = scan m (gap @ 10 # decl_text d @ ?s)"
    by (simp add: csharp_source_def p assms(5))
  also have "\<dots> = scan m (10 # decl_text d @ ?s)"
    using Cons.prems(2) by (intro scan_clear [OF assms(1,2)]) (simp_all add: p)
  also have "\<dots> = found d @ scan m ?s"
    using Cons.prems(1) [of d, OF _ pieces_start] by (simp add: p assms(5))
  also have "scan m ?s = concat (map (\<lambda>p. found (snd p)) pieces)"
    using Cons by simp
  finally show ?case by (simp add: p)
qed

text \<open>Reading each entry before it is put into the map is reading them all first.\<close>

lemma read_then_update: "foldl (\<lambda>m (n, b). AList.update n (f b) m) acc xs = foldl (\<lambda>m (n, v). AList.update n v m) acc (map (\<lambda>(n, b). (n, f b)) xs)"
  by (induction xs arbitrary: acc) auto

section \<open>Property\<close>


text \<open>A source with comments, an enum, a record and an attribute in it.\<close>

definition sample_source :: jsstring where
  "sample_source = join [10] (map u ['''', ''namespace Fcmr;'', ''// One side of the market.'', ''public enum OrderSide'', ''{'',
     ''    Buy = 0,'', '''', ''    Sell,'', ''}'', ''[Sealed]'', ''  // What a venue quotes.'', ''public sealed record VenueQuote'',
     ''{'', ''    public bool Wide => Spread > 5;'', '''', ''    public required string VenueId { get; init; }'',
     ''    public double? Spread { get; init; } ='', ''        null;'', ''}'', ''''])"

definition sample_pieces :: "(jsstring \<times> csharp_decl) list" where
  "sample_pieces =
     [(u ''namespace Fcmr;'', CsEnum (u ''OrderSide'') [(0, u ''Buy'', Some (u ''0'')), (1, u ''Sell'', None)]),
      (u ''[Sealed]'', CsRecord (u ''VenueQuote'') [(Computed (u ''bool'') (u ''Wide'') (u ''Spread > 5;''), [[]]),
        (Stored True (u ''string'') (u ''VenueId'') [], []),
        (Stored False (u ''double?'') (u ''Spread'') (u '' =''), [u ''        null;''])])]"

lemma sample_source_layout: "stripComments sample_source = csharp_source sample_pieces []"
  by code_simp

lemma sample_pieces_ok:
  "list_all decl_ok (map snd sample_pieces)" "list_all undeclared (map fst sample_pieces)" "undeclared []"
  by (simp_all add: sample_pieces_def silent_def undeclared_def sublist_Cons_right line_ok_def tail_ok_def plain_line_def
      csharp_type_def all_word_def type_char_def word_char_def is_space_def prefix_def u_def)


end
