(* ===== verification/Spec2Isabelle.thy ===== *)
theory Spec2Isabelle
  imports ApprovalViews OrderSession AppShell Diagrams TriageRun BootstrapRun CsharpSources
begin

text \<open>
  This is the root of a verification library for the JavaScript and TypeScript of
  foundry-capital-markets-router: the operator's web client (\<open>src/webui\<close>), the diagram generator
  (\<open>scripts/diagrams\<close>), the issue triage command (\<open>.squad/templates/ralph-triage.js\<close>), the scaffold builder
  (\<open>scripts/bootstrap-repo.mjs\<close>) and the generator of the client's types (\<open>scripts/generate-api-types.mjs\<close>).

  \<^bold>\<open>The program.\<close>  The web client talks to the services through one API client.  Its two built screens are
  the approvals queue with its detail route, where an approver decides proposals, and the order-routing
  page, where a proposal is requested and then executed with an approval looked up by id.  Both sit in
  a shell with role-filtered navigation and an error boundary.  The diagram generator draws scenes
  through a small element kit, serialises them, renders them as SVG, writes or checks the files, and a
  separate validator reads the files back.  The triage command reads Markdown tables and assigns open
  issues to squad members.

  \<^bold>\<open>Theories.\<close>
  \<^item> \<open>JsPrelude\<close>, \<open>JsDate\<close>, \<open>JsValue\<close>, \<open>Json\<close>, \<open>JsHtml\<close>: the part of JavaScript the sources use. Strings are
    lists of 16-bit code units, dates are milliseconds, parsed JSON is the datatype \<open>jsval\<close>, exceptions
    are the left side of a sum, rendered React trees are the datatype \<open>html\<close> whose event attributes
    carry the action the handler performs.
  \<^item> \<open>WebTypes\<close>: the wire types of \<open>api/types.generated.ts\<close>, as datatypes and records.
  \<^item> \<open>ApiClient\<close>: \<open>api/client.ts\<close>; each endpoint yields the requests it sends and its result or exception.
  \<^item> \<open>AsyncState\<close>: \<open>state/asyncState.ts\<close> and \<open>state/AsyncBoundary.tsx\<close>.
  \<^item> \<open>Navigation\<close>, \<open>AppShell\<close>: \<open>shell/navigation.ts\<close>, \<open>App.tsx\<close>, \<open>app/*\<close>, \<open>shell/*\<close>, \<open>main.tsx\<close>.
  \<^item> \<open>ApprovalRules\<close>, \<open>UseApprovals\<close>, \<open>ApprovalViews\<close>: \<open>features/approvals/*\<close> and
    \<open>components/EvidencePacketView.tsx\<close>. The detail route is the step relation \<open>detail_step\<close>.
  \<^item> \<open>OrderViews\<close>, \<open>OrderTicket\<close>, \<open>OrderRouting\<close>: \<open>features/orderrouting/*\<close>. The page is the step relation
    \<open>page_step\<close>, whose state holds the page's React state, the panel's, and the calls in flight.
  \<^item> \<open>OrderSession\<close>: the page with the API client under it. \<open>session_step\<close> sends the requests of the calls the page
    starts and settles them with what the client makes of the answers; a session refines a run of the
    page.
  \<^item> \<open>SingleFlight\<close>: the contract that an operation is in flight exactly while a flag is set, a locale
    interpreted on the detail route, the proposal and the panel.
  \<^item> \<open>DiagramKit\<close>, \<open>SceneLaws\<close>: \<open>scripts/diagrams/diagram-kit.mjs\<close>; \<open>built\<close> is the scenes its methods draw.
  \<^item> \<open>Validate\<close>: \<open>scripts/diagrams/validate.mjs\<close>.  \<open>RenderSvg\<close>: \<open>render-svg.mjs\<close>.
    \<open>GenerateDiagrams\<close>: \<open>generate-diagrams.mjs\<close> and \<open>Scene.toJSON\<close>.  \<open>DocumentSchema\<close>: the validator's checks on the
    properties of an element as JSON carries them.
  \<^item> \<open>Builder\<close>: programs that draw, functions from a scene to an exception or a result with the scene after it,
    and the triple \<open>sound\<close> for them: no exception, a scene drawn through the class, facts kept and
    facts established.  The relation between scenes it rests on is an interpretation of the locale
    \<open>scene_order\<close>.
  \<^item> \<open>DiagramParts\<close>: what the diagrams share (\<open>rowHeight\<close>, \<open>placeRow\<close>, the object spread, boxes in columns and
    in stacks, the legend entries) with the geometry of rows and stacks.
  \<^item> \<open>PlatformTopology\<close>, \<open>RequestFlow\<close>, \<open>AgentArchitecture\<close>, \<open>UiScreenMap\<close>, \<open>SrcArchitecture\<close>: the five builders of
    \<open>diagrams.mjs\<close>, every text, coordinate, box, group and arrow.  A layout constant of the source is
    a definition with the prefix of its diagram (\<open>pt_vnetH\<close> is \<open>vnetH\<close> of \<open>platformTopology\<close>); a run of drawing
    calls is a program that returns the handles later calls use.  \<open>Diagrams\<close>: the exported list.
    Evaluated by generated code, \<open>toJSON\<close> of the five scenes equals the committed files
    \<open>docs/diagrams/*.excalidraw\<close> byte for byte, and the model of the validator finds neither errors nor
    warnings in them; that comparison is a test of the translation and no theorem rests on it.
  \<^item> \<open>TriageTables\<close>, \<open>TriageIssue\<close>, \<open>TriageRun\<close>: \<open>ralph-triage.js\<close>. The two searches for a best match are
    interpretations of the locale \<open>best_search\<close>.
  \<^item> \<open>BootstrapRepo\<close>: \<open>bootstrap-repo.mjs\<close> before its payload.  \<open>BootstrapRun\<close>: a run from the script's text to
    the disk.  \<open>ApiTypes\<close>: \<open>generate-api-types.mjs\<close>; each regular expression is a function from the text at a
    position to its captures and the text after.  \<open>CsharpSources\<close>: the layout of the C# sources as a datatype
    with its text, which the parsers read back.  Evaluated by generated code on the C# files, \<open>generate\<close>
    equals the committed \<open>types.generated.ts\<close> byte for byte, and \<open>renderSvg\<close> of the five scenes equals the
    committed \<open>docs/diagrams/*.svg\<close> but for one coordinate, 306.665, which the source prints as 306.66 and
    the model as 306.67; these too are tests on which no theorem rests.

  \<^bold>\<open>Handlers and order.\<close>  An asynchronous handler is split at its \<open>await\<close>: the part before it is one step,
  which puts the call in flight, and the part after it is another, which takes a settled call with any
  reply.  Steps interleave freely, so a property of reachable states holds for every order of replies.
  A click is possible only on a button that is drawn and not disabled in the current view.

  \<^bold>\<open>What the lemmas show.\<close>  About the client: which replies yield values, which requests are sent and what
  they hold.  About approvals: the courtesy check is the first failing check, the controls follow it,
  at most one decision is in flight, and the queue follows its query.  About order routing: the
  execute requests on the wire copy the bodies of answered proposals and approvals, the panel and the
  form run one operation each, the page is never stuck once its calls have settled, two orders of
  replies break what the comments promise, and without an overlap of a proposal and an execution the
  fill that is shown belongs to the proposal beside it.  About diagrams: drawn scenes have sound references, word wrap keeps the text and
  the width, everything drawn is rendered, escaping can be undone, rows are uniform.  About the exported
  diagrams: each builds and passes the reference checks, generating them succeeds and a check then
  fails exactly on drift, the first draws inside the VNet what it calls private, the second puts the
  stages in order, the fourth frames its screens.  About
  triage: precedence, best matches, paging, and that a label settles an issue.  About the scripts: where
  the builder may write, what a run leaves on the disk, that the enums and records of the C# sources are
  read back, and a type the generator loses.

  \<^bold>\<open>Numbers, bounds and fuel.\<close>  JavaScript numbers are exact rationals or integers, so rounding of doubles
  is not modelled; the sources compute with prices, sizes and coordinates far from the range where a
  double is not exact to the digits shown.  The generator of element seeds works on 32-bit words as the
  source does.  No definition uses fuel: loops are structural or have a measure, and the paging loop,
  which may run for ever, is a partial function whose result is absent then.

  \<^bold>\<open>Arguments of the model.\<close>  \<open>fetch\<close>, the access token, clocks, locale formatting, the HTTPS transport, Git,
  the URL parser, \<open>path\<close>, the SHA-256 digest, the file system's refusals, \<open>Math.hypot\<close> and the
  trigonometric functions, React Query's result and the router's choice of a route are arguments.
  Lower case is that of ASCII and Latin-1 letters.  The validator's geometry and reference checks read
  documents whose elements have the fields the kit writes, and \<open>DocumentSchema\<close> shows that what the kit
  writes has them; a font size of zero is outside the model.  The row height of no boxes, which the
  source computes as minus infinity and never reads, is unspecified.

  \<^bold>\<open>Not modelled.\<close>  The payload of \<open>bootstrap-repo.mjs\<close>, about 13,800 lines of embedded files that its code
  copies and never interprets, so nearly all of that file's lines are data;
  \<open>vite.config.ts\<close>, \<open>eslint.config.js\<close> and \<open>test-setup.ts\<close>, which only configure; and the C#
  services, another language, which the client reaches only through HTTP.
\<close>

section \<open>The order-routing page inside the shell\<close>

lemma service_reply_throws:
  assumes "vs \<noteq> []" "ro_result (pg_route p) = proposal_reply q (JArr (map service_considered vs)) cid"
    and "ro_execution (pg_route p) = JUndef"
  shows "\<exists>e. page_view loc p = Inl e"
proof -
  have "ConsideredTable (JArr (map service_considered vs)) \<noteq> (Inr k :: js_exn + page_action html)" for k
    using assms(1) by (rule ConsideredTable_service)
  then have "OrderRoutingScreen loc (ro_result (pg_route p)) (ro_execution (pg_route p)) \<noteq> (Inr hs :: js_exn + page_action html list)" for hs
    unfolding assms(2,3) by (blast dest: OrderRoutingScreen_proposal ProposalView_considered)
  then have "page_view loc p \<noteq> Inr hs" for hs
    by (auto simp: page_view_def Let_def bindE_Inr_iff)
  then show ?thesis by (cases "page_view loc p") auto
qed

text \<open>C7. Once the service answers a proposal with any venue it considered, the page throws while rendering
  and takes the rest of the application with it: on every screen the user then opens, the page is
  the frame with the error in its main panel, until Try again is clicked.\<close>

theorem service_reply_takes_down_every_screen:
  assumes "vs \<noteq> []" "ro_result (pg_route p) = proposal_reply q (JArr (map service_considered vs)) cid"
    and "ro_execution (pg_route p) = JUndef"
    and "sh_error s = None" "screens (sh_location s) = page_view loc p" "TryAgain \<notin> set events"
  shows "\<exists>e. app_view props screens' again (foldl (shell_step screens' again) (shell_step screens again s Refresh) events)
    = app_frame props (error_view e again)"
proof -
  obtain e where "page_view loc p = Inl e"
    using service_reply_throws [OF assms(1-3)] by blast
  then have "sh_error (shell_step screens again s Refresh) = Some e"
    by (simp add: assms(4,5) boundary_render_def)
  from error_panel [OF this assms(6), of screens' again] show ?thesis unfolding app_view_def by (intro exI) simp
qed

definition service_page :: page where
  "service_page = page_start\<lparr>pg_route := route_start\<lparr>ro_result :=
     proposal_reply (sample_proposal (u ''P-1'')) (JArr (map service_considered [sample_evaluation])) (u ''c-1'')\<rparr>\<rparr>"

definition app_screens :: "jsstring \<Rightarrow> js_exn + page_action html list" where
  "app_screens path = (if path = u ''/order-routing'' then page_view (\<lambda>_. []) service_page
     else Inr (placeholder_view (u ''Scoreboard'') (Some 3)))"

theorem service_reply_takes_down_every_screen_witness:
  "\<exists>e. app_view default_props app_screens PresetHalt (foldl (shell_step app_screens PresetHalt)
      (shell_step app_screens PresetHalt \<lparr>sh_location = u ''/order-routing'', sh_error = None\<rparr> Refresh) [Follow (u ''/scoreboard'')])
    = app_frame default_props (error_view e PresetHalt)"
  by (rule service_reply_takes_down_every_screen [of "[sample_evaluation]" service_page "sample_proposal (u ''P-1'')" "u ''c-1''" _ _ "\<lambda>_. []"])
    (simp_all add: service_page_def app_screens_def route_start_def)

end
